(* ===== verification/AmopPrelude.thy ===== *)
theory AmopPrelude
  imports Main "HOL-Library.Sublist" "HOL-Library.Char_ord" "HOL-Library.List_Lexorder"
begin

text \<open>
  What every component theory shares: the result type for code that raises, the Python
  string operations the code base uses, decimal rendering of integers, and the
  theorem collections of the development.

  A Python \<open>str\<close> is a HOL \<open>string\<close> (a list of \<open>char\<close>); one \<open>char\<close> stands for one code
  point below 256.  \<open>List_Lexorder\<close> over \<open>Char_ord\<close> gives Python's ordering of strings.
\<close>

named_theorems amop_defs \<open>definitions that component proofs unfold together\<close>
named_theorems py_str_simps \<open>evaluation rules of the Python string operations\<close>

section \<open>Results\<close>

text \<open>A call that may raise returns \<open>Inl\<close> of the exception or \<open>Inr\<close> of the value.\<close>

type_synonym ('e, 'a) result = "'e + 'a"

definition bind_result :: "('e, 'a) result \<Rightarrow> ('a \<Rightarrow> ('e, 'b) result) \<Rightarrow> ('e, 'b) result" where
  "bind_result r f = (case r of Inl e \<Rightarrow> Inl e | Inr x \<Rightarrow> f x)"

lemma bind_result_simps [simp]:
  "bind_result (Inl e) f = Inl e"
  "bind_result (Inr x) f = f x"
  by (simp_all add: bind_result_def)

text \<open>Two calls in a row over a state: the second one runs when the first has not raised.\<close>

definition on_success ::
    "('s \<Rightarrow> ('e, 'a) result \<times> 's) \<Rightarrow> ('a \<Rightarrow> 's \<Rightarrow> ('e, 'b) result \<times> 's) \<Rightarrow> 's \<Rightarrow> ('e, 'b) result \<times> 's" where
  "on_success m k s = (case m s of (Inl e, t) \<Rightarrow> (Inl e, t) | (Inr a, t) \<Rightarrow> k a t)"

lemma on_success_Inr:
  assumes "on_success m k s = (Inr b, u)"
  obtains a t where "m s = (Inr a, t)" "k a t = (Inr b, u)"
  using assms by (auto simp: on_success_def split: prod.splits sum.splits)

section \<open>Python strings\<close>

text \<open>\<open>s.startswith(p)\<close> and \<open>s.endswith(p)\<close>.\<close>

abbreviation starts_with :: "string \<Rightarrow> string \<Rightarrow> bool" where
  "starts_with s p \<equiv> prefix p s"

abbreviation ends_with :: "string \<Rightarrow> string \<Rightarrow> bool" where
  "ends_with s p \<equiv> suffix p s"

text \<open>\<open>p in s\<close> for strings: substring search.\<close>

abbreviation contains :: "string \<Rightarrow> string \<Rightarrow> bool" where
  "contains s p \<equiv> sublist p s"

definition removeprefix :: "string \<Rightarrow> string \<Rightarrow> string" where
  "removeprefix p s = (if prefix p s then drop (length p) s else s)"

text \<open>Characters Python's \<open>str.isspace\<close> accepts (below code point 256).\<close>

definition py_space :: "char \<Rightarrow> bool" where
  "py_space c = (let n = (of_char c :: nat)
     in (9 \<le> n \<and> n \<le> 13) \<or> (28 \<le> n \<and> n \<le> 32) \<or> n = 133 \<or> n = 160)"

definition strip_by :: "(char \<Rightarrow> bool) \<Rightarrow> string \<Rightarrow> string" where
  "strip_by P s = rev (dropWhile P (rev (dropWhile P s)))"

abbreviation py_strip :: "string \<Rightarrow> string" where
  "py_strip s \<equiv> strip_by py_space s"

text \<open>\<open>s.rstrip(c)\<close> and \<open>s.strip(c)\<close> for a single character \<open>c\<close>.\<close>

definition rstrip_char :: "char \<Rightarrow> string \<Rightarrow> string" where
  "rstrip_char c s = rev (dropWhile (\<lambda>x. x = c) (rev s))"

abbreviation strip_char :: "char \<Rightarrow> string \<Rightarrow> string" where
  "strip_char c s \<equiv> strip_by (\<lambda>x. x = c) s"

text \<open>\<open>s.split(c)\<close> for a one-character separator: always at least one piece.\<close>

fun split_on :: "char \<Rightarrow> string \<Rightarrow> string list" where
  "split_on d [] = [[]]"
| "split_on d (c # cs) =
     (if c = d then [] # split_on d cs
      else (case split_on d cs of [] \<Rightarrow> [[c]] | l # ls \<Rightarrow> (c # l) # ls))"

fun join_with :: "string \<Rightarrow> string list \<Rightarrow> string" where
  "join_with d [] = []"
| "join_with d [x] = x"
| "join_with d (x # y # xs) = x @ d @ join_with d (y # xs)"

text \<open>\<open>s.replace(old, new)\<close> for a non-empty \<open>old\<close>.\<close>

function replace_all :: "string \<Rightarrow> string \<Rightarrow> string \<Rightarrow> string" where
  "replace_all old new s =
     (if old = [] \<or> s = [] then s
      else if prefix old s then new @ replace_all old new (drop (length old) s)
      else hd s # replace_all old new (tl s))"
  by pat_completeness auto
termination by (relation "measure (\<lambda>(old, new, s). length s)") auto

declare replace_all.simps [simp del]

text \<open>
  \<open>str.splitlines()\<close>: besides newline and carriage return (and the pair of both) Python
  also breaks at vertical tab, form feed, the ASCII separators 28 to 30 and at 133.
\<close>

definition line_break :: "char \<Rightarrow> bool" where
  "line_break c = (let n = (of_char c :: nat)
     in (10 \<le> n \<and> n \<le> 13) \<or> (28 \<le> n \<and> n \<le> 30) \<or> n = 133)"

fun splitlines :: "string \<Rightarrow> string list" where
  "splitlines [] = []"
| "splitlines (c # cs) =
     (if line_break c then
        (if c = CHR 0x0D \<and> take 1 cs = [CHR 0x0A]
         then [] # splitlines (tl cs) else [] # splitlines cs)
      else (case splitlines cs of [] \<Rightarrow> [[c]] | l # ls \<Rightarrow> (c # l) # ls))"

definition to_lower :: "char \<Rightarrow> char" where
  "to_lower c = (let n = (of_char c :: nat)
     in if (65 \<le> n \<and> n \<le> 90) \<or> (192 \<le> n \<and> n \<le> 222 \<and> n \<noteq> 215) then char_of (n + 32) else c)"

abbreviation py_lower :: "string \<Rightarrow> string" where
  "py_lower s \<equiv> map to_lower s"

text \<open>\<open>str(n)\<close> for an integer.\<close>

fun nat_digits :: "nat \<Rightarrow> string" where
  "nat_digits n = (if n < 10 then [char_of (48 + n)]
                   else nat_digits (n div 10) @ [char_of (48 + n mod 10)])"

declare nat_digits.simps [simp del]

definition int_str :: "int \<Rightarrow> string" where
  "int_str i = (if i < 0 then ''-'' @ nat_digits (nat (- i)) else nat_digits (nat i))"

section \<open>Lemmas about the string operations\<close>

lemma dropWhile_cong_hd: "xs \<noteq> [] \<Longrightarrow> \<not> P (hd xs) \<Longrightarrow> dropWhile P xs = xs"
  by (cases xs) auto

lemma join_with_Cons: "join_with d ((c # x) # xs) = c # join_with d (x # xs)"
  by (cases xs) simp_all

lemma strip_by_ends:
  assumes "strip_by P s \<noteq> []"
  shows "\<not> P (hd (strip_by P s))" and "\<not> P (last (strip_by P s))"
proof -
  let ?m = "dropWhile P s" and ?r = "dropWhile P (rev (dropWhile P s))"
  have r: "?r \<noteq> []" using assms by (simp add: strip_by_def)
  then have "\<not> P (hd ?r)" by (simp add: hd_dropWhile)
  then show "\<not> P (last (strip_by P s))" using r by (simp add: strip_by_def last_rev)
  have m: "?m \<noteq> []" using r by (metis dropWhile.simps(1) rev.simps(1))
  obtain a where a: "rev ?m = a @ ?r" by (metis takeWhile_dropWhile_id)
  then have "?m = rev ?r @ rev a" by (metis rev_append rev_rev_ident)
  then have "hd (rev ?r) = hd ?m" using r by (metis hd_append2 rev_is_Nil_conv)
  moreover have "\<not> P (hd ?m)" using m by (rule hd_dropWhile)
  ultimately show "\<not> P (hd (strip_by P s))" by (simp add: strip_by_def)
qed

lemma strip_by_idem: "strip_by P (strip_by P s) = strip_by P s"
proof (cases "strip_by P s = []")
  case True
  then show ?thesis by (simp add: strip_by_def [of P "[]"])
next
  case False
  let ?t = "strip_by P s"
  have "dropWhile P ?t = ?t" using False strip_by_ends(1) [OF False] by (rule dropWhile_cong_hd)
  moreover have "dropWhile P (rev ?t) = rev ?t"
    using False strip_by_ends(2) [OF False] by (intro dropWhile_cong_hd) (auto simp: hd_rev)
  ultimately show ?thesis by (simp add: strip_by_def [of P ?t])
qed

lemma split_on_ne [simp]: "split_on d s \<noteq> []"
  by (induction s) (auto split: list.splits)

lemma split_on_join: "join_with [d] (split_on d s) = s"
proof (induction s)
  case (Cons c cs)
  then show ?case
    by (cases "split_on d cs") (auto simp: join_with_Cons)
qed simp

lemma split_on_no_sep: "p \<in> set (split_on d s) \<Longrightarrow> d \<notin> set p"
  by (induction s arbitrary: p) (auto split: list.splits if_splits)

lemma splitlines_no_break: "l \<in> set (splitlines s) \<Longrightarrow> c \<in> set l \<Longrightarrow> \<not> line_break c"
proof (induction s arbitrary: l rule: splitlines.induct)
  case (2 d ds)
  show ?case
  proof (cases "line_break d")
    case True
    with "2" show ?thesis by (auto split: if_splits)
  next
    case False
    with "2" show ?thesis by (cases "splitlines ds") (fastforce split: if_splits)+
  qed
qed simp

text \<open>Splitting a text built of non-empty lines gives the lines back.\<close>

definition plain_line :: "string \<Rightarrow> bool" where
  "plain_line l \<longleftrightarrow> l \<noteq> [] \<and> (\<forall>c \<in> set l. \<not> line_break c)"

lemma splitlines_line:
  "\<forall>c \<in> set l. \<not> line_break c \<Longrightarrow> splitlines (l @ CHR 0x0A # s) = l # splitlines s"
proof (induction l)
  case Nil
  then show ?case by (simp add: line_break_def)
qed simp

lemma splitlines_last: "plain_line l \<Longrightarrow> splitlines l = [l]"
proof (induction l)
  case (Cons c l)
  then show ?case by (cases "l = []") (auto simp: plain_line_def)
qed (simp add: plain_line_def)

lemma splitlines_join:
  "\<forall>l \<in> set ls. plain_line l \<Longrightarrow> splitlines (join_with [CHR 0x0A] ls) = ls"
proof (induction "[CHR 0x0A]" ls rule: join_with.induct)
  case (2 x)
  then show ?case by (simp add: splitlines_last)
next
  case (3 x y xs)
  then show ?case by (simp add: splitlines_line plain_line_def)
qed simp

lemma nat_digits_nonempty [simp]: "nat_digits n \<noteq> []"
  by (subst nat_digits.simps) simp

lemma removeprefix_not [simp]: "\<not> prefix p s \<Longrightarrow> removeprefix p s = s"
  by (simp add: removeprefix_def)

lemma removeprefix_append [simp]: "removeprefix p (p @ s) = s"
  by (simp add: removeprefix_def)

lemmas py_str_eval [py_str_simps] =
  removeprefix_def strip_by_def rstrip_char_def py_space_def line_break_def suffix_to_prefix

lemma in_set_not_Nil: "x \<in> set xs \<Longrightarrow> xs \<noteq> []"
  by auto

lemma fold_keeps:
  "(\<And>c s. c \<in> set cs \<Longrightarrow> P s \<Longrightarrow> P (f c s)) \<Longrightarrow> P s \<Longrightarrow> P (fold f cs s)"
  by (induction cs arbitrary: s) auto

end
