(* ===== verification/StateMachine.thy ===== *)
theory StateMachine
  imports AmopPrelude
begin

text \<open>
  The task lifecycle of \<open>amop/orchestrator/state_machine.py\<close>: the states, the transition
  tables with their trigger texts, their union in the order the code merges them, and
  \<open>validate_transition\<close>.  Below them, the step relation the table induces and what its
  paths can and cannot do.
\<close>

section \<open>States\<close>

datatype task_state =
    CREATED | TRIAGING | INVESTIGATING | PLANNING_FIX | CODING | TESTING | REVIEWING
  | PR_CREATION | WAITING_FOR_APPROVAL | MERGED | RESOLVED | FAILED | CANCELLED
  | NEEDS_HUMAN_INPUT | MERGED_INTO_EXISTING

text \<open>The members of the enum in declaration order (what iterating over \<open>TaskState\<close> gives).\<close>

definition task_states :: "task_state list" where
  "task_states =
     [CREATED, TRIAGING, INVESTIGATING, PLANNING_FIX, CODING, TESTING, REVIEWING, PR_CREATION,
      WAITING_FOR_APPROVAL, MERGED, RESOLVED, FAILED, CANCELLED, NEEDS_HUMAN_INPUT,
      MERGED_INTO_EXISTING]"

fun state_value :: "task_state \<Rightarrow> string" where
  "state_value CREATED = ''CREATED''"
| "state_value TRIAGING = ''TRIAGING''"
| "state_value INVESTIGATING = ''INVESTIGATING''"
| "state_value PLANNING_FIX = ''PLANNING_FIX''"
| "state_value CODING = ''CODING''"
| "state_value TESTING = ''TESTING''"
| "state_value REVIEWING = ''REVIEWING''"
| "state_value PR_CREATION = ''PR_CREATION''"
| "state_value WAITING_FOR_APPROVAL = ''WAITING_FOR_APPROVAL''"
| "state_value MERGED = ''MERGED''"
| "state_value RESOLVED = ''RESOLVED''"
| "state_value FAILED = ''FAILED''"
| "state_value CANCELLED = ''CANCELLED''"
| "state_value NEEDS_HUMAN_INPUT = ''NEEDS_HUMAN_INPUT''"
| "state_value MERGED_INTO_EXISTING = ''MERGED_INTO_EXISTING''"

text \<open>\<open>TaskState(value)\<close>: the member with that value, or \<open>None\<close> for Python's \<open>ValueError\<close>.\<close>

definition state_of_value :: "string \<Rightarrow> task_state option" where
  "state_of_value v = find (\<lambda>s. state_value s = v) task_states"

definition TERMINAL_STATES :: "task_state set" where
  "TERMINAL_STATES = {RESOLVED, FAILED, MERGED_INTO_EXISTING, CANCELLED, NEEDS_HUMAN_INPUT}"

section \<open>Transition tables\<close>

type_synonym transition_table = "((task_state \<times> task_state) \<times> string) list"

definition SPEC_TABLE_TRANSITIONS :: transition_table where
  "SPEC_TABLE_TRANSITIONS =
    [((CREATED, TRIAGING), ''orchestrator picks up task''),
     ((TRIAGING, MERGED_INTO_EXISTING), ''dedup match against open incident (similarity >= 0.92)''),
     ((TRIAGING, INVESTIGATING), ''novel, severity >= configured floor''),
     ((TRIAGING, CANCELLED), ''severity below floor and no explicit human request''),
     ((INVESTIGATING, PLANNING_FIX), ''Investigator emits RootCauseReport with confidence >= 0.6''),
     ((INVESTIGATING, NEEDS_HUMAN_INPUT), ''confidence < 0.6 OR tool-call budget exhausted''),
     ((PLANNING_FIX, CODING), ''Coder agent invoked with fix plan''),
     ((CODING, TESTING), ''Coder emits diff + declares done''),
     ((TESTING, CODING), ''test failure AND retry_count < max_fix_iterations (default 4)''),
     ((TESTING, FAILED), ''test failure AND retries exhausted''),
     ((TESTING, REVIEWING), ''tests pass''),
     ((REVIEWING, CODING), ''Reviewer rejects with actionable feedback AND review_cycles < 2''),
     ((REVIEWING, FAILED), ''Reviewer rejects and cycles exhausted''),
     ((REVIEWING, PR_CREATION), ''Reviewer approves''),
     ((PR_CREATION, WAITING_FOR_APPROVAL), ''mode is suggestor''),
     ((PR_CREATION, MERGED), ''mode >= operator and auto_merge:true and branch is whitelisted''),
     ((WAITING_FOR_APPROVAL, MERGED), ''human approves via Telegram/CLI/Web''),
     ((WAITING_FOR_APPROVAL, CANCELLED), ''human rejects''),
     ((MERGED, RESOLVED), ''post-merge checks pass (CI green, no immediate revert)'')]"

definition NON_TERMINAL_STATES :: "task_state list" where
  "NON_TERMINAL_STATES = filter (\<lambda>s. s \<notin> TERMINAL_STATES) task_states"

definition GENERIC_CANCEL_TRIGGER :: string where
  "GENERIC_CANCEL_TRIGGER = ''human cancels (Section 4.6: legal from any non-terminal state)''"

definition CANCELLATION_TRANSITIONS :: transition_table where
  "CANCELLATION_TRANSITIONS =
     map (\<lambda>s. ((s, CANCELLED), GENERIC_CANCEL_TRIGGER))
       (filter (\<lambda>s. (s, CANCELLED) \<notin> fst ` set SPEC_TABLE_TRANSITIONS) NON_TERMINAL_STATES)"

definition MILESTONE_6_TRANSITIONS :: transition_table where
  "MILESTONE_6_TRANSITIONS =
    [((CODING, NEEDS_HUMAN_INPUT),
        ''diff exceeds coder.max_loc_per_task cap -- needs_decomposition (Section 29.1)''),
     ((PR_CREATION, NEEDS_HUMAN_INPUT),
        ''create_pull_request blocked or failed (secret detected, diff '' @
        ''too large, or GitHub API/push error) -- Section 12.5.1'')]"

definition MILESTONE_9_TRANSITIONS :: transition_table where
  "MILESTONE_9_TRANSITIONS =
    [((TRIAGING, NEEDS_HUMAN_INPUT),
        ''failure_streak_breaker tripped -- repeated_failure (Section 12.3)'')]"

definition MILESTONE_29_TRANSITIONS :: transition_table where
  "MILESTONE_29_TRANSITIONS =
    [((CODING, PLANNING_FIX),
        ''reconciliation: resuming from a recovered root cause (Section 4.6.2)''),
     ((TESTING, PLANNING_FIX),
        ''reconciliation: resuming from a recovered root cause (Section 4.6.2)''),
     ((TESTING, NEEDS_HUMAN_INPUT),
        ''reconciliation: could not safely resume (Section 4.6.2)'')]"

text \<open>
  \<open>TRANSITIONS\<close> merges the five dictionaries; a later one would win on a shared key, which
  is what \<open>++\<close> does.
\<close>

definition TRANSITIONS :: "(task_state \<times> task_state) \<rightharpoonup> string" where
  "TRANSITIONS =
     map_of SPEC_TABLE_TRANSITIONS ++ map_of CANCELLATION_TRANSITIONS
     ++ map_of MILESTONE_6_TRANSITIONS ++ map_of MILESTONE_9_TRANSITIONS
     ++ map_of MILESTONE_29_TRANSITIONS"

datatype illegal_transition = IllegalTransitionError task_state task_state

definition validate_transition ::
    "task_state \<Rightarrow> task_state \<Rightarrow> (illegal_transition, string) result" where
  "validate_transition from_state to_state =
     (case TRANSITIONS (from_state, to_state) of
        None \<Rightarrow> Inl (IllegalTransitionError from_state to_state)
      | Some trigger \<Rightarrow> Inr trigger)"

section \<open>The edges of the table\<close>

definition legal :: "task_state \<Rightarrow> task_state \<Rightarrow> bool" where
  "legal s t \<longleftrightarrow> (s, t) \<in> dom TRANSITIONS"

definition legal_edges :: "(task_state \<times> task_state) set" where
  "legal_edges =
     {(CREATED, TRIAGING), (CREATED, CANCELLED),
      (TRIAGING, MERGED_INTO_EXISTING), (TRIAGING, INVESTIGATING), (TRIAGING, CANCELLED),
      (TRIAGING, NEEDS_HUMAN_INPUT),
      (INVESTIGATING, PLANNING_FIX), (INVESTIGATING, NEEDS_HUMAN_INPUT),
      (INVESTIGATING, CANCELLED),
      (PLANNING_FIX, CODING), (PLANNING_FIX, CANCELLED),
      (CODING, TESTING), (CODING, NEEDS_HUMAN_INPUT), (CODING, PLANNING_FIX), (CODING, CANCELLED),
      (TESTING, CODING), (TESTING, FAILED), (TESTING, REVIEWING), (TESTING, PLANNING_FIX),
      (TESTING, NEEDS_HUMAN_INPUT), (TESTING, CANCELLED),
      (REVIEWING, CODING), (REVIEWING, FAILED), (REVIEWING, PR_CREATION), (REVIEWING, CANCELLED),
      (PR_CREATION, WAITING_FOR_APPROVAL), (PR_CREATION, MERGED),
      (PR_CREATION, NEEDS_HUMAN_INPUT), (PR_CREATION, CANCELLED),
      (WAITING_FOR_APPROVAL, MERGED), (WAITING_FOR_APPROVAL, CANCELLED),
      (MERGED, RESOLVED), (MERGED, CANCELLED)}"

lemmas table_defs =
  SPEC_TABLE_TRANSITIONS_def CANCELLATION_TRANSITIONS_def MILESTONE_6_TRANSITIONS_def
  MILESTONE_9_TRANSITIONS_def MILESTONE_29_TRANSITIONS_def NON_TERMINAL_STATES_def
  TERMINAL_STATES_def task_states_def

lemma dom_TRANSITIONS: "dom TRANSITIONS = legal_edges"
  unfolding TRANSITIONS_def dom_map_add dom_map_of_conv_image_fst legal_edges_def
  by (auto simp: table_defs)

lemma legal_iff: "legal s t \<longleftrightarrow> (s, t) \<in> legal_edges"
  by (simp add: legal_def dom_TRANSITIONS)

lemma legal_simps [simp]:
  "legal CREATED t \<longleftrightarrow> t \<in> {TRIAGING, CANCELLED}"
  "legal TRIAGING t \<longleftrightarrow> t \<in> {MERGED_INTO_EXISTING, INVESTIGATING, CANCELLED, NEEDS_HUMAN_INPUT}"
  "legal INVESTIGATING t \<longleftrightarrow> t \<in> {PLANNING_FIX, NEEDS_HUMAN_INPUT, CANCELLED}"
  "legal PLANNING_FIX t \<longleftrightarrow> t \<in> {CODING, CANCELLED}"
  "legal CODING t \<longleftrightarrow> t \<in> {TESTING, NEEDS_HUMAN_INPUT, PLANNING_FIX, CANCELLED}"
  "legal TESTING t \<longleftrightarrow>
     t \<in> {CODING, FAILED, REVIEWING, PLANNING_FIX, NEEDS_HUMAN_INPUT, CANCELLED}"
  "legal REVIEWING t \<longleftrightarrow> t \<in> {CODING, FAILED, PR_CREATION, CANCELLED}"
  "legal PR_CREATION t \<longleftrightarrow> t \<in> {WAITING_FOR_APPROVAL, MERGED, NEEDS_HUMAN_INPUT, CANCELLED}"
  "legal WAITING_FOR_APPROVAL t \<longleftrightarrow> t \<in> {MERGED, CANCELLED}"
  "legal MERGED t \<longleftrightarrow> t \<in> {RESOLVED, CANCELLED}"
  "legal RESOLVED t \<longleftrightarrow> False" "legal FAILED t \<longleftrightarrow> False" "legal CANCELLED t \<longleftrightarrow> False"
  "legal NEEDS_HUMAN_INPUT t \<longleftrightarrow> False" "legal MERGED_INTO_EXISTING t \<longleftrightarrow> False"
  by (auto simp: legal_iff legal_edges_def)

lemma validate_transition_Inr: "validate_transition s t = Inr trig \<Longrightarrow> legal s t"
  by (auto simp: validate_transition_def legal_def split: option.splits)

lemma validate_transition_legal: "legal s t \<Longrightarrow> \<exists>trig. validate_transition s t = Inr trig"
  by (auto simp: validate_transition_def legal_def)

lemma validate_transition_illegal:
  "\<not> legal s t \<Longrightarrow> validate_transition s t = Inl (IllegalTransitionError s t)"
  by (auto simp: validate_transition_def legal_def split: option.splits)

lemma state_in_task_states [simp]: "s \<in> set task_states"
  by (cases s) (simp_all add: task_states_def)

lemma inj_state_value: "state_value s = state_value t \<Longrightarrow> s = t"
  by (cases s; cases t) simp_all

lemma state_of_value_value [simp]: "state_of_value (state_value s) = Some s"
  by (cases s) (simp_all add: state_of_value_def task_states_def)

lemma state_of_value_SomeD: "state_of_value v = Some s \<Longrightarrow> v = state_value s"
  by (auto simp: state_of_value_def find_Some_iff)

section \<open>Paths through the machine\<close>

text \<open>
  A history of a task: the list of states it has been in, oldest first, each step of it an
  edge of the table.
\<close>

inductive history :: "task_state list \<Rightarrow> bool" where
  fresh: "history [CREATED]"
| advance: "history (xs @ [s]) \<Longrightarrow> legal s t \<Longrightarrow> history (xs @ [s, t])"

inductive reaches :: "task_state \<Rightarrow> task_state \<Rightarrow> bool" where
  here: "reaches s s"
| onward: "legal s t \<Longrightarrow> reaches t u \<Longrightarrow> reaches s u"

inductive_cases history_ConsE: "history (x # xs)"

lemma history_hd: "history h \<Longrightarrow> h \<noteq> [] \<and> hd h = CREATED"
  by (induction rule: history.induct) (auto simp: hd_append split: if_splits)

text \<open>
  The gate of the machine: which states must already be in the history of a task that is
  in a given state.
\<close>

fun must_precede :: "task_state \<Rightarrow> task_state list" where
  "must_precede TRIAGING = [CREATED]"
| "must_precede INVESTIGATING = [CREATED, TRIAGING]"
| "must_precede PLANNING_FIX = [CREATED, TRIAGING, INVESTIGATING]"
| "must_precede CODING = [CREATED, TRIAGING, INVESTIGATING, PLANNING_FIX]"
| "must_precede TESTING = [CREATED, TRIAGING, INVESTIGATING, PLANNING_FIX, CODING]"
| "must_precede REVIEWING = [CREATED, TRIAGING, INVESTIGATING, PLANNING_FIX, CODING, TESTING]"
| "must_precede PR_CREATION =
     [CREATED, TRIAGING, INVESTIGATING, PLANNING_FIX, CODING, TESTING, REVIEWING]"
| "must_precede WAITING_FOR_APPROVAL =
     [CREATED, TRIAGING, INVESTIGATING, PLANNING_FIX, CODING, TESTING, REVIEWING, PR_CREATION]"
| "must_precede MERGED =
     [CREATED, TRIAGING, INVESTIGATING, PLANNING_FIX, CODING, TESTING, REVIEWING, PR_CREATION]"
| "must_precede RESOLVED =
     [CREATED, TRIAGING, INVESTIGATING, PLANNING_FIX, CODING, TESTING, REVIEWING, PR_CREATION,
      MERGED]"
| "must_precede FAILED =
     [CREATED, TRIAGING, INVESTIGATING, PLANNING_FIX, CODING, TESTING]"
| "must_precede _ = []"

text \<open>
  One edge keeps the gate: what \<open>t\<close> requires is what \<open>s\<close> required, plus \<open>s\<close> itself.
\<close>

lemma must_precede_step:
  assumes "legal s t"
  shows "set (must_precede t) \<subseteq> insert s (set (must_precede s))"
  using assms by (cases s) auto

lemma history_must_precede: "history h \<Longrightarrow> set (must_precede (last h)) \<subseteq> set (butlast h)"
proof (induction rule: history.induct)
  case fresh
  show ?case by simp
next
  case (advance xs s t)
  have "set (must_precede t) \<subseteq> insert s (set (must_precede s))"
    using advance.hyps(2) by (rule must_precede_step)
  also have "\<dots> \<subseteq> insert s (set xs)" using advance.IH by auto
  finally show ?case by (simp add: butlast_append)
qed

lemma terminal_no_edge: "s \<in> TERMINAL_STATES \<Longrightarrow> \<not> legal s t"
  by (auto simp: TERMINAL_STATES_def)

lemma nonterminal_cancellable: "s \<notin> TERMINAL_STATES \<Longrightarrow> legal s CANCELLED"
  by (cases s) (auto simp: TERMINAL_STATES_def)

lemma reaches_terminal: "\<exists>u \<in> TERMINAL_STATES. reaches s u"
proof (cases "s \<in> TERMINAL_STATES")
  case True
  then show ?thesis using reaches.here by blast
next
  case False
  then have "reaches s CANCELLED"
    by (intro reaches.onward [OF nonterminal_cancellable reaches.here])
  then show ?thesis by (auto simp: TERMINAL_STATES_def)
qed

lemma reaches_from_terminal: "reaches s u \<Longrightarrow> s \<in> TERMINAL_STATES \<Longrightarrow> u = s"
  by (induction rule: reaches.induct) (auto dest: terminal_no_edge)

section \<open>Movers\<close>

text \<open>
  The interface of code that moves something through the machine: a move that succeeds went
  along an edge and arrived at its target.
\<close>

locale state_mover =
  fixes move :: "'m \<Rightarrow> 's \<Rightarrow> ('e, 's) result"
    and target :: "'m \<Rightarrow> task_state"
    and state_of :: "'s \<Rightarrow> task_state"
  assumes move_legal: "move m s = Inr s' \<Longrightarrow> legal (state_of s) (target m)"
    and move_target: "move m s = Inr s' \<Longrightarrow> state_of s' = target m"
begin

fun run :: "'m list \<Rightarrow> 's \<Rightarrow> ('e, 's) result" where
  "run [] s = Inr s"
| "run (m # ms) s = bind_result (move m s) (run ms)"

lemma run_history:
  "history (h @ [state_of s]) \<Longrightarrow> run ms s = Inr s' \<Longrightarrow>
     history (h @ state_of s # map target ms) \<and> state_of s' = last (state_of s # map target ms)"
proof (induction ms arbitrary: h s)
  case (Cons m ms)
  then obtain t where t: "move m s = Inr t" "run ms t = Inr s'"
    by (cases "move m s") auto
  have "history ((h @ [state_of s]) @ [state_of t])"
    using Cons.prems(1) move_legal [OF t(1)] move_target [OF t(1)] by (auto intro: advance)
  from Cons.IH [OF this t(2)] move_target [OF t(1)] show ?case by simp
qed simp

lemma terminal_stays: "state_of s \<in> TERMINAL_STATES \<Longrightarrow> \<exists>e. move m s = Inl e"
  using move_legal [of m s] terminal_no_edge by (cases "move m s") auto

end

section \<open>Properties\<close>

text \<open>
  C1: A task cannot skip a gate.  Whatever legal sequence of transitions brought a task to
  its present state, every state the lifecycle requires before it lies behind it; in
  particular a task in \<open>PR_CREATION\<close>, \<open>WAITING_FOR_APPROVAL\<close>, \<open>MERGED\<close> or \<open>RESOLVED\<close> has been
  through \<open>CODING\<close>, \<open>TESTING\<close> and \<open>REVIEWING\<close>.
\<close>

theorem gates_not_skipped:
  assumes "history h"
  shows "set (must_precede (last h)) \<subseteq> set (butlast h)"
  using assms by (rule history_must_precede)

theorem gates_not_skipped_witness:
  "set (must_precede PR_CREATION)
     \<subseteq> set (butlast [CREATED, TRIAGING, INVESTIGATING, PLANNING_FIX, CODING, TESTING,
                      REVIEWING, PR_CREATION])"
proof -
  have "history ([CREATED, TRIAGING, INVESTIGATING, PLANNING_FIX, CODING, TESTING]
                  @ [REVIEWING, PR_CREATION])"
    using advance [of "[]" CREATED TRIAGING, OF _ legal_simps(1) [THEN iffD2]] fresh
      advance [of "[CREATED]" TRIAGING INVESTIGATING]
      advance [of "[CREATED, TRIAGING]" INVESTIGATING PLANNING_FIX]
      advance [of "[CREATED, TRIAGING, INVESTIGATING]" PLANNING_FIX CODING]
      advance [of "[CREATED, TRIAGING, INVESTIGATING, PLANNING_FIX]" CODING TESTING]
      advance [of "[CREATED, TRIAGING, INVESTIGATING, PLANNING_FIX, CODING]" TESTING REVIEWING]
    by (intro advance) simp_all
  from gates_not_skipped [OF this] show ?thesis by simp
qed

text \<open>
  Terminal states are final and every other state can be cancelled: \<open>validate_transition\<close>
  raises for every move out of a terminal state, accepts cancellation from every
  non-terminal one, and so a terminal state stays reachable from anywhere.
\<close>

theorem terminal_states_final:
  "(s \<in> TERMINAL_STATES \<and> validate_transition s t = Inl (IllegalTransitionError s t))
   \<or> (s \<notin> TERMINAL_STATES \<and> (\<exists>trigger. validate_transition s CANCELLED = Inr trigger)
        \<and> (\<exists>u \<in> TERMINAL_STATES. reaches s u))"
  using terminal_no_edge validate_transition_illegal nonterminal_cancellable
    validate_transition_legal reaches_terminal by (cases "s \<in> TERMINAL_STATES") blast+

text \<open>
  The soft-terminal state has no way out: the comment on \<open>TERMINAL_STATES\<close> calls
  \<open>NEEDS_HUMAN_INPUT\<close> resumable on human input, but no table holds an edge from it.
\<close>

theorem needs_human_input_not_resumable:
  "validate_transition NEEDS_HUMAN_INPUT t = Inl (IllegalTransitionError NEEDS_HUMAN_INPUT t)"
  by (rule validate_transition_illegal) simp

end
