(* ===== verification/PyRegex.thy ===== *)
theory PyRegex
  imports AmopPrelude
begin

text \<open>
  The part of Python's \<open>re\<close> the safety layer uses: a backtracking matcher over a pattern
  syntax tree.  \<open>ends r c\<close> lists every cursor at which a match of \<open>r\<close> that starts at
  cursor \<open>c\<close> can end, in the order the backtracking engine would try them, so the head of
  the list is the match \<open>re\<close> reports.  \<open>search\<close> tries the start positions from left to
  right and \<open>sub\<close> replaces the leftmost non-overlapping matches.
\<close>

section \<open>Patterns\<close>

text \<open>A cursor is the character just passed (if any) and the text still to read.\<close>

type_synonym cursor = "char option \<times> string"

datatype regex =
    Eps
  | Chr "char \<Rightarrow> bool"
  | Seq regex regex
  | Alt regex regex
  | Star regex
  | WordB
  | NotBehind "char \<Rightarrow> bool"
  | NotAhead "char \<Rightarrow> bool"

text \<open>\<open>\w\<close> for code points below 256: what \<open>str.isalnum\<close> accepts, and the underscore.\<close>

definition word_char :: "char \<Rightarrow> bool" where
  "word_char c = (let n = (of_char c :: nat)
     in (48 \<le> n \<and> n \<le> 57) \<or> (65 \<le> n \<and> n \<le> 90) \<or> n = 95 \<or> (97 \<le> n \<and> n \<le> 122)
      \<or> n \<in> {170, 178, 179, 181, 185, 186, 188, 189, 190}
      \<or> (192 \<le> n \<and> n \<noteq> 215 \<and> n \<noteq> 247))"

definition at_word_boundary :: "cursor \<Rightarrow> bool" where
  "at_word_boundary c =
     ((case fst c of None \<Rightarrow> False | Some x \<Rightarrow> word_char x)
      \<noteq> (case snd c of [] \<Rightarrow> False | x # _ \<Rightarrow> word_char x))"

text \<open>
  Greedy iteration: first every way to go round once more (only where the body consumed
  something), then stopping here.
\<close>

primrec star_ends :: "(cursor \<Rightarrow> cursor list) \<Rightarrow> nat \<Rightarrow> cursor \<Rightarrow> cursor list" where
  "star_ends f 0 c = [c]"
| "star_ends f (Suc n) c =
     concat (map (\<lambda>d. if length (snd d) < length (snd c) then star_ends f n d else []) (f c)) @ [c]"

primrec ends :: "regex \<Rightarrow> cursor \<Rightarrow> cursor list" where
  "ends Eps c = [c]"
| "ends (Chr P) c =
     (case snd c of [] \<Rightarrow> [] | x # xs \<Rightarrow> if P x then [(Some x, xs)] else [])"
| "ends (Seq r1 r2) c = concat (map (ends r2) (ends r1 c))"
| "ends (Alt r1 r2) c = ends r1 c @ ends r2 c"
| "ends (Star r) c = star_ends (ends r) (length (snd c)) c"
| "ends WordB c = (if at_word_boundary c then [c] else [])"
| "ends (NotBehind P) c =
     (case fst c of None \<Rightarrow> [c] | Some x \<Rightarrow> if P x then [] else [c])"
| "ends (NotAhead P) c =
     (case snd c of [] \<Rightarrow> [c] | x # _ \<Rightarrow> if P x then [] else [c])"

subsection \<open>Derived pattern forms\<close>

fun lit :: "string \<Rightarrow> regex" where
  "lit [] = Eps"
| "lit [c] = Chr (\<lambda>x. x = c)"
| "lit (c # d # cs) = Seq (Chr (\<lambda>x. x = c)) (lit (d # cs))"

text \<open>A literal under \<open>(?i)\<close>; the pattern's own letters are lower case.\<close>

fun ilit :: "string \<Rightarrow> regex" where
  "ilit [] = Eps"
| "ilit [c] = Chr (\<lambda>x. to_lower x = c)"
| "ilit (c # d # cs) = Seq (Chr (\<lambda>x. to_lower x = c)) (ilit (d # cs))"

definition opt :: "regex \<Rightarrow> regex" where "opt r = Alt r Eps"

definition plus :: "regex \<Rightarrow> regex" where "plus r = Seq r (Star r)"

primrec times :: "nat \<Rightarrow> regex \<Rightarrow> regex" where
  "times 0 r = Eps"
| "times (Suc n) r = Seq r (times n r)"

definition at_least :: "nat \<Rightarrow> regex \<Rightarrow> regex" where
  "at_least n r = Seq (times n r) (Star r)"

fun seqs :: "regex list \<Rightarrow> regex" where
  "seqs [] = Eps"
| "seqs [r] = r"
| "seqs (r # s # rs) = Seq r (seqs (s # rs))"

fun alts :: "regex list \<Rightarrow> regex" where
  "alts [] = Chr (\<lambda>_. False)"
| "alts [r] = r"
| "alts (r # s # rs) = Alt r (alts (s # rs))"

definition spaces :: regex where "spaces = plus (Chr py_space)"

definition any_char :: "char \<Rightarrow> bool" where "any_char c = (c \<noteq> CHR 0x0A)"

definition between :: "char \<Rightarrow> char \<Rightarrow> char \<Rightarrow> bool" where
  "between a b c = ((of_char a :: nat) \<le> of_char c \<and> (of_char c :: nat) \<le> of_char b)"

definition alnum :: "char \<Rightarrow> bool" where
  "alnum c = (between CHR ''A'' CHR ''Z'' c \<or> between CHR ''a'' CHR ''z'' c
              \<or> between CHR ''0'' CHR ''9'' c)"

section \<open>Searching and substituting\<close>

text \<open>\<open>pattern.search\<close>: whether some start position matches.\<close>

fun search_from :: "regex \<Rightarrow> char option \<Rightarrow> string \<Rightarrow> bool" where
  "search_from r p [] = (ends r (p, []) \<noteq> [])"
| "search_from r p (c # cs) = (ends r (p, c # cs) \<noteq> [] \<or> search_from r (Some c) cs)"

definition search :: "regex \<Rightarrow> string \<Rightarrow> bool" where
  "search r s = search_from r None s"

text \<open>The first match found: the cursor where it starts.\<close>

fun first_match :: "regex \<Rightarrow> char option \<Rightarrow> string \<Rightarrow> (cursor \<times> cursor) option" where
  "first_match r p s =
     (case ends r (p, s) of
        e # _ \<Rightarrow> Some ((p, s), e)
      | [] \<Rightarrow> (case s of [] \<Rightarrow> None | c # cs \<Rightarrow> first_match r (Some c) cs))"

declare first_match.simps [simp del]

text \<open>
  The first match of a pattern \<open>pre(grp)\<close> whose tail is a capture group: the cursors
  around the group.  The pairs are listed in backtracking order.
\<close>

definition group_ends :: "regex \<Rightarrow> regex \<Rightarrow> cursor \<Rightarrow> (cursor \<times> cursor) list" where
  "group_ends pre grp c = concat (map (\<lambda>d. map (\<lambda>e. (d, e)) (ends grp d)) (ends pre c))"

fun first_group :: "regex \<Rightarrow> regex \<Rightarrow> char option \<Rightarrow> string \<Rightarrow> (cursor \<times> cursor) option" where
  "first_group pre grp p [] =
     (case group_ends pre grp (p, []) of g # _ \<Rightarrow> Some g | [] \<Rightarrow> None)"
| "first_group pre grp p (c # cs) =
     (case group_ends pre grp (p, c # cs) of
        g # _ \<Rightarrow> Some g | [] \<Rightarrow> first_group pre grp (Some c) cs)"

text \<open>The text between two cursors of the same subject.\<close>

definition text_between :: "cursor \<Rightarrow> cursor \<Rightarrow> string" where
  "text_between c d = take (length (snd c) - length (snd d)) (snd c)"

text \<open>
  \<open>pattern.sub(repl, s)\<close> for patterns that match no empty string: at each position the
  first match, if there is one, is replaced and the scan goes on after it.
\<close>

function sub_from :: "regex \<Rightarrow> string \<Rightarrow> char option \<Rightarrow> string \<Rightarrow> string" where
  "sub_from r repl p s =
     (case ends r (p, s) of
        e # _ \<Rightarrow>
          if length (snd e) < length s then repl @ sub_from r repl (fst e) (snd e)
          else (case s of [] \<Rightarrow> [] | c # cs \<Rightarrow> c # sub_from r repl (Some c) cs)
      | [] \<Rightarrow> (case s of [] \<Rightarrow> [] | c # cs \<Rightarrow> c # sub_from r repl (Some c) cs))"
  by pat_completeness auto
termination
  by (relation "measure (\<lambda>(r, repl, p, s). length s)") auto

declare sub_from.simps [simp del]

definition sub :: "regex \<Rightarrow> string \<Rightarrow> string \<Rightarrow> string" where
  "sub r repl s = sub_from r repl None s"

lemmas regex_defs =
  opt_def plus_def at_least_def spaces_def any_char_def between_def alnum_def
  word_char_def at_word_boundary_def py_space_def

section \<open>Facts about matching\<close>

lemma star_ends_suffix:
  assumes f: "\<And>c d. d \<in> set (f c) \<Longrightarrow> suffix (snd d) (snd c)"
  shows "d \<in> set (star_ends f n c) \<Longrightarrow> suffix (snd d) (snd c)"
proof (induction n arbitrary: c)
  case (Suc n)
  then consider "d = c" | e where "e \<in> set (f c)" "d \<in> set (star_ends f n e)"
    by (auto split: if_splits)
  then show ?case
  proof cases
    case 2
    then have "suffix (snd d) (snd e)" by (intro Suc.IH)
    also have "suffix (snd e) (snd c)" using 2 by (intro f)
    finally show ?thesis .
  qed simp
qed simp

lemma ends_suffix: "d \<in> set (ends r c) \<Longrightarrow> suffix (snd d) (snd c)"
proof (induction r arbitrary: c d)
  case (Chr P)
  then show ?case by (cases "snd c") (auto split: if_splits intro: suffix_ConsI)
next
  case (Seq r1 r2)
  then obtain e where e: "e \<in> set (ends r1 c)" "d \<in> set (ends r2 e)" by auto
  then have "suffix (snd d) (snd e)" by (intro Seq.IH)
  also have "suffix (snd e) (snd c)" using e by (intro Seq.IH)
  finally show ?case .
next
  case (Star r)
  then show ?case using star_ends_suffix [of "ends r"] by auto
next
  case (NotBehind P)
  then show ?case by (auto split: option.splits if_splits)
next
  case (NotAhead P)
  then show ?case by (auto split: list.splits if_splits)
qed (auto split: if_splits)

text \<open>A match anywhere in the subject is found: search does not miss a start position.\<close>

lemma search_from_append:
  "ends r (if a = [] then p else Some (last a), s) \<noteq> [] \<Longrightarrow> search_from r p (a @ s)"
proof (induction a arbitrary: p)
  case Nil
  then show ?case by (cases s) simp_all
next
  case (Cons c cs)
  then have "ends r (if cs = [] then Some c else Some (last cs), s) \<noteq> []"
    by (auto split: if_splits)
  then show ?case using Cons.IH [of "Some c"] by (auto split: if_splits)
qed

lemma search_embedI:
  assumes "ends r (if a = [] then None else Some (last a), s) \<noteq> []"
  shows "search r (a @ s)"
  using assms by (simp add: search_def search_from_append)

lemma search_fromD:
  "search_from r p s \<Longrightarrow>
     \<exists>a t. s = a @ t \<and> ends r (if a = [] then p else Some (last a), t) \<noteq> []"
proof (induction s arbitrary: p)
  case Nil
  then show ?case by auto
next
  case (Cons c cs)
  show ?case
  proof (cases "ends r (p, c # cs) \<noteq> []")
    case True
    then show ?thesis by (intro exI [of _ "[]"] exI [of _ "c # cs"]) simp
  next
    case False
    with Cons.prems obtain a t where at: "cs = a @ t"
      "ends r (if a = [] then Some c else Some (last a), t) \<noteq> []"
      using Cons.IH [of "Some c"] by auto
    then show ?thesis by (intro exI [of _ "c # a"] exI [of _ t]) (auto split: if_splits)
  qed
qed

lemma search_from_first_match: "search_from r p s \<longleftrightarrow> first_match r p s \<noteq> None"
proof (induction s arbitrary: p)
  case Nil
  then show ?case by (subst first_match.simps) (auto split: list.splits)
next
  case (Cons c cs)
  then show ?case by (subst first_match.simps) (auto split: list.splits)
qed

lemma sub_from_no_match: "\<not> search_from r p s \<Longrightarrow> sub_from r repl p s = s"
proof (induction s arbitrary: p)
  case Nil
  then show ?case by (subst sub_from.simps) simp
next
  case (Cons c cs)
  then show ?case by (subst sub_from.simps) (simp split: list.splits)
qed

lemma sub_no_match: "\<not> search r s \<Longrightarrow> sub r repl s = s"
  by (simp add: search_def sub_def sub_from_no_match)

lemma ends_Seq_Nil: "ends r c = [] \<Longrightarrow> ends (Seq r s) c = []"
  by simp

lemma ends_SeqI: "d \<in> set (ends r c) \<Longrightarrow> ends s d \<noteq> [] \<Longrightarrow> ends (Seq r s) c \<noteq> []"
  by auto

lemma star_ends_self [simp]: "c \<in> set (star_ends f n c)"
  by (cases n) simp_all

lemma ends_Star_self [simp]: "c \<in> set (ends (Star r) c)"
  by simp

lemma star_ends_nonempty [simp]: "star_ends f n c \<noteq> []"
  by (cases n) simp_all

text \<open>A greedy star over a character class can end after any run of such characters.\<close>

lemma star_ends_run:
  assumes f: "\<And>q x ys. P x \<Longrightarrow> (Some x, ys) \<in> set (f (q, x # ys))"
  shows "\<forall>c \<in> set xs. P c \<Longrightarrow> length xs \<le> n \<Longrightarrow>
     (if xs = [] then p else Some (last xs), s) \<in> set (star_ends f n (p, xs @ s))"
proof (induction xs arbitrary: n p)
  case (Cons x xs)
  then obtain m where n: "n = Suc m" by (cases n) auto
  have "(if xs = [] then Some x else Some (last xs), s) \<in> set (star_ends f m (Some x, xs @ s))"
    using Cons.prems n by (intro Cons.IH) auto
  moreover have "(Some x, xs @ s) \<in> set (f (p, x # xs @ s))" using Cons.prems by (intro f) simp
  ultimately show ?case using n by (auto split: if_splits intro!: bexI [of _ "(Some x, xs @ s)"])
qed simp

lemma ends_Star_run:
  assumes "\<forall>c \<in> set xs. P c"
  shows "(if xs = [] then p else Some (last xs), s) \<in> set (ends (Star (Chr P)) (p, xs @ s))"
  unfolding ends.simps(5) by (rule star_ends_run [of P]) (use assms in auto)

subsection \<open>Introduction rules for one way to match\<close>

definition can :: "regex \<Rightarrow> cursor \<Rightarrow> cursor \<Rightarrow> bool" where
  "can r c d \<longleftrightarrow> d \<in> set (ends r c)"

lemma can_Eps: "can Eps c c" by (simp add: can_def)
lemma can_Chr: "P x \<Longrightarrow> can (Chr P) (p, x # s) (Some x, s)" by (simp add: can_def)
lemma can_Seq: "can r c d \<Longrightarrow> can s d e \<Longrightarrow> can (Seq r s) c e" by (auto simp: can_def)
lemma can_Alt1: "can r c d \<Longrightarrow> can (Alt r s) c d" by (simp add: can_def)
lemma can_Alt2: "can s c d \<Longrightarrow> can (Alt r s) c d" by (simp add: can_def)
lemma can_Star_stop: "can (Star r) c c" by (simp add: can_def)
lemma can_WordB: "at_word_boundary c \<Longrightarrow> can WordB c c" by (simp add: can_def)

lemma can_Star_run:
  "\<forall>c \<in> set xs. P c \<Longrightarrow>
     can (Star (Chr P)) (p, xs @ s) (if xs = [] then p else Some (last xs), s)"
  unfolding can_def by (rule ends_Star_run)

lemma search_can:
  assumes "can r (if a = [] then None else Some (last a), s) d"
  shows "search r (a @ s)"
  using assms by (intro search_embedI) (auto simp: can_def)

lemma ends_lit_append:
  "ends (lit w) (p, w @ s) = [(if w = [] then p else Some (last w), s)]"
  by (induction w arbitrary: p rule: lit.induct) (auto)

lemma can_lit: "w \<noteq> [] \<Longrightarrow> can (lit w) (p, w @ s) (Some (last w), s)"
  by (simp add: can_def ends_lit_append)

text \<open>Word-ness of the neighbours of a text, as \<open>\b\<close> sees it.\<close>

definition ends_in_word :: "string \<Rightarrow> bool" where
  "ends_in_word a \<longleftrightarrow> a \<noteq> [] \<and> word_char (last a)"

definition starts_in_word :: "string \<Rightarrow> bool" where
  "starts_in_word b \<longleftrightarrow> b \<noteq> [] \<and> word_char (hd b)"

lemma boundary_before:
  "\<not> ends_in_word a \<Longrightarrow> starts_in_word s \<Longrightarrow>
     at_word_boundary (if a = [] then None else Some (last a), s)"
  by (auto simp: at_word_boundary_def ends_in_word_def starts_in_word_def split: list.splits)

lemma boundary_after: "word_char x \<Longrightarrow> \<not> starts_in_word b \<Longrightarrow> at_word_boundary (Some x, b)"
  by (auto simp: at_word_boundary_def starts_in_word_def split: list.splits)

text \<open>The pattern \<open>\bword\b\<close> finds the word wherever it stands as a word of its own.\<close>

definition whole_word :: "string \<Rightarrow> regex" where
  "whole_word w = Seq WordB (Seq (lit w) WordB)"

lemma whole_word_found:
  assumes "w \<noteq> []" "word_char (hd w)" "word_char (last w)"
    and "\<not> ends_in_word a" "\<not> starts_in_word b"
  shows "search (whole_word w) (a @ w @ b)"
proof (rule search_can)
  have "starts_in_word (w @ b)" using assms by (simp add: starts_in_word_def)
  then show "can (whole_word w) (if a = [] then None else Some (last a), w @ b) (Some (last w), b)"
    unfolding whole_word_def using assms
    by (intro can_Seq [OF can_WordB [OF boundary_before]] can_Seq [OF can_lit]
          can_WordB boundary_after)
qed

end
