(* ===== verification/Blacklist.thy ===== *)
theory Blacklist
  imports PyRegex
begin

text \<open>
  The command blacklist of \<open>amop/safety/blacklist.py\<close>: its patterns as syntax trees, the
  two checks with an exception built in (force push, chown), the baseline in the order the
  code lists it, and \<open>is_blacklisted\<close>.
\<close>

section \<open>Patterns\<close>

definition RM_RF_RE :: regex where
  "RM_RF_RE = Seq WordB (Seq (lit ''rm'') (Seq spaces (alts
     [seqs [lit ''-'', Star (Chr word_char), lit ''r'', Star (Chr word_char), lit ''f'',
            Star (Chr word_char), WordB],
      seqs [lit ''-'', Star (Chr word_char), lit ''f'', Star (Chr word_char), lit ''r'',
            Star (Chr word_char), WordB],
      seqs [lit ''-'', Chr (\<lambda>c. c \<in> set ''rRf''), spaces, lit ''-'', Chr (\<lambda>c. c \<in> set ''rRf''),
            WordB],
      seqs [lit ''--recursive'', spaces, lit ''--force'', WordB],
      seqs [lit ''--force'', spaces, lit ''--recursive'', WordB]])))"

definition FORCE_PUSH_RE :: regex where
  "FORCE_PUSH_RE = seqs
     [WordB, lit ''git'', spaces, lit ''push'', WordB, Star (Chr any_char),
      alts [seqs [lit ''--force'', WordB],
            seqs [NotBehind (\<lambda>c. \<not> py_space c), lit ''-f'', NotAhead (\<lambda>c. \<not> py_space c)]]]"

definition FORCE_WITH_LEASE_RE :: regex where
  "FORCE_WITH_LEASE_RE = Seq (lit ''--force-with-lease'') WordB"

definition SUDO_RE :: regex where "SUDO_RE = whole_word ''sudo''"

definition CHMOD_777_RE :: regex where
  "CHMOD_777_RE = seqs [WordB, lit ''chmod'', spaces, lit ''777'', WordB]"

text \<open>\<open>_CHOWN_RE\<close> without its capture group, and the group.\<close>

definition CHOWN_PREFIX :: regex where
  "CHOWN_PREFIX = seqs
     [WordB, lit ''chown'', WordB, spaces, plus (Chr (\<lambda>c. \<not> py_space c)), spaces]"

definition CHOWN_GROUP :: regex where "CHOWN_GROUP = plus (Chr (\<lambda>c. \<not> py_space c))"

definition CURL_WGET_PIPE_SHELL_RE :: regex where
  "CURL_WGET_PIPE_SHELL_RE = seqs
     [WordB, alts [lit ''curl'', lit ''wget''], WordB, Star (Chr any_char), lit ''|'',
      Star (Chr py_space), WordB, alts [lit ''sh'', lit ''bash'', lit ''zsh''], WordB]"

definition DD_RE :: regex where "DD_RE = whole_word ''dd''"

definition MKFS_RE :: regex where "MKFS_RE = whole_word ''mkfs''"

definition FORK_BOMB_RE :: regex where
  "FORK_BOMB_RE = (let sp = Star (Chr py_space); nb = Star (Chr (\<lambda>c. c \<noteq> CHR ''}'')) in seqs
     [lit '':'', sp, lit ''('', sp, lit '')'', sp, lit ''{'', nb, lit '':'', sp, lit ''|'', sp,
      lit '':'', opt (lit ''&''), nb, lit ''}'', sp, lit '';'', sp, lit '':''])"

section \<open>Checks\<close>

definition check_force_push :: "string \<Rightarrow> bool" where
  "check_force_push command =
     (if \<not> search FORCE_PUSH_RE command then False
      else \<not> search FORCE_WITH_LEASE_RE command)"

definition check_unsafe_chown :: "string \<Rightarrow> bool" where
  "check_unsafe_chown command =
     (case first_group CHOWN_PREFIX CHOWN_GROUP None command of
        None \<Rightarrow> False
      | Some (c, d) \<Rightarrow> \<not> starts_with (text_between c d) ''/workspace'')"

record blacklist_hit =
  bm_pattern_name :: string
  bm_reason :: string

definition BLACKLIST_BASELINE :: "(string \<times> string \<times> (string \<Rightarrow> bool)) list" where
  "BLACKLIST_BASELINE =
    [(''rm_rf'', ''recursive force delete (rm -rf)'', search RM_RF_RE),
     (''force_push'', ''force push to a remote (git push --force)'', check_force_push),
     (''sudo'', ''privilege escalation (sudo)'', search SUDO_RE),
     (''chmod_777'', ''world-writable permission change (chmod 777)'', search CHMOD_777_RE),
     (''chown_outside_workspace'', ''ownership change targeting a path outside /workspace'',
        check_unsafe_chown),
     (''curl_wget_pipe_shell'', ''remote script piped directly into a shell'',
        search CURL_WGET_PIPE_SHELL_RE),
     (''dd'', ''raw block-device write (dd)'', search DD_RE),
     (''mkfs'', ''filesystem creation (mkfs)'', search MKFS_RE),
     (''fork_bomb'', ''fork-bomb pattern'', search FORK_BOMB_RE)]"

fun first_hit :: "(string \<times> string \<times> (string \<Rightarrow> bool)) list \<Rightarrow> string \<Rightarrow> blacklist_hit option" where
  "first_hit [] command = None"
| "first_hit ((name, reason, checker) # rest) command =
     (if checker command then Some \<lparr>bm_pattern_name = name, bm_reason = reason\<rparr>
      else first_hit rest command)"

definition is_blacklisted :: "string \<Rightarrow> blacklist_hit option" where
  "is_blacklisted command = first_hit BLACKLIST_BASELINE command"

section \<open>Lemmas\<close>

lemma first_hit_None:
  "first_hit bs command = None \<longleftrightarrow> (\<forall>(name, reason, checker) \<in> set bs. \<not> checker command)"
  by (induction bs command rule: first_hit.induct) auto

lemma is_blacklistedI:
  "(name, reason, checker) \<in> set BLACKLIST_BASELINE \<Longrightarrow> checker command \<Longrightarrow>
     is_blacklisted command \<noteq> None"
  unfolding is_blacklisted_def first_hit_None by fastforce

lemma can_spaces_one: "can spaces (p, CHR '' '' # s) (Some CHR '' '', s)"
  unfolding spaces_def plus_def
  by (rule can_Seq [OF can_Chr can_Star_stop]) (simp add: py_space_def)

lemma wordc [simp]:
  "word_char CHR ''r''" "word_char CHR ''m''" "word_char CHR ''f''" "word_char CHR ''s''"
  "word_char CHR ''o''" "word_char CHR ''d''" "\<not> word_char CHR ''-''" "\<not> word_char CHR '' ''"
  by (simp_all add: word_char_def)

lemma rm_rf_found:
  assumes "\<not> ends_in_word a" "\<not> starts_in_word b"
  shows "search RM_RF_RE (a @ ''rm -rf'' @ b)"
proof (rule search_can)
  let ?p = "if a = [] then None else Some (last a)"
  have "can WordB (?p, ''rm -rf'' @ b) (?p, ''rm -rf'' @ b)"
    using assms(1) by (intro can_WordB boundary_before) (simp_all add: starts_in_word_def)
  moreover have "can (lit ''rm'') (?p, ''rm -rf'' @ b) (Some CHR ''m'', '' -rf'' @ b)"
    by (simp add: can_def)
  moreover have "can spaces (Some CHR ''m'', '' -rf'' @ b) (Some CHR '' '', ''-rf'' @ b)"
    using can_spaces_one [of "Some CHR ''m''" "''-rf'' @ b"] by simp
  moreover have "can (seqs [lit ''-'', Star (Chr word_char), lit ''r'', Star (Chr word_char),
      lit ''f'', Star (Chr word_char), WordB]) (Some CHR '' '', ''-rf'' @ b) (Some CHR ''f'', b)"
    using assms(2)
    by (simp, intro can_Seq [OF can_Chr] can_Seq [OF can_Star_stop] can_WordB boundary_after) simp_all
  ultimately show "can RM_RF_RE (?p, ''rm -rf'' @ b) (Some CHR ''f'', b)"
    unfolding RM_RF_RE_def alts.simps by (intro can_Seq) (auto intro: can_Alt1)
qed

lemma sudo_found:
  assumes "\<not> ends_in_word a" "\<not> starts_in_word b"
  shows "search SUDO_RE (a @ ''sudo'' @ b)"
  unfolding SUDO_RE_def using assms by (intro whole_word_found) simp_all

text \<open>
  Whatever surrounds them, a whole-word \<open>sudo\<close>, a whole-word \<open>dd\<close> or \<open>mkfs\<close> and a literal
  \<open>rm -rf\<close> are refused.
\<close>

lemma whole_words_blacklisted:
  assumes "\<not> ends_in_word a" "\<not> starts_in_word b" and "w \<in> {''sudo'', ''dd'', ''mkfs'', ''rm -rf''}"
  shows "is_blacklisted (a @ w @ b) \<noteq> None"
proof -
  have "\<exists>(n, r, f) \<in> set BLACKLIST_BASELINE. f (a @ w @ b)"
    using assms whole_word_found [of w a b] rm_rf_found [of a b] sudo_found [of a b]
    by (auto simp: BLACKLIST_BASELINE_def DD_RE_def MKFS_RE_def word_char_def)
  then show ?thesis using is_blacklistedI by blast
qed

lemmas blacklist_eval =
  is_blacklisted_def BLACKLIST_BASELINE_def check_force_push_def check_unsafe_chown_def
  RM_RF_RE_def FORCE_PUSH_RE_def FORCE_WITH_LEASE_RE_def SUDO_RE_def CHMOD_777_RE_def
  CHOWN_PREFIX_def CHOWN_GROUP_def CURL_WGET_PIPE_SHELL_RE_def DD_RE_def MKFS_RE_def
  FORK_BOMB_RE_def whole_word_def search_def group_ends_def text_between_def Let_def

section \<open>Properties\<close>

text \<open>
  The blacklist cannot be talked around by context: a command that holds \<open>sudo\<close>, \<open>dd\<close>,
  \<open>mkfs\<close> or \<open>rm -rf\<close> as words of their own is refused, whatever text stands before and after.
\<close>

theorem dangerous_words_refused:
  assumes "\<not> ends_in_word a" "\<not> starts_in_word b" and "w \<in> {''sudo'', ''dd'', ''mkfs'', ''rm -rf''}"
  shows "is_blacklisted (a @ w @ b) \<noteq> None"
  using assms by (rule whole_words_blacklisted)

theorem dangerous_words_refused_witness: "is_blacklisted ''cd /x; rm -rf /'' \<noteq> None"
  using dangerous_words_refused [of "''cd /x; ''" "'' /''" "''rm -rf''"]
  by (simp add: ends_in_word_def starts_in_word_def word_char_def)

text \<open>
  Where the blacklist lets a dangerous command through: the upper-case recursive flag
  (\<open>rm -Rf\<close>), a second \<open>chown\<close> target outside the workspace, a force push that also mentions
  the lease option.
\<close>

theorem blacklist_gaps:
  "is_blacklisted ''rm -Rf /'' = None
   \<and> is_blacklisted ''chown root /workspace/a /etc/passwd'' = None
   \<and> is_blacklisted ''git push --force --force-with-lease'' = None"
  by (simp_all add: blacklist_eval regex_defs)

end
