(* ===== verification/ScopeGuard.thy ===== *)
theory ScopeGuard
  imports AmopPrelude
begin

text \<open>
  The diff-size cap of \<open>amop/safety/scope_guard.py\<close>.  The cap is configurable in the code
  (\<open>AMOP_MAX_LOC_PER_TASK\<close>), so it is an argument here; the default is a constant.
\<close>

definition DEFAULT_MAX_LOC_PER_TASK :: nat where "DEFAULT_MAX_LOC_PER_TASK = 150"

fun count_changed :: "string list \<Rightarrow> nat \<Rightarrow> nat" where
  "count_changed [] count = count"
| "count_changed (line # lines) count =
     (if starts_with line ''+++'' \<or> starts_with line ''---'' then count_changed lines count
      else if starts_with line ''+'' \<or> starts_with line ''-'' then count_changed lines (count + 1)
      else count_changed lines count)"

definition changed_line_count :: "string \<Rightarrow> nat" where
  "changed_line_count diff_text = count_changed (splitlines diff_text) 0"

definition over_cap :: "string \<Rightarrow> nat \<Rightarrow> bool" where
  "over_cap diff_text max_loc = (changed_line_count diff_text > max_loc)"

section \<open>Lemmas\<close>

definition change_line :: "string \<Rightarrow> bool" where
  "change_line line \<longleftrightarrow>
     (starts_with line ''+'' \<or> starts_with line ''-'')
     \<and> \<not> starts_with line ''+++'' \<and> \<not> starts_with line ''---''"

lemma count_changed_filter: "count_changed ls n = n + length (filter change_line ls)"
  by (induction ls n rule: count_changed.induct) (auto simp: change_line_def)

lemma changed_line_count_filter:
  "changed_line_count d = length (filter change_line (splitlines d))"
  by (simp add: changed_line_count_def count_changed_filter)

text \<open>A diff is within the cap exactly when its change lines are.\<close>

lemma over_cap_join:
  "\<forall>l \<in> set ls. plain_line l \<Longrightarrow>
     over_cap (join_with [CHR 0x0A] ls) cap \<longleftrightarrow> length (filter change_line ls) > cap"
  by (simp add: over_cap_def changed_line_count_filter splitlines_join)

section \<open>Properties\<close>

text \<open>
  The cap counts change lines: for a diff made of non-empty lines, the diff is over the
  cap exactly when more than \<open>cap\<close> of its lines start with a plus or minus sign and are no
  \<open>+++\<close> or \<open>---\<close> line.
\<close>

theorem cap_counts_change_lines:
  assumes "\<forall>l \<in> set ls. plain_line l"
  shows "over_cap (join_with [CHR 0x0A] ls) cap \<longleftrightarrow> length (filter change_line ls) > cap"
  using assms by (rule over_cap_join)

theorem cap_counts_change_lines_witness:
  "over_cap (join_with [CHR 0x0A] [''--- a/f'', ''+++ b/f'', ''+x'', ''-y'']) 1"
  using cap_counts_change_lines [of "[''--- a/f'', ''+++ b/f'', ''+x'', ''-y'']" 1]
  by (simp add: plain_line_def line_break_def change_line_def)

text \<open>
  Removed lines whose content starts with two dashes (an SQL comment, for one) are taken
  for file headers: a diff that removes any number of them is within every cap.
\<close>

theorem dashed_removals_uncounted:
  "\<not> over_cap (join_with [CHR 0x0A] (replicate n ''--- drop this'')) cap"
  by (subst over_cap_join) (auto simp: plain_line_def line_break_def change_line_def)

end
