(* ===== verification/PyPath.thy ===== *)
theory PyPath
  imports AmopPrelude
begin

text \<open>
  \<open>pathlib.Path.resolve\<close> on a POSIX file system, as far as the program depends on it.  A
  resolved path is the list of its components below the root.  The file system is given by
  its symbolic links: \<open>fs p = Some t\<close> when \<open>p\<close> is a link with target text \<open>t\<close>.  A walk may
  expand a bounded number of links (the \<open>budget\<close>); running out is the symlink loop on which
  \<open>resolve\<close> raises, as is a NUL character in a component.
\<close>

type_synonym rpath = "string list"
type_synonym links = "rpath \<Rightarrow> string option"

datatype path_error = SymlinkLoop | EmbeddedNull | BadArgumentType

fun walk :: "links \<Rightarrow> nat \<Rightarrow> rpath \<Rightarrow> string list \<Rightarrow> (path_error, rpath) result" where
  "walk fs budget path [] = Inr path"
| "walk fs budget path (name # rest) =
     (if name = [] \<or> name = ''.'' then walk fs budget path rest
      else if name = ''..'' then walk fs budget (butlast path) rest
      else if CHR 0x00 \<in> set name then Inl EmbeddedNull
      else (case fs (path @ [name]) of
              None \<Rightarrow> walk fs budget (path @ [name]) rest
            | Some target \<Rightarrow>
                (case budget of
                   0 \<Rightarrow> Inl SymlinkLoop
                 | Suc n \<Rightarrow> walk fs n (if starts_with target ''/'' then [] else path)
                              (split_on CHR ''/'' target @ rest))))"

text \<open>\<open>(base / s).resolve()\<close> for an absolute \<open>base\<close>: an absolute \<open>s\<close> replaces it.\<close>

definition resolve_from :: "links \<Rightarrow> nat \<Rightarrow> rpath \<Rightarrow> string \<Rightarrow> (path_error, rpath) result" where
  "resolve_from fs budget base s =
     walk fs budget [] ((if starts_with s ''/'' then [] else base) @ split_on CHR ''/'' s)"

text \<open>\<open>str(path)\<close> of a resolved path, and \<open>as_posix\<close> of a relative one.\<close>

definition path_str :: "rpath \<Rightarrow> string" where
  "path_str p = ''/'' @ join_with ''/'' p"

definition relative_posix :: "rpath \<Rightarrow> string" where
  "relative_posix p = (if p = [] then ''.'' else join_with ''/'' p)"

section \<open>What a walk returns\<close>

text \<open>
  A canonical path: no empty, dot or dot-dot component, no separator inside one, and no
  prefix of it is a link.
\<close>

definition real_name :: "string \<Rightarrow> bool" where
  "real_name n \<longleftrightarrow> n \<noteq> [] \<and> n \<noteq> ''.'' \<and> n \<noteq> ''..'' \<and> CHR 0x00 \<notin> set n"

definition canonical :: "links \<Rightarrow> rpath \<Rightarrow> bool" where
  "canonical fs p \<longleftrightarrow>
     (\<forall>n \<in> set p. real_name n) \<and> (\<forall>q. q \<noteq> [] \<longrightarrow> prefix q p \<longrightarrow> fs q = None)"

lemma canonical_Nil [simp]: "canonical fs []"
  by (simp add: canonical_def)

lemma canonical_prefix: "canonical fs p \<Longrightarrow> prefix q p \<Longrightarrow> canonical fs q"
  by (auto simp: canonical_def dest: set_mono_prefix prefix_order.trans)

lemma canonical_butlast: "canonical fs p \<Longrightarrow> canonical fs (butlast p)"
  by (erule canonical_prefix) (rule prefixeq_butlast)

lemma canonical_snoc:
  "canonical fs p \<Longrightarrow> real_name n \<Longrightarrow> fs (p @ [n]) = None \<Longrightarrow> canonical fs (p @ [n])"
  by (auto simp: canonical_def prefix_snoc)

lemma walk_canonical: "canonical fs path \<Longrightarrow> walk fs b path names = Inr p \<Longrightarrow> canonical fs p"
proof (induction fs b path names rule: walk.induct)
  case (2 fs b path name rest)
  consider "name = [] \<or> name = ''.''" | "name = ''..''"
    | "name \<noteq> []" "name \<noteq> ''.''" "name \<noteq> ''..''" "CHR 0x00 \<notin> set name"
    using 2 by (fastforce split: if_splits)
  then show ?case
  proof cases
    case 3
    then have n: "real_name name" by (simp add: real_name_def)
    show ?thesis
    proof (cases "fs (path @ [name])")
      case None
      with 2 3 n show ?thesis by (simp add: canonical_snoc)
    next
      case (Some t)
      then obtain m where "b = Suc m" using 2 3 by (cases b) auto
      with 2 3 Some show ?thesis by (auto split: if_splits)
    qed
  qed (use 2 in \<open>auto intro: canonical_butlast\<close>)
qed simp

lemma resolve_from_canonical: "resolve_from fs b base s = Inr p \<Longrightarrow> canonical fs p"
  unfolding resolve_from_def by (rule walk_canonical) simp_all

text \<open>Walking along a canonical path goes nowhere else, and a walk can be cut in two.\<close>

lemma walk_along: "canonical fs (path @ p) \<Longrightarrow> walk fs b path (p @ rest) = walk fs b (path @ p) rest"
proof (induction p arbitrary: path)
  case (Cons n p)
  have n: "real_name n" using Cons.prems by (simp add: canonical_def)
  have "fs (path @ [n]) = None"
    using Cons.prems unfolding canonical_def by (metis append_Cons append_Nil append_assoc
        prefix_def snoc_eq_iff_butlast)
  then show ?case using n Cons by (simp add: real_name_def)
qed simp

lemma walk_canonical_id: "canonical fs p \<Longrightarrow> walk fs b [] p = Inr p"
  using walk_along [of fs "[]" p b "[]"] by simp

text \<open>Enough budget: a walk that meets no link needs none.\<close>

lemma walk_no_links:
  assumes "\<And>q. fs q = None" and "\<forall>n \<in> set names. CHR 0x00 \<notin> set n"
  shows "\<exists>p. walk fs b path names = Inr p"
  using assms(2)
proof (induction names arbitrary: path)
  case (Cons n names)
  then show ?case by (auto simp: assms(1))
qed simp

lemma walk_budget_mono:
  "walk fs b path names = Inr p \<Longrightarrow> b \<le> b' \<Longrightarrow> walk fs b' path names = Inr p"
proof (induction fs b path names arbitrary: b' rule: walk.induct)
  case (2 fs b path name rest)
  consider "name = [] \<or> name = ''.''" | "name = ''..''"
    | "name \<noteq> [] \<and> name \<noteq> ''.'' \<and> name \<noteq> ''..''" "CHR 0x00 \<notin> set name"
    using "2.prems"(1) by (auto split: if_splits)
  then show ?case
  proof cases
    case 1
    then have "walk fs b' path rest = Inr p" using "2.prems" by - (rule "2.IH"(1), auto)
    with 1 show ?thesis by auto
  next
    case 2
    then have "walk fs b' (butlast path) rest = Inr p"
      using "2.prems" by - (rule "2.IH"(2), auto)
    with 2 show ?thesis by simp
  next
    case False: 3
    show ?thesis
    proof (cases "fs (path @ [name])")
      case None
      then have "walk fs b' (path @ [name]) rest = Inr p"
        using "2.prems" False by - (rule "2.IH"(3), simp_all)
      with None False show ?thesis by simp
    next
      case (Some t)
      then obtain m where m: "b = Suc m" using "2.prems"(1) False by (cases b) auto
      obtain m' where m': "b' = Suc m'" "m \<le> m'" using "2.prems"(2) m by (cases b') auto
      have "walk fs m' (if starts_with t ''/'' then [] else path)
              (split_on CHR ''/'' t @ rest) = Inr p"
        using "2.prems"(1) False Some m m' by - (rule "2.IH"(4), simp_all)
      with Some False m' show ?thesis by simp
    qed
  qed
qed simp

lemma no_sep_canonical_join:
  "\<forall>n \<in> set p. CHR ''/'' \<notin> set n \<Longrightarrow> p \<noteq> [] \<Longrightarrow> split_on CHR ''/'' (join_with ''/'' p) = p"
proof (induction "''/''" p rule: join_with.induct)
  case (2 x)
  have "CHR ''/'' \<notin> set x \<Longrightarrow> split_on CHR ''/'' x = [x]" by (induction x) auto
  with 2 show ?case by simp
next
  case (3 x y xs)
  have "CHR ''/'' \<notin> set x \<Longrightarrow> split_on CHR ''/'' (x @ CHR ''/'' # s) = x # split_on CHR ''/'' s"
    for s by (induction x) auto
  with 3 show ?case by simp
qed simp

end
