(* ===== verification/Permissions.thy ===== *)
theory Permissions
  imports PyValues PyPath
begin

text \<open>
  Permission modes: \<open>amop/safety/permissions.py\<close>.  The \<open>repositories\<close> table is a map from
  the normalized repository path to the row's \<open>permission_overrides\<close>.
\<close>

definition VALID_MODES :: "string list" where
  "VALID_MODES = [''observer'', ''suggestor'', ''operator'', ''autonomous'']"

text \<open>\<open>isinstance(v, str) and v in VALID_MODES\<close>, with the string it then names.\<close>

fun valid_mode :: "pyval \<Rightarrow> string option" where
  "valid_mode (PStr m) = (if m \<in> set VALID_MODES then Some m else None)"
| "valid_mode _ = None"

definition resolve_mode_from :: "string \<Rightarrow> string \<Rightarrow> pydict option \<Rightarrow> string" where
  "resolve_mode_from agent global_mode overrides =
     (case overrides of
        None \<Rightarrow> global_mode
      | Some ov \<Rightarrow>
          if ov = [] then global_mode
          else
            let mode = (case valid_mode (dict_get ov ''default'') of
                          Some m \<Rightarrow> m | None \<Rightarrow> global_mode)
            in (case dict_get ov ''agents'' of
                  PDict agents \<Rightarrow>
                    (case valid_mode (dict_get agents agent) of Some m \<Rightarrow> m | None \<Rightarrow> mode)
                | _ \<Rightarrow> mode))"

text \<open>
  \<open>normalize_repo_identity\<close> delegates to \<open>normalize_repo\<close> of
  \<open>amop/orchestrator/concurrency.py\<close>: the text of the resolved path.
\<close>

definition normalize_repo :: "links \<Rightarrow> nat \<Rightarrow> rpath \<Rightarrow> string \<Rightarrow> (path_error, string) result" where
  "normalize_repo fs budget cwd repo_path =
     bind_result (resolve_from fs budget cwd repo_path) (\<lambda>p. Inr (path_str p))"

definition load_permission_overrides ::
    "links \<Rightarrow> nat \<Rightarrow> rpath \<Rightarrow> (string \<rightharpoonup> pydict option) option \<Rightarrow> string option
     \<Rightarrow> (path_error, pydict option) result" where
  "load_permission_overrides fs budget cwd session repo_path =
     (case (session, repo_path) of
        (Some repositories, Some rp) \<Rightarrow>
          if rp = [] then Inr None
          else bind_result (normalize_repo fs budget cwd rp)
            (\<lambda>normalized. Inr (case repositories normalized of None \<Rightarrow> None | Some ov \<Rightarrow> ov))
      | _ \<Rightarrow> Inr None)"

section \<open>Lemmas\<close>

lemma valid_mode_SomeD: "valid_mode v = Some m \<Longrightarrow> v = PStr m \<and> m \<in> set VALID_MODES"
  by (cases v) (auto split: if_splits)

text \<open>The resolved mode is the global one or a known mode; nothing else can come out.\<close>

lemma resolve_mode_range:
  "resolve_mode_from agent g ov = g \<or> resolve_mode_from agent g ov \<in> set VALID_MODES"
  by (auto simp: resolve_mode_from_def Let_def dest: valid_mode_SomeD
      split: option.splits pyval.splits)

text \<open>Precedence: agent override, then repository default, then the global mode.\<close>

lemma resolve_mode_agent:
  "dict_get ov ''agents'' = PDict agents \<Longrightarrow> valid_mode (dict_get agents agent) = Some m \<Longrightarrow>
     resolve_mode_from agent g (Some ov) = m"
  by (auto simp: resolve_mode_from_def Let_def dict_get_def)

lemma resolve_mode_default:
  "valid_mode (dict_get ov ''default'') = Some m \<Longrightarrow>
   (\<And>agents. dict_get ov ''agents'' = PDict agents \<Longrightarrow> valid_mode (dict_get agents agent) = None) \<Longrightarrow>
     resolve_mode_from agent g (Some ov) = m"
  by (auto simp: resolve_mode_from_def Let_def dict_get_def split: pyval.splits option.splits)

lemma resolve_mode_global:
  "valid_mode (dict_get ov ''default'') = None \<Longrightarrow>
   (\<And>agents. dict_get ov ''agents'' = PDict agents \<Longrightarrow> valid_mode (dict_get agents agent) = None) \<Longrightarrow>
     resolve_mode_from agent g (Some ov) = g"
  by (auto simp: resolve_mode_from_def Let_def split: pyval.splits option.splits)

text \<open>
  Two spellings of one repository (through \<open>..\<close>, \<open>.\<close> or a symbolic link) get the same policy.
\<close>

lemma load_overrides_identity:
  "normalize_repo fs b cwd r1 = normalize_repo fs b cwd r2 \<Longrightarrow> r1 \<noteq> [] \<Longrightarrow> r2 \<noteq> [] \<Longrightarrow>
     load_permission_overrides fs b cwd s (Some r1) = load_permission_overrides fs b cwd s (Some r2)"
  by (auto simp: load_permission_overrides_def split: option.splits)

section \<open>Properties\<close>

text \<open>
  Mode resolution is most-specific-wins and never invents a mode: a valid per-agent
  override decides; without one a valid repository default decides; without either the
  global mode does, also when an override names an unknown mode.
\<close>

theorem mode_precedence:
  "resolve_mode_from agent g ov \<in> insert g (set VALID_MODES)
   \<and> (dict_get d ''agents'' = PDict ags \<and> valid_mode (dict_get ags agent) = Some m \<longrightarrow>
        resolve_mode_from agent g (Some d) = m)
   \<and> ((\<forall>as. dict_get d ''agents'' = PDict as \<longrightarrow> valid_mode (dict_get as agent) = None) \<longrightarrow>
        resolve_mode_from agent g (Some d)
          = (case valid_mode (dict_get d ''default'') of Some m \<Rightarrow> m | None \<Rightarrow> g))"
  using resolve_mode_range [of agent g ov] resolve_mode_agent resolve_mode_default
    resolve_mode_global by (auto split: option.split)

theorem mode_precedence_witness:
  "resolve_mode_from ''coder'' ''suggestor''
     (Some [(''default'', PStr ''observer''), (''agents'', PDict [(''coder'', PStr ''autonomous'')])])
   = ''autonomous''"
  using mode_precedence [of "''coder''" "''suggestor''" None
      "[(''default'', PStr ''observer''), (''agents'', PDict [(''coder'', PStr ''autonomous'')])]"
      "[(''coder'', PStr ''autonomous'')]" "''autonomous''"]
  by (simp add: dict_get_def VALID_MODES_def)

end
