(* ===== verification/SafetyEngine.thy ===== *)
theory SafetyEngine
  imports Permissions Blacklist
begin

text \<open>
  The gate of \<open>amop/safety/engine.py\<close> with the protected-path check of
  \<open>amop/safety/protected_paths.py\<close>.  A tool is what the gate reads of a \<open>ToolSpec\<close> (its name
  and whether it mutates), a context what it reads of a \<open>ToolContext\<close>.  The host is the
  symbolic links of the file system, the link budget and the value of the environment
  variable \<open>AMOP_PROTECTED_PATHS_EXTRA\<close>.
\<close>

record host =
  fs_links :: links
  link_budget :: nat
  protected_extra_env :: string

record tool_spec =
  ts_name :: string
  ts_required :: "string list"
  ts_properties :: "(string \<times> string) list"
  ts_mutating :: bool
  ts_timeout_text :: string

record tool_context =
  scratch_dir :: rpath
  ctx_mode :: string
  permission_overrides :: "pydict option"

record decision =
  d_allow :: bool
  d_reason :: "string option"

definition allow :: decision where "allow = \<lparr>d_allow = True, d_reason = None\<rparr>"

definition deny :: "string \<Rightarrow> decision" where
  "deny reason = \<lparr>d_allow = False, d_reason = Some reason\<rparr>"

definition OPERATOR_ONLY_TOOLS :: "string list" where
  "OPERATOR_ONLY_TOOLS = [''merge_pull_request'']"

definition resolve_mode :: "string \<Rightarrow> tool_context \<Rightarrow> string" where
  "resolve_mode agent ctx = resolve_mode_from agent (ctx_mode ctx) (permission_overrides ctx)"

section \<open>Paths\<close>

definition CONTAINER_MOUNT :: string where "CONTAINER_MOUNT = ''/workspace''"

definition strip_container_mount :: "string \<Rightarrow> string" where
  "strip_container_mount path =
     (if path = CONTAINER_MOUNT then []
      else if starts_with path (CONTAINER_MOUNT @ ''/'')
      then drop (length CONTAINER_MOUNT + 1) path
      else path)"

definition resolve_within_scratch ::
    "host \<Rightarrow> string \<Rightarrow> rpath \<Rightarrow> (path_error, rpath option) result" where
  "resolve_within_scratch h path scratch =
     bind_result (walk (fs_links h) (link_budget h) [] scratch) (\<lambda>base.
     bind_result (resolve_from (fs_links h) (link_budget h) base (strip_container_mount path))
       (\<lambda>candidate. Inr (if candidate = base \<or> prefix base candidate then Some candidate else None)))"

definition path_restricted :: "host \<Rightarrow> pydict \<Rightarrow> tool_context \<Rightarrow> (path_error, bool) result" where
  "path_restricted h args ctx =
     (case dict_get args ''path'' of
        PNone \<Rightarrow> Inr False
      | PStr p \<Rightarrow> bind_result (resolve_within_scratch h p (scratch_dir ctx)) (\<lambda>r. Inr (r = None))
      | _ \<Rightarrow> Inl BadArgumentType)"

definition blacklist_match :: "pydict \<Rightarrow> (path_error, bool) result" where
  "blacklist_match args =
     (let command = dict_get args ''command'' in
      if \<not> truthy command then Inr False
      else (case command of
              PStr c \<Rightarrow> Inr (is_blacklisted c \<noteq> None)
            | _ \<Rightarrow> Inl BadArgumentType))"

section \<open>Protected paths\<close>

definition DEFAULT_PROTECTED_PATHS :: "string list" where
  "DEFAULT_PROTECTED_PATHS =
     [''.github/workflows/'', ''.gitlab-ci/'', ''.git/hooks/'', ''.circleci/'', ''Jenkinsfile'']"

definition protected_paths :: "string \<Rightarrow> string list" where
  "protected_paths env =
     DEFAULT_PROTECTED_PATHS
     @ map py_strip (filter (\<lambda>p. py_strip p \<noteq> []) (split_on CHR '','' env))"

definition matches_entry :: "string \<Rightarrow> string \<Rightarrow> bool" where
  "matches_entry relative entry =
     (if ends_with entry ''/'' then
        (let pre = rstrip_char CHR ''/'' entry
         in relative = pre \<or> starts_with relative (pre @ ''/''))
      else relative = entry \<or> ends_with relative (''/'' @ entry))"

text \<open>
  The path the check looks at, or \<open>None\<close> where the code returns \<open>False\<close> before looking at
  any entry.
\<close>

definition protected_relative :: "host \<Rightarrow> pydict \<Rightarrow> tool_context \<Rightarrow> (path_error, string option) result" where
  "protected_relative h args ctx =
     (case dict_get args ''path'' of
        PNone \<Rightarrow> Inr None
      | PStr p \<Rightarrow>
          bind_result (resolve_within_scratch h p (scratch_dir ctx)) (\<lambda>r.
            case r of
              None \<Rightarrow> Inr None
            | Some resolved \<Rightarrow>
                bind_result (walk (fs_links h) (link_budget h) [] (scratch_dir ctx)) (\<lambda>base.
                  Inr (if prefix base resolved
                       then Some (relative_posix (drop (length base) resolved)) else None)))
      | _ \<Rightarrow> Inl BadArgumentType)"

definition protected_path_match :: "host \<Rightarrow> pydict \<Rightarrow> tool_context \<Rightarrow> (path_error, bool) result" where
  "protected_path_match h args ctx =
     bind_result (protected_relative h args ctx) (\<lambda>rel.
       Inr (case rel of
              None \<Rightarrow> False
            | Some relative \<Rightarrow>
                list_ex (matches_entry relative) (protected_paths (protected_extra_env h))))"

section \<open>The gate\<close>

definition evaluate ::
    "host \<Rightarrow> string \<Rightarrow> tool_spec \<Rightarrow> pydict \<Rightarrow> tool_context \<Rightarrow> (path_error, decision) result" where
  "evaluate h agent tool args ctx =
     (let mode = resolve_mode agent ctx in
      bind_result (path_restricted h args ctx) (\<lambda>restricted.
        if restricted then Inr (deny ''path_not_permitted'')
        else if \<not> ts_mutating tool then Inr allow
        else if mode = ''observer'' then Inr (deny ''mode_forbids_mutation'')
        else if ts_name tool \<in> set OPERATOR_ONLY_TOOLS \<and> mode \<notin> {''operator'', ''autonomous''}
        then Inr (deny ''merge_requires_operator'')
        else bind_result (blacklist_match args) (\<lambda>blacklisted.
          if blacklisted then Inr (deny ''blacklisted_command'')
          else bind_result (protected_path_match h args ctx) (\<lambda>protected.
            Inr (if protected then deny ''protected_infrastructure_path'' else allow)))))"

section \<open>Lemmas\<close>

lemma allow_deny [simp]: "d_allow allow" "\<not> d_allow (deny r)" "allow \<noteq> deny r"
  by (simp_all add: allow_def deny_def)

lemma bind_result_InrD:
  "bind_result r f = Inr y \<Longrightarrow> \<exists>x. r = Inr x \<and> f x = Inr y"
  by (cases r) auto

lemma resolve_within_scratch_Some:
  assumes "resolve_within_scratch h p scratch = Inr (Some c)"
  obtains base where "walk (fs_links h) (link_budget h) [] scratch = Inr base"
    and "prefix base c" and "canonical (fs_links h) c"
  using assms resolve_from_canonical
  by (auto simp: resolve_within_scratch_def dest!: bind_result_InrD split: if_splits)

text \<open>Inversion of an allowed call, for every tool and for a mutating one.\<close>

lemma evaluate_allowD:
  assumes "evaluate h agent tool args ctx = Inr d" "d_allow d"
  shows "path_restricted h args ctx = Inr False"
  using assms by (auto simp: evaluate_def Let_def dest!: bind_result_InrD split: if_splits)

lemma evaluate_allow_mutatingD:
  assumes "evaluate h agent tool args ctx = Inr d" "d_allow d" "ts_mutating tool"
  shows "resolve_mode agent ctx \<noteq> ''observer''" and "blacklist_match args = Inr False"
    and "protected_path_match h args ctx = Inr False"
  using assms by (auto simp: evaluate_def Let_def dest!: bind_result_InrD split: if_splits)

lemma path_not_restrictedD:
  assumes "path_restricted h args ctx = Inr False"
  shows "dict_get args ''path'' = PNone \<or>
    (\<exists>p c. dict_get args ''path'' = PStr p \<and>
       resolve_within_scratch h p (scratch_dir ctx) = Inr (Some c))"
  using assms
  by (auto simp: path_restricted_def split: pyval.splits dest!: bind_result_InrD)

lemma default_subset_protected: "set DEFAULT_PROTECTED_PATHS \<subseteq> set (protected_paths env)"
  by (simp add: protected_paths_def)

lemma read_inside_allowed:
  assumes "\<not> ts_mutating tool" "dict_get args ''path'' = PStr p"
    and "resolve_within_scratch h p (scratch_dir ctx) = Inr (Some c)"
  shows "evaluate h agent tool args ctx = Inr allow"
  using assms by (simp add: evaluate_def path_restricted_def Let_def)

text \<open>What a protected directory entry covers: the directory and everything below it.\<close>

lemma matches_directory:
  assumes "entry = join_with ''/'' q @ ''/''" "q \<noteq> []" "last q \<noteq> []" "CHR ''/'' \<notin> set (last q)"
    and "rel = q @ rest"
  shows "matches_entry (relative_posix rel) entry"
proof -
  have snoc: "join_with d (xs @ [x]) = (if xs = [] then x else join_with d xs @ d @ x)" for d x xs
    by (induction d xs rule: join_with.induct) auto
  have app: "join_with d (xs @ y # ys) = join_with d (xs @ [y]) @ (if ys = [] then [] else d @ join_with d ys)"
    for d y and xs ys :: "string list"
  proof (induction d xs rule: join_with.induct)
    case (1 d)
    then show ?case by (cases ys) auto
  next
    case (2 d x)
    then show ?case by (cases ys) auto
  qed auto
  obtain q0 l where q: "q = q0 @ [l]" using assms(2) by (cases q rule: rev_cases) auto
  have l: "l \<noteq> []" "CHR ''/'' \<notin> set l" using assms q by auto
  have "\<exists>u. join_with ''/'' q = u @ l" using q snoc by auto
  then obtain u where u: "join_with ''/'' q = u @ l" ..
  have "rev entry = CHR ''/'' # rev l @ rev u" using assms(1) by (simp add: u)
  moreover have "dropWhile (\<lambda>x. x = CHR ''/'') (rev l @ rev u) = rev l @ rev u"
    using l by (intro dropWhile_cong_hd) (auto simp: hd_append hd_rev dest: last_in_set)
  ultimately have pre: "rstrip_char CHR ''/'' entry = join_with ''/'' q"
    by (simp add: rstrip_char_def u)
  have "relative_posix rel = join_with ''/'' q @ (if rest = [] then [] else ''/'' @ join_with ''/'' rest)"
    using assms(5) q app [of "''/''" q0 l rest] by (auto simp: relative_posix_def)
  then show ?thesis
    using pre assms(1) by (auto simp: matches_entry_def Let_def)
qed

lemma protected_relativeI:
  assumes "dict_get args ''path'' = PStr p" "walk (fs_links h) (link_budget h) [] (scratch_dir ctx) = Inr base"
    and "resolve_within_scratch h p (scratch_dir ctx) = Inr (Some c)"
  shows "protected_relative h args ctx = Inr (Some (relative_posix (drop (length base) c)))"
    and "c = base @ drop (length base) c"
proof -
  from assms(3) obtain b where "walk (fs_links h) (link_budget h) [] (scratch_dir ctx) = Inr b" "prefix b c"
    by (rule resolve_within_scratch_Some)
  then have "prefix base c" using assms(2) by simp
  then show "protected_relative h args ctx = Inr (Some (relative_posix (drop (length base) c)))"
    and "c = base @ drop (length base) c"
    using assms by (auto simp: protected_relative_def prefix_def)
qed

lemma protected_path_not_matched:
  assumes "protected_path_match h args ctx = Inr False"
    and "dict_get args ''path'' = PStr p" "walk (fs_links h) (link_budget h) [] (scratch_dir ctx) = Inr base"
    and "resolve_within_scratch h p (scratch_dir ctx) = Inr (Some c)"
    and "entry \<in> set (protected_paths (protected_extra_env h))"
  shows "\<not> matches_entry (relative_posix (drop (length base) c)) entry"
  using assms(1,5) protected_relativeI [OF assms(2-4)]
  by (auto simp: protected_path_match_def list_ex_iff)

lemma protected_directory:
  assumes "prefix (base @ q) c" "q \<noteq> []" "last q \<noteq> []" "CHR ''/'' \<notin> set (last q)"
  shows "matches_entry (relative_posix (drop (length base) c)) (join_with ''/'' q @ ''/'')"
proof -
  obtain rest where "c = (base @ q) @ rest" using assms(1) by (auto simp: prefix_def)
  then have "drop (length base) c = q @ rest" by simp
  with assms show ?thesis by (intro matches_directory) auto
qed

lemma protected_file:
  assumes "drop (length base) c = rel @ [''Jenkinsfile'']"
  shows "matches_entry (relative_posix (drop (length base) c)) ''Jenkinsfile''"
proof -
  have "join_with ''/'' (xs @ [x]) = (if xs = [] then x else join_with ''/'' xs @ ''/'' @ x)" for x xs
    by (induction "''/''" xs rule: join_with.induct) auto
  then show ?thesis using assms
    by (auto simp: matches_entry_def relative_posix_def suffix_def)
qed

section \<open>Properties\<close>

text \<open>
  C36: Confinement.  No call the gate allows (reading or writing, in any mode, under any
  override) names a path that resolves outside the scratch directory: its path argument is
  absent, or resolves, dot-dots and symbolic links included, to a canonical path below the
  resolved scratch directory.
\<close>

theorem allowed_path_confined:
  assumes "evaluate h agent tool args ctx = Inr d" "d_allow d"
  shows "dict_get args ''path'' = PNone \<or>
    (\<exists>p base c. dict_get args ''path'' = PStr p
       \<and> walk (fs_links h) (link_budget h) [] (scratch_dir ctx) = Inr base
       \<and> resolve_from (fs_links h) (link_budget h) base (strip_container_mount p) = Inr c
       \<and> prefix base c \<and> canonical (fs_links h) c)"
  using path_not_restrictedD [OF evaluate_allowD [OF assms]] resolve_from_canonical
  by (fastforce simp: resolve_within_scratch_def dest!: bind_result_InrD split: if_splits)

definition demo_host :: host where
  "demo_host = \<lparr>fs_links = (\<lambda>p. if p = [''s'', ''out''] then Some ''/etc'' else None),
                link_budget = 8, protected_extra_env = ''infra/, .env''\<rparr>"

definition demo_ctx :: tool_context where
  "demo_ctx = \<lparr>scratch_dir = [''s''], ctx_mode = ''autonomous'', permission_overrides = None\<rparr>"

definition demo_write :: tool_spec where
  "demo_write = \<lparr>ts_name = ''write_file'', ts_required = [''path'', ''content''],
     ts_properties = [(''path'', ''string''), (''content'', ''string'')],
     ts_mutating = True, ts_timeout_text = ''5''\<rparr>"

lemmas demo_eval =
  demo_host_def demo_ctx_def demo_write_def evaluate_def path_restricted_def
  resolve_within_scratch_def resolve_from_def strip_container_mount_def CONTAINER_MOUNT_def
  dict_get_def resolve_mode_def resolve_mode_from_def blacklist_match_def
  protected_path_match_def protected_relative_def protected_paths_def
  DEFAULT_PROTECTED_PATHS_def matches_entry_def relative_posix_def OPERATOR_ONLY_TOOLS_def
  allow_def deny_def Let_def

theorem allowed_path_confined_witness:
  "\<exists>c. resolve_from (fs_links demo_host) 8 [''s''] ''a/../b.py'' = Inr c \<and> prefix [''s''] c"
proof -
  have "evaluate demo_host ''coder'' demo_write [(''path'', PStr ''/workspace/a/../b.py'')] demo_ctx = Inr allow"
    by (simp add: demo_eval py_str_simps)
  from allowed_path_confined [OF this]
  show ?thesis by (simp add: demo_eval)
qed

text \<open>
  C2: The protected infrastructure paths hold in every mode.  A mutating call the gate
  allows does not resolve into \<open>.github/workflows\<close>, \<open>.gitlab-ci\<close>, \<open>.git/hooks\<close> or \<open>.circleci\<close>
  of the scratch directory, nor to a file called \<open>Jenkinsfile\<close> anywhere below it, whatever
  the mode, the overrides, the spelling of the path and the configured extra entries.
\<close>

theorem protected_paths_hold:
  assumes "evaluate h agent tool args ctx = Inr d" "d_allow d" "ts_mutating tool"
    and "dict_get args ''path'' = PStr p" "walk (fs_links h) (link_budget h) [] (scratch_dir ctx) = Inr base"
    and "resolve_within_scratch h p (scratch_dir ctx) = Inr (Some c)"
  shows "(\<forall>q \<in> {[''.github'', ''workflows''], [''.gitlab-ci''], [''.git'', ''hooks''], [''.circleci'']}.
             \<not> prefix (base @ q) c)
         \<and> (\<forall>rel. drop (length base) c \<noteq> rel @ [''Jenkinsfile''])"
proof -
  have no: "\<not> matches_entry (relative_posix (drop (length base) c)) entry"
    if "entry \<in> set DEFAULT_PROTECTED_PATHS" for entry
    using that default_subset_protected evaluate_allow_mutatingD(3) [OF assms(1-3)] assms(4-6)
    by (intro protected_path_not_matched) auto
  have "\<not> prefix (base @ q) c"
    if "q \<in> {[''.github'', ''workflows''], [''.gitlab-ci''], [''.git'', ''hooks''], [''.circleci'']}" for q
    using no [of "join_with ''/'' q @ ''/''"] protected_directory [of base q c] that
    by (auto simp: DEFAULT_PROTECTED_PATHS_def)
  moreover have "drop (length base) c \<noteq> rel @ [''Jenkinsfile'']" for rel
    using no [of "''Jenkinsfile''"] protected_file [of base c rel]
    by (auto simp: DEFAULT_PROTECTED_PATHS_def)
  ultimately show ?thesis by blast
qed

theorem protected_paths_hold_witness:
  "\<not> prefix ([''s''] @ [''.github'', ''workflows'']) [''s'', ''b.py'']"
proof -
  have e: "evaluate demo_host ''coder'' demo_write [(''path'', PStr ''b.py'')] demo_ctx = Inr allow"
    by (simp add: demo_eval py_str_simps)
  have "(\<forall>q \<in> {[''.github'', ''workflows''], [''.gitlab-ci''], [''.git'', ''hooks''], [''.circleci'']}.
           \<not> prefix ([''s''] @ q) [''s'', ''b.py''])
        \<and> (\<forall>rel. drop (length [''s'']) [''s'', ''b.py''] \<noteq> rel @ [''Jenkinsfile''])"
    by (rule protected_paths_hold [OF e, where p = "''b.py''"]) (simp_all add: demo_eval)
  then show ?thesis by blast
qed

text \<open>
  An observer changes nothing: when the resolved mode is \<open>observer\<close> no mutating call is
  allowed, while a read inside the scratch directory is allowed in every mode.
\<close>

theorem observer_read_only:
  "(resolve_mode agent ctx = ''observer'' \<and> ts_mutating tool \<and> evaluate h agent tool args ctx = Inr d
      \<longrightarrow> \<not> d_allow d)
   \<and> (\<not> ts_mutating tool \<and> dict_get args ''path'' = PStr p
        \<and> resolve_within_scratch h p (scratch_dir ctx) = Inr (Some c)
      \<longrightarrow> evaluate h agent tool args ctx = Inr allow)"
  using evaluate_allow_mutatingD(1) read_inside_allowed by blast

theorem observer_read_only_witness:
  "evaluate demo_host ''coder'' (demo_write\<lparr>ts_mutating := False\<rparr>) [(''path'', PStr ''.git/hooks/x'')]
     (demo_ctx\<lparr>ctx_mode := ''observer''\<rparr>) = Inr allow"
  using observer_read_only [of "''coder''" "demo_ctx\<lparr>ctx_mode := ''observer''\<rparr>"
      "demo_write\<lparr>ts_mutating := False\<rparr>" demo_host "[(''path'', PStr ''.git/hooks/x'')]" allow
      "''.git/hooks/x''" "[''s'', ''.git'', ''hooks'', ''x'']"]
  by (simp add: demo_eval)

text \<open>The demonstration host denies what it should: a link out, and a dotted way into the CI directory.\<close>

lemma demo_denials:
  "evaluate demo_host ''coder'' demo_write [(''path'', PStr ''out/passwd'')] demo_ctx
     = Inr (deny ''path_not_permitted'')"
  "evaluate demo_host ''coder'' demo_write
     [(''path'', PStr ''/workspace/a/../.github/workflows/ci.yml'')] demo_ctx
     = Inr (deny ''protected_infrastructure_path'')"
  by (simp_all add: demo_eval py_str_simps)

end
