(* ===== verification/ToolRegistry.thy ===== *)
theory ToolRegistry
  imports SafetyEngine SecretScan
begin

text \<open>
  The tool pipeline of \<open>amop/tools/registry.py\<close> (allowlist, argument check, gate, execution,
  audit) and the audit rows of \<open>amop/audit/actions.py\<close>.  A tool's body is code outside this
  theory: \<open>body name args w\<close> gives what running it in world \<open>w\<close> does.
\<close>

section \<open>Results, rows and contexts\<close>

record tool_result =
  tr_success :: bool
  tr_output :: pyval
  tr_error_code :: "string option"
  tr_message :: "string option"

text \<open>How \<open>asyncio.wait_for(spec.func(...))\<close> can end.\<close>

datatype tool_outcome = Returned tool_result | Raised string | TimedOut

type_synonym 'w tool_body = "string \<Rightarrow> pydict \<Rightarrow> 'w \<Rightarrow> tool_outcome \<times> 'w"

record action_row =
  ac_agent_name :: string
  ac_tool_name :: string
  ac_arguments :: "pydict option"
  ac_result :: "string option"
  ac_decision :: "string option"
  ac_decision_reason :: "string option"

text \<open>
  What the pipeline needs besides the gate's context: whether \<open>ctx.db_session\<close> is set, and
  whether the audit write succeeds (a failed one is logged and dropped).
\<close>

record audit_env =
  has_session :: bool
  audit_write_ok :: bool

definition failure :: "string \<Rightarrow> string option \<Rightarrow> tool_result" where
  "failure code msg =
     \<lparr>tr_success = False, tr_output = PNone, tr_error_code = Some code, tr_message = msg\<rparr>"

section \<open>Audit rows\<close>

definition MAX_RESULT_CHARS :: nat where "MAX_RESULT_CHARS = 2000"

definition opt_text :: "string option \<Rightarrow> string" where
  "opt_text x = (case x of None \<Rightarrow> ''None'' | Some s \<Rightarrow> s)"

definition summarize_result :: "tool_result option \<Rightarrow> string option" where
  "summarize_result result =
     (case result of
        None \<Rightarrow> None
      | Some r \<Rightarrow>
          let rendered =
                (if tr_success r then
                   (let body = (if tr_output r = PNone then [] else py_str (tr_output r))
                    in if body \<noteq> [] then ''OK: '' @ body else ''OK'')
                 else py_strip (opt_text (tr_error_code r) @ '': '' @
                        (case tr_message r of None \<Rightarrow> [] | Some m \<Rightarrow> m)));
              red = redact_secrets rendered
          in Some (if length red > MAX_RESULT_CHARS
                   then take MAX_RESULT_CHARS red @ ''...[truncated ''
                        @ nat_digits (length red - MAX_RESULT_CHARS) @ '' chars]''
                   else red))"

definition record_action ::
    "audit_env \<Rightarrow> string \<Rightarrow> string \<Rightarrow> pydict option \<Rightarrow> string \<Rightarrow> string option \<Rightarrow> tool_result option
     \<Rightarrow> action_row list \<Rightarrow> action_row list" where
  "record_action env agent_name tool_name arguments dec reason result log =
     (if \<not> has_session env then log
      else if audit_write_ok env then
        log @ [\<lparr>ac_agent_name = agent_name, ac_tool_name = tool_name,
                ac_arguments = redact_arguments arguments, ac_result = summarize_result result,
                ac_decision = Some dec, ac_decision_reason = reason\<rparr>]
      else log)"

section \<open>Argument check\<close>

definition type_matches :: "string \<Rightarrow> pyval \<Rightarrow> bool" where
  "type_matches ty v =
     (if ty = ''string'' then (case v of PStr _ \<Rightarrow> True | _ \<Rightarrow> False)
      else if ty = ''object'' then (case v of PDict _ \<Rightarrow> True | _ \<Rightarrow> False)
      else if ty = ''boolean'' then (case v of PBool _ \<Rightarrow> True | _ \<Rightarrow> False)
      else if ty = ''number''
      then (case v of PInt _ \<Rightarrow> True | PFloat _ \<Rightarrow> True | PBool _ \<Rightarrow> True | _ \<Rightarrow> False)
      else True)"

definition validate_args :: "tool_spec \<Rightarrow> pydict \<Rightarrow> string option" where
  "validate_args spec args =
     (case find (\<lambda>k. k \<notin> fst ` set args) (ts_required spec) of
        Some k \<Rightarrow> Some (''missing required argument: '' @ k)
      | None \<Rightarrow>
          (case find (\<lambda>(k, v). case map_of (ts_properties spec) k of
                        None \<Rightarrow> False | Some ty \<Rightarrow> \<not> type_matches ty v) args of
             None \<Rightarrow> None
           | Some (k, v) \<Rightarrow>
               Some (''argument '' @ repr_str k @ '' must be of type ''
                     @ opt_text (map_of (ts_properties spec) k))))"

section \<open>The pipeline\<close>

definition run_body ::
    "audit_env \<Rightarrow> 'w tool_body \<Rightarrow> tool_spec \<Rightarrow> pydict \<Rightarrow> string \<Rightarrow> 'w \<Rightarrow> action_row list
     \<Rightarrow> tool_result \<times> 'w \<times> action_row list" where
  "run_body env body spec args agent w log =
     (let (out, w') = body (ts_name spec) args w;
          result = (case out of
             Returned r \<Rightarrow> r
           | TimedOut \<Rightarrow> failure ''TIMEOUT''
               (Some (ts_name spec @ '' exceeded '' @ ts_timeout_text spec @ ''s''))
           | Raised m \<Rightarrow> failure ''TOOL_ERROR'' (Some m))
      in (result, w',
          record_action env agent (ts_name spec) (Some args) ''ALLOW'' None (Some result) log))"

definition invoke_tool ::
    "host \<Rightarrow> audit_env \<Rightarrow> (string \<rightharpoonup> tool_spec) \<Rightarrow> 'w tool_body \<Rightarrow> string \<Rightarrow> pydict \<Rightarrow> tool_context
     \<Rightarrow> string \<Rightarrow> string list option \<Rightarrow> 'w \<Rightarrow> action_row list
     \<Rightarrow> (path_error, tool_result) result \<times> 'w \<times> action_row list" where
  "invoke_tool h env registry body name args ctx agent allowed w log =
     (case registry name of
        None \<Rightarrow> (Inr (failure ''UNKNOWN_TOOL'' (Some (''No such tool: '' @ name))), w, log)
      | Some spec \<Rightarrow>
          if (case allowed of None \<Rightarrow> False | Some names \<Rightarrow> name \<notin> set names) then
            (let refusal = failure ''TOOL_NOT_PERMITTED''
                   (Some (''agent '' @ repr_str agent @ '' may not call '' @ repr_str name
                          @ '' (permitted: ''
                          @ py_repr (PList (map PStr (sort (case allowed of None \<Rightarrow> [] | Some ns \<Rightarrow> ns))))
                          @ '')''))
             in (Inr refusal, w,
                 record_action env agent name (Some args) ''DENY'' (Some ''tool_not_permitted'')
                   (Some refusal) log))
          else
            (case validate_args spec args of
               Some err \<Rightarrow> (Inr (failure ''INVALID_ARGS'' (Some err)), w, log)
             | None \<Rightarrow>
                 (case evaluate h agent spec args ctx of
                    Inl e \<Rightarrow> (Inl e, w, log)
                  | Inr d \<Rightarrow>
                      if \<not> d_allow d then
                        (let refusal = failure ''DENIED'' (d_reason d)
                         in (Inr refusal, w,
                             record_action env agent name (Some args) ''DENY'' (d_reason d)
                               (Some refusal) log))
                      else
                        (let (r, w', log') = run_body env body spec args agent w log
                         in (Inr r, w', log')))))"

section \<open>Lemmas\<close>

lemma summarize_bound:
  "summarize_result r = Some s \<Longrightarrow>
     length s \<le> MAX_RESULT_CHARS \<or>
     (\<exists>pre n. length pre = MAX_RESULT_CHARS \<and> s = pre @ ''...[truncated '' @ nat_digits n @ '' chars]'')"
  by (fastforce simp: summarize_result_def Let_def split: option.splits if_splits)

lemma record_action_prefix: "prefix log (record_action env a t args d re r log)"
  by (simp add: record_action_def)

text \<open>
  Well-registered: a tool is registered under its own name, as the decorator does.
\<close>

definition registry_ok :: "(string \<rightharpoonup> tool_spec) \<Rightarrow> bool" where
  "registry_ok registry \<longleftrightarrow> (\<forall>n spec. registry n = Some spec \<longrightarrow> ts_name spec = n)"

lemma invoke_tool_not_executed:
  assumes "invoke_tool h env registry body name args ctx agent allowed w log = (r, w', log')"
    and "w' \<noteq> w"
  obtains spec d where "registry name = Some spec"
    and "case allowed of None \<Rightarrow> True | Some names \<Rightarrow> name \<in> set names"
    and "validate_args spec args = None" and "evaluate h agent spec args ctx = Inr d" and "d_allow d"
    and "w' = snd (body (ts_name spec) args w)"
  using assms
  by (fastforce simp: invoke_tool_def run_body_def Let_def case_prod_beta
      split: option.splits if_splits sum.splits)

section \<open>Properties\<close>

text \<open>
  C3: Nothing runs past the gate: if a call changed the world, the tool is registered, the
  agent's allowlist names it, its arguments passed the check, the Safety Engine allowed it,
  and the change is what the tool's body did.
\<close>

theorem effects_only_when_allowed:
  assumes "invoke_tool h env registry body name args ctx agent allowed w log = (r, w', log')" "w' \<noteq> w"
  shows "\<exists>spec d. registry name = Some spec
     \<and> (case allowed of None \<Rightarrow> True | Some names \<Rightarrow> name \<in> set names)
     \<and> validate_args spec args = None \<and> evaluate h agent spec args ctx = Inr d \<and> d_allow d
     \<and> w' = snd (body (ts_name spec) args w)"
  using invoke_tool_not_executed [OF assms] by metis

definition demo_body :: "nat tool_body" where
  "demo_body name args w = (Returned \<lparr>tr_success = True, tr_output = PNone, tr_error_code = None,
     tr_message = None\<rparr>, w + 1)"

definition demo_registry :: "string \<rightharpoonup> tool_spec" where
  "demo_registry = [''write_file'' \<mapsto> demo_write]"

lemma demo_invoke:
  "invoke_tool demo_host \<lparr>has_session = True, audit_write_ok = True\<rparr> demo_registry demo_body
     ''write_file'' [(''path'', PStr ''b.py''), (''content'', PStr ''x'')] demo_ctx ''coder''
     (Some [''write_file'']) 0 log
   = (Inr \<lparr>tr_success = True, tr_output = PNone, tr_error_code = None, tr_message = None\<rparr>, 1,
      record_action \<lparr>has_session = True, audit_write_ok = True\<rparr> ''coder'' ''write_file''
        (Some [(''path'', PStr ''b.py''), (''content'', PStr ''x'')]) ''ALLOW'' None
        (Some \<lparr>tr_success = True, tr_output = PNone, tr_error_code = None, tr_message = None\<rparr>) log)"
  by (simp add: invoke_tool_def demo_registry_def validate_args_def type_matches_def run_body_def
      demo_body_def demo_eval py_str_simps)

theorem effects_only_when_allowed_witness:
  "\<exists>spec d. demo_registry ''write_file'' = Some spec
     \<and> evaluate demo_host ''coder'' spec [(''path'', PStr ''b.py''), (''content'', PStr ''x'')] demo_ctx = Inr d
     \<and> d_allow d"
  using effects_only_when_allowed [OF demo_invoke] by auto

text \<open>
  The audit trail is complete and honest: with a session and a working audit write, a
  call that expressed a coherent intent leaves exactly one new row, an ALLOW row exactly
  when the body ran, a DENY row with the reason when the allowlist or the gate refused.
\<close>

theorem audited_once:
  assumes "has_session env" "audit_write_ok env" "registry name = Some spec"
    and "invoke_tool h env registry body name args ctx agent allowed w log = (Inr r, w', log')"
    and "(\<exists>names. allowed = Some names \<and> name \<notin> set names) \<or> validate_args spec args = None"
  shows "\<exists>row. log' = log @ [row] \<and> ac_agent_name row = agent
     \<and> ac_arguments row = redact_arguments (Some args)
     \<and> ((ac_decision row = Some ''DENY'' \<and> w' = w \<and> ac_decision_reason row \<noteq> None \<and> \<not> tr_success r)
        \<or> (ac_decision row = Some ''ALLOW'' \<and> w' = snd (body (ts_name spec) args w)))"
proof -
  have deny_reason: "d_reason d \<noteq> None"
    if "evaluate h agent spec args ctx = Inr d" "\<not> d_allow d" for d
    using that by (auto simp: evaluate_def Let_def deny_def allow_def dest!: bind_result_InrD
        split: if_splits)
  show ?thesis
    using assms deny_reason
    by (auto simp: invoke_tool_def record_action_def run_body_def failure_def Let_def case_prod_beta
        split: option.splits if_splits sum.splits)
qed

theorem audited_once_witness:
  "\<exists>row. record_action \<lparr>has_session = True, audit_write_ok = True\<rparr> ''coder'' ''write_file''
        (Some [(''path'', PStr ''b.py''), (''content'', PStr ''x'')]) ''ALLOW'' None
        (Some \<lparr>tr_success = True, tr_output = PNone, tr_error_code = None, tr_message = None\<rparr>) []
      = [row] \<and> ac_agent_name row = ''coder''"
  using audited_once [OF _ _ _ demo_invoke [of "[]"], of demo_write]
  by (simp add: demo_registry_def validate_args_def demo_write_def type_matches_def) blast

section \<open>Well-typed calls\<close>

text \<open>The JSON types a tool declares, and what it means that a call fits the declaration.\<close>

fun has_type :: "pyval \<Rightarrow> string \<Rightarrow> bool" where
  "has_type (PStr s) ty \<longleftrightarrow> ty \<notin> {''object'', ''boolean'', ''number''}"
| "has_type (PDict d) ty \<longleftrightarrow> ty \<notin> {''string'', ''boolean'', ''number''}"
| "has_type (PBool b) ty \<longleftrightarrow> ty \<notin> {''string'', ''object''}"
| "has_type (PInt n) ty \<longleftrightarrow> ty \<notin> {''string'', ''object'', ''boolean''}"
| "has_type (PFloat f) ty \<longleftrightarrow> ty \<notin> {''string'', ''object'', ''boolean''}"
| "has_type v ty \<longleftrightarrow> ty \<notin> {''string'', ''object'', ''boolean'', ''number''}"

definition well_typed :: "tool_spec \<Rightarrow> pydict \<Rightarrow> bool" where
  "well_typed spec args \<longleftrightarrow> set (ts_required spec) \<subseteq> fst ` set args \<and>
     (\<forall>(k, v) \<in> set args. case map_of (ts_properties spec) k of None \<Rightarrow> True | Some ty \<Rightarrow> has_type v ty)"

lemma type_matches_iff: "type_matches ty v \<longleftrightarrow> has_type v ty"
  by (cases v) (auto simp: type_matches_def)

lemma validate_args_iff: "validate_args spec args = None \<longleftrightarrow> well_typed spec args"
proof -
  let ?absent = "\<lambda>k. k \<notin> fst ` set args"
  let ?wrong = "\<lambda>(k, v). case map_of (ts_properties spec) k of None \<Rightarrow> False | Some ty \<Rightarrow> \<not> type_matches ty v"
  have "find ?absent (ts_required spec) = None \<longleftrightarrow> set (ts_required spec) \<subseteq> fst ` set args"
    by (simp only: find_None_iff) blast
  moreover have "?wrong p \<longleftrightarrow> \<not> (case p of (k, v) \<Rightarrow>
      case map_of (ts_properties spec) k of None \<Rightarrow> True | Some ty \<Rightarrow> has_type v ty)" for p
    by (simp add: type_matches_iff split: prod.split option.split)
  then have "find ?wrong args = None \<longleftrightarrow> (\<forall>(k, v) \<in> set args.
      case map_of (ts_properties spec) k of None \<Rightarrow> True | Some ty \<Rightarrow> has_type v ty)"
    by (simp only: find_None_iff) blast
  moreover have "validate_args spec args = None \<longleftrightarrow>
      find ?absent (ts_required spec) = None \<and> find ?wrong args = None"
    by (simp add: validate_args_def split: option.split prod.split)
  ultimately show ?thesis by (simp add: well_typed_def)
qed

text \<open>A declared integer is not among the types that are checked.\<close>

lemma integers_unchecked: "type_matches ''integer'' v"
  by (simp add: type_matches_def)



end
