(* ===== verification/AuditContent.thy ===== *)
theory AuditContent
  imports PyValues
begin

text \<open>
  What a row of the audit chain says, as one deterministic string: the serializer of
  \<open>amop/audit/chain.py\<close> over Python's \<open>json.dumps\<close> and \<open>datetime.isoformat\<close>, and the proof
  that two different rows never serialize alike.
\<close>

section \<open>JSON text\<close>

definition json_char :: "char \<Rightarrow> string" where
  "json_char c = (let n = (of_char c :: nat) in
     if c = CHR 0x22 then [CHR 0x5C, CHR 0x22]
     else if c = CHR 0x5C then [CHR 0x5C, CHR 0x5C]
     else if n = 10 then [CHR 0x5C, CHR ''n'']
     else if n = 13 then [CHR 0x5C, CHR ''r'']
     else if n = 9 then [CHR 0x5C, CHR ''t'']
     else if n = 12 then [CHR 0x5C, CHR ''f'']
     else if n = 8 then [CHR 0x5C, CHR ''b'']
     else if n < 32 then [CHR 0x5C, CHR ''u'', CHR ''0'', CHR ''0'', hex_digit (n div 16), hex_digit (n mod 16)]
     else [c])"

definition json_str :: "string \<Rightarrow> string" where
  "json_str s = CHR 0x22 # concat (map json_char s) @ [CHR 0x22]"

text \<open>\<open>json.dumps(v, sort_keys=True, separators=(",", ":"), ensure_ascii=False)\<close>.\<close>

fun json_dump :: "pyval \<Rightarrow> string" where
  "json_dump PNone = ''null''"
| "json_dump (PBool b) = (if b then ''true'' else ''false'')"
| "json_dump (PInt i) = int_str i"
| "json_dump (PFloat f) = f"
| "json_dump (PStr s) = json_str s"
| "json_dump (PList vs) = ''['' @ join_with '','' (map json_dump vs) @ '']''"
| "json_dump (PDict d) =
     ''{'' @ join_with '','' (map (\<lambda>(k, t). json_str k @ '':'' @ t)
                (sort_key fst (map (\<lambda>(k, v). (k, json_dump v)) d))) @ ''}''"

definition serialize :: "pydict \<Rightarrow> string" where
  "serialize fields = json_dump (PDict fields)"

section \<open>Timestamps\<close>

record utc_datetime =
  dt_year :: nat
  dt_month :: nat
  dt_day :: nat
  dt_hour :: nat
  dt_minute :: nat
  dt_second :: nat
  dt_micro :: nat

primrec fixed_digits :: "nat \<Rightarrow> nat \<Rightarrow> string" where
  "fixed_digits 0 n = []"
| "fixed_digits (Suc w) n = fixed_digits w (n div 10) @ [char_of (48 + n mod 10)]"

text \<open>\<open>isoformat()\<close> of an aware UTC datetime; the fraction is printed only when it is not 0.\<close>

definition isoformat :: "utc_datetime \<Rightarrow> string" where
  "isoformat t =
     fixed_digits 4 (dt_year t) @ ''-'' @ fixed_digits 2 (dt_month t) @ ''-''
     @ fixed_digits 2 (dt_day t) @ ''T'' @ fixed_digits 2 (dt_hour t) @ '':''
     @ fixed_digits 2 (dt_minute t) @ '':'' @ fixed_digits 2 (dt_second t)
     @ (if dt_micro t = 0 then [] else ''.'' @ fixed_digits 6 (dt_micro t)) @ ''+00:00''"

text \<open>The ranges \<open>datetime\<close> enforces.\<close>

definition datetime_ok :: "utc_datetime \<Rightarrow> bool" where
  "datetime_ok t \<longleftrightarrow>
     dt_year t < 10000 \<and> dt_month t < 13 \<and> dt_day t < 32 \<and> dt_hour t < 24
     \<and> dt_minute t < 60 \<and> dt_second t < 60 \<and> dt_micro t < 1000000"

section \<open>Rows\<close>

record transition_content =
  tt_task_id :: string
  tt_from_state :: "string option"
  tt_to_state :: string
  tt_trigger :: "string option"
  tt_actor :: "string option"
  tt_timestamp :: utc_datetime

record action_content =
  aa_task_id :: "string option"
  aa_agent_name :: "string option"
  aa_tool_name :: "string option"
  aa_arguments :: "pydict option"
  aa_result :: "string option"
  aa_decision :: "string option"
  aa_decision_reason :: "string option"
  aa_timestamp :: utc_datetime

definition opt_str :: "string option \<Rightarrow> pyval" where
  "opt_str x = (case x of None \<Rightarrow> PNone | Some s \<Rightarrow> PStr s)"

definition canonical_content :: "transition_content \<Rightarrow> string" where
  "canonical_content r = serialize
     [(''task_id'', PStr (tt_task_id r)), (''from_state'', opt_str (tt_from_state r)),
      (''to_state'', PStr (tt_to_state r)), (''trigger'', opt_str (tt_trigger r)),
      (''actor'', opt_str (tt_actor r)), (''timestamp'', PStr (isoformat (tt_timestamp r)))]"

definition agent_action_content :: "action_content \<Rightarrow> string" where
  "agent_action_content r = serialize
     [(''task_id'', opt_str (aa_task_id r)), (''agent_name'', opt_str (aa_agent_name r)),
      (''tool_name'', opt_str (aa_tool_name r)),
      (''arguments'', (case aa_arguments r of None \<Rightarrow> PNone | Some d \<Rightarrow> PDict d)),
      (''result'', opt_str (aa_result r)), (''decision'', opt_str (aa_decision r)),
      (''decision_reason'', opt_str (aa_decision_reason r)),
      (''timestamp'', PStr (isoformat (aa_timestamp r)))]"

section \<open>The serialization loses nothing\<close>

lemma hex_digit_inj: "m < 16 \<Longrightarrow> n < 16 \<Longrightarrow> hex_digit m = hex_digit n \<Longrightarrow> m = n"
  unfolding hex_digit_def by (drule arg_cong [where f = "of_char :: char \<Rightarrow> nat"])
    (auto split: if_splits)

lemma of_char_inj: "(of_char c :: nat) = of_char d \<Longrightarrow> c = d"
  by (metis char_of_char)

lemma of_char_inj_at: "of_char c = n \<Longrightarrow> of_char d = (n::nat) \<Longrightarrow> c = d"
  by (rule of_char_inj) simp

lemma hex_pair_inj:
  assumes "m < 32" "n < 32" "hex_digit (m div 16) = hex_digit (n div 16)"
    "hex_digit (m mod 16) = hex_digit (n mod 16)"
  shows "m = (n::nat)"
proof -
  have "m div 16 = n div 16" using assms by (intro hex_digit_inj) auto
  moreover have "m mod 16 = n mod 16" using assms by (intro hex_digit_inj) auto
  ultimately show ?thesis by (metis div_mult_mod_eq)
qed

text \<open>Reading one escaped character determines it and the rest; none is a bare quote.\<close>

lemma json_char_not_quote: "json_char c @ u \<noteq> CHR 0x22 # v"
  by (auto simp: json_char_def Let_def)

lemma json_char_unique: "json_char c @ u = json_char d @ v \<Longrightarrow> c = d \<and> u = v"
  by (auto simp: json_char_def Let_def dest: hex_pair_inj of_char_inj of_char_inj_at split: if_splits)

lemma json_chars_unique:
  "concat (map json_char s) @ CHR 0x22 # u = concat (map json_char t) @ CHR 0x22 # v \<Longrightarrow>
     s = t \<and> u = v"
proof (induction s arbitrary: t)
  case Nil
  then show ?case using json_char_not_quote by (cases t) (auto, metis)
next
  case (Cons c s)
  show ?case
  proof (cases t)
    case Nil
    with Cons.prems json_char_not_quote show ?thesis by auto
  next
    case (Cons d t')
    with Cons.prems have "json_char c @ concat (map json_char s) @ CHR 0x22 # u
        = json_char d @ concat (map json_char t') @ CHR 0x22 # v" by simp
    from json_char_unique [OF this] Cons Cons.IH show ?thesis by auto
  qed
qed

lemma json_str_unique: "json_str s @ u = json_str t @ v \<Longrightarrow> s = t \<and> u = v"
  using json_chars_unique [of s u t v] by (simp add: json_str_def)

lemma opt_json_unique:
  "json_dump (opt_str x) @ u = json_dump (opt_str y) @ v \<Longrightarrow> x = y \<and> u = v"
  by (auto simp: opt_str_def json_str_def dest: json_chars_unique split: option.splits)

lemma fixed_digits_length [simp]: "length (fixed_digits w n) = w"
  by (induction w arbitrary: n) simp_all

lemma digit_char_inj: "m < 10 \<Longrightarrow> n < 10 \<Longrightarrow> char_of (48 + m) = (char_of (48 + n) :: char) \<Longrightarrow> m = (n::nat)"
  by (drule arg_cong [where f = "of_char :: char \<Rightarrow> nat"]) auto

lemma fixed_digits_inj:
  "m < 10 ^ w \<Longrightarrow> n < 10 ^ w \<Longrightarrow> fixed_digits w m = fixed_digits w n \<Longrightarrow> m = n"
proof (induction w arbitrary: m n)
  case (Suc w)
  have "m div 10 = n div 10" using Suc by (intro Suc.IH) (auto simp: less_mult_imp_div_less mult.commute)
  moreover have "m mod 10 = n mod 10" using Suc.prems by (intro digit_char_inj) auto
  ultimately show ?case by (metis div_mult_mod_eq)
qed simp

lemma isoformat_inj:
  assumes "datetime_ok s" "datetime_ok t" "isoformat s = isoformat t"
  shows "s = t"
proof -
  have tail: "dt_micro s = dt_micro t"
    if "(if dt_micro s = 0 then [] else ''.'' @ fixed_digits 6 (dt_micro s)) @ ''+00:00''
      = (if dt_micro t = 0 then [] else ''.'' @ fixed_digits 6 (dt_micro t)) @ ''+00:00''"
    using that assms(1,2) fixed_digits_inj [of "dt_micro s" 6 "dt_micro t"]
    by (auto simp: datetime_ok_def split: if_splits)
  show ?thesis
    using assms(3) tail assms(1,2)
    unfolding isoformat_def
    by (cases s; cases t) (auto simp: datetime_ok_def intro: fixed_digits_inj [of _ 4] fixed_digits_inj [of _ 2])
qed

lemma canonical_content_text:
  "canonical_content r =
     ''{\"actor\":'' @ json_dump (opt_str (tt_actor r)) @ '',\"from_state\":''
     @ json_dump (opt_str (tt_from_state r)) @ '',\"task_id\":'' @ json_str (tt_task_id r)
     @ '',\"timestamp\":'' @ json_str (isoformat (tt_timestamp r)) @ '',\"to_state\":''
     @ json_str (tt_to_state r) @ '',\"trigger\":'' @ json_dump (opt_str (tt_trigger r)) @ ''}''"
  by (simp add: canonical_content_def serialize_def json_str_def json_char_def)

text \<open>
  Reading a field off the front of two equal texts, as rewrite rules: equal rows are found
  field by field.
\<close>

lemma json_str_iff: "json_str s @ u = json_str t @ v \<longleftrightarrow> s = t \<and> u = v"
  by (blast dest: json_str_unique)

lemma opt_json_iff:
  "json_dump (opt_str x) @ u = json_dump (opt_str y) @ v \<longleftrightarrow> x = y \<and> u = v"
  by (blast dest: opt_json_unique)

lemma opt_json_last_iff: "json_dump (opt_str x) = json_dump (opt_str y) \<longleftrightarrow> x = y"
  using opt_json_iff [of x "[]" y "[]"] by simp

lemmas json_field_iffs = json_str_iff opt_json_iff opt_json_last_iff

lemma canonical_content_inj:
  assumes "datetime_ok (tt_timestamp r)" "datetime_ok (tt_timestamp s)"
    and "canonical_content r = canonical_content s"
  shows "r = s"
proof -
  have "isoformat (tt_timestamp r) = isoformat (tt_timestamp s) \<Longrightarrow> tt_timestamp r = tt_timestamp s"
    by (rule isoformat_inj [OF assms(1,2)])
  then show ?thesis
    using assms(3) unfolding canonical_content_text by (simp add: json_field_iffs)
qed

end
