(* ===== verification/AuditChain.thy ===== *)
theory AuditChain
  imports AuditContent "HOL-Library.Multiset"
begin

text \<open>
  The hash chain over \<open>task_transitions\<close> and \<open>agent_actions\<close>: \<open>amop/audit/chain.py\<close>.  The
  database part is the two tables and the sequences that number their rows.  SHA-256 is the
  parameter \<open>H\<close> (from the hashed text to the hex digest); what is proved about tampering
  says either that it is detected or names a collision of \<open>H\<close>.

  The advisory lock the code takes around an append makes an append one atomic step; here
  an append is one function application.
\<close>

section \<open>Rows of the chained tables\<close>

datatype content = Transition transition_content | Action action_content

record chained_row =
  cr_id :: nat
  cr_content :: content
  cr_chain_pos :: "int option"
  cr_prev_hash :: "string option"
  cr_row_hash :: "string option"

record audit_db =
  task_transitions :: "chained_row list"
  agent_actions :: "chained_row list"
  next_transition_id :: nat
  next_action_id :: nat
  chain_pos_seq :: int

definition GENESIS_HASH :: string where "GENESIS_HASH = ''amop:genesis:v1''"

fun content_of :: "content \<Rightarrow> string" where
  "content_of (Transition r) = canonical_content r"
| "content_of (Action r) = agent_action_content r"

fun table_name :: "content \<Rightarrow> string" where
  "table_name (Transition r) = ''task_transitions''"
| "table_name (Action r) = ''agent_actions''"

definition compute_row_hash :: "(string \<Rightarrow> string) \<Rightarrow> string \<Rightarrow> string \<Rightarrow> string" where
  "compute_row_hash H prev_hash text = H (prev_hash @ [CHR 0x1E] @ text)"

definition hash_for_row :: "(string \<Rightarrow> string) \<Rightarrow> content \<Rightarrow> string \<Rightarrow> string" where
  "hash_for_row H c prev_hash = compute_row_hash H prev_hash (content_of c)"

section \<open>Chain order\<close>

text \<open>
  The sort key \<open>(0, id)\<close> or \<open>(1, chain_pos)\<close>: rows without a position are older than every
  positioned row.
\<close>

datatype chain_key = Legacy nat | Positioned int

instantiation chain_key :: linorder
begin

fun less_eq_chain_key :: "chain_key \<Rightarrow> chain_key \<Rightarrow> bool" where
  "less_eq_chain_key (Legacy m) (Legacy n) = (m \<le> n)"
| "less_eq_chain_key (Legacy m) (Positioned q) = True"
| "less_eq_chain_key (Positioned p) (Legacy n) = False"
| "less_eq_chain_key (Positioned p) (Positioned q) = (p \<le> q)"

definition less_chain_key :: "chain_key \<Rightarrow> chain_key \<Rightarrow> bool" where
  "less_chain_key a b \<longleftrightarrow> a \<le> b \<and> \<not> b \<le> a"

instance
proof
  fix x y z :: chain_key
  show "x < y \<longleftrightarrow> x \<le> y \<and> \<not> y \<le> x" by (rule less_chain_key_def)
  show "x \<le> x" by (cases x) simp_all
  show "x \<le> y \<Longrightarrow> y \<le> z \<Longrightarrow> x \<le> z" by (cases x; cases y; cases z) simp_all
  show "x \<le> y \<Longrightarrow> y \<le> x \<Longrightarrow> x = y" by (cases x; cases y) simp_all
  show "x \<le> y \<or> y \<le> x" by (cases x; cases y) auto
qed

end

definition row_key :: "chained_row \<Rightarrow> chain_key" where
  "row_key r = (case cr_chain_pos r of None \<Rightarrow> Legacy (cr_id r) | Some p \<Rightarrow> Positioned p)"

definition all_rows_in_chain_order :: "audit_db \<Rightarrow> chained_row list" where
  "all_rows_in_chain_order db =
     sort_key row_key
       (sort_key cr_id (task_transitions db) @ sort_key cr_id (agent_actions db))"

text \<open>
  One table's newest hashed row (\<open>ORDER BY ... DESC LIMIT 1\<close>), and the better of the two
  tables, the second one winning only with a strictly greater key.
\<close>

definition table_tip :: "chained_row list \<Rightarrow> (chain_key \<times> string option) option" where
  "table_tip rows =
     (case filter (\<lambda>r. cr_row_hash r \<noteq> None) rows of
        [] \<Rightarrow> None
      | r # rs \<Rightarrow>
          let best = fold (\<lambda>x b. if row_key x > row_key b then x else b) rs r
          in Some (row_key best, cr_row_hash best))"

definition current_tip_hash :: "audit_db \<Rightarrow> string" where
  "current_tip_hash db =
     (let best = (case (table_tip (task_transitions db), table_tip (agent_actions db)) of
                    (None, t) \<Rightarrow> t
                  | (t, None) \<Rightarrow> t
                  | (Some (k1, h1), Some (k2, h2)) \<Rightarrow>
                      if k2 > k1 then Some (k2, h2) else Some (k1, h1))
      in (case best of
            Some (_, Some h) \<Rightarrow> if h = [] then GENESIS_HASH else h
          | _ \<Rightarrow> GENESIS_HASH))"

section \<open>Appending\<close>

definition insert_row :: "content \<Rightarrow> int \<Rightarrow> string \<Rightarrow> string \<Rightarrow> audit_db \<Rightarrow> audit_db" where
  "insert_row c pos prev hash db =
     (case c of
        Transition _ \<Rightarrow>
          db\<lparr>task_transitions := task_transitions db @
               [\<lparr>cr_id = next_transition_id db, cr_content = c, cr_chain_pos = Some pos,
                 cr_prev_hash = Some prev, cr_row_hash = Some hash\<rparr>],
             next_transition_id := next_transition_id db + 1\<rparr>
      | Action _ \<Rightarrow>
          db\<lparr>agent_actions := agent_actions db @
               [\<lparr>cr_id = next_action_id db, cr_content = c, cr_chain_pos = Some pos,
                 cr_prev_hash = Some prev, cr_row_hash = Some hash\<rparr>],
             next_action_id := next_action_id db + 1\<rparr>)"

text \<open>\<open>append_chained\<close>: read the tip, draw a position, stamp the row, insert it.\<close>

definition append_chained :: "(string \<Rightarrow> string) \<Rightarrow> content \<Rightarrow> audit_db \<Rightarrow> audit_db" where
  "append_chained H c db =
     (let prev = current_tip_hash db; pos = chain_pos_seq db
      in insert_row c pos prev (hash_for_row H c prev) (db\<lparr>chain_pos_seq := pos + 1\<rparr>))"

section \<open>Verifying\<close>

record verification_result =
  v_intact :: bool
  v_checked :: nat
  v_tip_hash :: "string option"
  v_divergence_id :: "nat option"
  v_divergence_table :: "string option"
  v_reason :: "string option"
  v_unchained :: nat

definition opt_repr :: "string option \<Rightarrow> string" where
  "opt_repr x = (case x of None \<Rightarrow> ''None'' | Some s \<Rightarrow> repr_str s)"

definition divergence :: "nat \<Rightarrow> nat \<Rightarrow> chained_row \<Rightarrow> string \<Rightarrow> verification_result" where
  "divergence unchained checked row reason =
     \<lparr>v_intact = False, v_checked = checked, v_tip_hash = None,
      v_divergence_id = Some (cr_id row),
      v_divergence_table = Some (table_name (cr_content row)),
      v_reason = Some reason, v_unchained = unchained\<rparr>"

fun verify_rows ::
    "(string \<Rightarrow> string) \<Rightarrow> nat \<Rightarrow> string \<Rightarrow> nat \<Rightarrow> chained_row list \<Rightarrow> verification_result" where
  "verify_rows H unchained prev checked [] =
     \<lparr>v_intact = True, v_checked = checked,
      v_tip_hash = (if checked \<noteq> 0 then Some prev else None),
      v_divergence_id = None, v_divergence_table = None, v_reason = None,
      v_unchained = unchained\<rparr>"
| "verify_rows H unchained prev checked (row # rows) =
     (let who = table_name (cr_content row) @ '' row '' @ nat_digits (cr_id row);
          stored = (case cr_row_hash row of None \<Rightarrow> [] | Some h \<Rightarrow> h) in
      if cr_prev_hash row \<noteq> Some prev then
        divergence unchained checked row
          (who @ '' claims prev_hash='' @ opt_repr (cr_prev_hash row)
           @ '' but the preceding row's hash is '' @ repr_str prev
           @ '' -- the chain was broken, reordered, or rows were deleted at this point'')
      else
        (let expected = hash_for_row H (cr_content row) prev in
         if Some expected \<noteq> cr_row_hash row then
           divergence unchained checked row
             (who @ ''s content does not match its stored hash (stored '' @ take 16 stored
              @ ''..., recomputed '' @ take 16 expected
              @ ''...) -- this row was altered after it was written'')
         else verify_rows H unchained expected (checked + 1) rows))"

definition verify_chain :: "(string \<Rightarrow> string) \<Rightarrow> audit_db \<Rightarrow> verification_result" where
  "verify_chain H db =
     (let rows = all_rows_in_chain_order db;
          unchained = length (filter (\<lambda>r. cr_row_hash r = None) rows);
          chained = filter (\<lambda>r. cr_row_hash r \<noteq> None) rows
      in verify_rows H unchained GENESIS_HASH 0 chained)"

definition chain_tip :: "audit_db \<Rightarrow> string" where
  "chain_tip db = current_tip_hash db"

section \<open>Backfilling\<close>

record backfill_state =
  bf_prev :: string
  bf_filled :: nat
  bf_positioned :: nat
  bf_legacy_pos :: int
  bf_seq :: int

text \<open>One row of the backfill loop: the row as left behind, and the loop state after it.\<close>

definition backfill_row ::
    "(string \<Rightarrow> string) \<Rightarrow> chained_row \<Rightarrow> backfill_state \<Rightarrow> chained_row \<times> backfill_state" where
  "backfill_row H row st =
     (case cr_row_hash row of
        None \<Rightarrow>
          (let (pos, seq) = (case cr_chain_pos row of
                               None \<Rightarrow> (bf_seq st, bf_seq st + 1)
                             | Some p \<Rightarrow> (p, bf_seq st));
               h = hash_for_row H (cr_content row) (bf_prev st)
           in (row\<lparr>cr_chain_pos := Some pos, cr_prev_hash := Some (bf_prev st),
                   cr_row_hash := Some h\<rparr>,
               st\<lparr>bf_prev := h, bf_filled := bf_filled st + 1, bf_seq := seq\<rparr>))
      | Some h \<Rightarrow>
          if cr_chain_pos row = None then
            (row\<lparr>cr_chain_pos := Some (bf_legacy_pos st + 1)\<rparr>,
             st\<lparr>bf_prev := h, bf_legacy_pos := bf_legacy_pos st + 1,
                bf_positioned := bf_positioned st + 1\<rparr>)
          else (row, st\<lparr>bf_prev := h\<rparr>))"

fun backfill_rows ::
    "(string \<Rightarrow> string) \<Rightarrow> chained_row list \<Rightarrow> backfill_state \<Rightarrow> chained_row list \<times> backfill_state" where
  "backfill_rows H [] st = ([], st)"
| "backfill_rows H (row # rows) st =
     (let (row', st') = backfill_row H row st; (rows', st'') = backfill_rows H rows st'
      in (row' # rows', st''))"

fun is_transition :: "chained_row \<Rightarrow> bool" where
  "is_transition r = (case cr_content r of Transition _ \<Rightarrow> True | Action _ \<Rightarrow> False)"

definition backfill_chain :: "(string \<Rightarrow> string) \<Rightarrow> audit_db \<Rightarrow> audit_db \<times> (nat \<times> nat)" where
  "backfill_chain H db =
     (let rows = all_rows_in_chain_order db;
          legacy = length (filter (\<lambda>r. cr_row_hash r \<noteq> None \<and> cr_chain_pos r = None) rows);
          st = \<lparr>bf_prev = GENESIS_HASH, bf_filled = 0, bf_positioned = 0,
                bf_legacy_pos = - int legacy - 1, bf_seq = chain_pos_seq db\<rparr>;
          (rows', st') = backfill_rows H rows st
      in (db\<lparr>task_transitions := filter is_transition rows',
             agent_actions := filter (\<lambda>r. \<not> is_transition r) rows',
             chain_pos_seq := bf_seq st'\<rparr>,
          (bf_filled st', bf_positioned st')))"

section \<open>Linked sequences of rows\<close>

text \<open>What the verification loop checks, as a predicate, and the hash it ends on.\<close>

fun linked :: "(string \<Rightarrow> string) \<Rightarrow> string \<Rightarrow> chained_row list \<Rightarrow> bool" where
  "linked H prev [] = True"
| "linked H prev (r # rs) =
     (cr_prev_hash r = Some prev \<and> cr_row_hash r = Some (hash_for_row H (cr_content r) prev)
      \<and> linked H (hash_for_row H (cr_content r) prev) rs)"

fun end_hash :: "(string \<Rightarrow> string) \<Rightarrow> string \<Rightarrow> content list \<Rightarrow> string" where
  "end_hash H prev [] = prev"
| "end_hash H prev (c # cs) = end_hash H (hash_for_row H c prev) cs"

definition chained :: "audit_db \<Rightarrow> chained_row list" where
  "chained db = filter (\<lambda>r. cr_row_hash r \<noteq> None) (all_rows_in_chain_order db)"

definition contents :: "audit_db \<Rightarrow> content list" where
  "contents db = map cr_content (chained db)"

lemma end_hash_append [simp]: "end_hash H p (cs @ ds) = end_hash H (end_hash H p cs) ds"
  by (induction cs arbitrary: p) simp_all

lemma linked_append [simp]:
  "linked H p (rs @ ss) \<longleftrightarrow> linked H p rs \<and> linked H (end_hash H p (map cr_content rs)) ss"
  by (induction rs arbitrary: p) auto

lemma linked_last_hash:
  "linked H p rs \<Longrightarrow> rs \<noteq> [] \<Longrightarrow>
     cr_row_hash (last rs) = Some (end_hash H p (map cr_content rs))"
proof (induction rs arbitrary: p)
  case (Cons r rs)
  then show ?case by (cases "rs = []") simp_all
qed simp

lemma verify_rows_intact: "v_intact (verify_rows H u p n rs) \<longleftrightarrow> linked H p rs"
  by (induction rs arbitrary: p n) (auto simp: divergence_def Let_def)

lemma verify_rows_linked:
  "linked H p rs \<Longrightarrow> verify_rows H u p n rs =
     \<lparr>v_intact = True, v_checked = n + length rs,
      v_tip_hash = (if n + length rs \<noteq> 0 then Some (end_hash H p (map cr_content rs)) else None),
      v_divergence_id = None, v_divergence_table = None, v_reason = None, v_unchained = u\<rparr>"
  by (induction rs arbitrary: p n) (simp_all add: Let_def)

text \<open>The first bad row is the one reported: verification of a linked prefix goes on.\<close>

lemma verify_rows_append:
  "linked H p rs \<Longrightarrow>
     verify_rows H u p n (rs @ ss) = verify_rows H u (end_hash H p (map cr_content rs)) (n + length rs) ss"
  by (induction rs arbitrary: p n) (simp_all add: Let_def)

lemma verify_rows_bad:
  assumes "cr_prev_hash r \<noteq> Some p \<or> cr_row_hash r \<noteq> Some (hash_for_row H (cr_content r) p)"
  shows "\<exists>why. verify_rows H u p n (r # rs) = divergence u n r why"
  using assms by (auto simp: Let_def)

lemma verify_chain_intact:
  "v_intact (verify_chain H db) \<longleftrightarrow> linked H GENESIS_HASH (chained db)"
  by (simp add: verify_chain_def chained_def verify_rows_intact Let_def)

section \<open>Collisions\<close>

text \<open>
  SHA-256 digests are 64 characters; nothing else about \<open>H\<close> is assumed anywhere.
\<close>

definition digest :: "(string \<Rightarrow> string) \<Rightarrow> bool" where
  "digest H \<longleftrightarrow> (\<forall>x. length (H x) = 64 \<and> CHR 0x1E \<notin> set (H x))"

definition collision :: "(string \<Rightarrow> string) \<Rightarrow> bool" where
  "collision H \<longleftrightarrow> (\<exists>x y. x \<noteq> y \<and> H x = H y)"

lemma separator_unique:
  "a @ x # b = c @ x # d \<Longrightarrow> x \<notin> set a \<Longrightarrow> x \<notin> set c \<Longrightarrow> a = c \<and> b = d"
proof (induction a arbitrary: c)
  case Nil
  then show ?case by (cases c) auto
next
  case (Cons y a)
  then show ?case by (cases c) auto
qed

text \<open>A hash taken from the chain: genesis or a digest.\<close>

definition chain_hash :: "(string \<Rightarrow> string) \<Rightarrow> string \<Rightarrow> bool" where
  "chain_hash H h \<longleftrightarrow> h = GENESIS_HASH \<or> h \<in> range H"

lemma chain_hash_intros [simp, intro]:
  "chain_hash H GENESIS_HASH" "chain_hash H (hash_for_row H c p)"
  by (auto simp: chain_hash_def hash_for_row_def compute_row_hash_def)

lemma chain_hash_no_sep: "digest H \<Longrightarrow> chain_hash H h \<Longrightarrow> CHR 0x1E \<notin> set h"
  by (auto simp: chain_hash_def digest_def GENESIS_HASH_def)

lemma hash_for_row_inj:
  assumes "digest H" "\<not> collision H" "chain_hash H p" "chain_hash H q"
    and "hash_for_row H c p = hash_for_row H d q"
  shows "p = q \<and> content_of c = content_of d"
proof -
  have "p @ CHR 0x1E # content_of c = q @ CHR 0x1E # content_of d"
    using assms(2,5) by (auto simp: collision_def hash_for_row_def compute_row_hash_def)
  then show ?thesis using assms(1,3,4) by (intro separator_unique) (auto dest: chain_hash_no_sep)
qed

lemma hash_not_genesis: "digest H \<Longrightarrow> hash_for_row H c p \<noteq> GENESIS_HASH"
proof
  assume "digest H" "hash_for_row H c p = GENESIS_HASH"
  then have "length GENESIS_HASH = 64"
    unfolding digest_def hash_for_row_def compute_row_hash_def by metis
  then show False by (simp add: GENESIS_HASH_def)
qed

lemma end_hash_chain: "chain_hash H p \<Longrightarrow> chain_hash H (end_hash H p cs)"
  by (induction cs arbitrary: p) auto

text \<open>Two chains with the same tip are the same chain, or the hash collides.\<close>

lemma end_hash_inj:
  assumes "digest H" "\<not> collision H"
  shows "end_hash H GENESIS_HASH cs = end_hash H GENESIS_HASH ds \<Longrightarrow>
           map content_of cs = map content_of ds"
proof (induction cs arbitrary: ds rule: rev_induct)
  case Nil
  then show ?case using hash_not_genesis [OF assms(1)] by (cases ds rule: rev_cases) (auto, metis)
next
  case (snoc c cs)
  show ?case
  proof (cases ds rule: rev_cases)
    case Nil
    with snoc.prems hash_not_genesis [OF assms(1)] show ?thesis by simp
  next
    case (snoc ds' d)
    with snoc.prems have "hash_for_row H c (end_hash H GENESIS_HASH cs)
        = hash_for_row H d (end_hash H GENESIS_HASH ds')" by simp
    then have "end_hash H GENESIS_HASH cs = end_hash H GENESIS_HASH ds' \<and> content_of c = content_of d"
      using assms by (intro hash_for_row_inj) (auto intro: end_hash_chain)
    with snoc snoc.IH show ?thesis by simp
  qed
qed

section \<open>Sorting and the tip\<close>

lemma sort_key_max:
  assumes "\<And>y. y \<in> set xs \<Longrightarrow> f y < f x" "\<And>y. y \<in> set ys \<Longrightarrow> f y < (f x :: 'k::linorder)"
  shows "sort_key f (xs @ x # ys) = sort_key f (xs @ ys) @ [x]"
proof (rule properties_for_sort_key)
  show "mset (sort_key f (xs @ ys) @ [x]) = mset (xs @ x # ys)" by simp
  show "sorted (map f (sort_key f (xs @ ys) @ [x]))"
    using assms by (auto simp: sorted_append less_imp_le)
  fix k assume k: "k \<in> set (sort_key f (xs @ ys) @ [x])"
  show "filter (\<lambda>y. f k = f y) (sort_key f (xs @ ys) @ [x]) = filter (\<lambda>y. f k = f y) (xs @ x # ys)"
  proof (cases "k = x")
    case True
    then have "filter (\<lambda>y. f k = f y) xs = []" "filter (\<lambda>y. f k = f y) ys = []"
      using assms by (force simp: filter_empty_conv)+
    then show ?thesis using True by (simp add: filter_sort)
  next
    case False
    then have "f k < f x" using k assms by auto
    then have "f x \<noteq> f k" by simp
    moreover have "(\<lambda>y. f k = f y) = (\<lambda>y. f y = f k)" by auto
    ultimately show ?thesis by (simp add: sort_key_stable del: sort_key_simps)
  qed
qed

text \<open>The newest row of a table: a row with a hash whose key no other exceeds.\<close>

lemma fold_max:
  "let b = fold (\<lambda>x b. if g x > g b then x else b) rs r in
     b \<in> set (r # rs) \<and> (\<forall>y \<in> set (r # rs). g y \<le> (g b :: 'k::linorder))"
proof (induction rs arbitrary: r)
  case (Cons x rs)
  show ?case using Cons.IH [of "if g x > g r then x else r"]
    by (force simp: Let_def not_less split: if_splits)
qed simp

lemma table_tip_None: "table_tip rows = None \<longleftrightarrow> (\<forall>r \<in> set rows. cr_row_hash r = None)"
proof -
  have "table_tip rows = None \<longleftrightarrow> filter (\<lambda>r. cr_row_hash r \<noteq> None) rows = []"
    unfolding table_tip_def Let_def by (simp split: list.split)
  also have "\<dots> \<longleftrightarrow> (\<forall>r \<in> set rows. cr_row_hash r = None)" by (simp only: filter_empty_conv) auto
  finally show ?thesis .
qed

lemma table_tip_Some:
  assumes "table_tip rows = Some (k, h)"
  obtains r where "r \<in> set rows" "cr_row_hash r \<noteq> None" "row_key r = k" "cr_row_hash r = h"
    and "\<And>s. s \<in> set rows \<Longrightarrow> cr_row_hash s \<noteq> None \<Longrightarrow> row_key s \<le> k"
proof -
  let ?f = "filter (\<lambda>r. cr_row_hash r \<noteq> None) rows"
  obtain r rs where f: "?f = r # rs" using assms by (auto simp: table_tip_def split: list.splits)
  let ?b = "fold (\<lambda>x b. if row_key x > row_key b then x else b) rs r"
  have b: "row_key ?b = k" "cr_row_hash ?b = h"
    using assms f by (simp_all add: table_tip_def Let_def)
  have m: "?b \<in> set ?f" "\<forall>y \<in> set ?f. row_key y \<le> row_key ?b"
    using fold_max [of row_key rs r] unfolding f Let_def by auto
  show ?thesis
    by (rule that [of ?b]) (use m b in auto)
qed

lemma set_all_rows [simp]:
  "set (all_rows_in_chain_order db) = set (task_transitions db) \<union> set (agent_actions db)"
  by (simp add: all_rows_in_chain_order_def)

lemma set_chained:
  "set (chained db) = {r \<in> set (task_transitions db) \<union> set (agent_actions db). cr_row_hash r \<noteq> None}"
  by (auto simp: chained_def)

lemma sorted_chained: "sorted (map row_key (chained db))"
  by (simp add: chained_def all_rows_in_chain_order_def sorted_filter)

lemma last_chained_max: "r \<in> set (chained db) \<Longrightarrow> row_key r \<le> row_key (last (chained db))"
proof (cases "chained db" rule: rev_cases)
  case (snoc ys y)
  then show "r \<in> set (chained db) \<Longrightarrow> ?thesis"
    using sorted_chained [of db] by (auto simp: sorted_append)
qed simp

text \<open>With distinct keys the tip the append reads is the hash of the last row in chain order.\<close>

lemma current_tip_last:
  assumes "distinct (map row_key (chained db))" and "chained db \<noteq> []"
    and "\<And>r. r \<in> set (chained db) \<Longrightarrow> cr_row_hash r \<noteq> Some []"
  shows "Some (current_tip_hash db) = cr_row_hash (last (chained db))"
proof -
  define l where "l = last (chained db)"
  have l: "l \<in> set (chained db)" using assms(2) by (simp add: l_def)
  have max: "row_key r \<le> row_key l" if "r \<in> set (chained db)" for r
    using last_chained_max [OF that] by (simp add: l_def)
  have uniq: "r = l" if "r \<in> set (chained db)" "row_key l \<le> row_key r" for r
    using assms(1) that max [OF that(1)] l by (auto simp: distinct_map dest: inj_onD)
  have tip: "h = cr_row_hash l \<and> h \<noteq> None \<and> h \<noteq> Some []"
    if "table_tip t = Some (k, h)" "row_key l \<le> k" "t \<in> {task_transitions db, agent_actions db}" for t k h
    using that(1) by (rule table_tip_Some)
      (use that uniq assms(3) l in \<open>auto simp: set_chained\<close>)
  have in_one: "l \<in> set (task_transitions db) \<or> l \<in> set (agent_actions db)"
    and hl: "cr_row_hash l \<noteq> None" using l by (auto simp: set_chained)
  have bound: "k \<le> row_key l"
    if "table_tip t = Some (k, h)" "t \<in> {task_transitions db, agent_actions db}" for t k h
    using that(1) by (rule table_tip_Some) (use that max in \<open>auto simp: set_chained\<close>)
  have reach: "\<exists>k h. table_tip t = Some (k, h) \<and> row_key l \<le> k" if "l \<in> set t" for t
  proof (cases "table_tip t")
    case None
    with that hl show ?thesis by (simp add: table_tip_None)
  next
    case (Some kh)
    obtain k h where kh: "kh = (k, h)" by (cases kh)
    from Some [unfolded kh] show ?thesis
      by (rule table_tip_Some) (use that hl Some kh in auto)
  qed
  have "cr_row_hash l = Some (current_tip_hash db)"
    unfolding current_tip_hash_def Let_def
    using in_one reach [of "task_transitions db"] reach [of "agent_actions db"]
      tip [of "task_transitions db"] tip [of "agent_actions db"]
      bound [of "task_transitions db"] bound [of "agent_actions db"]
    by (fastforce split: option.splits prod.splits if_splits)
  then show ?thesis by (simp add: l_def)
qed

lemma current_tip_empty: "chained db = [] \<Longrightarrow> current_tip_hash db = GENESIS_HASH"
proof -
  assume "chained db = []"
  then have "set (chained db) = {}" by simp
  then have "table_tip (task_transitions db) = None" "table_tip (agent_actions db) = None"
    unfolding table_tip_None set_chained by auto
  then show ?thesis by (simp add: current_tip_hash_def)
qed

section \<open>Appending keeps the chain\<close>

text \<open>The sequences are ahead of every row, and chain keys are distinct.\<close>

definition audit_inv :: "audit_db \<Rightarrow> bool" where
  "audit_inv db \<longleftrightarrow>
     (\<forall>r \<in> set (task_transitions db). cr_id r < next_transition_id db) \<and>
     (\<forall>r \<in> set (agent_actions db). cr_id r < next_action_id db) \<and>
     (\<forall>r \<in> set (task_transitions db) \<union> set (agent_actions db).
        \<forall>p. cr_chain_pos r = Some p \<longrightarrow> p < chain_pos_seq db) \<and>
     distinct (map row_key (chained db))"

definition chain_good :: "(string \<Rightarrow> string) \<Rightarrow> audit_db \<Rightarrow> bool" where
  "chain_good H db \<longleftrightarrow> digest H \<and> audit_inv db \<and> linked H GENESIS_HASH (chained db)"

definition empty_audit :: audit_db where
  "empty_audit =
     \<lparr>task_transitions = [], agent_actions = [], next_transition_id = 1, next_action_id = 1,
      chain_pos_seq = 1\<rparr>"

definition new_row :: "(string \<Rightarrow> string) \<Rightarrow> content \<Rightarrow> audit_db \<Rightarrow> chained_row" where
  "new_row H c db =
     \<lparr>cr_id = (case c of Transition _ \<Rightarrow> next_transition_id db | Action _ \<Rightarrow> next_action_id db),
      cr_content = c, cr_chain_pos = Some (chain_pos_seq db),
      cr_prev_hash = Some (current_tip_hash db),
      cr_row_hash = Some (hash_for_row H c (current_tip_hash db))\<rparr>"

lemma new_row_key: "row_key (new_row H c db) = Positioned (chain_pos_seq db)"
  by (simp add: row_key_def new_row_def)

lemma key_below_seq:
  assumes "audit_inv db" "r \<in> set (task_transitions db) \<union> set (agent_actions db)"
  shows "row_key r < Positioned (chain_pos_seq db)"
  using assms by (fastforce simp: row_key_def less_chain_key_def audit_inv_def split: option.splits)

lemma append_tables:
  "append_chained H (Transition t) db =
     db\<lparr>task_transitions := task_transitions db @ [new_row H (Transition t) db],
        next_transition_id := next_transition_id db + 1, chain_pos_seq := chain_pos_seq db + 1\<rparr>"
  "append_chained H (Action a) db =
     db\<lparr>agent_actions := agent_actions db @ [new_row H (Action a) db],
        next_action_id := next_action_id db + 1, chain_pos_seq := chain_pos_seq db + 1\<rparr>"
  by (simp_all add: append_chained_def insert_row_def new_row_def Let_def)

lemma append_all_rows:
  assumes "audit_inv db"
  shows "all_rows_in_chain_order (append_chained H c db)
           = all_rows_in_chain_order db @ [new_row H c db]"
proof (cases c)
  case (Transition t)
  let ?n = "new_row H c db"
  have "sort_key cr_id (task_transitions db @ ?n # []) = sort_key cr_id (task_transitions db @ []) @ [?n]"
    using assms Transition by (intro sort_key_max) (auto simp: new_row_def audit_inv_def)
  then show ?thesis
    using Transition assms
      sort_key_max [of "sort_key cr_id (task_transitions db)" row_key ?n "sort_key cr_id (agent_actions db)"]
    by (simp add: all_rows_in_chain_order_def append_tables new_row_key key_below_seq)
next
  case (Action a)
  let ?n = "new_row H c db"
  have "sort_key cr_id (agent_actions db @ ?n # []) = sort_key cr_id (agent_actions db @ []) @ [?n]"
    using assms Action by (intro sort_key_max) (auto simp: new_row_def audit_inv_def)
  then show ?thesis
    using Action assms
      sort_key_max [of "sort_key cr_id (task_transitions db) @ sort_key cr_id (agent_actions db)" row_key ?n "[]"]
    by (auto simp: all_rows_in_chain_order_def append_tables new_row_key key_below_seq)
qed

lemma append_chained_rows:
  "audit_inv db \<Longrightarrow> chained (append_chained H c db) = chained db @ [new_row H c db]"
  by (simp add: chained_def append_all_rows) (simp add: new_row_def)

lemma chain_good_tip:
  assumes "chain_good H db"
  shows "current_tip_hash db = end_hash H GENESIS_HASH (contents db)"
proof (cases "chained db = []")
  case True
  then show ?thesis by (simp add: current_tip_empty contents_def)
next
  case False
  have l: "linked H GENESIS_HASH (chained db)" and d: "digest H"
    using assms by (simp_all add: chain_good_def)
  have "cr_row_hash r \<noteq> Some []" if "r \<in> set (chained db)" for r
  proof -
    have "\<exists>x. cr_row_hash r = Some (H x)" if "linked H p rs" "r \<in> set rs" for p rs
      using that by (induction rs arbitrary: p) (auto simp: hash_for_row_def compute_row_hash_def)
    then obtain x where "cr_row_hash r = Some (H x)" using l \<open>r \<in> set (chained db)\<close> by blast
    moreover have "length (H x) = 64" using d by (simp add: digest_def)
    ultimately show ?thesis by auto
  qed
  then have "Some (current_tip_hash db) = cr_row_hash (last (chained db))"
    using assms False by (intro current_tip_last) (auto simp: chain_good_def audit_inv_def)
  also have "\<dots> = Some (end_hash H GENESIS_HASH (contents db))"
    using linked_last_hash [OF l False] by (simp add: contents_def)
  finally show ?thesis by simp
qed

lemma append_keeps_inv:
  assumes "audit_inv db"
  shows "audit_inv (append_chained H c db)"
proof -
  have "distinct (map row_key (chained (append_chained H c db)))"
    using assms key_below_seq [OF assms]
    by (fastforce simp: append_chained_rows new_row_key audit_inv_def set_chained)
  then show ?thesis
    using assms by (cases c) (fastforce simp: audit_inv_def append_tables new_row_def less_Suc_eq)+
qed

text \<open>
  The interface of an append-only log: what the task store and the tool registry rely on
  when they record something.
\<close>

locale append_log =
  fixes append :: "'c \<Rightarrow> 'db \<Rightarrow> 'db" and entries :: "'db \<Rightarrow> 'c list" and good :: "'db \<Rightarrow> bool"
  assumes good_append: "good db \<Longrightarrow> good (append c db)"
    and entries_append: "good db \<Longrightarrow> entries (append c db) = entries db @ [c]"
begin

lemma good_fold: "good db \<Longrightarrow> good (fold append cs db)"
  by (induction cs arbitrary: db) (simp_all add: good_append)

lemma entries_fold: "good db \<Longrightarrow> entries (fold append cs db) = entries db @ cs"
  by (induction cs arbitrary: db) (simp_all add: good_append entries_append)

lemma nothing_lost: "good db \<Longrightarrow> prefix (entries db) (entries (fold append cs db))"
  by (simp add: entries_fold)

end

interpretation chain_log: append_log "append_chained H" contents "chain_good H" for H
proof
  fix db c
  assume g: "chain_good H db"
  then have inv: "audit_inv db" by (simp add: chain_good_def)
  have rows: "chained (append_chained H c db) = chained db @ [new_row H c db]"
    using inv by (rule append_chained_rows)
  show "contents (append_chained H c db) = contents db @ [c]"
    by (simp add: contents_def rows) (simp add: new_row_def)
  have "linked H GENESIS_HASH (chained (append_chained H c db))"
    using g chain_good_tip [OF g]
    by (simp add: rows chain_good_def contents_def) (simp add: new_row_def)
  then show "chain_good H (append_chained H c db)"
    using g append_keeps_inv [OF inv] by (simp add: chain_good_def)
qed

lemma empty_audit_good: "digest H \<Longrightarrow> chain_good H empty_audit"
  by (simp add: chain_good_def audit_inv_def empty_audit_def chained_def all_rows_in_chain_order_def)

lemma chain_good_verifies:
  assumes "chain_good H db"
  shows "v_intact (verify_chain H db)"
    and "v_checked (verify_chain H db) = length (contents db)"
  using assms unfolding chain_good_def verify_chain_def Let_def
  by (simp_all add: verify_rows_linked contents_def chained_def)

section \<open>Tampering\<close>

text \<open>
  An intact database whose tip is the recorded one holds exactly the recorded rows.
\<close>

lemma same_tip_same_contents:
  assumes "digest H" "linked H GENESIS_HASH rs" "linked H GENESIS_HASH ss"
    and "rs \<noteq> []" "ss \<noteq> []" "cr_row_hash (last rs) = cr_row_hash (last ss)" "\<not> collision H"
  shows "map (\<lambda>r. content_of (cr_content r)) rs = map (\<lambda>r. content_of (cr_content r)) ss"
proof -
  have "end_hash H GENESIS_HASH (map cr_content rs) = end_hash H GENESIS_HASH (map cr_content ss)"
    using linked_last_hash [OF assms(2,4)] linked_last_hash [OF assms(3,5)] assms(6) by simp
  from end_hash_inj [OF assms(1,7) this] show ?thesis by (simp add: comp_def)
qed

text \<open>Editing the content of one row and nothing else is pinned to that row.\<close>

lemma edited_row_reported:
  assumes "digest H" "\<not> collision H" "linked H GENESIS_HASH (pre @ r # post)"
    and "content_of c \<noteq> content_of (cr_content r)"
  shows "\<exists>why. verify_rows H u GENESIS_HASH 0 (pre @ r\<lparr>cr_content := c\<rparr> # post)
           = divergence u (length pre) (r\<lparr>cr_content := c\<rparr>) why"
proof -
  let ?p = "end_hash H GENESIS_HASH (map cr_content pre)"
  have "cr_row_hash r = Some (hash_for_row H (cr_content r) ?p)" using assms(3) by simp
  moreover have "hash_for_row H c ?p \<noteq> hash_for_row H (cr_content r) ?p"
    using assms hash_for_row_inj [OF assms(1,2) end_hash_chain end_hash_chain] by blast
  ultimately have "cr_row_hash (r\<lparr>cr_content := c\<rparr>)
      \<noteq> Some (hash_for_row H (cr_content (r\<lparr>cr_content := c\<rparr>)) ?p)" by simp
  from verify_rows_bad [OF disjI2 [OF this]]
  show ?thesis using assms(3) by (simp add: verify_rows_append del: verify_rows.simps)
qed

text \<open>Deleting rows from the middle shows at the first row after the gap.\<close>

lemma deleted_rows_reported:
  assumes "digest H" "\<not> collision H" "linked H GENESIS_HASH (pre @ gap @ r # post)" "gap \<noteq> []"
  shows "\<exists>why. verify_rows H u GENESIS_HASH 0 (pre @ r # post) = divergence u (length pre) r why"
proof -
  let ?p = "end_hash H GENESIS_HASH (map cr_content pre)"
  have r: "cr_prev_hash r = Some (end_hash H GENESIS_HASH (map cr_content (pre @ gap)))"
    using assms(3) by simp
  have "end_hash H GENESIS_HASH (map cr_content (pre @ gap)) \<noteq> ?p"
  proof
    assume "end_hash H GENESIS_HASH (map cr_content (pre @ gap)) = ?p"
    from arg_cong [OF end_hash_inj [OF assms(1,2) this], where f = length]
    show False using assms(4) by simp
  qed
  then have "cr_prev_hash r \<noteq> Some ?p" using r by simp
  from verify_rows_bad [OF disjI1 [OF this]]
  show ?thesis using assms(3) by (simp add: verify_rows_append del: verify_rows.simps)
qed

section \<open>Properties\<close>

text \<open>
  A concrete digest for the witnesses: 64 letters that spell the length of the text in
  unary.  It collides (every digest does); the witnesses about tampering use two inputs it
  keeps apart.
\<close>

definition unary_digest :: "string \<Rightarrow> string" where
  "unary_digest s = (let n = length s mod 64
     in replicate n CHR ''a'' @ replicate (64 - n) CHR ''b'')"

lemma unary_digest_ok: "digest unary_digest"
  by (auto simp: digest_def unary_digest_def Let_def)

text \<open>
  C4: The chain verifies as long as it is only appended to: after any sequence of appends
  to an empty database, verification reports it intact, has checked every row, and the rows
  in chain order are the appended ones in order, whichever tables they live in.
\<close>

theorem appended_chain_verifies:
  assumes "digest H"
  shows "v_intact (verify_chain H (fold (append_chained H) cs empty_audit))
     \<and> v_checked (verify_chain H (fold (append_chained H) cs empty_audit)) = length cs
     \<and> contents (fold (append_chained H) cs empty_audit) = cs"
proof -
  have g: "chain_good H empty_audit" using assms by (rule empty_audit_good)
  have "contents empty_audit = []"
    by (simp add: contents_def chained_def empty_audit_def all_rows_in_chain_order_def)
  then have "contents (fold (append_chained H) cs empty_audit) = cs"
    using chain_log.entries_fold [OF g] by simp
  then show ?thesis using chain_good_verifies [OF chain_log.good_fold [OF g]] by simp
qed

theorem appended_chain_verifies_witness:
  "v_checked (verify_chain unary_digest (fold (append_chained unary_digest) [] empty_audit)) = 0"
  using appended_chain_verifies [OF unary_digest_ok, of "[]"] by simp


definition demo_time :: utc_datetime where
  "demo_time = \<lparr>dt_year = 2025, dt_month = 1, dt_day = 2, dt_hour = 3, dt_minute = 4,
                dt_second = 5, dt_micro = 0\<rparr>"

definition demo_content :: content where
  "demo_content = Transition \<lparr>tt_task_id = ''t'', tt_from_state = Some ''CREATED'',
     tt_to_state = ''TRIAGING'', tt_trigger = None, tt_actor = Some ''system'',
     tt_timestamp = demo_time\<rparr>"

definition demo_row :: "(string \<Rightarrow> string) \<Rightarrow> chained_row" where
  "demo_row H = \<lparr>cr_id = 1, cr_content = demo_content, cr_chain_pos = Some 1,
     cr_prev_hash = Some GENESIS_HASH, cr_row_hash = Some (hash_for_row H demo_content GENESIS_HASH)\<rparr>"


text \<open>
  An edit is pinned to its row: when the content of one row of an intact chain is
  changed and nothing else is touched, verification reports that row, by table and id, as
  the first divergence, after checking every row before it, or the hash has a collision.
\<close>

theorem edit_is_located:
  assumes "digest H" "linked H GENESIS_HASH (pre @ r # post)"
    and "content_of c \<noteq> content_of (cr_content r)"
  shows "collision H \<or>
    (let v = verify_rows H u GENESIS_HASH 0 (pre @ r\<lparr>cr_content := c\<rparr> # post)
     in \<not> v_intact v \<and> v_checked v = length pre \<and> v_divergence_id v = Some (cr_id r)
        \<and> v_divergence_table v = Some (table_name c))"
proof (cases "collision H")
  case False
  from edited_row_reported [OF assms(1) this assms(2,3), of u] obtain why where
    "verify_rows H u GENESIS_HASH 0 (pre @ r\<lparr>cr_content := c\<rparr> # post) = divergence u (length pre) (r\<lparr>cr_content := c\<rparr>) why" ..
  then show ?thesis by (simp only: Let_def) (simp add: divergence_def)
qed simp

theorem edit_is_located_witness:
  "collision unary_digest \<or>
    (let v = verify_rows unary_digest 0 GENESIS_HASH 0
               ([] @ (demo_row unary_digest)\<lparr>cr_content := Action
                  \<lparr>aa_task_id = None, aa_agent_name = None, aa_tool_name = None, aa_arguments = None,
                   aa_result = None, aa_decision = None, aa_decision_reason = None,
                   aa_timestamp = demo_time\<rparr>\<rparr> # [])
     in \<not> v_intact v \<and> v_checked v = length ([] :: chained_row list)
        \<and> v_divergence_id v = Some (cr_id (demo_row unary_digest))
        \<and> v_divergence_table v = Some (table_name (Action
                  \<lparr>aa_task_id = None, aa_agent_name = None, aa_tool_name = None, aa_arguments = None,
                   aa_result = None, aa_decision = None, aa_decision_reason = None,
                   aa_timestamp = demo_time\<rparr>)))"
  by (rule edit_is_located [OF unary_digest_ok])
    (simp_all add: demo_row_def demo_content_def canonical_content_text agent_action_content_def
      serialize_def json_str_def json_char_def)

text \<open>
  A deletion before the tip shows: removing any non-empty run of rows that has a row
  after it (all rows of one table among them) is reported at the first row after the gap, or
  the hash has a collision.
\<close>

theorem deletion_is_located:
  assumes "digest H" "linked H GENESIS_HASH (pre @ gap @ r # post)" "gap \<noteq> []"
  shows "collision H \<or>
    (let v = verify_rows H u GENESIS_HASH 0 (pre @ r # post)
     in \<not> v_intact v \<and> v_checked v = length pre \<and> v_divergence_id v = Some (cr_id r))"
proof (cases "collision H")
  case False
  from deleted_rows_reported [OF assms(1) this assms(2,3), of u] obtain why where
    "verify_rows H u GENESIS_HASH 0 (pre @ r # post) = divergence u (length pre) r why" ..
  then show ?thesis by (simp only: Let_def) (simp add: divergence_def)
qed simp

definition demo_next :: "(string \<Rightarrow> string) \<Rightarrow> chained_row" where
  "demo_next H = \<lparr>cr_id = 2, cr_content = demo_content, cr_chain_pos = Some 2,
     cr_prev_hash = Some (hash_for_row H demo_content GENESIS_HASH),
     cr_row_hash = Some (hash_for_row H demo_content (hash_for_row H demo_content GENESIS_HASH))\<rparr>"

theorem deletion_is_located_witness:
  "collision unary_digest \<or>
    (let v = verify_rows unary_digest 0 GENESIS_HASH 0 ([] @ demo_next unary_digest # [])
     in \<not> v_intact v \<and> v_checked v = length ([] :: chained_row list)
        \<and> v_divergence_id v = Some (cr_id (demo_next unary_digest)))"
  by (rule deletion_is_located [OF unary_digest_ok, where gap = "[demo_row unary_digest]"])
    (simp_all add: demo_row_def demo_next_def)

text \<open>
  C40: The serialized content of a transition row determines every field: two rows with
  valid timestamps and the same canonical text are equal, so a missing trigger and an empty
  one, or a moved field boundary, never hash alike.
\<close>

theorem canonical_content_lossless:
  assumes "datetime_ok (tt_timestamp r)" "datetime_ok (tt_timestamp s)"
    and "canonical_content r = canonical_content s"
  shows "r = s"
  using assms by (rule canonical_content_inj)

theorem canonical_content_lossless_witness:
  "\<lparr>tt_task_id = ''t'', tt_from_state = None, tt_to_state = ''A'', tt_trigger = Some [],
    tt_actor = None, tt_timestamp = demo_time\<rparr>
   = \<lparr>tt_task_id = ''t'', tt_from_state = None, tt_to_state = ''A'', tt_trigger = Some [],
    tt_actor = None, tt_timestamp = demo_time\<rparr>"
  by (rule canonical_content_lossless) (simp_all add: datetime_ok_def demo_time_def)

text \<open>
  The stated limit of in-database verification: dropping the newest rows leaves a chain
  that still verifies.
\<close>

theorem truncation_not_seen:
  "v_intact (verify_rows H u GENESIS_HASH 0 (rs @ ss)) \<longrightarrow> v_intact (verify_rows H u GENESIS_HASH 0 rs)"
  by (simp add: verify_rows_intact)

theorem truncation_not_seen_witness:
  "v_intact (verify_rows unary_digest 0 GENESIS_HASH 0 [demo_row unary_digest])"
  using truncation_not_seen [of unary_digest 0 "[demo_row unary_digest]" "[]"]
  by (simp add: verify_rows_intact demo_row_def)

text \<open>
  Backfilling a row that was never hashed into a database that already holds chained rows
  breaks the chain it is meant to extend: the row gets the newest position, but is hashed as
  if it came first.
\<close>

definition mixed_db :: "(string \<Rightarrow> string) \<Rightarrow> audit_db" where
  "mixed_db H = \<lparr>task_transitions =
       [\<lparr>cr_id = 1, cr_content = demo_content, cr_chain_pos = None, cr_prev_hash = None,
         cr_row_hash = None\<rparr>,
        (demo_row H)\<lparr>cr_id := 2\<rparr>],
     agent_actions = [], next_transition_id = 3, next_action_id = 1, chain_pos_seq = 2\<rparr>"

theorem backfill_breaks_mixed_chain:
  assumes "digest H"
  shows "v_intact (verify_chain H (mixed_db H))
         \<and> \<not> v_intact (verify_chain H (fst (backfill_chain H (mixed_db H))))"
proof -
  have h: "hash_for_row H demo_content GENESIS_HASH \<noteq> GENESIS_HASH"
    using assms by (rule hash_not_genesis)
  show ?thesis
    unfolding verify_chain_intact
    by (simp add: mixed_db_def demo_row_def backfill_chain_def backfill_row_def chained_def
        all_rows_in_chain_order_def row_key_def less_chain_key_def Let_def h [symmetric]
        demo_content_def [symmetric])
qed

end
