(* ===== verification/TaskStore.thy ===== *)
theory TaskStore
  imports StateMachine AuditChain
begin

text \<open>
  Tasks in the database: \<open>amop/orchestrator/task.py\<close> and the pause gate of
  \<open>amop/orchestrator/pause.py\<close>.

  The database is a \<open>store\<close>.  A caller holds a copy of a task row (the session's object);
  other writers act on the store between the caller's steps, which is the interference
  function \<open>env\<close>, applied at each await by \<open>tick\<close>.  The mapper's version column is the
  optimistic lock: an update lands only on a row whose version is the one that was read.
\<close>

section \<open>The store\<close>

record task_row =
  tk_id :: string
  tk_task_type :: string
  tk_state :: task_state
  tk_severity :: "string option"
  tk_task_context :: "pydict option"
  tk_created_at :: utc_datetime
  tk_updated_at :: utc_datetime
  tk_resolved_at :: "utc_datetime option"
  tk_version :: nat

record pause_row =
  pz_paused :: bool
  pz_paused_by :: "string option"
  pz_paused_at :: "utc_datetime option"
  pz_resumed_at :: "utc_datetime option"
  pz_updated_at :: "utc_datetime option"

record store =
  st_tasks :: "string \<rightharpoonup> task_row"
  st_audit :: audit_db
  st_pause :: "pause_row option"

record world =
  w_store :: store
  w_clock :: nat

type_synonym interference = "nat \<Rightarrow> store \<Rightarrow> store"

definition tick :: "interference \<Rightarrow> world \<Rightarrow> world" where
  "tick env w = \<lparr>w_store = env (w_clock w) (w_store w), w_clock = w_clock w + 1\<rparr>"

section \<open>Pause\<close>

definition fresh_pause_row :: pause_row where
  "fresh_pause_row =
     \<lparr>pz_paused = False, pz_paused_by = None, pz_paused_at = None, pz_resumed_at = None,
      pz_updated_at = None\<rparr>"

definition get_or_create_row :: "store \<Rightarrow> pause_row \<times> store" where
  "get_or_create_row s =
     (case st_pause s of
        Some r \<Rightarrow> (r, s)
      | None \<Rightarrow> (fresh_pause_row, s\<lparr>st_pause := Some fresh_pause_row\<rparr>))"

definition is_paused_raw :: "store \<Rightarrow> bool \<times> store" where
  "is_paused_raw s =
     (case st_pause s of
        None \<Rightarrow> (False, snd (get_or_create_row s))
      | Some r \<Rightarrow> (pz_paused r, s))"

definition set_paused :: "bool \<Rightarrow> string \<Rightarrow> utc_datetime \<Rightarrow> store \<Rightarrow> pause_row \<times> store" where
  "set_paused paused by_actor now s =
     (let (row, s1) = get_or_create_row s;
          row1 = row\<lparr>pz_paused := paused, pz_paused_by := Some by_actor\<rparr>;
          row2 = (if paused then row1\<lparr>pz_paused_at := Some now\<rparr>
                  else row1\<lparr>pz_resumed_at := Some now\<rparr>);
          row3 = row2\<lparr>pz_updated_at := Some now\<rparr>
      in (row3, s1\<lparr>st_pause := Some row3\<rparr>))"

text \<open>
  The polling loop: each round reads the flag; a paused system sleeps, and others act.  The
  fuel bounds the rounds looked at; \<open>None\<close> is a caller still waiting after them.
\<close>

fun wait_while_paused :: "interference \<Rightarrow> nat \<Rightarrow> world \<Rightarrow> world option" where
  "wait_while_paused env 0 w = None"
| "wait_while_paused env (Suc n) w =
     (let (paused, s) = is_paused_raw (w_store w); w1 = w\<lparr>w_store := s\<rparr>
      in if paused then wait_while_paused env n (tick env w1) else Some w1)"

section \<open>Creating a task\<close>

definition create_task ::
    "string \<Rightarrow> utc_datetime \<Rightarrow> string \<Rightarrow> pydict option \<Rightarrow> string option \<Rightarrow> store \<Rightarrow> task_row \<times> store" where
  "create_task new_id now task_type context severity s =
     (let task = \<lparr>tk_id = new_id, tk_task_type = task_type, tk_state = CREATED,
                  tk_severity = severity, tk_task_context = context, tk_created_at = now,
                  tk_updated_at = now, tk_resolved_at = None, tk_version = 1\<rparr>
      in (task, s\<lparr>st_tasks := (st_tasks s)(new_id \<mapsto> task)\<rparr>))"

section \<open>Moving a task\<close>

datatype task_error =
    IllegalMove illegal_transition
  | ConcurrentUpdateError string task_state
  | StillPaused

definition audit_entry ::
    "task_row \<Rightarrow> task_state \<Rightarrow> string \<Rightarrow> string \<Rightarrow> utc_datetime \<Rightarrow> content" where
  "audit_entry task to_state trigger actor now = Transition
     \<lparr>tt_task_id = tk_id task, tt_from_state = Some (state_value (tk_state task)),
      tt_to_state = state_value to_state, tt_trigger = Some trigger, tt_actor = Some actor,
      tt_timestamp = now\<rparr>"

text \<open>
  The body of \<open>transition\<close> after the pause gate.  The version-guarded update and the audit
  row are one transaction: with a stale copy nothing is written.
\<close>

definition commit_transition ::
    "(string \<Rightarrow> string) \<Rightarrow> utc_datetime \<Rightarrow> task_row \<Rightarrow> task_state \<Rightarrow> string option \<Rightarrow> string
     \<Rightarrow> store \<Rightarrow> (task_error, task_row) result \<times> store" where
  "commit_transition H now task to_state trigger actor s =
     (case validate_transition (tk_state task) to_state of
        Inl e \<Rightarrow> (Inl (IllegalMove e), s)
      | Inr spec_trigger \<Rightarrow>
          (let task1 = task\<lparr>tk_state := to_state, tk_updated_at := now\<rparr>;
               task2 = (if to_state \<in> TERMINAL_STATES then task1\<lparr>tk_resolved_at := Some now\<rparr>
                        else task1);
               text = (case trigger of
                         Some t \<Rightarrow> if t \<noteq> [] then t else spec_trigger
                       | None \<Rightarrow> spec_trigger);
               entry = audit_entry task to_state text actor now
           in (case st_tasks s (tk_id task) of
                 Some row \<Rightarrow>
                   if tk_version row = tk_version task
                   then (let task3 = task2\<lparr>tk_version := tk_version task + 1\<rparr>
                         in (Inr task3,
                             s\<lparr>st_tasks := (st_tasks s)(tk_id task \<mapsto> task3),
                               st_audit := append_chained H entry (st_audit s)\<rparr>))
                   else (Inl (ConcurrentUpdateError (tk_id task) to_state), s)
               | None \<Rightarrow> (Inl (ConcurrentUpdateError (tk_id task) to_state), s))))"

definition transition ::
    "(string \<Rightarrow> string) \<Rightarrow> interference \<Rightarrow> nat \<Rightarrow> utc_datetime \<Rightarrow> task_row \<Rightarrow> task_state
     \<Rightarrow> string option \<Rightarrow> string \<Rightarrow> world \<Rightarrow> (task_error, task_row) result \<times> world" where
  "transition H env fuel now task to_state trigger actor w =
     (case wait_while_paused env fuel w of
        None \<Rightarrow> (Inl StillPaused, w)
      | Some w1 \<Rightarrow>
          (let w2 = tick env w1;
               (r, s) = commit_transition H now task to_state trigger actor (w_store w2)
           in (r, w2\<lparr>w_store := s\<rparr>)))"

definition MAX_OCC_RETRIES :: nat where "MAX_OCC_RETRIES = 3"

text \<open>
  \<open>transition_with_retry\<close>: \<open>remaining\<close> counts the attempts left in \<open>range(max_retries)\<close>.  After
  a conflict the row is read again and the move is validated against what was read.
\<close>

fun retry_loop ::
    "(string \<Rightarrow> string) \<Rightarrow> interference \<Rightarrow> nat \<Rightarrow> utc_datetime \<Rightarrow> string \<Rightarrow> task_state
     \<Rightarrow> string option \<Rightarrow> string \<Rightarrow> nat \<Rightarrow> task_row \<Rightarrow> world \<Rightarrow> (task_error, task_row) result \<times> world" where
  "retry_loop H env fuel now tid to_state trigger actor 0 task w =
     (Inl (ConcurrentUpdateError tid to_state), w)"
| "retry_loop H env fuel now tid to_state trigger actor (Suc remaining) task w =
     (case transition H env fuel now task to_state trigger actor w of
        (Inl (ConcurrentUpdateError i t), w1) \<Rightarrow>
          if remaining = 0 then (Inl (ConcurrentUpdateError i t), w1)
          else
            (let w2 = tick env w1 in
             (case st_tasks (w_store w2) tid of
                None \<Rightarrow> (Inl (ConcurrentUpdateError i t), w2)
              | Some refreshed \<Rightarrow>
                  (case validate_transition (tk_state refreshed) to_state of
                     Inl e \<Rightarrow> (Inl (IllegalMove e), w2)
                   | Inr _ \<Rightarrow>
                       retry_loop H env fuel now tid to_state trigger actor remaining refreshed w2)))
      | other \<Rightarrow> other)"

definition transition_with_retry ::
    "(string \<Rightarrow> string) \<Rightarrow> interference \<Rightarrow> nat \<Rightarrow> utc_datetime \<Rightarrow> task_row \<Rightarrow> task_state
     \<Rightarrow> string option \<Rightarrow> string \<Rightarrow> nat \<Rightarrow> world \<Rightarrow> (task_error, task_row) result \<times> world" where
  "transition_with_retry H env fuel now task to_state trigger actor max_retries w =
     retry_loop H env fuel now (tk_id task) to_state trigger actor max_retries task w"

definition get_task :: "store \<Rightarrow> string \<Rightarrow> task_row option" where
  "get_task s tid = st_tasks s tid"

text \<open>\<open>get_transitions\<close>: the task's audit rows in the order of their ids.\<close>

definition get_transitions :: "store \<Rightarrow> string \<Rightarrow> chained_row list" where
  "get_transitions s tid =
     sort_key cr_id (filter (\<lambda>r. case cr_content r of
         Transition t \<Rightarrow> tt_task_id t = tid | Action _ \<Rightarrow> False) (task_transitions (st_audit s)))"

section \<open>One committed move\<close>

lemma commit_cases [consumes 1, case_names illegal stale moved]:
  assumes "commit_transition H now task to_state trigger actor s = (r, s')"
  obtains "\<not> legal (tk_state task) to_state" "s' = s"
      "r = Inl (IllegalMove (IllegalTransitionError (tk_state task) to_state))"
    | "legal (tk_state task) to_state" "s' = s" "r = Inl (ConcurrentUpdateError (tk_id task) to_state)"
      "\<And>row. st_tasks s (tk_id task) = Some row \<Longrightarrow> tk_version row \<noteq> tk_version task"
    | row task' label where "legal (tk_state task) to_state" "st_tasks s (tk_id task) = Some row"
      "tk_version row = tk_version task" "r = Inr task'" "tk_state task' = to_state"
      "tk_id task' = tk_id task" "tk_version task' = tk_version task + 1"
      "tk_resolved_at task' = (if to_state \<in> TERMINAL_STATES then Some now else tk_resolved_at task)"
      "tk_task_context task' = tk_task_context task"
      "s' = s\<lparr>st_tasks := (st_tasks s)(tk_id task \<mapsto> task'),
             st_audit := append_chained H (audit_entry task to_state label actor now) (st_audit s)\<rparr>"
proof (cases "validate_transition (tk_state task) to_state")
  case (Inl e)
  then have "\<not> legal (tk_state task) to_state"
    using validate_transition_legal by fastforce
  then show ?thesis using assms Inl validate_transition_illegal that(1)
    by (simp add: commit_transition_def)
next
  case (Inr trig)
  then have "legal (tk_state task) to_state" by (rule validate_transition_Inr)
  then show ?thesis using assms Inr that(2,3)
    by (auto simp: commit_transition_def Let_def split: option.splits if_splits)
qed

text \<open>Only the moved task's row changes, and only by a successful move.\<close>

lemma commit_other_tasks:
  "commit_transition H now task to_state trigger actor s = (r, s') \<Longrightarrow> i \<noteq> tk_id task \<Longrightarrow>
     st_tasks s' i = st_tasks s i"
  by (erule commit_cases) simp_all

lemma commit_error_unchanged:
  "commit_transition H now task to_state trigger actor s = (Inl e, s') \<Longrightarrow> s' = s"
  by (erule commit_cases) simp_all

section \<open>The trail of a task\<close>

text \<open>
  The moves the audit chain records for a task, oldest first, and what it means that they
  lead from \<open>CREATED\<close> to the state in the task's row.
\<close>

definition trail :: "string \<Rightarrow> content list \<Rightarrow> (string option \<times> string) list" where
  "trail tid cs = concat (map (\<lambda>c. case c of
      Transition t \<Rightarrow> if tt_task_id t = tid then [(tt_from_state t, tt_to_state t)] else []
    | Action _ \<Rightarrow> []) cs)"

fun leads :: "task_state \<Rightarrow> (string option \<times> string) list \<Rightarrow> task_state \<Rightarrow> bool" where
  "leads a [] b = (a = b)"
| "leads a ((f, t) # es) b =
     (f = Some (state_value a) \<and> (\<exists>c. t = state_value c \<and> legal a c \<and> leads c es b))"

definition trail_inv :: "(string \<Rightarrow> string) \<Rightarrow> store \<Rightarrow> bool" where
  "trail_inv H s \<longleftrightarrow>
     chain_good H (st_audit s) \<and>
     (\<forall>tid row. st_tasks s tid = Some row \<longrightarrow>
        tk_id row = tid \<and> leads CREATED (trail tid (contents (st_audit s))) (tk_state row)) \<and>
     (\<forall>tid. st_tasks s tid = None \<longrightarrow> trail tid (contents (st_audit s)) = [])"

lemma trail_append [simp]: "trail tid (cs @ ds) = trail tid cs @ trail tid ds"
  by (simp add: trail_def)

lemma trail_entry [simp]:
  "trail tid [audit_entry task t text actor now] =
     (if tk_id task = tid then [(Some (state_value (tk_state task)), state_value t)] else [])"
  by (simp add: trail_def audit_entry_def)

lemma leads_snoc:
  "leads a es b \<Longrightarrow> legal b c \<Longrightarrow> leads a (es @ [(Some (state_value b), state_value c)]) c"
  by (induction a es b rule: leads.induct) auto

lemma leads_history:
  "leads a es b \<Longrightarrow> history (h @ [a]) \<Longrightarrow> \<exists>h'. history (h @ a # h') \<and> last (a # h') = b"
proof (induction a es b arbitrary: h rule: leads.induct)
  case (1 a b)
  then show ?case by (intro exI [of _ "[]"]) simp
next
  case (2 a f t es b)
  then obtain c where c: "legal a c" "leads c es b" by auto
  then have "history ((h @ [a]) @ [c])" using 2 by (auto intro: advance)
  from "2.IH" [OF c(2) this] obtain h' where "history ((h @ [a]) @ c # h')" "last (c # h') = b"
    by blast
  then show ?case by (intro exI [of _ "c # h'"]) simp
qed

text \<open>
  A session copy is coherent with the store when an equal version means an equal row: what
  holds of any row that was once read from the store, since every write bumps the version.
\<close>

definition coherent :: "store \<Rightarrow> task_row \<Rightarrow> bool" where
  "coherent s task \<longleftrightarrow>
     (\<forall>row. st_tasks s (tk_id task) = Some row \<longrightarrow>
        tk_version row = tk_version task \<longrightarrow> tk_state row = tk_state task)"

lemma commit_trail_inv:
  assumes "trail_inv H s" "coherent s task"
    and "commit_transition H now task to_state trigger actor s = (r, s')"
  shows "trail_inv H s'"
  using assms(3)
proof (cases rule: commit_cases)
  case (moved row task' label)
  let ?e = "audit_entry task to_state label actor now"
  have g: "chain_good H (st_audit s)" using assms(1) by (simp add: trail_inv_def)
  have c: "contents (append_chained H ?e (st_audit s)) = contents (st_audit s) @ [?e]"
    using g by (rule chain_log.entries_append)
  have "tk_state row = tk_state task" using assms(2) moved by (simp add: coherent_def)
  then have "leads CREATED (trail (tk_id task) (contents (st_audit s))) (tk_state task)"
    using assms(1) moved(2) unfolding trail_inv_def by metis
  from leads_snoc [OF this moved(1)]
  show ?thesis
    using assms(1) moved c chain_log.good_append [OF g, of ?e]
    by (auto simp: trail_inv_def)
qed (use assms in simp_all)

lemma create_trail_inv:
  assumes "trail_inv H s" "st_tasks s new_id = None"
  shows "trail_inv H (snd (create_task new_id now ty ctx sev s))"
  using assms by (auto simp: trail_inv_def create_task_def Let_def)

section \<open>Waiting and retrying\<close>

definition paused_now :: "store \<Rightarrow> bool" where
  "paused_now s \<longleftrightarrow> (\<exists>r. st_pause s = Some r \<and> pz_paused r)"

lemma is_paused_raw_iff: "fst (is_paused_raw s) \<longleftrightarrow> paused_now s"
  by (auto simp: is_paused_raw_def paused_now_def split: option.splits)

lemma is_paused_raw_same: "paused_now s \<Longrightarrow> is_paused_raw s = (True, s)"
  by (auto simp: is_paused_raw_def paused_now_def)

lemma wait_paused_step: "paused_now (w_store w) \<Longrightarrow>
    wait_while_paused env (Suc n) w = wait_while_paused env n (tick env w)"
  by (simp add: is_paused_raw_same)

lemma wait_open:
  assumes "\<not> paused_now (w_store w)"
  shows "\<exists>s. wait_while_paused env (Suc n) w = Some (w\<lparr>w_store := s\<rparr>)
     \<and> st_tasks s = st_tasks (w_store w) \<and> st_audit s = st_audit (w_store w)"
proof (cases "st_pause (w_store w)")
  case None
  then show ?thesis
    by (intro exI [of _ "(w_store w)\<lparr>st_pause := Some fresh_pause_row\<rparr>"])
      (simp add: is_paused_raw_def get_or_create_row_def)
next
  case (Some r)
  then show ?thesis using assms
    by (intro exI [of _ "w_store w"]) (simp add: is_paused_raw_def paused_now_def)
qed

lemma wait_stays_open:
  assumes "\<not> paused_now (w_store w)"
  shows "\<exists>s. wait_while_paused env (Suc n) w = Some (w\<lparr>w_store := s\<rparr>)
     \<and> st_tasks s = st_tasks (w_store w) \<and> \<not> paused_now s"
proof (cases "st_pause (w_store w)")
  case None
  then show ?thesis
    by (intro exI [of _ "(w_store w)\<lparr>st_pause := Some fresh_pause_row\<rparr>"])
      (simp add: is_paused_raw_def get_or_create_row_def paused_now_def fresh_pause_row_def)
next
  case (Some r)
  then show ?thesis using assms
    by (intro exI [of _ "w_store w"]) (simp add: is_paused_raw_def paused_now_def)
qed

lemma wait_never:
  "(\<And>n s. paused_now s \<Longrightarrow> paused_now (env n s)) \<Longrightarrow> paused_now (w_store w) \<Longrightarrow>
     wait_while_paused env fuel w = None"
proof (induction fuel arbitrary: w)
  case (Suc n)
  then show ?case by (simp only: wait_paused_step) (simp add: tick_def)
qed simp

lemma wait_until_resumed:
  "\<not> paused_now (w_store ((tick env ^^ k) w)) \<Longrightarrow> \<exists>w'. wait_while_paused env (Suc k) w = Some w'"
proof (induction k arbitrary: w)
  case 0
  then show ?case using wait_open [of w env 0] by auto
next
  case (Suc k)
  show ?case
  proof (cases "paused_now (w_store w)")
    case True
    have "\<not> paused_now (w_store ((tick env ^^ k) (tick env w)))"
      using Suc.prems by (simp add: funpow_swap1)
    from Suc.IH [OF this] show ?thesis by (simp only: wait_paused_step [OF True])
  next
    case False
    then show ?thesis using wait_open [of w env "Suc k"] by auto
  qed
qed

text \<open>What the wait keeps, when the others keep it.\<close>

lemma wait_keeps:
  assumes "\<And>n s. P (st_tasks s) \<Longrightarrow> P (st_tasks (env n s))"
  shows "P (st_tasks (w_store w)) \<Longrightarrow> wait_while_paused env fuel w = Some w' \<Longrightarrow> P (st_tasks (w_store w'))"
proof (induction fuel arbitrary: w)
  case (Suc n)
  show ?case
  proof (cases "paused_now (w_store w)")
    case True
    have "P (st_tasks (w_store (tick env w)))" using Suc.prems assms by (simp add: tick_def)
    moreover have "wait_while_paused env n (tick env w) = Some w'"
      using Suc.prems(2) True by (simp only: wait_paused_step)
    ultimately show ?thesis by (rule Suc.IH)
  next
    case False
    with wait_open [of w env n] Suc.prems show ?thesis by auto
  qed
qed simp

text \<open>A successful transition was a committed move on some store, reached by the others' steps.\<close>

lemma transition_cases [consumes 1, case_names waiting acted]:
  assumes "transition H env fuel now task to_state trigger actor w = (r, w')"
  obtains "r = Inl StillPaused" "w' = w" "wait_while_paused env fuel w = None"
    | w1 s where "wait_while_paused env fuel w = Some w1"
      "commit_transition H now task to_state trigger actor (w_store (tick env w1)) = (r, s)"
      "w' = (tick env w1)\<lparr>w_store := s\<rparr>"
proof (cases "wait_while_paused env fuel w")
  case None
  then show ?thesis using assms that(1) by (simp add: transition_def)
next
  case (Some w1)
  obtain r1 s where c: "commit_transition H now task to_state trigger actor (w_store (tick env w1)) = (r1, s)"
    by fastforce
  then have "r1 = r" "w' = (tick env w1)\<lparr>w_store := s\<rparr>"
    using assms Some by (simp_all add: transition_def Let_def)
  then show ?thesis using that(2) [OF Some] c by simp
qed

lemma transition_terminal:
  assumes env: "\<And>n s. st_tasks s tid = Some row0 \<Longrightarrow> st_tasks (env n s) tid = Some row0"
    and row: "st_tasks (w_store w) tid = Some row0" "tk_state row0 \<in> TERMINAL_STATES"
    and copy: "tk_id task = tid" "tk_version row0 = tk_version task \<longrightarrow> tk_state row0 = tk_state task"
    and step: "transition H env fuel now task to_state trigger actor w = (r, w')"
  shows "(\<exists>e. r = Inl e) \<and> st_tasks (w_store w') tid = Some row0"
  using step
proof (cases rule: transition_cases)
  case (acted w1 s)
  have "st_tasks (w_store w1) tid = Some row0"
    using wait_keeps [where P = "\<lambda>t. t tid = Some row0", OF env row(1) acted(1)] by simp
  then have t: "st_tasks (w_store (tick env w1)) tid = Some row0"
    using env by (simp add: tick_def)
  from acted(2) show ?thesis
  proof (cases rule: commit_cases)
    case (moved row task' label)
    then have "tk_state row0 = tk_state task" using t copy by simp
    then show ?thesis using moved(1) row(2) terminal_no_edge by simp
  qed (use acted t in simp_all)
qed (use row in simp)

lemma retry_terminal:
  assumes env: "\<And>n s. st_tasks s tid = Some row0 \<Longrightarrow> st_tasks (env n s) tid = Some row0"
    and "tk_state row0 \<in> TERMINAL_STATES" "tk_id row0 = tid"
  shows "st_tasks (w_store w) tid = Some row0 \<Longrightarrow> tk_id task = tid \<Longrightarrow>
    (tk_version row0 = tk_version task \<longrightarrow> tk_state row0 = tk_state task) \<Longrightarrow>
    retry_loop H env fuel now tid to_state trigger actor n task w = (r, w') \<Longrightarrow>
    (\<exists>e. r = Inl e) \<and> st_tasks (w_store w') tid = Some row0"
proof (induction n arbitrary: task w)
  case (Suc n)
  obtain r1 w1 where s: "transition H env fuel now task to_state trigger actor w = (r1, w1)"
    by fastforce
  have one: "(\<exists>e. r1 = Inl e) \<and> st_tasks (w_store w1) tid = Some row0"
    by (rule transition_terminal [OF env Suc.prems(1) assms(2) Suc.prems(2,3) s])
  have "st_tasks (w_store (tick env w1)) tid = Some row0" using one env by (simp add: tick_def)
  moreover obtain e where "validate_transition (tk_state row0) to_state = Inl e"
    using validate_transition_illegal [OF terminal_no_edge [OF assms(2)]] by blast
  ultimately show ?case
    using Suc.prems(4) one s by (auto split: sum.splits task_error.splits if_splits)
qed auto

section \<open>Properties\<close>

text \<open>A move of one task as a mover of the lifecycle.\<close>

interpretation task_mover: state_mover
  "\<lambda>(to_state, trigger, actor, now) (task, s).
     (case commit_transition H now task to_state trigger actor s of
        (Inl e, s') \<Rightarrow> Inl e | (Inr task', s') \<Rightarrow> Inr (task', s'))"
  "\<lambda>(to_state, _). to_state" "\<lambda>(task, _). tk_state task" for H
proof
  fix m :: "task_state \<times> string option \<times> string \<times> utc_datetime" and p p' :: "task_row \<times> store"
  assume step: "(case m of (to_state, trigger, actor, now) \<Rightarrow> \<lambda>(task, s).
     (case commit_transition H now task to_state trigger actor s of
        (Inl e, s') \<Rightarrow> Inl e | (Inr task', s') \<Rightarrow> Inr (task', s'))) p = Inr p'"
  obtain t tr a n where m: "m = (t, tr, a, n)" by (cases m)
  obtain task s where p: "p = (task, s)" by (cases p)
  obtain task' s' where p': "p' = (task', s')" by (cases p')
  have c: "commit_transition H n task t tr a s = (Inr task', s')"
    using step m p p' by (auto split: prod.splits sum.splits)
  then have "legal (tk_state task) t \<and> tk_state task' = t" by (cases rule: commit_cases) auto
  then show "legal (case p of (task, _) \<Rightarrow> tk_state task) (case m of (to_state, _) \<Rightarrow> to_state)"
    and "(case p' of (task, _) \<Rightarrow> tk_state task) = (case m of (to_state, _) \<Rightarrow> to_state)"
    using m p p' by simp_all
qed

text \<open>
  C5: The audit trail tells how every task got where it is.  In a store where it does
  (recorded moves lead from \<open>CREATED\<close> to the state in the row, the hash chain intact), a
  transition attempt by any caller with a coherent copy, successful or not, keeps it so.
\<close>

theorem transition_keeps_trail:
  assumes "trail_inv H s" "coherent s task"
    and "commit_transition H now task to_state trigger actor s = (r, s')"
  shows "trail_inv H s'"
  using assms by (rule commit_trail_inv)

definition demo_store :: store where
  "demo_store = snd (create_task ''t1'' demo_time ''bug_fix'' None None
     \<lparr>st_tasks = Map.empty, st_audit = empty_audit, st_pause = None\<rparr>)"

lemma contents_empty [simp]: "contents empty_audit = []"
  by (simp add: contents_def chained_def all_rows_in_chain_order_def empty_audit_def)

lemma demo_store_trail: "digest H \<Longrightarrow> trail_inv H demo_store"
  unfolding demo_store_def
  by (rule create_trail_inv) (simp_all add: trail_inv_def empty_audit_good trail_def)

theorem transition_keeps_trail_witness:
  "trail_inv unary_digest
     (snd (commit_transition unary_digest demo_time (the (st_tasks demo_store ''t1'')) TRIAGING None
             ''system'' demo_store))"
proof -
  have "coherent demo_store (the (st_tasks demo_store ''t1''))"
    by (simp add: coherent_def demo_store_def create_task_def Let_def)
  from transition_keeps_trail [OF demo_store_trail [OF unary_digest_ok] this] show ?thesis
    by (metis prod.collapse)
qed

text \<open>
  What the trail implies: every task of such a store reached its state along a history
  of the state machine, so the gates of the lifecycle hold of stored tasks.
\<close>

theorem stored_task_has_history:
  assumes "trail_inv H s" "st_tasks s tid = Some row"
  shows "\<exists>h. history h \<and> last h = tk_state row"
proof -
  have "leads CREATED (trail tid (contents (st_audit s))) (tk_state row)"
    using assms by (auto simp: trail_inv_def)
  from leads_history [OF this, of "[]"] fresh obtain h' where
    "history ([] @ CREATED # h')" "last (CREATED # h') = tk_state row" by auto
  then show ?thesis by (metis append_Nil)
qed

theorem stored_task_has_history_witness:
  "\<exists>h. history h \<and> last h = tk_state (the (st_tasks demo_store ''t1''))"
  by (rule stored_task_has_history [OF demo_store_trail [OF unary_digest_ok]])
    (simp add: demo_store_def create_task_def Let_def)

text \<open>
  A failed transition writes nothing, and a successful one writes exactly one row of
  the task table and one entry of the audit chain, under the version that was read.
\<close>

theorem transition_atomic:
  assumes "chain_good H (st_audit s)"
    and "commit_transition H now task to_state trigger actor s = (r, s')"
  shows "(\<exists>e. r = Inl e \<and> s' = s)
    \<or> (\<exists>task' row entry. r = Inr task' \<and> legal (tk_state task) to_state
         \<and> st_tasks s (tk_id task) = Some row \<and> tk_version row = tk_version task
         \<and> tk_state task' = to_state \<and> tk_version task' = tk_version row + 1
         \<and> st_tasks s' = (st_tasks s)(tk_id task \<mapsto> task')
         \<and> contents (st_audit s') = contents (st_audit s) @ [entry]
         \<and> trail (tk_id task) [entry] = [(Some (state_value (tk_state task)), state_value to_state)])"
  using assms(2)
proof (cases rule: commit_cases)
  case (moved row task' label)
  let ?e = "audit_entry task to_state label actor now"
  have c: "contents (append_chained H ?e (st_audit s)) = contents (st_audit s) @ [?e]"
    using assms(1) by (rule chain_log.entries_append)
  show ?thesis
    by (intro disjI2 exI [of _ task'] exI [of _ row] exI [of _ ?e]) (use moved c in simp)
qed simp_all

theorem transition_atomic_witness:
  "\<exists>e. fst (commit_transition unary_digest demo_time (the (st_tasks demo_store ''t1'')) RESOLVED None
             ''system'' demo_store) = Inl e"
proof -
  have g: "chain_good unary_digest (st_audit demo_store)"
    using demo_store_trail [OF unary_digest_ok] by (simp add: trail_inv_def)
  obtain r s' where c: "commit_transition unary_digest demo_time (the (st_tasks demo_store ''t1''))
      RESOLVED None ''system'' demo_store = (r, s')" by fastforce
  show ?thesis using transition_atomic [OF g c] c
    by (auto simp: demo_store_def create_task_def Let_def)
qed

text \<open>
  C38: A terminal task is not resurrected.  When the stored row is terminal and the other
  writers leave it alone, \<open>transition_with_retry\<close> fails whatever stale copy it started from,
  however often it retries, and the row stays as it was.
\<close>

theorem terminal_task_not_resurrected:
  assumes "\<And>n s. st_tasks s (tk_id task) = Some row0 \<Longrightarrow> st_tasks (env n s) (tk_id task) = Some row0"
    and "st_tasks (w_store w) (tk_id task) = Some row0" "tk_id row0 = tk_id task"
    and "tk_state row0 \<in> TERMINAL_STATES" "coherent (w_store w) task"
  shows "(\<exists>e. fst (transition_with_retry H env fuel now task to_state trigger actor max_retries w) = Inl e)
    \<and> st_tasks (w_store (snd (transition_with_retry H env fuel now task to_state trigger actor max_retries w)))
        (tk_id task) = Some row0"
proof -
  obtain r w' where e: "retry_loop H env fuel now (tk_id task) to_state trigger actor max_retries task w = (r, w')"
    by fastforce
  have "tk_version row0 = tk_version task \<longrightarrow> tk_state row0 = tk_state task"
    using assms(2,5) by (simp add: coherent_def)
  from retry_terminal [OF assms(1,4,3) assms(2) refl this e] e
  show ?thesis by (simp add: transition_with_retry_def)
qed

definition cancelled_row :: task_row where
  "cancelled_row = (the (st_tasks demo_store ''t1''))\<lparr>tk_state := CANCELLED, tk_version := 2\<rparr>"

definition cancelled_world :: world where
  "cancelled_world = \<lparr>w_store = demo_store\<lparr>st_tasks := [''t1'' \<mapsto> cancelled_row]\<rparr>, w_clock = 0\<rparr>"

theorem terminal_task_not_resurrected_witness:
  "\<exists>e. fst (transition_with_retry unary_digest (\<lambda>n s. s) 1 demo_time (the (st_tasks demo_store ''t1'')) TRIAGING
         None ''system'' 3 cancelled_world) = Inl e"
proof -
  have i: "tk_id (the (st_tasks demo_store ''t1'')) = ''t1''"
    by (simp add: demo_store_def create_task_def Let_def)
  have "(\<exists>e. fst (transition_with_retry unary_digest (\<lambda>n s. s) 1 demo_time (the (st_tasks demo_store ''t1'')) TRIAGING
         None ''system'' 3 cancelled_world) = Inl e)
    \<and> st_tasks (w_store (snd (transition_with_retry unary_digest (\<lambda>n s. s) 1 demo_time
         (the (st_tasks demo_store ''t1'')) TRIAGING None ''system'' 3 cancelled_world)))
        (tk_id (the (st_tasks demo_store ''t1''))) = Some cancelled_row"
    by (rule terminal_task_not_resurrected)
      (simp_all add: i cancelled_world_def cancelled_row_def coherent_def TERMINAL_STATES_def
        demo_store_def create_task_def Let_def)
  then show ?thesis by blast
qed

text \<open>
  While the system is paused no transition happens: if the flag is set and nobody clears
  it, a transition attempt is still waiting after any number of polls and has changed
  nothing.
\<close>

theorem pause_holds_transitions:
  assumes "paused_now (w_store w)" "\<And>n s. paused_now s \<Longrightarrow> paused_now (env n s)"
  shows "transition H env fuel now task to_state trigger actor w = (Inl StillPaused, w)"
  using wait_never [OF assms(2,1)] by (simp add: transition_def)

definition paused_world :: world where
  "paused_world = \<lparr>w_store = snd (set_paused True ''cli'' demo_time demo_store), w_clock = 0\<rparr>"

theorem pause_holds_transitions_witness:
  "transition unary_digest (\<lambda>n s. s) 5 demo_time (the (st_tasks demo_store ''t1'')) TRIAGING None ''system'' paused_world
     = (Inl StillPaused, paused_world)"
  by (rule pause_holds_transitions)
    (simp_all add: paused_now_def paused_world_def set_paused_def get_or_create_row_def demo_store_def
      create_task_def Let_def)

text \<open>
  A resume releases the waiting caller: if after \<open>k\<close> rounds of the others' steps the flag
  is clear, \<open>k + 1\<close> polls are enough for the wait to return.
\<close>

theorem resume_releases_waiters:
  assumes "\<not> paused_now (w_store ((tick env ^^ k) w))"
  shows "\<exists>w'. wait_while_paused env (Suc k) w = Some w'"
  using assms by (rule wait_until_resumed)

theorem resume_releases_waiters_witness:
  "\<exists>w'. wait_while_paused (\<lambda>n s. snd (set_paused False ''cli'' demo_time s)) (Suc 1) paused_world = Some w'"
  by (rule resume_releases_waiters)
    (simp add: paused_now_def tick_def set_paused_def get_or_create_row_def paused_world_def Let_def
      case_prod_beta)

end
