(* ===== verification/PyNumbers.thy ===== *)
theory PyNumbers
  imports Complex_Main AuditContent
begin

text \<open>
  Numbers as Python computes with them.  A \<open>Decimal\<close> and a decimal literal are rationals; an
  IEEE double is the rational it denotes, and each operation on doubles is the exact one
  followed by the rounding \<open>fl\<close>, a parameter of the definitions that use floats.  \<open>fp_round\<close>
  states what they rely on: rounding is monotone and idempotent, keeps zero and has a
  relative error of at most \<open>2 powr -52\<close>, as round-to-nearest doubles have in the range of normal numbers.
\<close>

type_synonym flround = "rat \<Rightarrow> rat"

definition fp_round :: "flround \<Rightarrow> bool" where
  "fp_round fl \<longleftrightarrow> mono fl \<and> fl 0 = 0 \<and> (\<forall>x. fl (fl x) = fl x) \<and> (\<forall>x. \<bar>fl x - x\<bar> \<le> \<bar>x\<bar> / 2 ^ 52)"

lemma fp_round_exact: "fp_round (\<lambda>x. x)"
  by (simp add: fp_round_def mono_def)

lemma fp_mono: "fp_round fl \<Longrightarrow> x \<le> y \<Longrightarrow> fl x \<le> fl y"
  by (auto simp: fp_round_def mono_def)

lemma fp_zero [simp]: "fp_round fl \<Longrightarrow> fl 0 = 0"
  by (simp add: fp_round_def)

lemma fp_nonneg: "fp_round fl \<Longrightarrow> 0 \<le> x \<Longrightarrow> 0 \<le> fl x"
  using fp_mono [of fl 0 x] by simp

lemma fp_error: "fp_round fl \<Longrightarrow> \<bar>fl x - x\<bar> \<le> \<bar>x\<bar> / 2 ^ 52"
  by (simp add: fp_round_def)

lemma fp_idem [simp]: "fp_round fl \<Longrightarrow> fl (fl x) = fl x"
  by (simp add: fp_round_def)

text \<open>A coarse form of the error bound, for concrete amounts.\<close>

lemma fp_coarse:
  assumes "fp_round fl" "0 \<le> x"
  shows "x * 999 / 1000 \<le> fl x" "fl x \<le> x * 1001 / 1000"
proof -
  have "\<bar>fl x - x\<bar> \<le> x / 2 ^ 52" using fp_error [OF assms(1), of x] assms(2) by simp
  moreover have "x / 2 ^ 52 \<le> x / 1000" using assms(2) by (intro divide_left_mono) simp_all
  ultimately have e: "\<bar>fl x - x\<bar> \<le> x / 1000" by linarith
  show "x * 999 / 1000 \<le> fl x" "fl x \<le> x * 1001 / 1000" using e by linarith+
qed

text \<open>Python's \<open>round\<close> to an integer: to the nearest, ties to even.\<close>

definition round_half_even :: "rat \<Rightarrow> int" where
  "round_half_even x =
     (let n = floor x; d = x - of_int n
      in if d < 1 / 2 then n else if 1 / 2 < d then n + 1 else if even n then n else n + 1)"

text \<open>
  \<open>round(x, k)\<close>, whose result \<open>Decimal(str(...))\<close> turns into the decimal with \<open>k\<close> places: \<open>repr\<close>
  prints a double that is nearest to a decimal of at most 15 digits as that decimal.
\<close>

definition round_to :: "nat \<Rightarrow> rat \<Rightarrow> rat" where
  "round_to k x = of_int (round_half_even (x * 10 ^ k)) / 10 ^ k"

text \<open>The format specification \<open>.kf\<close>.\<close>

definition fixed_point :: "nat \<Rightarrow> rat \<Rightarrow> string" where
  "fixed_point k x =
     (let n = round_half_even (\<bar>x\<bar> * 10 ^ k); m = nat n
      in (if x < 0 then ''-'' else []) @ nat_digits (m div 10 ^ k) @
         (if k = 0 then [] else ''.'' @ fixed_digits k (m mod 10 ^ k)))"

lemma round_half_even_bounds: "x - 1 / 2 \<le> of_int (round_half_even x)"
  "of_int (round_half_even x) \<le> x + 1 / 2"
proof -
  define n where "n = \<lfloor>x\<rfloor>"
  have "of_int n \<le> x" "x < of_int n + 1" unfolding n_def by linarith+
  then show "x - 1 / 2 \<le> of_int (round_half_even x)" "of_int (round_half_even x) \<le> x + 1 / 2"
    unfolding round_half_even_def Let_def n_def [symmetric] by (auto split: if_splits)
qed

lemma round_half_even_mono:
  assumes "x \<le> y"
  shows "round_half_even x \<le> round_half_even y"
proof -
  have f: "floor x \<le> floor y" using assms by (rule floor_mono)
  show ?thesis
  proof (cases "floor x = floor y")
    case True
    then show ?thesis using assms by (auto simp: round_half_even_def Let_def)
  next
    case False
    then have "floor x + 1 \<le> floor y" using f by simp
    moreover have "round_half_even x \<le> floor x + 1" "floor y \<le> round_half_even y"
      by (simp_all add: round_half_even_def Let_def)
    ultimately show ?thesis by linarith
  qed
qed

lemma round_to_mono: "x \<le> y \<Longrightarrow> round_to k x \<le> round_to k y"
  by (simp add: round_to_def divide_right_mono round_half_even_mono mult_right_mono)

lemma round_to_0 [simp]: "round_to k 0 = 0"
  by (simp add: round_to_def round_half_even_def)

lemma round_to_nonneg: "0 \<le> x \<Longrightarrow> 0 \<le> round_to k x"
  using round_to_mono [of 0 x k] by simp

section \<open>Days and instants\<close>

text \<open>Aware UTC datetimes compare field by field; a date is the first three fields.\<close>

definition dt_key :: "utc_datetime \<Rightarrow> nat list" where
  "dt_key t = [dt_year t, dt_month t, dt_day t, dt_hour t, dt_minute t, dt_second t, dt_micro t]"

fun key_le :: "nat list \<Rightarrow> nat list \<Rightarrow> bool" where
  "key_le (x # xs) (y # ys) = (x < y \<or> (x = y \<and> key_le xs ys))"
| "key_le xs ys = (xs = [])"

definition dt_le :: "utc_datetime \<Rightarrow> utc_datetime \<Rightarrow> bool" where
  "dt_le a b = key_le (dt_key a) (dt_key b)"

type_synonym day = "nat \<times> nat \<times> nat"

definition date_of :: "utc_datetime \<Rightarrow> day" where
  "date_of t = (dt_year t, dt_month t, dt_day t)"

definition midnight :: "day \<Rightarrow> utc_datetime" where
  "midnight d = \<lparr>dt_year = fst d, dt_month = fst (snd d), dt_day = snd (snd d),
                 dt_hour = 0, dt_minute = 0, dt_second = 0, dt_micro = 0\<rparr>"

lemma midnight_le: "dt_le (midnight (date_of t)) t"
  by (auto simp: dt_le_def dt_key_def midnight_def date_of_def)

end
