(* ===== verification/CircuitBreakers.thy ===== *)
theory CircuitBreakers
  imports PyNumbers TaskStore
begin

text \<open>
  The breakers of \<open>amop/safety/circuit_breakers.py\<close>: functions of the rows of the \<open>tasks\<close>
  table and the clock that answer whether another task may start.  The clock arithmetic of
  the library is a parameter: \<open>cutoff\<close> is an hour before now.
\<close>

record breaker_result =
  br_allow :: bool
  br_reason :: "string option"

definition breaker_allow :: breaker_result where
  "breaker_allow = \<lparr>br_allow = True, br_reason = None\<rparr>"

definition breaker_deny :: "string \<Rightarrow> breaker_result" where
  "breaker_deny reason = \<lparr>br_allow = False, br_reason = Some reason\<rparr>"

definition DEFAULT_COST_ESTIMATE_PER_TASK_USD :: rat where
  "DEFAULT_COST_ESTIMATE_PER_TASK_USD = 5 / 100"
definition DEFAULT_MAX_COST_PER_DAY_USD :: rat where "DEFAULT_MAX_COST_PER_DAY_USD = 25"
definition DEFAULT_MAX_TASKS_PER_HOUR :: nat where "DEFAULT_MAX_TASKS_PER_HOUR = 20"
definition DEFAULT_MAX_ANOMALIES_PER_HOUR_PER_REPO :: nat where
  "DEFAULT_MAX_ANOMALIES_PER_HOUR_PER_REPO = 10"
definition DEFAULT_FAILURE_STREAK_THRESHOLD :: nat where "DEFAULT_FAILURE_STREAK_THRESHOLD = 3"

text \<open>Postgres' \<open>->>\<close>: SQL \<open>NULL\<close> for a missing key and for JSON \<open>null\<close>, a string unquoted.\<close>

fun astext :: "pyval \<Rightarrow> string option" where
  "astext PNone = None"
| "astext (PStr s) = Some s"
| "astext v = Some (json_dump v)"

definition context_text :: "string \<Rightarrow> task_row \<Rightarrow> string option" where
  "context_text key row =
     (case tk_task_context row of None \<Rightarrow> None | Some d \<Rightarrow> astext (dict_get d key))"

definition utc_day_start :: "utc_datetime \<Rightarrow> utc_datetime" where
  "utc_day_start now = now\<lparr>dt_hour := 0, dt_minute := 0, dt_second := 0, dt_micro := 0\<rparr>"

text \<open>\<open>float\<close> is the parameter \<open>parse_float\<close>; \<open>sum\<close> rounds the exact sum once.\<close>

definition check_cost_breaker ::
    "flround \<Rightarrow> (string \<Rightarrow> rat) \<Rightarrow> task_row list \<Rightarrow> utc_datetime \<Rightarrow> rat \<Rightarrow> rat \<Rightarrow> breaker_result" where
  "check_cost_breaker fl parse_float rows now estimate_usd cap_usd =
     (let day_start = utc_day_start now;
          today = filter (\<lambda>r. dt_le day_start (tk_created_at r)) rows;
          spent = fl (sum_list (map parse_float
                    (List.map_filter (context_text ''cost_estimate_usd'') today)))
      in if fl (spent + estimate_usd) > cap_usd
         then breaker_deny
           (''max_cost_per_day_usd cap ($'' @ fixed_point 2 cap_usd @ '') would be exceeded: '' @
            ''$'' @ fixed_point 2 spent @ '' already spent today + $'' @ fixed_point 2 estimate_usd @
            '' estimate for this task'')
         else breaker_allow)"

definition created_since :: "utc_datetime \<Rightarrow> task_row list \<Rightarrow> nat" where
  "created_since cutoff rows = length (filter (\<lambda>r. dt_le cutoff (tk_created_at r)) rows)"

definition check_tasks_per_hour :: "task_row list \<Rightarrow> utc_datetime \<Rightarrow> nat \<Rightarrow> breaker_result" where
  "check_tasks_per_hour rows cutoff cap =
     (let count = created_since cutoff rows
      in if count \<ge> cap
         then breaker_deny (''max_tasks_per_hour cap ('' @ nat_digits cap @ '') reached: '' @
                nat_digits count @ '' tasks created in the last hour'')
         else breaker_allow)"

definition watcher_row :: "string \<Rightarrow> task_row \<Rightarrow> bool" where
  "watcher_row repo r \<longleftrightarrow>
     context_text ''source'' r = Some ''github_watcher'' \<and> context_text ''repo'' r = Some repo"

definition check_anomaly_rate ::
    "task_row list \<Rightarrow> utc_datetime \<Rightarrow> string \<Rightarrow> nat \<Rightarrow> breaker_result" where
  "check_anomaly_rate rows cutoff repo cap =
     (let count = created_since cutoff (filter (watcher_row repo) rows)
      in if count \<ge> cap
         then breaker_deny (''anomaly_rate_breaker cap ('' @ nat_digits cap @ ''/hour) reached for '' @
                repo @ '': '' @ nat_digits count @
                '' watcher-created tasks in the last hour -- detection '' @
                ''rate abnormal, investigate the detector, not the app'')
         else breaker_allow)"

text \<open>
  The rows of one incident, newest first.  Rows created at the same instant have no order in
  SQL; they keep the table's here.
\<close>

definition incident_row :: "string \<Rightarrow> int option \<Rightarrow> string option \<Rightarrow> task_row \<Rightarrow> bool" where
  "incident_row repo issue exclude_task_id r \<longleftrightarrow>
     context_text ''repo'' r = Some repo
     \<and> (case issue of None \<Rightarrow> True | Some n \<Rightarrow> context_text ''github_issue_number'' r = Some (int_str n))
     \<and> (case exclude_task_id of None \<Rightarrow> True | Some tid \<Rightarrow> tk_id r \<noteq> tid)"

fun insert_newest :: "task_row \<Rightarrow> task_row list \<Rightarrow> task_row list" where
  "insert_newest r [] = [r]"
| "insert_newest r (s # rs) =
     (if dt_le (tk_created_at s) (tk_created_at r) then r # s # rs else s # insert_newest r rs)"

definition newest_first :: "task_row list \<Rightarrow> task_row list" where
  "newest_first rows = foldr insert_newest rows []"

definition check_failure_streak ::
    "task_row list \<Rightarrow> string \<Rightarrow> int option \<Rightarrow> nat \<Rightarrow> string option \<Rightarrow> breaker_result" where
  "check_failure_streak rows repo issue streak exclude_task_id =
     (let recent_states = map tk_state (take streak
            (newest_first (filter (incident_row repo issue exclude_task_id) rows)))
      in if length recent_states \<ge> streak \<and> list_all (\<lambda>s. s = FAILED) recent_states
         then breaker_deny (''failure_streak_breaker: '' @ nat_digits streak @
                '' consecutive FAILED outcomes on '' @ repo @
                (case issue of None \<Rightarrow> [] | Some n \<Rightarrow> '' issue #'' @ int_str n) @
                '' -- further auto-retry blocked regardless of remaining cost budget'')
         else breaker_allow)"

section \<open>Rates\<close>

lemma key_le_trans: "key_le xs ys \<Longrightarrow> key_le ys zs \<Longrightarrow> key_le xs zs"
proof (induction xs ys arbitrary: zs rule: key_le.induct)
  case (1 x xs y ys)
  then show ?case by (cases zs) auto
qed auto

lemma dt_le_trans: "dt_le a b \<Longrightarrow> dt_le b c \<Longrightarrow> dt_le a c"
  unfolding dt_le_def by (rule key_le_trans)

lemma created_since_antimono: "dt_le c d \<Longrightarrow> created_since d rows \<le> created_since c rows"
  unfolding created_since_def by (induction rows) (auto intro: dt_le_trans)

lemma created_since_Cons:
  "created_since c (r # rows) = (if dt_le c (tk_created_at r) then Suc (created_since c rows)
     else created_since c rows)"
  by (simp add: created_since_def)

text \<open>
  Creation attempts in time order, each with the cutoff it looks back to: a task is created
  only if the breaker admits it.
\<close>

fun attempts ::
    "('s \<Rightarrow> utc_datetime \<Rightarrow> nat \<Rightarrow> bool) \<Rightarrow> ('r \<Rightarrow> 's \<Rightarrow> 's) \<Rightarrow> nat
     \<Rightarrow> (utc_datetime \<times> 'r) list \<Rightarrow> 's \<Rightarrow> 's" where
  "attempts admits create cap [] s = s"
| "attempts admits create cap ((c, r) # as) s =
     attempts admits create cap as (if admits s c cap then create r s else s)"

definition hourly_admits :: "task_row list \<Rightarrow> utc_datetime \<Rightarrow> nat \<Rightarrow> bool" where
  "hourly_admits rows cutoff cap = br_allow (check_tasks_per_hour rows cutoff cap)"

text \<open>
  A breaker that counts what happened since a moving cutoff and admits below a cap.  What is
  counted never grows when the cutoff moves on, and one admission adds at most one.
\<close>

locale rate_breaker =
  fixes count :: "utc_datetime \<Rightarrow> 's \<Rightarrow> nat" and admits :: "'s \<Rightarrow> utc_datetime \<Rightarrow> nat \<Rightarrow> bool"
    and create :: "'r \<Rightarrow> 's \<Rightarrow> 's"
  assumes admits_iff: "admits s c cap \<longleftrightarrow> count c s < cap"
    and count_later: "dt_le c d \<Longrightarrow> count d s \<le> count c s"
    and count_create: "count c (create r s) \<le> Suc (count c s)"
begin

lemma attempts_bounded:
  "count first_cutoff s \<le> cap \<Longrightarrow> sorted_wrt (\<lambda>a b. dt_le (fst a) (fst b)) ((first_cutoff, row) # as) \<Longrightarrow>
     dt_le (fst (last ((first_cutoff, row) # as))) d \<Longrightarrow> count d (attempts admits create cap as s) \<le> cap"
proof (induction as arbitrary: s first_cutoff row)
  case Nil
  then show ?case using count_later [of first_cutoff d s] by simp
next
  case (Cons a as)
  obtain c r where a: "a = (c, r)" by (cases a)
  have "count c s \<le> cap"
    using Cons.prems a count_later [of first_cutoff c s] by auto
  moreover have "count c (create r s) \<le> cap" if "admits s c cap"
    using that count_create [of c r s] by (simp add: admits_iff)
  ultimately have "count c (if admits s c cap then create r s else s) \<le> cap" by simp
  from Cons.IH [OF this] show ?case using Cons.prems a by auto
qed

end

interpretation hourly: rate_breaker created_since
    hourly_admits "(#)"
  by unfold_locales
    (simp_all add: hourly_admits_def check_tasks_per_hour_def breaker_allow_def breaker_deny_def
      Let_def created_since_antimono created_since_Cons)

interpretation anomalies: rate_breaker "\<lambda>c rows. created_since c (filter (watcher_row repo) rows)"
    "\<lambda>rows cutoff cap. br_allow (check_anomaly_rate rows cutoff repo cap)" "(#)" for repo
  by unfold_locales
    (simp_all add: check_anomaly_rate_def breaker_allow_def breaker_deny_def Let_def
      created_since_antimono created_since_Cons)

section \<open>Streaks\<close>

lemma set_insert_newest [simp]: "set (insert_newest r rs) = insert r (set rs)"
  by (induction rs) auto

lemma length_insert_newest [simp]: "length (insert_newest r rs) = Suc (length rs)"
  by (induction rs) auto

lemma length_newest_first [simp]: "length (newest_first rs) = length rs"
  by (induction rs) (simp_all add: newest_first_def)

lemma set_newest_first [simp]: "set (newest_first rs) = set rs"
  by (induction rs) (simp_all add: newest_first_def)

lemma newest_first_Cons:
  assumes "\<forall>s\<in>set rs. dt_le (tk_created_at s) (tk_created_at r)"
  shows "newest_first (r # rs) = r # newest_first rs"
proof (cases "newest_first rs")
  case Nil
  then show ?thesis by (simp add: newest_first_def)
next
  case (Cons s ss)
  then have "s \<in> set rs" by (metis list.set_intros(1) set_newest_first)
  then show ?thesis using assms Cons by (simp add: newest_first_def)
qed

section \<open>Properties\<close>

text \<open>
  Task creation gated by the hourly breaker stays under the cap: when attempts come in
  time order and each task is created only if the breaker allows it, then at every later
  moment at most \<open>cap\<close> tasks were created in the hour before it.
\<close>

theorem hourly_cap_holds:
  assumes "sorted_wrt (\<lambda>a b. dt_le (fst a) (fst b)) ((first_cutoff, row) # as)"
    and "dt_le (fst (last ((first_cutoff, row) # as))) d"
  shows "created_since d (attempts hourly_admits (#) cap as []) \<le> cap"
  using assms by (intro hourly.attempts_bounded) (simp_all add: created_since_def)

theorem hourly_cap_holds_witness:
  "created_since demo_time (attempts hourly_admits (#) 20 [(demo_time, cancelled_row)] []) \<le> 20"
  by (rule hourly_cap_holds [where first_cutoff = demo_time and row = cancelled_row])
    (simp_all add: dt_le_def dt_key_def demo_time_def)

text \<open>
  The failure-streak breaker sees through the candidate it is asked about.  With the
  candidate (the newest row, already in the table) excluded the answer is the one its history
  gives; were it not excluded, any candidate that has not failed would hide every streak.
\<close>

theorem streak_ignores_candidate:
  assumes "\<forall>r\<in>set rows. tk_id r \<noteq> tk_id candidate \<and> dt_le (tk_created_at r) (tk_created_at candidate)"
    and "incident_row repo issue None candidate" "tk_state candidate \<noteq> FAILED" "0 < streak"
  shows "check_failure_streak (candidate # rows) repo issue streak (Some (tk_id candidate))
           = check_failure_streak rows repo issue streak None
     \<and> br_allow (check_failure_streak (candidate # rows) repo issue streak None)"
proof -
  have "filter (incident_row repo issue (Some (tk_id candidate))) (candidate # rows)
      = filter (incident_row repo issue None) rows"
    using assms(1) by (auto simp: incident_row_def intro!: filter_cong)
  moreover have "newest_first (filter (incident_row repo issue None) (candidate # rows))
      = candidate # newest_first (filter (incident_row repo issue None) rows)"
    using assms(1,2) by (simp add: newest_first_Cons)
  ultimately show ?thesis
    using assms(3,4) by (cases streak) (simp_all add: check_failure_streak_def breaker_allow_def)
qed

definition failed_row :: "string \<Rightarrow> task_row" where
  "failed_row tid = cancelled_row\<lparr>tk_id := tid, tk_state := FAILED,
     tk_task_context := Some [(''repo'', PStr ''o/r'')]\<rparr>"

theorem streak_ignores_candidate_witness:
  "\<not> br_allow (check_failure_streak
       ((failed_row ''c'')\<lparr>tk_state := TRIAGING\<rparr> # map failed_row [''1'', ''2'', ''3'']) ''o/r'' None 3
       (Some ''c''))"
proof -
  have "check_failure_streak
       ((failed_row ''c'')\<lparr>tk_state := TRIAGING\<rparr> # map failed_row [''1'', ''2'', ''3'']) ''o/r'' None 3
       (Some (tk_id ((failed_row ''c'')\<lparr>tk_state := TRIAGING\<rparr>)))
     = check_failure_streak (map failed_row [''1'', ''2'', ''3'']) ''o/r'' None 3 None"
    by (rule conjunct1 [OF streak_ignores_candidate])
      (simp_all add: failed_row_def incident_row_def context_text_def dict_get_def dt_le_def dt_key_def)
  then show ?thesis
    by (simp add: failed_row_def check_failure_streak_def incident_row_def context_text_def
        dict_get_def newest_first_def breaker_deny_def Let_def numeral_3_eq_3)
qed

end
