(* ===== verification/CostLedger.thy ===== *)
theory CostLedger
  imports PyNumbers AuditChain
begin

text \<open>
  What model calls cost: \<open>amop/models/cost.py\<close> and \<open>record_model_call\<close> of
  \<open>amop/audit/actions.py\<close>.  The ledger holds the audit chain, the cost columns of the
  \<open>agent_actions\<close> rows and the \<open>budgets\<close> table.  Log lines are left out.
\<close>

section \<open>Rates\<close>

record token_rates =
  base_input :: rat
  cache_write :: rat
  cache_read :: rat
  output_rate :: rat

definition RATE_TABLE_PER_MILLION :: "(string \<times> token_rates) list" where
  "RATE_TABLE_PER_MILLION =
    [(''claude-opus'', \<lparr>base_input = 15, cache_write = 1875 / 100, cache_read = 15 / 10, output_rate = 75\<rparr>),
     (''claude-sonnet'', \<lparr>base_input = 3, cache_write = 375 / 100, cache_read = 3 / 10, output_rate = 15\<rparr>),
     (''claude-haiku'', \<lparr>base_input = 8 / 10, cache_write = 1, cache_read = 8 / 100, output_rate = 4\<rparr>),
     (''gpt-4o'', \<lparr>base_input = 25 / 10, cache_write = 25 / 10, cache_read = 125 / 100, output_rate = 10\<rparr>),
     (''gpt-4'', \<lparr>base_input = 30, cache_write = 30, cache_read = 15, output_rate = 60\<rparr>),
     (''gpt-3.5'', \<lparr>base_input = 5 / 10, cache_write = 5 / 10, cache_read = 25 / 100, output_rate = 15 / 10\<rparr>)]"

definition ZERO_RATES :: token_rates where
  "ZERO_RATES = \<lparr>base_input = 0, cache_write = 0, cache_read = 0, output_rate = 0\<rparr>"

text \<open>A literal is read to the nearest double, and so is the quotient by a million.\<close>

definition per_token :: "flround \<Rightarrow> rat \<Rightarrow> rat" where
  "per_token fl published = fl (fl published / 1000000)"

definition rates_for_model :: "flround \<Rightarrow> string \<Rightarrow> token_rates" where
  "rates_for_model fl model =
     (let lowered = py_lower model;
          longest_first = sort_key (\<lambda>(key, _). - int (length key)) RATE_TABLE_PER_MILLION
      in case find (\<lambda>(key, _). contains key lowered) longest_first of
           Some (_, row) \<Rightarrow>
             \<lparr>base_input = per_token fl (base_input row), cache_write = per_token fl (cache_write row),
              cache_read = per_token fl (cache_read row), output_rate = per_token fl (output_rate row)\<rparr>
         | None \<Rightarrow> ZERO_RATES)"

section \<open>What a call cost, and what it may cost\<close>

text \<open>The token counts a provider reports; a missing count is \<open>None\<close>.\<close>

record usage =
  cache_creation_input_tokens :: "nat option"
  cache_read_input_tokens :: "nat option"
  uncached_input_tokens :: "nat option"
  output_tokens :: "nat option"

definition tokens :: "nat option \<Rightarrow> rat" where
  "tokens n = (case n of None \<Rightarrow> 0 | Some k \<Rightarrow> of_nat k)"

definition estimate_cost_usd :: "flround \<Rightarrow> string \<Rightarrow> usage \<Rightarrow> rat" where
  "estimate_cost_usd fl model u =
     (let rates = rates_for_model fl model;
          total = fl (fl (fl (fl (tokens (cache_creation_input_tokens u) * cache_write rates)
                              + fl (tokens (cache_read_input_tokens u) * cache_read rates))
                          + fl (tokens (uncached_input_tokens u) * base_input rates))
                      + fl (tokens (output_tokens u) * output_rate rates))
      in round_to 8 total)"

text \<open>\<open>json.dumps(messages, ensure_ascii=False)\<close> of the list of role/content dictionaries.\<close>

type_synonym message = "string \<times> string"

definition dump_message :: "message \<Rightarrow> string" where
  "dump_message m = ''{'' @ json_str ''role'' @ '': '' @ json_str (fst m) @ '', ''
     @ json_str ''content'' @ '': '' @ json_str (snd m) @ ''}''"

definition estimate_input_tokens :: "message list \<Rightarrow> nat" where
  "estimate_input_tokens messages =
     (let serialized = ''['' @ join_with '', '' (map dump_message messages) @ '']''
      in max 1 (length serialized div 4))"

definition max_plausible_cost_usd :: "flround \<Rightarrow> string \<Rightarrow> nat \<Rightarrow> nat \<Rightarrow> rat" where
  "max_plausible_cost_usd fl model input_tokens_estimate max_tokens =
     (let rates = rates_for_model fl model;
          total = fl (fl (of_nat input_tokens_estimate * base_input rates)
                      + fl (of_nat max_tokens * output_rate rates))
      in round_to 8 total)"

section \<open>The budget\<close>

record cost_row =
  co_task_id :: "string option"
  co_timestamp :: utc_datetime
  co_estimated_cost_usd :: "rat option"

record ledger =
  ld_audit :: audit_db
  ld_costs :: "cost_row list"
  ld_budgets :: "string \<times> day \<rightharpoonup> rat"

definition GLOBAL_SCOPE :: string where "GLOBAL_SCOPE = ''global''"

definition task_scope :: "string \<Rightarrow> string" where "task_scope tid = ''task:'' @ tid"

datatype budget_error = BudgetExceededError string | UnrecognizedScope string

definition spent_today :: "ledger \<Rightarrow> string \<Rightarrow> day \<Rightarrow> rat" where
  "spent_today l scope today = (case ld_budgets l (scope, today) of None \<Rightarrow> 0 | Some v \<Rightarrow> v)"

definition check_budget_before_dispatch ::
    "flround \<Rightarrow> ledger \<Rightarrow> day \<Rightarrow> string \<Rightarrow> message list \<Rightarrow> nat \<Rightarrow> rat \<Rightarrow> string
     \<Rightarrow> (budget_error, unit) result" where
  "check_budget_before_dispatch fl l today model messages max_tokens cap_usd scope =
     (let spent = spent_today l scope today;
          worst_case = max_plausible_cost_usd fl model (estimate_input_tokens messages) max_tokens;
          projected = spent + worst_case
      in if projected > cap_usd
         then Inl (BudgetExceededError
           (''budget cap ($'' @ fixed_point 4 cap_usd @ '', scope='' @ repr_str scope @
            '') would be exceeded: $'' @ fixed_point 4 spent @ '' already spent today + $'' @
            fixed_point 4 worst_case @ '' worst-case for this call = $'' @ fixed_point 4 projected))
         else Inr ())"

definition record_spend :: "string \<Rightarrow> rat \<Rightarrow> day \<Rightarrow> ledger \<Rightarrow> ledger" where
  "record_spend scope amount_usd today l =
     l\<lparr>ld_budgets := (ld_budgets l)((scope, today) \<mapsto>
         (case ld_budgets l (scope, today) of None \<Rightarrow> amount_usd | Some v \<Rightarrow> v + amount_usd))\<rparr>"

definition reconciled_total :: "string option \<Rightarrow> day \<Rightarrow> cost_row list \<Rightarrow> rat" where
  "reconciled_total task today rows =
     sum_list (map (\<lambda>r. case co_estimated_cost_usd r of None \<Rightarrow> 0 | Some v \<Rightarrow> v)
       (filter (\<lambda>r. dt_le (midnight today) (co_timestamp r)
                    \<and> (case task of None \<Rightarrow> True | Some tid \<Rightarrow> co_task_id r = Some tid)) rows))"

definition reconcile_budget :: "string \<Rightarrow> day \<Rightarrow> ledger \<Rightarrow> (budget_error, rat) result \<times> ledger" where
  "reconcile_budget scope today l =
     (if scope = GLOBAL_SCOPE then
        (let total = reconciled_total None today (ld_costs l)
         in (Inr total, l\<lparr>ld_budgets := (ld_budgets l)((scope, today) \<mapsto> total)\<rparr>))
      else if starts_with scope ''task:'' then
        (let total = reconciled_total (Some (removeprefix ''task:'' scope)) today (ld_costs l)
         in (Inr total, l\<lparr>ld_budgets := (ld_budgets l)((scope, today) \<mapsto> total)\<rparr>))
      else (Inl (UnrecognizedScope scope), l))"

definition MODEL_CALL_TOOL_NAME :: string where "MODEL_CALL_TOOL_NAME = ''model.complete''"

text \<open>
  One transaction: the chained audit row, its cost and the two accumulations.  \<open>ok\<close> is whether
  it commits; when it does not, nothing of it is kept.  \<open>row_now\<close> and \<open>spend_now\<close> are the two
  readings of the clock.
\<close>

definition record_model_call ::
    "(string \<Rightarrow> string) \<Rightarrow> flround \<Rightarrow> bool \<Rightarrow> bool \<Rightarrow> string option \<Rightarrow> string \<Rightarrow> string \<Rightarrow> usage
     \<Rightarrow> utc_datetime \<Rightarrow> utc_datetime \<Rightarrow> ledger \<Rightarrow> ledger" where
  "record_model_call H fl has_session ok task_id agent_name model u row_now spend_now l =
     (if \<not> has_session \<or> \<not> ok then l
      else
        let cost = estimate_cost_usd fl model u;
            row = Action \<lparr>aa_task_id = task_id, aa_agent_name = Some agent_name,
                    aa_tool_name = Some MODEL_CALL_TOOL_NAME,
                    aa_arguments = Some [(''model'', PStr model)], aa_result = None,
                    aa_decision = None, aa_decision_reason = None, aa_timestamp = row_now\<rparr>;
            l1 = l\<lparr>ld_audit := append_chained H row (ld_audit l),
                   ld_costs := ld_costs l @ [\<lparr>co_task_id = task_id, co_timestamp = row_now,
                                              co_estimated_cost_usd = Some cost\<rparr>]\<rparr>;
            l2 = record_spend GLOBAL_SCOPE cost (date_of spend_now) l1
        in case task_id of
             None \<Rightarrow> l2
           | Some tid \<Rightarrow> record_spend (task_scope tid) cost (date_of spend_now) l2)"

section \<open>Rates and estimates\<close>

lemma rate_nonneg:
  assumes "fp_round fl"
  shows "0 \<le> base_input (rates_for_model fl m)" "0 \<le> cache_write (rates_for_model fl m)"
    "0 \<le> cache_read (rates_for_model fl m)" "0 \<le> output_rate (rates_for_model fl m)"
proof -
  let ?L = "sort_key (\<lambda>(key, _). - int (length key)) RATE_TABLE_PER_MILLION"
  have row: "0 \<le> base_input r \<and> 0 \<le> cache_write r \<and> 0 \<le> cache_read r \<and> 0 \<le> output_rate r"
    if "find P ?L = Some (k, r)" for P k r
  proof -
    have "(k, r) \<in> set ?L" using that unfolding find_Some_iff by (metis nth_mem)
    then show ?thesis by (auto simp: RATE_TABLE_PER_MILLION_def)
  qed
  have p: "0 \<le> x \<Longrightarrow> 0 \<le> per_token fl x" for x
    using assms by (simp add: per_token_def fp_nonneg)
  show "0 \<le> base_input (rates_for_model fl m)" "0 \<le> cache_write (rates_for_model fl m)"
    "0 \<le> cache_read (rates_for_model fl m)" "0 \<le> output_rate (rates_for_model fl m)"
    by (auto simp: rates_for_model_def Let_def ZERO_RATES_def p dest!: row split: option.split)
qed

lemma tokens_nonneg [simp]: "0 \<le> tokens n"
  by (simp add: tokens_def split: option.split)

lemma estimate_nonneg:
  assumes "fp_round fl"
  shows "0 \<le> estimate_cost_usd fl model u"
  using assms rate_nonneg [OF assms, of model]
  by (simp add: estimate_cost_usd_def Let_def round_to_nonneg fp_nonneg)

lemma opus_rates:
  "rates_for_model fl ''claude-opus'' =
     \<lparr>base_input = per_token fl 15, cache_write = per_token fl (1875 / 100),
      cache_read = per_token fl (15 / 10), output_rate = per_token fl 75\<rparr>"
proof -
  have "find (\<lambda>(key, _). contains key (py_lower ''claude-opus''))
      (sort_key (\<lambda>(key, _). - int (length key)) RATE_TABLE_PER_MILLION)
    = Some (''claude-opus'', \<lparr>base_input = 15, cache_write = 1875 / 100, cache_read = 15 / 10, output_rate = 75\<rparr>)"
    by code_simp
  then show ?thesis by (simp add: rates_for_model_def Let_def)
qed

section \<open>Counting what was spent\<close>

text \<open>
  A counter per key to which amounts are added: the order of the additions, and what is
  added to other keys in between, makes no difference to a total.
\<close>

locale accumulator =
  fixes add :: "'k \<Rightarrow> rat \<Rightarrow> 's \<Rightarrow> 's" and total :: "'s \<Rightarrow> 'k \<Rightarrow> rat"
  assumes total_add: "total (add k a s) k' = total s k' + (if k' = k then a else 0)"
begin

lemma total_fold:
  "total (fold (\<lambda>(k, a). add k a) cs s) k = total s k + sum_list (map snd (filter (\<lambda>c. fst c = k) cs))"
  by (induction cs arbitrary: s) (auto simp: total_add)

lemma order_irrelevant:
  assumes "mset cs = mset ds"
  shows "total (fold (\<lambda>(k, a). add k a) cs s) k = total (fold (\<lambda>(k, a). add k a) ds s) k"
proof -
  have "mset (map snd (filter (\<lambda>c. fst c = k) cs)) = mset (map snd (filter (\<lambda>c. fst c = k) ds))"
    using assms by simp
  then show ?thesis by (metis total_fold sum_mset_sum_list)
qed

end

lemma spent_record [simp]:
  "spent_today (record_spend scope a d l) scope' d' =
     spent_today l scope' d' + (if scope' = scope \<and> d' = d then a else 0)"
  by (cases "scope' = scope \<and> d' = d")
    (auto simp: record_spend_def spent_today_def split: option.splits)

interpretation spend: accumulator "\<lambda>k a. record_spend (fst k) a (snd k)"
    "\<lambda>l k. spent_today l (fst k) (snd k)"
  by unfold_locales (auto simp: prod_eq_iff)

lemma spent_more [simp]:
  "spent_today (l\<lparr>ld_audit := a\<rparr>) scope d = spent_today l scope d"
  "spent_today (l\<lparr>ld_costs := c\<rparr>) scope d = spent_today l scope d"
  by (simp_all add: spent_today_def)

lemma record_spend_costs [simp]: "ld_costs (record_spend scope a d l) = ld_costs l"
  by (simp add: record_spend_def)

lemma task_scope_not_global [simp]: "task_scope t \<noteq> GLOBAL_SCOPE" "GLOBAL_SCOPE \<noteq> task_scope t"
  by (simp_all add: task_scope_def GLOBAL_SCOPE_def)

lemma task_scope_eq [simp]: "task_scope s = task_scope t \<longleftrightarrow> s = t"
  by (simp add: task_scope_def)

definition scope_of :: "string option \<Rightarrow> string" where
  "scope_of t = (case t of None \<Rightarrow> GLOBAL_SCOPE | Some tid \<Rightarrow> task_scope tid)"

text \<open>The counters agree with the table, for one day, the last one with rows.\<close>

definition counters_match :: "day \<Rightarrow> ledger \<Rightarrow> bool" where
  "counters_match d l \<longleftrightarrow>
     (\<forall>t. spent_today l (scope_of t) d = reconciled_total t d (ld_costs l))"

lemma record_model_call_counts:
  assumes "counters_match d l" "date_of row_now = d" "date_of spend_now = d"
  shows "counters_match d (record_model_call H fl has_session ok task_id agent model u row_now spend_now l)"
proof -
  have m: "dt_le (midnight d) row_now" using midnight_le [of row_now] assms(2) by simp
  show ?thesis
    using assms(1) m assms(3)
    by (cases task_id)
      (auto simp: counters_match_def record_model_call_def Let_def reconciled_total_def scope_of_def
        split: option.splits)
qed

lemma reconcile_scope:
  "reconcile_budget (scope_of t) d l =
     (Inr (reconciled_total t d (ld_costs l)),
      l\<lparr>ld_budgets := (ld_budgets l)((scope_of t, d) \<mapsto> reconciled_total t d (ld_costs l))\<rparr>)"
proof (cases t)
  case None
  then show ?thesis by (simp add: reconcile_budget_def scope_of_def Let_def)
next
  case (Some tid)
  have "removeprefix ''task:'' (task_scope tid) = tid"
    by (simp add: removeprefix_def task_scope_def)
  moreover have "starts_with (task_scope tid) ''task:''" by (simp add: task_scope_def)
  ultimately show ?thesis using Some by (simp add: reconcile_budget_def scope_of_def Let_def)
qed

section \<open>Calls in flight\<close>

text \<open>
  Dispatched calls, each with the worst case its check assumed, and the ledger.  A dispatch
  passes the check against the counter as it stands; a call that finishes records what it
  really cost, which its worst case bounds.  Checks and records interleave freely.
\<close>

inductive call_step :: "flround \<Rightarrow> day \<Rightarrow> rat \<Rightarrow> ledger \<times> rat list \<Rightarrow> ledger \<times> rat list \<Rightarrow> bool"
  for fl today cap where
  dispatch: "check_budget_before_dispatch fl l today model messages max_tokens cap GLOBAL_SCOPE = Inr () \<Longrightarrow>
     call_step fl today cap (l, ws)
       (l, max_plausible_cost_usd fl model (estimate_input_tokens messages) max_tokens # ws)"
| finish: "w \<in> set ws \<Longrightarrow> a \<le> w \<Longrightarrow>
     call_step fl today cap (l, ws) (record_spend GLOBAL_SCOPE a today l, remove1 w ws)"

inductive call_run :: "flround \<Rightarrow> day \<Rightarrow> rat \<Rightarrow> nat \<Rightarrow> rat \<Rightarrow> ledger \<times> rat list \<Rightarrow> ledger \<times> rat list \<Rightarrow> bool"
  for fl today cap k W where
  none: "call_run fl today cap k W s s"
| one_more: "call_run fl today cap k W s t \<Longrightarrow> call_step fl today cap t u \<Longrightarrow>
     length (snd u) \<le> k \<Longrightarrow> (\<forall>w\<in>set (snd u). 0 \<le> w \<and> w \<le> W) \<Longrightarrow> call_run fl today cap k W s u"

definition committed :: "day \<Rightarrow> ledger \<times> rat list \<Rightarrow> rat" where
  "committed today s = spent_today (fst s) GLOBAL_SCOPE today + sum_list (snd s)"

lemma check_passed:
  "check_budget_before_dispatch fl l today model messages max_tokens cap scope = Inr () \<longleftrightarrow>
     spent_today l scope today
       + max_plausible_cost_usd fl model (estimate_input_tokens messages) max_tokens \<le> cap"
  by (auto simp: check_budget_before_dispatch_def Let_def)

lemma sum_list_bound: "\<forall>w\<in>set ws. w \<le> (W :: rat) \<Longrightarrow> sum_list ws \<le> of_nat (length ws) * W"
  by (induction ws) (auto simp: algebra_simps)

lemma sum_list_remove1: "w \<in> set ws \<Longrightarrow> sum_list ws = w + sum_list (remove1 w ws)" for w :: rat
  by (induction ws) auto

lemma call_step_committed:
  assumes "call_step fl today cap s t" "length (snd t) \<le> Suc k" "\<forall>w\<in>set (snd t). 0 \<le> w \<and> w \<le> W" "0 \<le> W"
  shows "committed today t \<le> max (committed today s) (cap + of_nat k * W)"
  using assms(1)
proof cases
  case (dispatch l model messages max_tokens ws)
  have "sum_list ws \<le> of_nat (length ws) * W" using assms(3) dispatch by (intro sum_list_bound) auto
  also have "\<dots> \<le> of_nat k * W" using assms(2,4) dispatch by (intro mult_right_mono) auto
  finally show ?thesis using dispatch by (simp add: committed_def check_passed)
next
  case (finish w ws a l)
  then show ?thesis using sum_list_remove1 [of w ws] by (simp add: committed_def)
qed

lemma call_run_committed:
  "call_run fl today cap (Suc k) W s t \<Longrightarrow> 0 \<le> W \<Longrightarrow> committed today s \<le> cap + of_nat k * W \<Longrightarrow>
     committed today t \<le> cap + of_nat k * W"
proof (induction rule: call_run.induct)
  case (one_more s t u)
  then show ?case using call_step_committed [OF one_more.hyps(2-4)] by fastforce
qed simp

lemma call_run_inflight:
  "call_run fl today cap k W s t \<Longrightarrow> \<forall>w\<in>set (snd s). 0 \<le> w \<Longrightarrow> \<forall>w\<in>set (snd t). 0 \<le> w"
  by (induction rule: call_run.induct) auto

section \<open>Properties\<close>


definition empty_ledger :: ledger where
  "empty_ledger = \<lparr>ld_audit = empty_audit, ld_costs = [], ld_budgets = Map.empty\<rparr>"


text \<open>
  The spend counter is the sum of the recorded costs.  After any sequence of model calls
  recorded on one day (some of them failing to be written, by any agents, for any tasks), the
  global counter and the counter of every task hold exactly what reconciliation recomputes
  from the rows, so reconciling changes no counter.
\<close>

theorem counters_match_rows:
  assumes "\<forall>c\<in>set calls. date_of (fst (snd c)) = today \<and> date_of (snd (snd c)) = today"
    and "l = fold (\<lambda>((ok, task_id, agent, model, u), row_now, spend_now).
               record_model_call H fl True ok task_id agent model u row_now spend_now) calls empty_ledger"
  shows "fst (reconcile_budget (scope_of t) today l) = Inr (spent_today l (scope_of t) today)
     \<and> spent_today (snd (reconcile_budget (scope_of t) today l)) s today = spent_today l s today"
proof -
  have "counters_match today (fold (\<lambda>((ok, task_id, agent, model, u), row_now, spend_now).
          record_model_call H fl True ok task_id agent model u row_now spend_now) calls empty_ledger)"
  proof (rule fold_keeps [where P = "counters_match today"])
    fix c l assume "c \<in> set calls" and l: "counters_match today l"
    then have d: "date_of (fst (snd c)) = today" "date_of (snd (snd c)) = today" using assms(1) by auto
    obtain ok task_id agent model u row_now spend_now where
      c: "c = ((ok, task_id, agent, model, u), row_now, spend_now)" by (metis prod.exhaust)
    show "counters_match today ((\<lambda>((ok, task_id, agent, model, u), row_now, spend_now).
        record_model_call H fl True ok task_id agent model u row_now spend_now) c l)"
      using record_model_call_counts [OF l] d c by simp
  next
    show "counters_match today empty_ledger"
      by (simp add: counters_match_def empty_ledger_def spent_today_def reconciled_total_def)
  qed
  then have "counters_match today l" using assms(2) by blast
  then have t: "reconciled_total t today (ld_costs l) = spent_today l (scope_of t) today"
    by (simp add: counters_match_def)
  show ?thesis
    unfolding reconcile_scope t by (auto simp: spent_today_def split: option.split)
qed

theorem counters_match_rows_witness:
  "fst (reconcile_budget (scope_of None) (2025, 1, 2)
      (record_model_call unary_digest (\<lambda>x. x) True True (Some ''t1'') ''coder'' ''claude-opus''
         \<lparr>cache_creation_input_tokens = None, cache_read_input_tokens = None,
          uncached_input_tokens = Some 1000, output_tokens = Some 10\<rparr> demo_time demo_time empty_ledger))
   = Inr (spent_today
      (record_model_call unary_digest (\<lambda>x. x) True True (Some ''t1'') ''coder'' ''claude-opus''
         \<lparr>cache_creation_input_tokens = None, cache_read_input_tokens = None,
          uncached_input_tokens = Some 1000, output_tokens = Some 10\<rparr> demo_time demo_time empty_ledger)
      (scope_of None) (2025, 1, 2))"
proof (rule conjunct1 [OF counters_match_rows])
  show "\<forall>c\<in>set [((True, Some ''t1'', ''coder'', ''claude-opus'',
         \<lparr>cache_creation_input_tokens = None, cache_read_input_tokens = None,
          uncached_input_tokens = Some 1000, output_tokens = Some 10\<rparr>), demo_time, demo_time)].
      date_of (fst (snd c)) = (2025, 1, 2) \<and> date_of (snd (snd c)) = (2025, 1, 2)"
    by (simp add: date_of_def demo_time_def)
qed simp

text \<open>
  For a call without prompt caching the pre-dispatch estimate is a worst case: if the
  provider bills no more uncached input than was estimated and no more output than the
  limit, the recorded cost is at most the estimate, under any faithful float rounding.
\<close>

theorem worst_case_covers_uncached:
  assumes "fp_round fl" "tokens (cache_creation_input_tokens u) = 0" "tokens (cache_read_input_tokens u) = 0"
    and "tokens (uncached_input_tokens u) \<le> of_nat n" "tokens (output_tokens u) \<le> of_nat m"
  shows "estimate_cost_usd fl model u \<le> max_plausible_cost_usd fl model n m"
proof -
  let ?r = "rates_for_model fl model"
  have a: "fl (tokens (uncached_input_tokens u) * base_input ?r) \<le> fl (of_nat n * base_input ?r)"
    and b: "fl (tokens (output_tokens u) * output_rate ?r) \<le> fl (of_nat m * output_rate ?r)"
    by (intro fp_mono [OF assms(1)] mult_right_mono assms(4,5) rate_nonneg [OF assms(1)])+
  have "fl (fl (tokens (uncached_input_tokens u) * base_input ?r)
        + fl (tokens (output_tokens u) * output_rate ?r))
      \<le> fl (fl (of_nat n * base_input ?r) + fl (of_nat m * output_rate ?r))"
    by (rule fp_mono [OF assms(1) add_mono [OF a b]])
  then show ?thesis
    using assms(1-3) by (simp add: estimate_cost_usd_def max_plausible_cost_usd_def Let_def round_to_mono)
qed

theorem worst_case_covers_uncached_witness:
  "estimate_cost_usd (\<lambda>x. x) ''claude-opus''
     \<lparr>cache_creation_input_tokens = None, cache_read_input_tokens = None,
      uncached_input_tokens = Some 1000, output_tokens = Some 10\<rparr>
   \<le> max_plausible_cost_usd (\<lambda>x. x) ''claude-opus'' 1000 4096"
  by (rule worst_case_covers_uncached [OF fp_round_exact]) (simp_all add: tokens_def)

text \<open>
  With prompt caching it is not: the estimate prices the input at the base rate, and a
  provider that bills it as cache writes charges a quarter more.
\<close>

theorem cache_write_exceeds_worst_case:
  assumes "fp_round fl"
  shows "max_plausible_cost_usd fl ''claude-opus'' 1000000 0
     < estimate_cost_usd fl ''claude-opus''
         \<lparr>cache_creation_input_tokens = Some 1000000, cache_read_input_tokens = None,
          uncached_input_tokens = None, output_tokens = None\<rparr>"
proof -
  note c = fp_coarse [OF assms] and n = fp_nonneg [OF assms]
  have "per_token fl 15 \<le> 15 * 1001 / 1000 * 1001 / 1000 / 1000000"
    using c(2) [of 15] c(2) [of "fl 15 / 1000000"] n [of 15] by (simp add: per_token_def)
  moreover have "0 \<le> per_token fl 15" by (simp add: per_token_def n)
  ultimately have "fl (1000000 * per_token fl 15) \<le> 16" using c(2) [of "1000000 * per_token fl 15"] by simp
  then have lo: "max_plausible_cost_usd fl ''claude-opus'' 1000000 0 \<le> round_to 8 16"
    using assms by (simp add: max_plausible_cost_usd_def opus_rates round_to_mono)
  have "1875 / 100 * 999 / 1000 * 999 / 1000 / 1000000 \<le> per_token fl (1875 / 100)"
    using c(1) [of "1875 / 100"] c(1) [of "fl (1875 / 100) / 1000000"] n [of "1875 / 100"] by (simp add: per_token_def)
  then have "18 \<le> fl (1000000 * per_token fl (1875 / 100))"
    using c(1) [of "1000000 * per_token fl (1875 / 100)"] by simp
  then have hi: "round_to 8 18 \<le> estimate_cost_usd fl ''claude-opus''
         \<lparr>cache_creation_input_tokens = Some 1000000, cache_read_input_tokens = None,
          uncached_input_tokens = None, output_tokens = None\<rparr>"
    using assms by (simp add: estimate_cost_usd_def opus_rates tokens_def round_to_mono)
  have "round_to 8 16 < round_to 8 18" by (simp add: round_to_def round_half_even_def)
  with lo hi show ?thesis by linarith
qed

end
