(* ===== verification/ModelRouter.thy ===== *)
theory ModelRouter
  imports CostLedger PyRegex
begin

text \<open>
  Which model an agent gets and what happens when it fails: \<open>amop/models/router.py\<close>, over the
  response type of \<open>amop/models/base.py\<close>.  What a provider's \<open>complete\<close> does is the parameter
  \<open>call\<close>, a function of the provider's name, its model, the messages and the world.
\<close>

record model_response =
  mr_content :: string
  mr_usage :: usage
  mr_model :: string

datatype provider_error = MissingAPIKeyError string | ProviderFailure string string

text \<open>
  A provider carries its \<open>model\<close> and, for the paid ones, its \<open>max_tokens\<close>; a \<open>FallbackLLM\<close> has
  neither attribute.
\<close>

datatype llm =
    Provider string string "nat option"
  | FallbackLLM llm string llm string string

definition PROVIDER_FACTORIES :: "(string \<times> llm) list" where
  "PROVIDER_FACTORIES =
    [(''ollama'', Provider ''ollama'' ''qwen2.5-coder:14b'' None),
     (''claude'', Provider ''claude'' ''claude-sonnet-5'' (Some 4096)),
     (''openai'', Provider ''openai'' ''gpt-4o'' (Some 4096))]"

definition DEFAULT_AGENT_PROVIDERS :: "(string \<times> string) list" where
  "DEFAULT_AGENT_PROVIDERS =
    [(''investigator'', ''ollama''), (''coder'', ''ollama''), (''tester'', ''ollama''), (''reviewer'', ''ollama'')]"

definition DEFAULT_FALLBACK :: string where "DEFAULT_FALLBACK = ''ollama''"

section \<open>The router\<close>

record model_router =
  agent_providers :: "(string \<times> string) list"
  fallback_provider :: string

text \<open>\<open>str.upper\<close> on the letters agent names are made of.\<close>

definition upper_ascii :: "string \<Rightarrow> string" where
  "upper_ascii s = map (\<lambda>c. if between CHR ''a'' CHR ''z'' c then char_of (of_char c - 32 :: nat) else c) s"

definition dict_set :: "string \<Rightarrow> string \<Rightarrow> (string \<times> string) list \<Rightarrow> (string \<times> string) list" where
  "dict_set k v d = (if k \<in> fst ` set d then map (\<lambda>(k', v'). (k', if k' = k then v else v')) d
                     else d @ [(k, v)])"

definition or_else :: "string option \<Rightarrow> string \<Rightarrow> string" where
  "or_else x alternative = (case x of None \<Rightarrow> alternative | Some v \<Rightarrow> if v = [] then alternative else v)"

definition env_override :: "(string \<Rightarrow> string option) \<Rightarrow> string \<times> string \<Rightarrow> string \<times> string" where
  "env_override env p = (fst p, or_else (env (''AMOP_AGENT_PROVIDER_'' @ upper_ascii (fst p))) (snd p))"

definition make_router ::
    "(string \<times> string) list \<Rightarrow> string option \<Rightarrow> (string \<Rightarrow> string option) \<Rightarrow> model_router" where
  "make_router given fallback env =
     \<lparr>agent_providers = map (env_override env) (fold (\<lambda>(k, v). dict_set k v) given DEFAULT_AGENT_PROVIDERS),
      fallback_provider = or_else fallback (or_else (env ''AMOP_FALLBACK_PROVIDER'') DEFAULT_FALLBACK)\<rparr>"

definition get_or :: "(string \<times> string) list \<Rightarrow> string \<Rightarrow> string \<Rightarrow> string" where
  "get_or d k alternative = (case map_of d k of None \<Rightarrow> alternative | Some v \<Rightarrow> v)"

definition provider_name_for :: "model_router \<Rightarrow> string \<Rightarrow> string" where
  "provider_name_for r agent = get_or (agent_providers r) agent DEFAULT_FALLBACK"

definition is_overridden :: "model_router \<Rightarrow> string \<Rightarrow> bool" where
  "is_overridden r agent \<longleftrightarrow>
     provider_name_for r agent \<noteq> get_or DEFAULT_AGENT_PROVIDERS agent DEFAULT_FALLBACK"

definition overrides :: "model_router \<Rightarrow> (string \<times> string) list" where
  "overrides r = map (\<lambda>a. (a, provider_name_for r a)) (filter (is_overridden r) (map fst (agent_providers r)))"

datatype router_error = UnknownProvider string

definition construct :: "string \<Rightarrow> (router_error, llm) result" where
  "construct name = (case map_of PROVIDER_FACTORIES name of None \<Rightarrow> Inl (UnknownProvider name) | Some p \<Rightarrow> Inr p)"

definition build :: "model_router \<Rightarrow> string \<Rightarrow> (router_error, llm) result" where
  "build r agent =
     (let primary_name = provider_name_for r agent in
      bind_result (construct primary_name) (\<lambda>primary.
        if primary_name = fallback_provider r then Inr primary
        else bind_result (construct (fallback_provider r)) (\<lambda>fallback.
               Inr (FallbackLLM primary primary_name fallback (fallback_provider r) agent))))"

text \<open>\<open>ChainAgents.build\<close>'s choice of a model for one agent.\<close>

definition for_agent :: "model_router option \<Rightarrow> llm \<Rightarrow> string \<Rightarrow> (router_error, llm) result" where
  "for_agent router model agent =
     (case router of
        Some r \<Rightarrow> if is_overridden r agent then build r agent else Inr model
      | None \<Rightarrow> Inr model)"

section \<open>Completions\<close>

type_synonym 'w provider_call =
  "string \<Rightarrow> string \<Rightarrow> message list \<Rightarrow> 'w \<Rightarrow> (provider_error, model_response) result \<times> 'w"

definition fallback_notice :: "string \<Rightarrow> string \<Rightarrow> string \<Rightarrow> string \<Rightarrow> string \<Rightarrow> string" where
  "fallback_notice agent_name primary_name ty msg fallback_name =
     ''MODEL FALLBACK: '' @ agent_name @ '' could not use '' @ primary_name @ '' ('' @ ty @ '': '' @
     msg @ ''); continuing on '' @ fallback_name"

text \<open>The result, the world and the notices emitted on the way.\<close>

fun complete ::
    "'w provider_call \<Rightarrow> llm \<Rightarrow> message list \<Rightarrow> 'w
     \<Rightarrow> (provider_error, model_response) result \<times> 'w \<times> string list" where
  "complete call (Provider name model k) messages w =
     (let (r, w') = call name model messages w in (r, w', []))"
| "complete call (FallbackLLM primary primary_name fallback fallback_name agent_name) messages w =
     (case complete call primary messages w of
        (Inr response, w1, ns) \<Rightarrow> (Inr response, w1, ns)
      | (Inl (MissingAPIKeyError m), w1, ns) \<Rightarrow> (Inl (MissingAPIKeyError m), w1, ns)
      | (Inl (ProviderFailure ty msg), w1, ns) \<Rightarrow>
          (let (r, w2, ms) = complete call fallback messages w1
           in (r, w2, ns @ [fallback_notice agent_name primary_name ty msg fallback_name] @ ms)))"

text \<open>\<open>getattr(model, "model", "unknown")\<close> and \<open>getattr(model, "max_tokens", 4096)\<close>.\<close>

fun model_attr :: "llm \<Rightarrow> string" where
  "model_attr (Provider name model k) = model"
| "model_attr (FallbackLLM p pn f fn a) = ''unknown''"

fun max_tokens_attr :: "llm \<Rightarrow> nat" where
  "max_tokens_attr (Provider name model k) = (case k of None \<Rightarrow> 4096 | Some n \<Rightarrow> n)"
| "max_tokens_attr (FallbackLLM p pn f fn a) = 4096"

section \<open>Lemmas\<close>

lemma construct_provider: "construct name = Inr p \<Longrightarrow> \<exists>m k. p = Provider name m k"
  by (auto simp: construct_def PROVIDER_FACTORIES_def split: if_splits)

lemma build_cases:
  assumes "build r agent = Inr model"
  obtains m k where "model = Provider (provider_name_for r agent) m k"
      "provider_name_for r agent = fallback_provider r"
    | m k fm fk where "provider_name_for r agent \<noteq> fallback_provider r"
      "model = FallbackLLM (Provider (provider_name_for r agent) m k) (provider_name_for r agent)
                 (Provider (fallback_provider r) fm fk) (fallback_provider r) agent"
proof (cases "construct (provider_name_for r agent)")
  case (Inl e)
  then show ?thesis using assms by (simp add: build_def bind_result_def)
next
  case (Inr p)
  then obtain m k where p: "p = Provider (provider_name_for r agent) m k" using construct_provider by blast
  show ?thesis
  proof (cases "provider_name_for r agent = fallback_provider r")
    case True
    then have "model = p" using assms Inr by (simp add: build_def bind_result_def)
    then show ?thesis using that(1) [of m k] p True by simp
  next
    case False
    then obtain f where "construct (fallback_provider r) = Inr f"
      "model = FallbackLLM p (provider_name_for r agent) f (fallback_provider r) agent"
      using assms Inr by (auto simp: build_def bind_result_def split: sum.splits)
    then show ?thesis using that(2) False p construct_provider by metis
  qed
qed

lemma map_of_env [simp]:
  "map_of (map (env_override env) d) a
     = map_option (\<lambda>v. or_else (env (''AMOP_AGENT_PROVIDER_'' @ upper_ascii a)) v) (map_of d a)"
  by (induction d) (auto simp: env_override_def)

section \<open>Properties\<close>

text \<open>
  A provider outage degrades, a missing key does not.  The model built for an agent makes
  the primary call; if that answers, its answer is the result and nothing is announced; if the
  key is missing, the error surfaces and the fallback is never called; on any other failure
  the result is the fallback provider's, after exactly one announcement naming both.
\<close>

theorem fallback_exact:
  assumes "build r agent = Inr model" "provider_name_for r agent \<noteq> fallback_provider r"
  shows "\<exists>m fm. complete call model messages w =
    (let (first, w1) = call (provider_name_for r agent) m messages w in
     (case first of
        Inr response \<Rightarrow> (Inr response, w1, [])
      | Inl (MissingAPIKeyError e) \<Rightarrow> (Inl (MissingAPIKeyError e), w1, [])
      | Inl (ProviderFailure ty msg) \<Rightarrow>
          (let (second, w2) = call (fallback_provider r) fm messages w1
           in (second, w2,
               [fallback_notice agent (provider_name_for r agent) ty msg (fallback_provider r)]))))"
  using assms(1)
proof (cases rule: build_cases)
  case (2 m k fm fk)
  show ?thesis
    by (rule exI [of _ m], rule exI [of _ fm])
      (simp add: 2 Let_def case_prod_beta split: prod.split sum.split provider_error.split)
qed (use assms in simp)

theorem fallback_exact_witness:
  "\<exists>model. build (make_router [(''coder'', ''claude'')] None (\<lambda>_. None)) ''coder'' = Inr model
     \<and> snd (snd (complete (\<lambda>n m ms (w :: nat). (Inl (ProviderFailure ''Timeout'' n), w + 1)) model [] 0)) \<noteq> []"
proof -
  let ?r = "make_router [(''coder'', ''claude'')] None (\<lambda>_. None)"
  have p: "provider_name_for ?r ''coder'' = ''claude''" "fallback_provider ?r = ''ollama''"
    by code_simp+
  obtain model where b: "build ?r ''coder'' = Inr model"
    using p by (simp add: build_def bind_result_def construct_def PROVIDER_FACTORIES_def Let_def)
  from fallback_exact [OF b, of "\<lambda>n m ms (w :: nat). (Inl (ProviderFailure ''Timeout'' n), w + 1)" "[]" 0] p
  show ?thesis using b by auto
qed

text \<open>
  Introducing the router changes nothing by itself: with no configuration and no
  environment overrides every agent keeps the model instance it was given.
\<close>

theorem unconfigured_router_is_transparent:
  assumes "\<And>agent. env (''AMOP_AGENT_PROVIDER_'' @ agent) = None"
  shows "for_agent (Some (make_router [] fallback env)) model agent = Inr model
     \<and> overrides (make_router [] fallback env) = []"
proof -
  have "env_override env = (\<lambda>p. p)" 
    by (rule ext) (simp only: env_override_def assms or_else_def option.case prod.collapse)
  then have "agent_providers (make_router [] fallback env) = DEFAULT_AGENT_PROVIDERS"
    by (simp add: make_router_def)
  then have "\<not> is_overridden (make_router [] fallback env) a" for a
    by (simp add: is_overridden_def provider_name_for_def)
  then show ?thesis by (simp add: for_agent_def overrides_def)
qed

theorem unconfigured_router_is_transparent_witness:
  "for_agent (Some (make_router [] None (\<lambda>_. None))) (Provider ''ollama'' ''mine'' None) ''coder''
     = Inr (Provider ''ollama'' ''mine'' None)"
  by (rule conjunct1 [OF unconfigured_router_is_transparent]) simp

end
