(* ===== verification/AgentLoop.thy ===== *)
theory AgentLoop
  imports ModelRouter ToolRegistry
begin

text \<open>
  The reasoning loop every agent runs: \<open>amop/agents/base.py\<close>.  One turn asks the model,
  parses its answer (asking once more when it is not the agreed JSON), and either ends with a
  validated handoff or calls a tool.  Python's \<open>json.loads\<close> is the parameter \<open>le_loads\<close>; the
  agent's prompts and the schema its answer must validate against are part of the agent.
\<close>

section \<open>Agents and their surroundings\<close>

record tool_call_entry =
  tc_name :: pyval
  tc_args :: pyval
  tc_success :: bool
  tc_error_code :: "string option"
  tc_message :: "string option"

record 'h agent_result =
  ar_success :: bool
  ar_output :: string
  ar_error :: "string option"
  ar_iterations_used :: nat
  ar_tool_calls :: "tool_call_entry list"
  ar_handoff :: "'h option"

record 'h agent_config =
  ag_name :: string
  ag_model :: llm
  ag_loop_limit :: nat
  ag_tools :: "string list"
  ag_system_prompt :: string
  ag_schema :: "(pyval \<Rightarrow> (string, 'h) result) option"
  ag_dump :: "'h \<Rightarrow> string"
  ag_handoff_instructions :: string

record 'w agent_world =
  aw_ledger :: ledger
  aw_actions :: "action_row list"
  aw_notices :: "string list"
  aw_world :: 'w

text \<open>
  \<open>le_odd_call\<close> stands for \<open>invoke_tool\<close> when the model names a tool or gives arguments with
  a JSON type other than a string and an object; \<open>Inl\<close> is an exception out of it.
\<close>

record 'w loop_env =
  le_call :: "'w provider_call"
  le_host :: host
  le_audit :: audit_env
  le_registry :: "string \<rightharpoonup> tool_spec"
  le_body :: "'w tool_body"
  le_ctx :: tool_context
  le_odd_call :: "pyval \<Rightarrow> pyval \<Rightarrow> 'w \<Rightarrow> (string, tool_result) result \<times> 'w"
  le_loads :: "string \<Rightarrow> (string, pyval) result"
  le_hash :: "string \<Rightarrow> string"
  le_float :: flround
  le_cap_usd :: rat
  le_task_id :: "string option"
  le_clock :: "'w \<Rightarrow> utc_datetime"
  le_ledger_ok :: "'w \<Rightarrow> bool"

section \<open>Asking the model\<close>

fun budget_text :: "budget_error \<Rightarrow> string" where
  "budget_text (BudgetExceededError m) = m"
| "budget_text (UnrecognizedScope s) = ''unrecognized budget scope: '' @ repr_str s"

fun provider_text :: "provider_error \<Rightarrow> string" where
  "provider_text (MissingAPIKeyError m) = m"
| "provider_text (ProviderFailure ty m) = m"

definition complete_and_record ::
    "'w loop_env \<Rightarrow> 'h agent_config \<Rightarrow> message list \<Rightarrow> 'w agent_world
     \<Rightarrow> (string, model_response) result \<times> 'w agent_world" where
  "complete_and_record env ag messages aw =
     (let allowed = (if has_session (le_audit env)
            then check_budget_before_dispatch (le_float env) (aw_ledger aw)
                   (date_of (le_clock env (aw_world aw))) (model_attr (ag_model ag)) messages
                   (max_tokens_attr (ag_model ag)) (le_cap_usd env) GLOBAL_SCOPE
            else Inr ())
      in case allowed of
           Inl e \<Rightarrow> (Inl (budget_text e), aw)
         | Inr _ \<Rightarrow>
             (case complete (le_call env) (ag_model ag) messages (aw_world aw) of
                (Inl e, w, ns) \<Rightarrow>
                  (Inl (provider_text e), aw\<lparr>aw_world := w, aw_notices := aw_notices aw @ ns\<rparr>)
              | (Inr response, w, ns) \<Rightarrow>
                  (Inr response,
                   aw\<lparr>aw_world := w, aw_notices := aw_notices aw @ ns,
                      aw_ledger := record_model_call (le_hash env) (le_float env)
                        (has_session (le_audit env)) (le_ledger_ok env w) (le_task_id env)
                        (ag_name ag) (mr_model response) (mr_usage response)
                        (le_clock env w) (le_clock env w) (aw_ledger aw)\<rparr>)))"

section \<open>Reading its answer\<close>

definition FENCE :: string where "FENCE = ''```''"

definition strip_fence :: "string \<Rightarrow> string" where
  "strip_fence text =
     (let ls = splitlines text;
          ls1 = (case ls of [] \<Rightarrow> [] | l # rest \<Rightarrow> if starts_with l FENCE then rest else ls);
          ls2 = (if ls1 \<noteq> [] \<and> starts_with (last ls1) FENCE then butlast ls1 else ls1)
      in py_strip (join_with [CHR 0x0A] ls2))"

definition has_key :: "pydict \<Rightarrow> string \<Rightarrow> bool" where
  "has_key d k \<longleftrightarrow> k \<in> fst ` set d"

definition parse_model_json ::
    "(string \<Rightarrow> (string, pyval) result) \<Rightarrow> string \<Rightarrow> (string, pydict) result" where
  "parse_model_json loads content =
     (let stripped = py_strip content;
          text = (if starts_with stripped FENCE then strip_fence stripped else stripped)
      in case loads text of
           Inl exc \<Rightarrow> Inl (''invalid JSON: '' @ exc)
         | Inr (PDict d) \<Rightarrow>
             if has_key d ''tool_call'' then
               (case dict_get d ''tool_call'' of
                  PDict call \<Rightarrow>
                    if has_key call ''name'' then Inr d
                    else Inl (''tool_call must be an object with a '' @ repr_str ''name'' @ '' field'')
                | _ \<Rightarrow> Inl (''tool_call must be an object with a '' @ repr_str ''name'' @ '' field''))
             else if has_key d ''final_answer'' then Inr d
             else Inl (''expected a '' @ repr_str ''tool_call'' @ '' or '' @ repr_str ''final_answer'' @ '' key'')
         | Inr _ \<Rightarrow> Inl ''expected a JSON object'')"

definition RESPONSE_FORMAT_INSTRUCTIONS :: string where
  \<open>RESPONSE_FORMAT_INSTRUCTIONS =
     ''You MUST respond with exactly one JSON object per turn, and nothing '' @
     ''else -- no prose before or after it, no markdown code fences. Two '' @
     ''forms are valid:'' @ [CHR 0x0A] @
     ''  To call a tool:    {"tool_call": {"name": "<tool name>", "arguments": {...}}}'' @ [CHR 0x0A] @
     ''  To give a final answer (no more tools needed): '' @
     ''{"final_answer": <your answer>}''\<close>

definition assistant :: "string \<Rightarrow> message" where "assistant content = (''assistant'', content)"

definition user :: "string \<Rightarrow> message" where "user content = (''user'', content)"

definition build_initial_messages :: "'h agent_config \<Rightarrow> string \<Rightarrow> message list" where
  "build_initial_messages ag prompt = [(''system'', ag_system_prompt ag), user prompt]"

text \<open>
  One answer in the protocol's form, with the single retry the parser grants.  \<open>Inl\<close> is the
  error the agent fails with.
\<close>

definition next_answer ::
    "'w loop_env \<Rightarrow> 'h agent_config \<Rightarrow> message list \<Rightarrow> 'w agent_world
     \<Rightarrow> (string, pydict) result \<times> message list \<times> 'w agent_world" where
  "next_answer env ag messages aw =
     (case complete_and_record env ag messages aw of
        (Inl exc, aw1) \<Rightarrow> (Inl exc, messages, aw1)
      | (Inr response, aw1) \<Rightarrow>
          (let messages1 = messages @ [assistant (mr_content response)]
           in case parse_model_json (le_loads env) (mr_content response) of
                Inr parsed \<Rightarrow> (Inr parsed, messages1, aw1)
              | Inl parse_error \<Rightarrow>
                  (let messages2 = messages1 @ [user
                         (''Your last response was not valid JSON in the expected format ('' @
                          parse_error @ ''). '' @ RESPONSE_FORMAT_INSTRUCTIONS)]
                   in case complete_and_record env ag messages2 aw1 of
                        (Inl exc, aw2) \<Rightarrow> (Inl exc, messages2, aw2)
                      | (Inr response, aw2) \<Rightarrow>
                          (let messages3 = messages2 @ [assistant (mr_content response)]
                           in case parse_model_json (le_loads env) (mr_content response) of
                                Inr parsed \<Rightarrow> (Inr parsed, messages3, aw2)
                              | Inl parse_error2 \<Rightarrow>
                                  (Inl (''model did not return valid tool-call JSON after retry: '' @
                                        parse_error2), messages3, aw2)))))"

section \<open>A final answer\<close>

definition failed_result :: "string \<Rightarrow> nat \<Rightarrow> tool_call_entry list \<Rightarrow> 'h agent_result" where
  "failed_result err iteration calls =
     \<lparr>ar_success = False, ar_output = [], ar_error = Some err, ar_iterations_used = iteration,
      ar_tool_calls = calls, ar_handoff = None\<rparr>"

text \<open>\<open>validate_handoff\<close>: a string answer is parsed as JSON first.\<close>

definition validate_handoff ::
    "(string \<Rightarrow> (string, pyval) result) \<Rightarrow> (pyval \<Rightarrow> (string, 'h) result) \<Rightarrow> pyval \<Rightarrow> (string, 'h) result" where
  "validate_handoff loads schema raw =
     (case raw of PStr s \<Rightarrow> bind_result (loads s) schema | _ \<Rightarrow> schema raw)"

definition handoff_result :: "'h agent_config \<Rightarrow> 'h \<Rightarrow> nat \<Rightarrow> tool_call_entry list \<Rightarrow> 'h agent_result" where
  "handoff_result ag h iteration calls =
     \<lparr>ar_success = True, ar_output = ag_dump ag h, ar_error = None, ar_iterations_used = iteration,
      ar_tool_calls = calls, ar_handoff = Some h\<rparr>"

definition retry_handoff ::
    "'w loop_env \<Rightarrow> 'h agent_config \<Rightarrow> (pyval \<Rightarrow> (string, 'h) result) \<Rightarrow> message list \<Rightarrow> 'w agent_world
     \<Rightarrow> (string, 'h) result \<times> message list \<times> 'w agent_world" where
  "retry_handoff env ag schema messages aw =
     (case complete_and_record env ag messages aw of
        (Inl exc, aw1) \<Rightarrow> (Inl exc, messages, aw1)
      | (Inr response, aw1) \<Rightarrow>
          (let messages1 = messages @ [assistant (mr_content response)]
           in case parse_model_json (le_loads env) (mr_content response) of
                Inl e \<Rightarrow> (Inl e, messages1, aw1)
              | Inr parsed \<Rightarrow>
                  if has_key parsed ''final_answer''
                  then (validate_handoff (le_loads env) schema (dict_get parsed ''final_answer''), messages1, aw1)
                  else (Inl ''expected a final_answer'', messages1, aw1)))"

definition finish_turn ::
    "'w loop_env \<Rightarrow> 'h agent_config \<Rightarrow> nat \<Rightarrow> pyval \<Rightarrow> message list \<Rightarrow> tool_call_entry list \<Rightarrow> 'w agent_world
     \<Rightarrow> 'h agent_result \<times> message list \<times> 'w agent_world" where
  "finish_turn env ag iteration answer messages calls aw =
     (case ag_schema ag of
        None \<Rightarrow>
          (\<lparr>ar_success = True, ar_output = py_str answer, ar_error = None,
            ar_iterations_used = iteration, ar_tool_calls = calls, ar_handoff = None\<rparr>, messages, aw)
      | Some schema \<Rightarrow>
          (case validate_handoff (le_loads env) schema answer of
             Inr h \<Rightarrow> (handoff_result ag h iteration calls, messages, aw)
           | Inl exc \<Rightarrow>
               (case retry_handoff env ag schema
                       (messages @ [user (''Your final_answer did not match the required schema: '' @
                          exc @ ''. '' @ ag_handoff_instructions ag)]) aw of
                  (Inl retry_exc, messages1, aw1) \<Rightarrow>
                    (failed_result (ag_name ag @ '' handoff failed schema validation after retry: '' @
                       retry_exc) iteration calls, messages1, aw1)
                | (Inr h, messages1, aw1) \<Rightarrow>
                    (handoff_result ag h iteration calls, messages1, aw1))))"

section \<open>A tool call\<close>

text \<open>\<open>json.dumps(v)\<close> with its defaults: ASCII only, spaces after separators.\<close>

definition json_char_ascii :: "char \<Rightarrow> string" where
  "json_char_ascii c = (let n = (of_char c :: nat) in
     if n < 127 then json_char c
     else [CHR 0x5C, CHR ''u'', CHR ''0'', CHR ''0'', hex_digit (n div 16), hex_digit (n mod 16)])"

definition json_str_ascii :: "string \<Rightarrow> string" where
  "json_str_ascii s = CHR 0x22 # concat (map json_char_ascii s) @ [CHR 0x22]"

fun json_dumps :: "pyval \<Rightarrow> string" where
  "json_dumps PNone = ''null''"
| "json_dumps (PBool b) = (if b then ''true'' else ''false'')"
| "json_dumps (PInt i) = int_str i"
| "json_dumps (PFloat f) = f"
| "json_dumps (PStr s) = json_str_ascii s"
| "json_dumps (PList vs) = ''['' @ join_with '', '' (map json_dumps vs) @ '']''"
| "json_dumps (PDict d) =
     ''{'' @ join_with '', '' (map (\<lambda>(k, v). json_str_ascii k @ '': '' @ json_dumps v) d) @ ''}''"

definition tool_message :: "pyval \<Rightarrow> tool_result \<Rightarrow> message" where
  "tool_message name result = user (''Tool result for '' @ py_str name @ '': '' @
     json_dumps (PDict [(''success'', PBool (tr_success result)), (''output'', tr_output result),
       (''error_code'', opt_str (tr_error_code result)), (''message'', opt_str (tr_message result))]))"

text \<open>\<open>call.get("arguments") or {}\<close>\<close>

definition call_arguments :: "pydict \<Rightarrow> pyval" where
  "call_arguments call = (let a = dict_get call ''arguments'' in if truthy a then a else PDict [])"

definition path_error_text :: "path_error \<Rightarrow> string" where
  "path_error_text e = (case e of SymlinkLoop \<Rightarrow> ''symlink loop'' | EmbeddedNull \<Rightarrow> ''embedded null byte''
     | BadArgumentType \<Rightarrow> ''bad argument type'')"

definition call_tool ::
    "'w loop_env \<Rightarrow> 'h agent_config \<Rightarrow> pyval \<Rightarrow> pyval \<Rightarrow> 'w agent_world
     \<Rightarrow> (string, tool_result) result \<times> 'w agent_world" where
  "call_tool env ag name args aw =
     (case (name, args) of
        (PStr n, PDict d) \<Rightarrow>
          (let (r, w, log) = invoke_tool (le_host env) (le_audit env) (le_registry env) (le_body env) n d
                 (le_ctx env) (ag_name ag) (if ag_tools ag = [] then None else Some (ag_tools ag))
                 (aw_world aw) (aw_actions aw)
           in ((case r of Inl e \<Rightarrow> Inl (path_error_text e) | Inr result \<Rightarrow> Inr result),
               aw\<lparr>aw_world := w, aw_actions := log\<rparr>))
      | _ \<Rightarrow> (let (r, w) = le_odd_call env name args (aw_world aw) in (r, aw\<lparr>aw_world := w\<rparr>)))"

section \<open>The loop\<close>

datatype ('h, 'w) turn =
    Ended "'h agent_result" "message list" "'w agent_world"
  | Raised_out string "message list" "'w agent_world"
  | Again "message list" "tool_call_entry list" "'w agent_world"

definition agent_turn ::
    "'w loop_env \<Rightarrow> 'h agent_config \<Rightarrow> nat \<Rightarrow> message list \<Rightarrow> tool_call_entry list \<Rightarrow> 'w agent_world
     \<Rightarrow> ('h, 'w) turn" where
  "agent_turn env ag iteration messages calls aw =
     (case next_answer env ag messages aw of
        (Inl err, messages1, aw1) \<Rightarrow> Ended (failed_result err iteration calls) messages1 aw1
      | (Inr parsed, messages1, aw1) \<Rightarrow>
          if has_key parsed ''final_answer'' then
            (case finish_turn env ag iteration (dict_get parsed ''final_answer'') messages1 calls aw1 of
               (r, messages2, aw2) \<Rightarrow> Ended r messages2 aw2)
          else
            (let call = (case dict_get parsed ''tool_call'' of PDict c \<Rightarrow> c | _ \<Rightarrow> []);
                 name = dict_get call ''name'';
                 args = call_arguments call
             in case call_tool env ag name args aw1 of
                  (Inl exc, aw2) \<Rightarrow> Raised_out exc messages1 aw2
                | (Inr result, aw2) \<Rightarrow>
                    Again (messages1 @ [tool_message name result])
                      (calls @ [\<lparr>tc_name = name, tc_args = args, tc_success = tr_success result,
                                 tc_error_code = tr_error_code result, tc_message = tr_message result\<rparr>])
                      aw2))"

fun run_loop ::
    "'w loop_env \<Rightarrow> 'h agent_config \<Rightarrow> nat \<Rightarrow> nat \<Rightarrow> message list \<Rightarrow> tool_call_entry list \<Rightarrow> 'w agent_world
     \<Rightarrow> (string, 'h agent_result) result \<times> message list \<times> 'w agent_world" where
  "run_loop env ag iteration 0 messages calls aw =
     (Inr (failed_result ''loop_limit exceeded without a final answer'' (ag_loop_limit ag) calls),
      messages, aw)"
| "run_loop env ag iteration (Suc remaining) messages calls aw =
     (case agent_turn env ag iteration messages calls aw of
        Ended r messages1 aw1 \<Rightarrow> (Inr r, messages1, aw1)
      | Raised_out exc messages1 aw1 \<Rightarrow> (Inl exc, messages1, aw1)
      | Again messages1 calls1 aw1 \<Rightarrow>
          run_loop env ag (iteration + 1) remaining messages1 calls1 aw1)"

definition run_agent ::
    "'w loop_env \<Rightarrow> 'h agent_config \<Rightarrow> string \<Rightarrow> 'w agent_world
     \<Rightarrow> (string, 'h agent_result) result \<times> message list \<times> 'w agent_world" where
  "run_agent env ag prompt aw =
     run_loop env ag 1 (ag_loop_limit ag) (build_initial_messages ag prompt) [] aw"

section \<open>What a turn does\<close>

text \<open>The completions of a run are the assistant messages it leaves.\<close>

definition completions :: "message list \<Rightarrow> nat" where
  "completions messages = length (filter (\<lambda>m. fst m = ''assistant'') messages)"

lemma completions_simps [simp]:
  "completions [] = 0"
  "completions (xs @ ys) = completions xs + completions ys"
  "completions (assistant c # xs) = Suc (completions xs)"
  "completions (user c # xs) = completions xs"
  "completions (tool_message n r # xs) = completions xs"
  by (simp_all add: completions_def assistant_def user_def tool_message_def)

lemma next_answer_completions:
  "next_answer env ag messages aw = (r, messages1, aw1) \<Longrightarrow> completions messages1 \<le> completions messages + 2"
  by (auto simp: next_answer_def Let_def split: prod.splits sum.splits)

lemma retry_handoff_completions:
  "retry_handoff env ag schema messages aw = (r, messages1, aw1) \<Longrightarrow>
     completions messages1 \<le> completions messages + 1"
  by (auto simp: retry_handoff_def Let_def split: prod.splits sum.splits if_splits)

lemma finish_turn_shape:
  assumes "finish_turn env ag iteration answer messages calls aw = (r, messages1, aw1)"
  shows "completions messages1 \<le> completions messages + 1" "ar_iterations_used r = iteration"
    "ar_tool_calls r = calls"
    "ar_success r \<Longrightarrow> ag_schema ag = Some schema \<Longrightarrow>
       \<exists>raw h. ar_handoff r = Some h \<and> validate_handoff (le_loads env) schema raw = Inr h"
proof -
  have r: "retry_handoff env ag schema ms w = (Inr h, ms', w') \<Longrightarrow>
      \<exists>raw. validate_handoff (le_loads env) schema raw = Inr h" for schema ms w h ms' w'
    by (auto simp: retry_handoff_def Let_def split: prod.splits sum.splits if_splits)
  show "completions messages1 \<le> completions messages + 1" "ar_iterations_used r = iteration"
    "ar_tool_calls r = calls"
    using assms by (auto simp: finish_turn_def failed_result_def handoff_result_def
        dest!: retry_handoff_completions split: option.splits prod.splits sum.splits)
  show "ar_success r \<Longrightarrow> ag_schema ag = Some schema \<Longrightarrow>
       \<exists>raw h. ar_handoff r = Some h \<and> validate_handoff (le_loads env) schema raw = Inr h"
    using assms r by (auto simp: finish_turn_def failed_result_def handoff_result_def
        split: prod.splits sum.splits)
qed

lemma agent_turn_ended:
  assumes "agent_turn env ag iteration messages calls aw = Ended r messages1 aw1"
  shows "completions messages1 \<le> completions messages + 3" "ar_iterations_used r = iteration"
    "ar_tool_calls r = calls"
    "ar_success r \<Longrightarrow> ag_schema ag = Some schema \<Longrightarrow>
       \<exists>raw h. ar_handoff r = Some h \<and> validate_handoff (le_loads env) schema raw = Inr h"
proof -
  obtain n ms w where n: "next_answer env ag messages aw = (n, ms, w)" by (metis prod.exhaust)
  note c = next_answer_completions [OF n]
  have "completions messages1 \<le> completions messages + 3 \<and> ar_iterations_used r = iteration
      \<and> ar_tool_calls r = calls \<and> (ar_success r \<longrightarrow> ag_schema ag = Some schema \<longrightarrow>
       (\<exists>raw h. ar_handoff r = Some h \<and> validate_handoff (le_loads env) schema raw = Inr h))"
  proof (cases n)
    case (Inl err)
    then show ?thesis using assms n c by (auto simp: agent_turn_def failed_result_def)
  next
    case (Inr parsed)
    then have "has_key parsed ''final_answer''"
      using assms n by (auto simp: agent_turn_def Let_def split: if_splits prod.splits sum.splits)
    then have "finish_turn env ag iteration (dict_get parsed ''final_answer'') ms calls w = (r, messages1, aw1)"
      using assms n Inr by (auto simp: agent_turn_def split: prod.splits)
    from finish_turn_shape [OF this] c show ?thesis by fastforce
  qed
  then show "completions messages1 \<le> completions messages + 3" "ar_iterations_used r = iteration"
    "ar_tool_calls r = calls"
    "ar_success r \<Longrightarrow> ag_schema ag = Some schema \<Longrightarrow>
       \<exists>raw h. ar_handoff r = Some h \<and> validate_handoff (le_loads env) schema raw = Inr h"
    by auto
qed

lemma agent_turn_again:
  assumes "agent_turn env ag iteration messages calls aw = Again messages1 calls1 aw1"
  shows "completions messages1 \<le> completions messages + 2" "length calls1 = Suc (length calls)"
proof -
  obtain n ms w where n: "next_answer env ag messages aw = (n, ms, w)" by (metis prod.exhaust)
  show "completions messages1 \<le> completions messages + 2" "length calls1 = Suc (length calls)"
    using assms n next_answer_completions [OF n]
    by (auto simp: agent_turn_def Let_def split: sum.splits if_splits prod.splits)
qed

lemma run_loop_result:
  assumes "run_loop env ag iteration n messages calls aw = (Inr r, messages1, aw1)"
    and "iteration + n = Suc (ag_loop_limit ag)" "Suc (length calls) = iteration"
  shows "length (ar_tool_calls r) \<le> ag_loop_limit ag \<and> ar_iterations_used r \<le> ag_loop_limit ag
    \<and> (\<forall>schema. ar_success r \<longrightarrow> ag_schema ag = Some schema \<longrightarrow>
         (\<exists>raw h. ar_handoff r = Some h \<and> validate_handoff (le_loads env) schema raw = Inr h))"
  using assms
proof (induction n arbitrary: iteration messages calls aw)
  case 0
  then show ?case by (auto simp: failed_result_def)
next
  case (Suc n)
  show ?case
  proof (cases "agent_turn env ag iteration messages calls aw")
    case (Ended r' ms w)
    then have "r' = r" using Suc.prems by simp
    then show ?thesis using agent_turn_ended [OF Ended] Suc.prems(2,3) by auto
  next
    case (Raised_out e ms w)
    then show ?thesis using Suc.prems by simp
  next
    case (Again ms cs w)
    show ?thesis
      by (rule Suc.IH [of "iteration + 1" ms cs w]) (use Again Suc.prems agent_turn_again [OF Again] in auto)
  qed
qed

lemma run_loop_completions:
  "run_loop env ag iteration n messages calls aw = (r, messages1, aw1) \<Longrightarrow>
     completions messages1 \<le> completions messages + 2 * n + 1"
proof (induction n arbitrary: iteration messages calls aw)
  case (Suc n)
  show ?case
  proof (cases "agent_turn env ag iteration messages calls aw")
    case (Ended r' ms w)
    then show ?thesis using Suc.prems agent_turn_ended(1) [OF Ended] by simp
  next
    case (Raised_out e ms w)
    obtain x ms0 w0 where x: "next_answer env ag messages aw = (x, ms0, w0)" by (metis prod.exhaust)
    then have "ms = ms0" using Raised_out
      by (auto simp: agent_turn_def Let_def split: sum.splits if_splits prod.splits)
    then show ?thesis using next_answer_completions [OF x] Raised_out Suc.prems by simp
  next
    case (Again ms cs w)
    then show ?thesis using Suc.IH [of "iteration + 1" ms cs w] Suc.prems agent_turn_again(1) [OF Again] by simp
  qed
qed simp

section \<open>Properties\<close>

text \<open>
  A run of an agent is bounded whatever the model answers: at most two completions per
  iteration and one more, at most one tool call per iteration, and the reported iterations
  stay within the agent's limit.
\<close>

theorem agent_run_bounded:
  "(case run_agent env ag prompt aw of (out, messages, aw') \<Rightarrow>
      completions messages \<le> 2 * ag_loop_limit ag + 1
      \<and> (case out of Inl _ \<Rightarrow> True
         | Inr r \<Rightarrow> length (ar_tool_calls r) \<le> ag_loop_limit ag \<and> ar_iterations_used r \<le> ag_loop_limit ag))"
proof -
  obtain out messages aw' where e: "run_agent env ag prompt aw = (out, messages, aw')"
    by (metis prod.exhaust)
  have l: "run_loop env ag 1 (ag_loop_limit ag) (build_initial_messages ag prompt) [] aw = (out, messages, aw')"
    using e by (simp add: run_agent_def)
  have "completions (build_initial_messages ag prompt) = 0"
    by (simp add: build_initial_messages_def completions_def user_def)
  then have "completions messages \<le> 2 * ag_loop_limit ag + 1" using run_loop_completions [OF l] by simp
  moreover have "length (ar_tool_calls r) \<le> ag_loop_limit ag \<and> ar_iterations_used r \<le> ag_loop_limit ag"
    if "out = Inr r" for r
    using run_loop_result [OF l [unfolded that]] by simp
  ultimately show ?thesis using e by (simp split: sum.split)
qed

text \<open>
  No unvalidated handoff: an agent that declares a schema reports success only with a
  handoff the schema accepted.
\<close>

theorem success_means_validated_handoff:
  assumes "run_agent env ag prompt aw = (Inr r, messages, aw')" "ar_success r" "ag_schema ag = Some schema"
  shows "\<exists>raw h. ar_handoff r = Some h \<and> validate_handoff (le_loads env) schema raw = Inr h"
proof -
  have "run_loop env ag 1 (ag_loop_limit ag) (build_initial_messages ag prompt) [] aw = (Inr r, messages, aw')"
    using assms(1) by (simp add: run_agent_def)
  from run_loop_result [OF this] assms(2,3) show ?thesis by simp
qed

definition demo_agent :: "bool agent_config" where
  "demo_agent = \<lparr>ag_name = ''reviewer'', ag_model = Provider ''ollama'' ''qwen2.5-coder:14b'' None,
     ag_loop_limit = 3, ag_tools = [], ag_system_prompt = ''review'',
     ag_schema = Some (\<lambda>v. case v of PBool b \<Rightarrow> Inr b | _ \<Rightarrow> Inl ''not a bool''),
     ag_dump = py_str \<circ> PBool, ag_handoff_instructions = []\<rparr>"

definition demo_env :: "nat loop_env" where
  "demo_env = \<lparr>le_call = (\<lambda>n m ms w. (Inr \<lparr>mr_content = ''ok'', mr_usage =
       \<lparr>cache_creation_input_tokens = None, cache_read_input_tokens = None,
        uncached_input_tokens = None, output_tokens = None\<rparr>, mr_model = m\<rparr>, w)),
     le_host = demo_host, le_audit = \<lparr>has_session = False, audit_write_ok = False\<rparr>,
     le_registry = Map.empty, le_body = demo_body, le_ctx = demo_ctx,
     le_odd_call = (\<lambda>n a w. (Inl ''TypeError'', w)),
     le_loads = (\<lambda>s. Inr (PDict [(''final_answer'', PBool True)])), le_hash = (\<lambda>s. s),
     le_float = (\<lambda>x. x), le_cap_usd = 25, le_task_id = None, le_clock = (\<lambda>_. demo_time),
     le_ledger_ok = (\<lambda>_. True)\<rparr>"

definition demo_agent_world :: "nat agent_world" where
  "demo_agent_world = \<lparr>aw_ledger = empty_ledger, aw_actions = [], aw_notices = [], aw_world = 0\<rparr>"

lemma demo_run: "\<exists>r messages aw'. run_agent demo_env demo_agent ''go'' demo_agent_world = (Inr r, messages, aw')
    \<and> ar_success r"
  by (simp add: run_agent_def demo_agent_def demo_env_def demo_agent_world_def agent_turn_def
      next_answer_def complete_and_record_def parse_model_json_def has_key_def dict_get_def
      finish_turn_def validate_handoff_def handoff_result_def numeral_3_eq_3 Let_def)

theorem success_means_validated_handoff_witness:
  "\<exists>r messages aw' h. run_agent demo_env demo_agent ''go'' demo_agent_world = (Inr r, messages, aw')
     \<and> ar_handoff r = Some (h :: bool)"
proof -
  obtain r messages aw' where r: "run_agent demo_env demo_agent ''go'' demo_agent_world = (Inr r, messages, aw')"
    "ar_success r" using demo_run by blast
  have "ag_schema demo_agent = Some (\<lambda>v. case v of PBool b \<Rightarrow> Inr b | _ \<Rightarrow> Inl ''not a bool'')"
    by (simp add: demo_agent_def)
  from success_means_validated_handoff [OF r this] r(1) show ?thesis by blast
qed

text \<open>
  The budget stands before the call: with a session, a completion reaches the provider
  only if the day's spend plus the worst case computed for the agent's model is within the
  cap; otherwise the run gets the refusal, and neither the world nor the ledger changes.
\<close>

theorem budget_gates_dispatch:
  assumes "has_session (le_audit env)"
    and "le_cap_usd env < spent_today (aw_ledger aw) GLOBAL_SCOPE (date_of (le_clock env (aw_world aw)))
           + max_plausible_cost_usd (le_float env) (model_attr (ag_model ag))
               (estimate_input_tokens messages) (max_tokens_attr (ag_model ag))"
  shows "\<exists>m. complete_and_record env ag messages aw = (Inl m, aw)"
  using assms by (simp add: complete_and_record_def check_budget_before_dispatch_def Let_def)

definition demo_paid_agent :: "bool agent_config" where
  "demo_paid_agent = demo_agent\<lparr>ag_model := Provider ''claude'' ''claude-opus'' (Some 4096)\<rparr>"

definition demo_paid_env :: "nat loop_env" where
  "demo_paid_env = demo_env\<lparr>le_audit := \<lparr>has_session = True, audit_write_ok = True\<rparr>, le_cap_usd := -1\<rparr>"

theorem budget_gates_dispatch_witness:
  "\<exists>m. complete_and_record demo_paid_env demo_paid_agent [] demo_agent_world = (Inl m, demo_agent_world)"
proof (rule budget_gates_dispatch)
  have "0 \<le> max_plausible_cost_usd (\<lambda>x. x) ''claude-opus'' n m" for n m
    using rate_nonneg [OF fp_round_exact, of "''claude-opus''"]
    by (simp add: max_plausible_cost_usd_def Let_def round_to_nonneg)
  then show "le_cap_usd demo_paid_env
      < spent_today (aw_ledger demo_agent_world) GLOBAL_SCOPE
           (date_of (le_clock demo_paid_env (aw_world demo_agent_world)))
         + max_plausible_cost_usd (le_float demo_paid_env) (model_attr (ag_model demo_paid_agent))
             (estimate_input_tokens []) (max_tokens_attr (ag_model demo_paid_agent))"
    by (simp add: demo_paid_env_def demo_paid_agent_def demo_env_def demo_agent_world_def
        spent_today_def empty_ledger_def less_le_trans [of "-1" 0])
qed (simp add: demo_paid_env_def)

text \<open>
  The models the router builds for paid providers are priced at nothing: a \<open>FallbackLLM\<close> has no
  \<open>model\<close> attribute, the check runs for \<open>unknown\<close>, and its worst case is zero, so the check
  passes until the cap has already been overspent.
\<close>

lemma unknown_rates: "rates_for_model fl ''unknown'' = ZERO_RATES"
proof -
  have "find (\<lambda>(key, _). contains key (py_lower ''unknown''))
      (sort_key (\<lambda>(key, _). - int (length key)) RATE_TABLE_PER_MILLION) = None"
    by code_simp
  then show ?thesis by (simp add: rates_for_model_def Let_def)
qed

theorem routed_model_priced_at_zero:
  assumes "fp_round fl" "build r agent = Inr model" "provider_name_for r agent \<noteq> fallback_provider r"
  shows "check_budget_before_dispatch fl l today (model_attr model) messages (max_tokens_attr model) cap scope
           = Inr () \<longleftrightarrow> spent_today l scope today \<le> cap"
  using assms(2)
proof (cases rule: build_cases)
  case (2 m k fm fk)
  then show ?thesis using assms(1)
    by (simp add: check_passed max_plausible_cost_usd_def unknown_rates ZERO_RATES_def)
qed (use assms(3) in simp)

end
