(* ===== verification/Handoffs.thy ===== *)
theory Handoffs
  imports Complex_Main PyValues
begin

text \<open>
  The handoff payloads of \<open>amop/agents/handoffs.py\<close> that the fix chain passes between its
  agents, with the validators that run when one is built.  Confidences are rationals.  The
  ellipsis character U+2026 lies outside Isabelle's 8-bit characters and is written as
  \<open>CHR 0x85\<close>, its code in Windows-1252.
\<close>

definition CONFIDENCE_THRESHOLD :: rat where "CONFIDENCE_THRESHOLD = 6 / 10"

definition MAX_EXCERPT_CHARS :: nat where "MAX_EXCERPT_CHARS = 200"

definition MAX_ANOMALY_SUMMARY_CHARS :: nat where "MAX_ANOMALY_SUMMARY_CHARS = 280"

definition ELLIPSIS :: char where "ELLIPSIS = CHR 0x85"

definition truncate_to :: "nat \<Rightarrow> string \<Rightarrow> string" where
  "truncate_to cap text =
     (if length text \<le> cap then text else take (cap - 1) text @ [ELLIPSIS])"

definition truncate_excerpt :: "string \<Rightarrow> string" where
  "truncate_excerpt value = truncate_to MAX_EXCERPT_CHARS value"

definition truncate_summary :: "string \<Rightarrow> string" where
  "truncate_summary value = truncate_to MAX_ANOMALY_SUMMARY_CHARS value"

section \<open>Investigator\<close>

datatype evidence_type = LogEvidence | CommitEvidence | CodeEvidence

record evidence =
  ev_type :: evidence_type
  ev_ref :: string
  ev_excerpt :: string

definition make_evidence :: "evidence_type \<Rightarrow> string \<Rightarrow> string \<Rightarrow> evidence" where
  "make_evidence ty ref excerpt =
     \<lparr>ev_type = ty, ev_ref = ref, ev_excerpt = truncate_excerpt excerpt\<rparr>"

record root_cause_report =
  rc_task_id :: string
  rc_root_cause :: string
  rc_confidence :: rat
  rc_evidence :: "evidence list"
  rc_affected_files :: "string list"
  rc_suggested_fix_plan :: string

text \<open>\<open>Field(ge=0.0, le=1.0)\<close>: a confidence outside the unit interval fails validation.\<close>

definition valid_confidence :: "rat \<Rightarrow> bool" where
  "valid_confidence c \<longleftrightarrow> 0 \<le> c \<and> c \<le> 1"

definition make_root_cause_report ::
    "string \<Rightarrow> string \<Rightarrow> rat \<Rightarrow> evidence list \<Rightarrow> string list \<Rightarrow> string \<Rightarrow> root_cause_report option" where
  "make_root_cause_report tid cause confidence ev affected plan =
     (if valid_confidence confidence
      then Some \<lparr>rc_task_id = tid, rc_root_cause = cause, rc_confidence = confidence,
                 rc_evidence = ev, rc_affected_files = affected, rc_suggested_fix_plan = plan\<rparr>
      else None)"

section \<open>Coder\<close>

datatype change_status = ChangeSuccess | ChangeFailed | NeedsDecomposition

record code_change_report =
  cc_task_id :: string
  cc_status :: change_status
  cc_branch :: string
  cc_commit_sha :: "string option"
  cc_files_changed :: "string list"
  cc_diff_summary :: string
  cc_iterations_used :: nat
  cc_failure_diagnostic :: "string option"
  cc_no_op :: bool

section \<open>Tester\<close>

record test_report =
  tp_task_id :: string
  tp_all_passed :: bool
  tp_details :: string
  tp_new_tests_added :: "string list"
  tp_regression_confirmed :: bool

section \<open>Reviewer\<close>

datatype severity = Low | Medium | High | Critical

primrec severity_text :: "severity \<Rightarrow> string" where
  "severity_text Low = ''low''"
| "severity_text Medium = ''medium''"
| "severity_text High = ''high''"
| "severity_text Critical = ''critical''"

record finding =
  fi_severity :: severity
  fi_description :: string
  fi_file :: "string option"
  fi_line :: "int option"

record review_verdict =
  rv_task_id :: string
  rv_approved :: bool
  rv_addresses_reported_symptom :: bool
  rv_findings :: "finding list"
  rv_rejection_reason :: "string option"
  rv_counterexample_claim :: "pydict option"
  rv_counterexample :: "string option"

section \<open>Truncation\<close>

lemma truncate_to_bound: "0 < cap \<Longrightarrow> length (truncate_to cap text) \<le> cap"
  by (simp add: truncate_to_def)

lemma truncate_to_short: "length text \<le> cap \<Longrightarrow> truncate_to cap text = text"
  by (simp add: truncate_to_def)

lemma truncate_to_prefix: "take (cap - 1) (truncate_to cap text) = take (cap - 1) text"
  by (simp add: truncate_to_def)

lemma truncate_to_idem: "0 < cap \<Longrightarrow> truncate_to cap (truncate_to cap text) = truncate_to cap text"
  by (rule truncate_to_short) (rule truncate_to_bound)

end
