(* ===== verification/ChainRouting.thy ===== *)
theory ChainRouting
  imports Handoffs SafetyEngine StateMachine "HOL-Library.List_Lexorder" "HOL-Library.Char_ord"
begin

text \<open>
  The decisions the fix chain takes without a model, a database or a sandbox: routing after
  each stage, the scope check, the citation checks and the mechanical checks on a review
  (\<open>amop/orchestrator/chain.py\<close>, first part).
\<close>

definition MAX_FIX_ITERATIONS :: nat where "MAX_FIX_ITERATIONS = 4"

definition MAX_REVIEW_CYCLES :: nat where "MAX_REVIEW_CYCLES = 2"

definition MAX_NOOP_ATTEMPTS :: nat where "MAX_NOOP_ATTEMPTS = 2"

section \<open>Routing\<close>

definition route_after_investigation ::
    "root_cause_report \<Rightarrow> string list \<Rightarrow> bool \<Rightarrow> task_state" where
  "route_after_investigation report missing_files no_citations =
     (if missing_files \<noteq> [] \<or> no_citations then NEEDS_HUMAN_INPUT
      else if rc_confidence report < CONFIDENCE_THRESHOLD then NEEDS_HUMAN_INPUT
      else PLANNING_FIX)"

definition route_after_testing :: "test_report \<Rightarrow> nat \<Rightarrow> task_state" where
  "route_after_testing report fix_iterations =
     (if tp_all_passed report then REVIEWING
      else if fix_iterations < MAX_FIX_ITERATIONS then CODING
      else FAILED)"

definition route_after_review :: "review_verdict \<Rightarrow> nat \<Rightarrow> task_state" where
  "route_after_review verdict review_cycles =
     (if rv_approved verdict then PR_CREATION
      else if review_cycles < MAX_REVIEW_CYCLES then CODING
      else FAILED)"

section \<open>Paths named by models and by git\<close>

definition normalize_repo_path :: "string \<Rightarrow> string" where
  "normalize_repo_path path =
     (let cleaned = removeprefix ''./'' (removeprefix ''/workspace/'' (py_strip path))
      in strip_char CHR ''/'' cleaned)"

definition out_of_scope_files :: "string list \<Rightarrow> string list \<Rightarrow> string list" where
  "out_of_scope_files changed affected =
     (if affected = [] then []
      else
        let declared = map normalize_repo_path affected
        in sort (remdups (filter (\<lambda>c. c \<notin> set declared) (map normalize_repo_path changed))))"

definition has_no_citations :: "root_cause_report \<Rightarrow> bool" where
  "has_no_citations report = (filter (\<lambda>p. py_strip p \<noteq> []) (rc_affected_files report) = [])"

text \<open>
  \<open>file_exists\<close> is \<open>Path.exists\<close> on the resolved path.  A path that cannot be resolved at all
  (a symlink loop) raises out of the loop.
\<close>

fun missing_cited ::
    "host \<Rightarrow> (rpath \<Rightarrow> bool) \<Rightarrow> rpath \<Rightarrow> string list \<Rightarrow> (path_error, string list) result" where
  "missing_cited h file_exists scratch [] = Inr []"
| "missing_cited h file_exists scratch (cited # rest) =
     bind_result (resolve_within_scratch h cited scratch) (\<lambda>resolved.
     bind_result (missing_cited h file_exists scratch rest) (\<lambda>missing.
       Inr (case resolved of
              None \<Rightarrow> cited # missing
            | Some p \<Rightarrow> if file_exists p then missing else cited # missing)))"

definition missing_cited_files ::
    "host \<Rightarrow> (rpath \<Rightarrow> bool) \<Rightarrow> root_cause_report \<Rightarrow> rpath \<Rightarrow> (path_error, string list) result" where
  "missing_cited_files h file_exists report scratch =
     missing_cited h file_exists scratch (rc_affected_files report)"

section \<open>Mechanical checks on a review\<close>

datatype counterexample_status = CE_NONE | CE_VERIFIED | CE_REFUTED | CE_UNAVAILABLE

definition MIN_COUNTEREXAMPLE_CHARS :: nat where "MIN_COUNTEREXAMPLE_CHARS = 20"

text \<open>\<open>str.isdigit\<close> on the first 256 code points: the ASCII digits and three superscripts.\<close>

definition py_isdigit :: "char \<Rightarrow> bool" where
  "py_isdigit c \<longleftrightarrow> between CHR ''0'' CHR ''9'' c \<or> c \<in> {CHR 0xB2, CHR 0xB3, CHR 0xB9}"

definition has_concrete_counterexample :: "review_verdict \<Rightarrow> bool" where
  "has_concrete_counterexample verdict =
     (let text = py_strip (case rv_counterexample verdict of None \<Rightarrow> [] | Some c \<Rightarrow> c)
      in length text \<ge> MIN_COUNTEREXAMPLE_CHARS \<and> list_ex py_isdigit text)"

definition override_reason :: "counterexample_status \<Rightarrow> string" where
  "override_reason status =
     (if status = CE_REFUTED
      then ''its counterexample was EXECUTED against the real code and contradicted by it''
      else if status = CE_UNAVAILABLE
      then ''its counterexample could not be executed (malformed, '' @
           ''un-runnable, or timed out), so nothing grounds it''
      else ''the rejection named no concrete input/output counterexample'')"

definition override_ungrounded_rejection ::
    "review_verdict \<Rightarrow> string list \<Rightarrow> root_cause_report \<Rightarrow> bool \<Rightarrow> counterexample_status
     \<Rightarrow> review_verdict" where
  "override_ungrounded_rejection verdict changed_files report tests_passed status =
     (if rv_approved verdict then verdict
      else if \<not> tests_passed then verdict
      else if rc_affected_files report = [] then verdict
      else if out_of_scope_files changed_files (rc_affected_files report) \<noteq> [] then verdict
      else if status = CE_VERIFIED then verdict
      else verdict\<lparr>rv_approved := True,
             rv_rejection_reason := Some
               (''MECHANICALLY OVERRIDDEN (chain._override_ungrounded_rejection): '' @
                ''all tests pass and the diff is confined to the root cause's '' @
                ''affected_files, but '' @ override_reason status @
                ''. Original verdict: approved=False'' @
                (case rv_rejection_reason verdict of
                   None \<Rightarrow> [] | Some r \<Rightarrow> if r = [] then [] else '' -- '' @ r))\<rparr>)"

definition repr_list :: "string list \<Rightarrow> string" where
  "repr_list xs = py_repr (PList (map PStr xs))"

definition enforce_review_checks ::
    "review_verdict \<Rightarrow> string list \<Rightarrow> root_cause_report \<Rightarrow> bool \<Rightarrow> counterexample_status
     \<Rightarrow> review_verdict" where
  "enforce_review_checks verdict changed_files report tests_passed status =
     (if \<not> rv_approved verdict
      then override_ungrounded_rejection verdict changed_files report tests_passed status
      else
        let strayed = out_of_scope_files changed_files (rc_affected_files report) in
        if strayed \<noteq> [] then
          verdict\<lparr>rv_approved := False,
            rv_rejection_reason := Some
              (''scope violation: the diff touches '' @ repr_list strayed @ '', which the '' @
               ''root cause did not list as affected ('' @ repr_list (rc_affected_files report) @
               ''). Fix the cause, do not modify unrelated files or tests.'')\<rparr>
        else if \<not> rv_addresses_reported_symptom verdict then
          verdict\<lparr>rv_approved := False,
            rv_rejection_reason := Some
              (''the change does not address the reported symptom. The '' @
               ''code may be correct and the tests may pass, but this '' @
               ''fixes a different problem than the one reported '' @
               ''(claimed root cause: '' @ take 120 (rc_root_cause report) @ '').'')\<rparr>
        else verdict)"

section \<open>Where a failure lands\<close>

definition FAILURE_PREFERENCE :: "task_state list" where
  "FAILURE_PREFERENCE = [FAILED, NEEDS_HUMAN_INPUT, CANCELLED]"

definition failure_state :: "task_state \<Rightarrow> task_state" where
  "failure_state current =
     (case find (\<lambda>c. TRANSITIONS (current, c) \<noteq> None) FAILURE_PREFERENCE of
        Some c \<Rightarrow> c | None \<Rightarrow> CANCELLED)"

section \<open>Lemmas\<close>

lemma out_of_scope_sorted: "sorted (out_of_scope_files changed affected)"
  and out_of_scope_distinct: "distinct (out_of_scope_files changed affected)"
  by (simp_all add: out_of_scope_files_def Let_def)

lemma out_of_scope_set:
  "affected \<noteq> [] \<Longrightarrow> set (out_of_scope_files changed affected)
     = normalize_repo_path ` set changed - normalize_repo_path ` set affected"
  by (auto simp: out_of_scope_files_def Let_def)

lemma out_of_scope_empty:
  "out_of_scope_files changed affected = [] \<longleftrightarrow>
     affected = [] \<or> normalize_repo_path ` set changed \<subseteq> normalize_repo_path ` set affected"
proof (cases "affected = []")
  case True
  then show ?thesis by (simp add: out_of_scope_files_def)
next
  case False
  have "out_of_scope_files changed affected = [] \<longleftrightarrow> set (out_of_scope_files changed affected) = {}"
    by simp
  then show ?thesis using False by (simp add: out_of_scope_set)
qed

lemma missing_cited_empty:
  "missing_cited h file_exists scratch fs = Inr [] \<longleftrightarrow>
     (\<forall>f\<in>set fs. \<exists>p. resolve_within_scratch h f scratch = Inr (Some p) \<and> file_exists p)"
  by (induction fs) (auto simp: bind_result_def split: sum.splits option.splits if_splits)

lemma failure_state_find:
  "failure_state s = (case find (legal s) FAILURE_PREFERENCE of Some c \<Rightarrow> c | None \<Rightarrow> CANCELLED)"
proof -
  have "(\<lambda>c. TRANSITIONS (s, c) \<noteq> None) = legal s" by (rule ext) (auto simp: legal_def)
  then show ?thesis by (simp only: failure_state_def)
qed

lemma failure_state_legal:
  "s \<notin> TERMINAL_STATES \<Longrightarrow> legal s (failure_state s)"
  by (cases s) (simp_all add: failure_state_find FAILURE_PREFERENCE_def TERMINAL_STATES_def)

lemmas review_defs = enforce_review_checks_def override_ungrounded_rejection_def Let_def

section \<open>Properties\<close>


text \<open>
  No approval leaves the declared scope: when the checks leave a review approved and the
  root cause declared files, every file of the diff is one of them, up to the spelling
  \<open>normalize_repo_path\<close> removes, whichever way the approval came about.
\<close>

theorem approved_in_scope:
  assumes "rv_approved (enforce_review_checks v changed report tests_passed status)"
    and "rc_affected_files report \<noteq> []" "f \<in> set changed"
  shows "\<exists>a\<in>set (rc_affected_files report). normalize_repo_path f = normalize_repo_path a"
proof -
  have "normalize_repo_path ` set changed \<subseteq> normalize_repo_path ` set (rc_affected_files report)"
    using assms(1,2) by (simp add: review_defs out_of_scope_empty split: if_splits)
  then show ?thesis using assms(3) by blast
qed

definition demo_report :: root_cause_report where
  "demo_report = \<lparr>rc_task_id = ''t1'', rc_root_cause = ''off by one'', rc_confidence = 8 / 10,
     rc_evidence = [], rc_affected_files = [''/workspace/calc.py''], rc_suggested_fix_plan = ''fix it''\<rparr>"

definition demo_verdict :: review_verdict where
  "demo_verdict = \<lparr>rv_task_id = ''t1'', rv_approved = False, rv_addresses_reported_symptom = False,
     rv_findings = [], rv_rejection_reason = None, rv_counterexample_claim = None,
     rv_counterexample = None\<rparr>"

lemma demo_scope: "out_of_scope_files [''calc.py''] (rc_affected_files demo_report) = []"
  by (simp add: out_of_scope_files_def normalize_repo_path_def demo_report_def removeprefix_def
      strip_by_def rstrip_char_def py_space_def Let_def)

theorem approved_in_scope_witness:
  "\<exists>a\<in>set (rc_affected_files demo_report). normalize_repo_path ''calc.py'' = normalize_repo_path a"
proof (rule approved_in_scope)
  show "rv_approved (enforce_review_checks (demo_verdict\<lparr>rv_approved := True,
      rv_addresses_reported_symptom := True\<rparr>) [''calc.py''] demo_report True CE_NONE)"
    by (simp add: review_defs demo_scope demo_verdict_def)
qed (simp_all add: demo_report_def)

text \<open>
  The evidence gate.  After an investigation the chain plans a fix exactly when the
  report names a non-blank file, every file it names resolves inside the scratch directory
  and exists there, and the confidence is at least the threshold.
\<close>

theorem investigation_gate_exact:
  assumes "missing_cited_files h file_exists report scratch = Inr missing"
  shows "route_after_investigation report missing (has_no_citations report) = PLANNING_FIX \<longleftrightarrow>
     (\<exists>f\<in>set (rc_affected_files report). py_strip f \<noteq> [])
     \<and> (\<forall>f\<in>set (rc_affected_files report).
          \<exists>p. resolve_within_scratch h f scratch = Inr (Some p) \<and> file_exists p)
     \<and> CONFIDENCE_THRESHOLD \<le> rc_confidence report"
proof -
  have "missing = [] \<longleftrightarrow> (\<forall>f\<in>set (rc_affected_files report).
          \<exists>p. resolve_within_scratch h f scratch = Inr (Some p) \<and> file_exists p)"
    using assms missing_cited_empty [of h file_exists scratch "rc_affected_files report"]
    by (simp add: missing_cited_files_def)
  moreover have "has_no_citations report \<longleftrightarrow> \<not> (\<exists>f\<in>set (rc_affected_files report). py_strip f \<noteq> [])"
    by (simp add: has_no_citations_def filter_empty_conv)
  ultimately show ?thesis by (auto simp: route_after_investigation_def)
qed

theorem investigation_gate_exact_witness:
  "route_after_investigation (demo_report\<lparr>rc_affected_files := []\<rparr>) []
     (has_no_citations (demo_report\<lparr>rc_affected_files := []\<rparr>)) \<noteq> PLANNING_FIX"
  using investigation_gate_exact [of demo_host "\<lambda>_. True" "demo_report\<lparr>rc_affected_files := []\<rparr>"
      "[''scratch'']" "[]"]
  by (simp add: missing_cited_files_def)

text \<open>
  Routing never proposes a move the state machine refuses: the three routing functions
  choose among the legal moves out of the stage they follow, and the state a failure is
  recorded in is a legal move from every state that is not terminal.
\<close>

theorem routing_follows_table:
  "legal INVESTIGATING (route_after_investigation report missing uncited)
   \<and> legal TESTING (route_after_testing tests n)
   \<and> legal REVIEWING (route_after_review verdict m)
   \<and> (s \<in> TERMINAL_STATES \<or> legal s (failure_state s))"
  by (cases "s \<in> TERMINAL_STATES") (simp_all add: failure_state_legal route_after_investigation_def route_after_testing_def route_after_review_def)

text \<open>
  A rejection whose reviewer states that the change does not address the reported symptom is
  turned into an approval when it carries no confirmed counterexample, while the same
  statement on an approval turns that into a rejection.
\<close>

theorem symptom_mismatch_overridden:
  "rv_approved (enforce_review_checks demo_verdict [''calc.py''] demo_report True CE_NONE)
   \<and> \<not> rv_addresses_reported_symptom demo_verdict
   \<and> \<not> rv_approved (enforce_review_checks (demo_verdict\<lparr>rv_approved := True\<rparr>) [''calc.py'']
          demo_report True CE_NONE)"
  by (simp add: review_defs demo_scope) (simp add: demo_verdict_def demo_report_def)

text \<open>Normalizing a path twice is not the same as once.\<close>

theorem normalize_repo_path_not_idempotent:
  "normalize_repo_path ''././calc.py'' = ''./calc.py''
   \<and> normalize_repo_path (normalize_repo_path ''././calc.py'') = ''calc.py''"
  by (simp add: normalize_repo_path_def removeprefix_def strip_by_def rstrip_char_def py_space_def Let_def)

end
