(* ===== verification/Concurrency.thy ===== *)
theory Concurrency
  imports ChainRouting "HOL-Library.Word" "HOL-Library.Multiset"
begin

text \<open>
  Locks and slots: \<open>amop/orchestrator/concurrency.py\<close>.  Postgres' transaction-scoped advisory
  locks are a table from keys to the connection that holds them; tasks are connections that
  take their keys one by one and give all of them back at once.  The 8-byte blake2b digest of
  a text is the parameter \<open>H\<close>.  Slots are the two in-process counters.
\<close>

section \<open>Lock keys\<close>

definition lock_key :: "(string \<Rightarrow> 64 word) \<Rightarrow> string list \<Rightarrow> int" where
  "lock_key H parts = sint (H (join_with [CHR 0x00] parts))"

definition repo_lock_key ::
    "links \<Rightarrow> nat \<Rightarrow> rpath \<Rightarrow> (string \<Rightarrow> 64 word) \<Rightarrow> string \<Rightarrow> (path_error, int) result" where
  "repo_lock_key fs budget cwd H repo_path =
     bind_result (normalize_repo fs budget cwd repo_path) (\<lambda>repo. Inr (lock_key H [''amop:repo'', repo]))"

definition file_lock_keys ::
    "links \<Rightarrow> nat \<Rightarrow> rpath \<Rightarrow> (string \<Rightarrow> 64 word) \<Rightarrow> string \<Rightarrow> string list
     \<Rightarrow> (path_error, int list) result" where
  "file_lock_keys fs budget cwd H repo_path files =
     bind_result (normalize_repo fs budget cwd repo_path) (\<lambda>repo.
       Inr (sort (remdups (map (\<lambda>f. lock_key H [''amop:file'', repo, normalize_repo_path f])
                              (filter (\<lambda>f. f \<noteq> [] \<and> py_strip f \<noteq> []) files)))))"

text \<open>\<open>file_lock_keys(...) or [repo_lock_key(...)]\<close>\<close>

definition lock_keys ::
    "links \<Rightarrow> nat \<Rightarrow> rpath \<Rightarrow> (string \<Rightarrow> 64 word) \<Rightarrow> string \<Rightarrow> string list
     \<Rightarrow> (path_error, int list) result" where
  "lock_keys fs budget cwd H repo_path files =
     bind_result (file_lock_keys fs budget cwd H repo_path files) (\<lambda>keys.
       if keys \<noteq> [] then Inr keys
       else bind_result (repo_lock_key fs budget cwd H repo_path) (\<lambda>k. Inr [k]))"

section \<open>Advisory locks\<close>

record lock_table =
  held :: "int \<rightharpoonup> nat"
  pending :: "nat \<rightharpoonup> int list"

definition no_locks :: lock_table where
  "no_locks = \<lparr>held = Map.empty, pending = Map.empty\<rparr>"

text \<open>
  \<open>repo_file_lock\<close> on connection \<open>c\<close>: opening the transaction, one \<open>pg_advisory_xact_lock\<close> (which
  blocks while another connection holds the key), and the rollback at the end of the block
  or on any exception, which frees every key of the connection.
\<close>

definition open_lock :: "nat \<Rightarrow> int list \<Rightarrow> lock_table \<Rightarrow> lock_table" where
  "open_lock c keys t = t\<lparr>pending := (pending t)(c \<mapsto> keys)\<rparr>"

definition free_for :: "nat \<Rightarrow> int \<Rightarrow> lock_table \<Rightarrow> bool" where
  "free_for c k t \<longleftrightarrow> (case held t k of None \<Rightarrow> True | Some d \<Rightarrow> d = c)"

definition lock_next :: "nat \<Rightarrow> lock_table \<Rightarrow> lock_table option" where
  "lock_next c t =
     (case pending t c of
        Some (k # ks) \<Rightarrow>
          if free_for c k t
          then Some (t\<lparr>held := (held t)(k \<mapsto> c), pending := (pending t)(c \<mapsto> ks)\<rparr>)
          else None
      | _ \<Rightarrow> None)"

definition inside :: "nat \<Rightarrow> lock_table \<Rightarrow> bool" where
  "inside c t \<longleftrightarrow> pending t c = Some []"

definition rollback_locks :: "nat \<Rightarrow> lock_table \<Rightarrow> lock_table" where
  "rollback_locks c t =
     t\<lparr>held := (\<lambda>k. if held t k = Some c then None else held t k), pending := (pending t)(c := None)\<rparr>"

text \<open>\<open>try_repo_file_lock\<close>: the probe takes what it can and always rolls back.\<close>

fun try_keys :: "nat \<Rightarrow> int list \<Rightarrow> lock_table \<Rightarrow> bool \<times> lock_table" where
  "try_keys c [] t = (True, t)"
| "try_keys c (k # ks) t =
     (if free_for c k t then try_keys c ks (t\<lparr>held := (held t)(k \<mapsto> c)\<rparr>) else (False, t))"

definition try_repo_file_lock :: "nat \<Rightarrow> int list \<Rightarrow> lock_table \<Rightarrow> bool \<times> lock_table" where
  "try_repo_file_lock c keys t =
     (let (got, t') = try_keys c keys t in (got, rollback_locks c t'))"

inductive lock_step :: "(nat \<Rightarrow> int list) \<Rightarrow> lock_table \<Rightarrow> lock_table \<Rightarrow> bool" for keys_of where
  opened: "pending t c = None \<Longrightarrow> lock_step keys_of t (open_lock c (keys_of c) t)"
| locked: "lock_next c t = Some t' \<Longrightarrow> lock_step keys_of t t'"
| closed: "pending t c \<noteq> None \<Longrightarrow> lock_step keys_of t (rollback_locks c t)"

inductive lock_reachable :: "(nat \<Rightarrow> int list) \<Rightarrow> lock_table \<Rightarrow> bool" for keys_of where
  start: "lock_reachable keys_of no_locks"
| more: "lock_reachable keys_of t \<Longrightarrow> lock_step keys_of t t' \<Longrightarrow> lock_reachable keys_of t'"

section \<open>Slots\<close>

datatype limit_error = ConcurrencyLimitExceeded string int "string option"

record limits =
  MAX_CONCURRENT_TASKS_GLOBAL :: int
  MAX_CONCURRENT_TASKS_PER_REPO :: int

definition default_limits :: limits where
  "default_limits = \<lparr>MAX_CONCURRENT_TASKS_GLOBAL = 4, MAX_CONCURRENT_TASKS_PER_REPO = 1\<rparr>"

record slots =
  active_global :: int
  active_per_repo :: "string \<rightharpoonup> int"

definition no_slots :: slots where
  "no_slots = \<lparr>active_global = 0, active_per_repo = Map.empty\<rparr>"

definition get_count :: "(string \<rightharpoonup> int) \<Rightarrow> string \<Rightarrow> int \<Rightarrow> int" where
  "get_count m repo absent = (case m repo of None \<Rightarrow> absent | Some n \<Rightarrow> n)"

definition acquire_slot :: "limits \<Rightarrow> string \<Rightarrow> slots \<Rightarrow> (limit_error, slots) result" where
  "acquire_slot lims repo s =
     (if active_global s \<ge> MAX_CONCURRENT_TASKS_GLOBAL lims
      then Inl (ConcurrencyLimitExceeded ''global'' (MAX_CONCURRENT_TASKS_GLOBAL lims) None)
      else if get_count (active_per_repo s) repo 0 \<ge> MAX_CONCURRENT_TASKS_PER_REPO lims
      then Inl (ConcurrencyLimitExceeded ''per-repo'' (MAX_CONCURRENT_TASKS_PER_REPO lims) (Some repo))
      else Inr \<lparr>active_global = active_global s + 1,
                active_per_repo = (active_per_repo s)(repo \<mapsto> get_count (active_per_repo s) repo 0 + 1)\<rparr>)"

definition release_slot :: "string \<Rightarrow> slots \<Rightarrow> slots" where
  "release_slot repo s =
     (let remaining = get_count (active_per_repo s) repo 1 - 1
      in \<lparr>active_global = active_global s - 1,
          active_per_repo = (if remaining > 0 then (active_per_repo s)(repo \<mapsto> remaining)
                             else (active_per_repo s)(repo := None))\<rparr>)"

text \<open>
  \<open>task_slot\<close> around a body, which may return or raise; other tasks start and finish while it
  runs, so the body takes the counters to whatever they are when it ends.  \<open>gated_by_task_slot\<close>
  passes \<open>str(kwargs.get("repo_path"))\<close>, which is \<open>'None'\<close> when the argument is missing.
\<close>

datatype ('e, 'a) gated = Refused limit_error | BadRepoPath path_error | Ended "('e, 'a) result"

definition task_slot ::
    "links \<Rightarrow> nat \<Rightarrow> rpath \<Rightarrow> limits \<Rightarrow> string \<Rightarrow> (slots \<Rightarrow> ('e, 'a) result \<times> slots) \<Rightarrow> slots
     \<Rightarrow> ('e, 'a) gated \<times> slots" where
  "task_slot fs budget cwd lims repo_path body s =
     (case normalize_repo fs budget cwd repo_path of
        Inl e \<Rightarrow> (BadRepoPath e, s)
      | Inr repo \<Rightarrow>
          (case acquire_slot lims repo s of
             Inl e \<Rightarrow> (Refused e, s)
           | Inr s1 \<Rightarrow> (let (out, s2) = body s1 in (Ended out, release_slot repo s2))))"

definition gated_by_task_slot ::
    "links \<Rightarrow> nat \<Rightarrow> rpath \<Rightarrow> limits \<Rightarrow> string option \<Rightarrow> (slots \<Rightarrow> ('e, 'a) result \<times> slots)
     \<Rightarrow> slots \<Rightarrow> ('e, 'a) gated \<times> slots" where
  "gated_by_task_slot fs budget cwd lims repo_path fn s =
     task_slot fs budget cwd lims (case repo_path of None \<Rightarrow> ''None'' | Some p \<Rightarrow> p) fn s"

text \<open>Tasks starting and finishing, with the multiset of repositories they run on.\<close>

datatype slot_event = StartTask string | FinishTask string

fun on_slot_event :: "limits \<Rightarrow> slot_event \<Rightarrow> slots \<times> string multiset \<Rightarrow> slots \<times> string multiset" where
  "on_slot_event lims (StartTask repo) (s, running) =
     (case acquire_slot lims repo s of
        Inl _ \<Rightarrow> (s, running)
      | Inr s' \<Rightarrow> (s', add_mset repo running))"
| "on_slot_event lims (FinishTask repo) (s, running) =
     (if repo \<in># running then (release_slot repo s, running - {#repo#}) else (s, running))"

section \<open>Holding locks\<close>

text \<open>A connection holds exactly the keys it has taken so far, in the order of its list.\<close>

definition lock_inv :: "(nat \<Rightarrow> int list) \<Rightarrow> lock_table \<Rightarrow> bool" where
  "lock_inv keys_of t \<longleftrightarrow>
     (\<forall>c ks. pending t c = Some ks \<longrightarrow>
        (\<exists>got. keys_of c = got @ ks \<and> (\<forall>k. held t k = Some c \<longleftrightarrow> k \<in> set got)))
     \<and> (\<forall>c. pending t c = None \<longrightarrow> (\<forall>k. held t k \<noteq> Some c))
     \<and> finite (dom (pending t))"

inductive_cases lock_stepE: "lock_step keys_of t t'"

lemma lock_invD:
  assumes "lock_inv keys_of t" "pending t c = Some ks"
  obtains got where "keys_of c = got @ ks" "\<And>k. held t k = Some c \<longleftrightarrow> k \<in> set got"
  using assms unfolding lock_inv_def by blast

lemma lock_inv_holder:
  "lock_inv keys_of t \<Longrightarrow> held t k = Some c \<Longrightarrow> \<exists>ks. pending t c = Some ks"
  unfolding lock_inv_def by (cases "pending t c") auto

lemma lock_next_cases:
  assumes "lock_next c t = Some t'"
  obtains k ks where "pending t c = Some (k # ks)" "free_for c k t"
    "t' = t\<lparr>held := (held t)(k \<mapsto> c), pending := (pending t)(c \<mapsto> ks)\<rparr>"
  using assms by (auto simp: lock_next_def split: option.splits list.splits if_splits)

lemma lock_next_inv:
  assumes "lock_inv keys_of t" "lock_next c t = Some t'"
  shows "lock_inv keys_of t'"
proof -
  from assms(2) obtain k ks where p: "pending t c = Some (k # ks)" and f: "free_for c k t"
    and t': "t' = t\<lparr>held := (held t)(k \<mapsto> c), pending := (pending t)(c \<mapsto> ks)\<rparr>"
    by (rule lock_next_cases)
  obtain got where g: "keys_of c = got @ k # ks"
    and h: "\<And>k. held t k = Some c \<longleftrightarrow> k \<in> set got"
    using lock_invD [OF assms(1) p] by blast
  have c: "\<exists>got'. keys_of c = got' @ ks \<and> (\<forall>x. held t' x = Some c \<longleftrightarrow> x \<in> set got')"
    by (rule exI [of _ "got @ [k]"]) (use g h t' in auto)
  have other: "held t' x = Some d \<longleftrightarrow> held t x = Some d" if "d \<noteq> c" for d x
    using f t' that by (auto simp: free_for_def split: option.splits)
  show ?thesis
    unfolding lock_inv_def
  proof (intro conjI allI impI)
    fix d ds assume "pending t' d = Some ds"
    then show "\<exists>got. keys_of d = got @ ds \<and> (\<forall>k. (held t' k = Some d) = (k \<in> set got))"
      using c assms(1) other t' by (cases "d = c") (auto simp: lock_inv_def)
  next
    fix d x assume "pending t' d = None"
    then show "held t' x \<noteq> Some d"
      using assms(1) other t' by (cases "d = c") (auto simp: lock_inv_def)
  next
    show "finite (dom (pending t'))" using assms(1) t' by (simp add: lock_inv_def)
  qed
qed

lemma lock_step_inv: "lock_inv keys_of t \<Longrightarrow> lock_step keys_of t t' \<Longrightarrow> lock_inv keys_of t'"
proof (erule lock_stepE)
  fix c assume "lock_inv keys_of t" "t' = open_lock c (keys_of c) t" "pending t c = None"
  then show ?thesis by (auto simp: lock_inv_def open_lock_def)
next
  fix c assume "lock_inv keys_of t" "lock_next c t = Some t'"
  then show ?thesis by (rule lock_next_inv)
next
  fix c assume i: "lock_inv keys_of t" and t': "t' = rollback_locks c t"
  have other: "held t' x = Some d \<longleftrightarrow> held t x = Some d \<and> d \<noteq> c" for d x
    by (auto simp: t' rollback_locks_def)
  have "pending t' = (pending t)(c := None)" by (simp add: t' rollback_locks_def)
  then show ?thesis using i unfolding lock_inv_def other
    by (simp add: dom_fun_upd)
qed

lemma lock_reachable_inv: "lock_reachable keys_of t \<Longrightarrow> lock_inv keys_of t"
proof (induction rule: lock_reachable.induct)
  case start
  show ?case by (simp add: lock_inv_def no_locks_def)
next
  case (more t t')
  then show ?case using lock_step_inv by blast
qed

text \<open>
  What the locks need of the keys: every connection asks for its keys in strictly increasing
  order.  Nothing else about the keys matters.
\<close>

locale ordered_locks =
  fixes keys_of :: "nat \<Rightarrow> int list"
  assumes increasing: "sorted_wrt (<) (keys_of c)"
begin

lemma exclusion:
  assumes "lock_reachable keys_of t" "inside c t" "inside d t" "k \<in> set (keys_of c)" "k \<in> set (keys_of d)"
  shows "c = d"
proof -
  have i: "lock_inv keys_of t" using assms(1) by (rule lock_reachable_inv)
  have "held t k = Some c" using assms(2,4) by (auto simp: inside_def elim: lock_invD [OF i])
  moreover have "held t k = Some d" using assms(3,5) by (auto simp: inside_def elim: lock_invD [OF i])
  ultimately show ?thesis by simp
qed

lemma blocked_on_larger:
  assumes "lock_inv keys_of t" "pending t c = Some (k # ks)" "lock_next c t = None"
  shows "\<exists>d xs. pending t d = Some xs \<and> (\<forall>x ys. xs = x # ys \<longrightarrow> k < x)"
proof -
  obtain d where d: "held t k = Some d"
    using assms(2,3) by (auto simp: lock_next_def free_for_def split: option.splits if_splits)
  obtain xs where xs: "pending t d = Some xs" using lock_inv_holder [OF assms(1) d] by blast
  obtain got where g: "keys_of d = got @ xs" "\<And>k. held t k = Some d \<longleftrightarrow> k \<in> set got"
    using lock_invD [OF assms(1) xs] by blast
  have "k < x" if "xs = x # ys" for x ys
    using increasing [of d] g d that by (auto simp: sorted_wrt_append)
  then show ?thesis using xs by blast
qed

lemma progress:
  assumes "lock_reachable keys_of t" "pending t c0 \<noteq> None"
  shows "\<exists>c. pending t c \<noteq> None \<and> (inside c t \<or> lock_next c t \<noteq> None)"
proof (rule ccontr)
  assume stuck: "\<not> ?thesis"
  have i: "lock_inv keys_of t" using assms(1) by (rule lock_reachable_inv)
  define next_key where "next_key c = hd (the (pending t c))" for c
  have waits: "\<exists>k ks. pending t c = Some (k # ks) \<and> k = next_key c \<and> lock_next c t = None"
    if "c \<in> dom (pending t)" for c
  proof -
    obtain ps where ps: "pending t c = Some ps" using \<open>c \<in> dom (pending t)\<close> by blast
    then have "\<not> inside c t" "lock_next c t = None" using stuck by fastforce+
    with ps show ?thesis by (cases ps) (simp_all add: inside_def next_key_def)
  qed
  let ?S = "next_key ` dom (pending t)"
  have "finite ?S" "?S \<noteq> {}" using i assms(2) by (auto simp: lock_inv_def)
  then obtain c where c: "c \<in> dom (pending t)" and max: "\<And>d. d \<in> dom (pending t) \<Longrightarrow> next_key d \<le> next_key c"
    using Max_in [of ?S] Max_ge [of ?S] by (metis (no_types, lifting) imageE imageI)
  obtain ks where "pending t c = Some (next_key c # ks)" "lock_next c t = None" using waits [OF c] by blast
  from blocked_on_larger [OF i this] obtain d xs where
    d: "pending t d = Some xs" "\<And>x ys. xs = x # ys \<Longrightarrow> next_key c < x" by blast
  from d(1) have "d \<in> dom (pending t)" by blast
  from waits [OF this] max [OF this] d show False by fastforce
qed

end

section \<open>Counting slots\<close>

definition slot_inv :: "slots \<times> string multiset \<Rightarrow> bool" where
  "slot_inv p \<longleftrightarrow> active_global (fst p) = int (size (snd p)) \<and>
     (\<forall>repo. active_per_repo (fst p) repo =
        (if repo \<in># snd p then Some (int (count (snd p) repo)) else None))"

lemma get_count_inv:
  "slot_inv p \<Longrightarrow> get_count (active_per_repo (fst p)) repo 0 = int (count (snd p) repo)"
  by (simp add: slot_inv_def get_count_def count_eq_zero_iff)

lemma acquire_slot_iff:
  assumes "slot_inv p"
  shows "(\<exists>s'. acquire_slot lims repo (fst p) = Inr s') \<longleftrightarrow>
     int (size (snd p)) < MAX_CONCURRENT_TASKS_GLOBAL lims
     \<and> int (count (snd p) repo) < MAX_CONCURRENT_TASKS_PER_REPO lims"
  using assms get_count_inv [OF assms, of repo]
  by (auto simp: acquire_slot_def slot_inv_def)

lemma acquire_slot_inv:
  assumes "slot_inv (s, running)" "acquire_slot lims repo s = Inr s'"
  shows "slot_inv (s', add_mset repo running)"
  using assms get_count_inv [OF assms(1), of repo]
  by (auto simp: acquire_slot_def slot_inv_def split: if_splits)

lemma release_slot_inv:
  assumes "slot_inv (s, running)" "repo \<in># running"
  shows "slot_inv (release_slot repo s, running - {#repo#})"
proof -
  from assms(2) obtain rest where r: "running = add_mset repo rest" by (rule multi_member_split [THEN exE])
  have g: "get_count (active_per_repo s) repo 1 = int (count rest repo) + 1"
    using assms by (simp add: slot_inv_def get_count_def r)
  show ?thesis
    using assms(1) by (auto simp: slot_inv_def release_slot_def Let_def g r not_in_iff)
qed

lemma slot_event_inv: "slot_inv p \<Longrightarrow> slot_inv (on_slot_event lims e p)"
  by (cases e; cases p)
    (simp_all add: acquire_slot_inv release_slot_inv split: sum.splits)

lemma slot_event_limits:
  assumes "slot_inv p" "int (size (snd p)) \<le> max 0 (MAX_CONCURRENT_TASKS_GLOBAL lims)"
    and "\<And>r. int (count (snd p) r) \<le> max 0 (MAX_CONCURRENT_TASKS_PER_REPO lims)"
  shows "int (size (snd (on_slot_event lims e p))) \<le> max 0 (MAX_CONCURRENT_TASKS_GLOBAL lims)
    \<and> (\<forall>r. int (count (snd (on_slot_event lims e p)) r) \<le> max 0 (MAX_CONCURRENT_TASKS_PER_REPO lims))"
proof (cases e)
  case (StartTask repo)
  obtain s running where p: "p = (s, running)" by (cases p)
  show ?thesis
  proof (cases "acquire_slot lims repo s")
    case (Inl err)
    then show ?thesis using assms StartTask p by simp
  next
    case (Inr s')
    then have "int (size running) < MAX_CONCURRENT_TASKS_GLOBAL lims"
      "int (count running repo) < MAX_CONCURRENT_TASKS_PER_REPO lims"
      using acquire_slot_iff [OF assms(1), of lims repo] p by auto
    then show ?thesis using assms(3) StartTask p Inr by (auto simp: max_def)
  qed
next
  case (FinishTask repo)
  obtain s running where p: "p = (s, running)" by (cases p)
  have "int (size (running - {#repo#})) \<le> int (size running)"
    by (simp add: size_mset_mono)
  moreover have "int (count (running - {#repo#}) r) \<le> int (count running r)" for r by simp
  moreover have "int (size running) \<le> max 0 (MAX_CONCURRENT_TASKS_GLOBAL lims)"
    and "int (count running r) \<le> max 0 (MAX_CONCURRENT_TASKS_PER_REPO lims)" for r
    using assms(2) assms(3) [of r] p by simp_all
  ultimately have "int (size (running - {#repo#})) \<le> max 0 (MAX_CONCURRENT_TASKS_GLOBAL lims)"
    and "\<And>r. int (count (running - {#repo#}) r) \<le> max 0 (MAX_CONCURRENT_TASKS_PER_REPO lims)"
    by (blast intro: order_trans)+
  then show ?thesis using assms(2,3) FinishTask p by (simp del: count_diff)
qed

lemma slot_run_inv:
  "slot_inv (fold (on_slot_event lims) es (no_slots, {#}))
   \<and> int (size (snd (fold (on_slot_event lims) es (no_slots, {#})))) \<le> max 0 (MAX_CONCURRENT_TASKS_GLOBAL lims)
   \<and> (\<forall>r. int (count (snd (fold (on_slot_event lims) es (no_slots, {#}))) r)
        \<le> max 0 (MAX_CONCURRENT_TASKS_PER_REPO lims))"
proof (induction es rule: rev_induct)
  case Nil
  show ?case by (simp add: slot_inv_def no_slots_def)
next
  case (snoc e es)
  then show ?case using slot_event_inv slot_event_limits by simp
qed

section \<open>Properties\<close>

lemma file_lock_keys_increasing:
  "file_lock_keys fs budget cwd H repo files = Inr ks \<Longrightarrow> sorted_wrt (<) ks"
  by (auto simp: file_lock_keys_def bind_result_def strict_sorted_iff split: sum.splits)

lemma lock_keys_increasing:
  "lock_keys fs budget cwd H repo files = Inr ks \<Longrightarrow> sorted_wrt (<) ks"
  by (auto simp: lock_keys_def bind_result_def split: sum.splits if_splits
      dest: file_lock_keys_increasing)

text \<open>The keys of the connection of each job, a job being a repository and its declared files.\<close>

definition job_keys ::
    "links \<Rightarrow> nat \<Rightarrow> rpath \<Rightarrow> (string \<Rightarrow> 64 word) \<Rightarrow> (nat \<Rightarrow> string \<times> string list) \<Rightarrow> nat \<Rightarrow> int list" where
  "job_keys fs budget cwd H jobs c =
     (case lock_keys fs budget cwd H (fst (jobs c)) (snd (jobs c)) of Inl _ \<Rightarrow> [] | Inr ks \<Rightarrow> ks)"

interpretation job_locks: ordered_locks "job_keys fs budget cwd H jobs" for fs budget cwd H jobs
  by unfold_locales (auto simp: job_keys_def split: sum.splits dest: lock_keys_increasing)

lemma file_key_in_keys:
  assumes "normalize_repo fs budget cwd repo = Inr dir" "f \<in> set files" "f \<noteq> []" "py_strip f \<noteq> []"
  shows "\<exists>ks. lock_keys fs budget cwd H repo files = Inr ks
     \<and> lock_key H [''amop:file'', dir, normalize_repo_path f] \<in> set ks"
proof -
  let ?ks = "sort (remdups (map (\<lambda>f. lock_key H [''amop:file'', dir, normalize_repo_path f])
      (filter (\<lambda>f. f \<noteq> [] \<and> py_strip f \<noteq> []) files)))"
  have k: "lock_key H [''amop:file'', dir, normalize_repo_path f] \<in> set ?ks" using assms(2-4) by auto
  then have ne: "?ks \<noteq> []" by (rule in_set_not_Nil)
  have fk: "file_lock_keys fs budget cwd H repo files = Inr ?ks"
    unfolding file_lock_keys_def assms(1) bind_result_def sum.case ..
  have "lock_keys fs budget cwd H repo files = Inr ?ks"
    unfolding lock_keys_def bind_result_def fk sum.case by (rule if_P [OF ne])
  with k show ?thesis by blast
qed

text \<open>
  C35: Two tasks never work on the same file at once.  In any interleaving of lock requests,
  grants and releases, two connections that are both inside their critical section and
  declared (under whatever spelling) one common file of one repository are the same
  connection.
\<close>

theorem same_file_exclusive:
  assumes "lock_reachable (job_keys fs budget cwd H jobs) t" "inside c t" "inside d t"
    and "normalize_repo fs budget cwd (fst (jobs c)) = Inr dir"
    and "normalize_repo fs budget cwd (fst (jobs d)) = Inr dir"
    and "f \<in> set (snd (jobs c))" "g \<in> set (snd (jobs d))" "py_strip f \<noteq> []" "py_strip g \<noteq> []"
    and "normalize_repo_path f = normalize_repo_path g"
  shows "c = d"
proof -
  have ne: "f \<noteq> []" "g \<noteq> []" using assms(8,9) by (auto simp: strip_by_def)
  let ?k = "lock_key H [''amop:file'', dir, normalize_repo_path f]"
  have "?k \<in> set (job_keys fs budget cwd H jobs c)" "?k \<in> set (job_keys fs budget cwd H jobs d)"
    using file_key_in_keys [OF assms(4,6) ne(1) assms(8), of H]
      file_key_in_keys [OF assms(5,7) ne(2) assms(9), of H] assms(10)
    by (auto simp: job_keys_def)
  then show ?thesis using job_locks.exclusion [OF assms(1-3)] by blast
qed

definition demo_key :: "string \<Rightarrow> 64 word" where "demo_key x = of_nat (length x)"

definition demo_jobs :: "nat \<Rightarrow> string \<times> string list" where
  "demo_jobs c = (''/repo'', [''a.py''])"

abbreviation demo_keys :: "(string \<Rightarrow> 64 word) \<Rightarrow> nat \<Rightarrow> int list" where
  "demo_keys H \<equiv> job_keys (\<lambda>_. None) 8 [] H demo_jobs"

definition demo_opened :: "(string \<Rightarrow> 64 word) \<Rightarrow> lock_table" where
  "demo_opened H = open_lock 0 (demo_keys H 0) no_locks"

lemma demo_repo: "normalize_repo (\<lambda>_. None) 8 [] ''/repo'' = Inr ''/repo''"
  by code_simp

lemma demo_file: "normalize_repo_path ''a.py'' = ''a.py''"
  by code_simp

lemma demo_keys: "demo_keys H c = [lock_key H [''amop:file'', ''/repo'', ''a.py'']]"
  by (simp add: job_keys_def lock_keys_def file_lock_keys_def demo_jobs_def demo_repo demo_file
      bind_result_def strip_by_def py_space_def)

lemma demo_opened_reachable: "lock_reachable (demo_keys H) (demo_opened H)"
  unfolding demo_opened_def
  by (rule more [OF start], rule opened) (simp add: no_locks_def)

lemma demo_inside: "\<exists>t. lock_reachable (demo_keys H) t \<and> inside 0 t"
proof -
  obtain t where t: "lock_next 0 (demo_opened H) = Some t" "pending t 0 = Some []"
    by (simp add: demo_opened_def lock_next_def open_lock_def demo_keys free_for_def no_locks_def)
  have "lock_reachable (demo_keys H) t" using more [OF demo_opened_reachable locked [OF t(1)]] .
  then show ?thesis using t(2) by (auto simp: inside_def)
qed

theorem same_file_exclusive_witness:
  "\<exists>t. lock_reachable (demo_keys demo_key) t \<and> inside 0 t \<and> (0::nat) = 0"
proof -
  obtain t where t: "lock_reachable (demo_keys demo_key) t" "inside 0 t" using demo_inside by blast
  have "(0::nat) = 0"
    by (rule same_file_exclusive [OF t(1,2,2), where f = "''a.py''" and g = "''a.py''"])
      (simp_all add: demo_jobs_def demo_repo strip_by_def py_space_def)
  then show ?thesis using t by blast
qed

text \<open>
  C37: Locking never deadlocks: whenever some connection has asked for locks, some connection
  is either inside its critical section (and can finish) or can be granted its next key.
\<close>

theorem locks_deadlock_free:
  assumes "lock_reachable (job_keys fs budget cwd H jobs) t" "pending t c0 \<noteq> None"
  shows "\<exists>c. pending t c \<noteq> None \<and> (inside c t \<or> lock_next c t \<noteq> None)"
  using assms by (rule job_locks.progress)

theorem locks_deadlock_free_witness:
  "\<exists>c. pending (demo_opened demo_key) c \<noteq> None \<and> (inside c (demo_opened demo_key) \<or> lock_next c (demo_opened demo_key) \<noteq> None)"
  by (rule locks_deadlock_free [OF demo_opened_reachable, of demo_key 0])
    (simp add: demo_opened_def open_lock_def)

text \<open>
  The concurrency limits hold.  After any sequence of task starts and finishes from an
  idle process, the two counters are exactly the numbers of running tasks (overall and per
  repository, with no entry for an idle repository), and neither exceeds its limit.
\<close>

theorem slot_limits_hold:
  "(let (s, running) = fold (on_slot_event lims) es (no_slots, {#}) in
     active_global s = int (size running)
     \<and> (\<forall>repo. active_per_repo s repo = (if repo \<in># running then Some (int (count running repo)) else None))
     \<and> int (size running) \<le> max 0 (MAX_CONCURRENT_TASKS_GLOBAL lims)
     \<and> (\<forall>repo. int (count running repo) \<le> max 0 (MAX_CONCURRENT_TASKS_PER_REPO lims)))"
  using slot_run_inv [of lims es] by (simp add: case_prod_beta slot_inv_def)

text \<open>
  A slot is always given back.  Whether the gated task returns or raises, if the other
  tasks leave the counters as they found them, the counters after the run are those before
  it; and a start is refused only when one of the two limits is reached.
\<close>

theorem slot_given_back:
  assumes "slot_inv (s, running)" "\<And>s1. snd (body s1) = s1"
    and "gated_by_task_slot fs budget cwd lims path body s = (out, s')"
  shows "s' = s \<and> (\<forall>e. out = Refused e \<longrightarrow> (\<exists>repo.
           MAX_CONCURRENT_TASKS_GLOBAL lims \<le> int (size running)
           \<or> MAX_CONCURRENT_TASKS_PER_REPO lims \<le> int (count running repo)))"
proof (cases "normalize_repo fs budget cwd (case path of None \<Rightarrow> ''None'' | Some p \<Rightarrow> p)")
  case (Inl e)
  then show ?thesis using assms(3) by (auto simp: gated_by_task_slot_def task_slot_def)
next
  case (Inr repo)
  show ?thesis
  proof (cases "acquire_slot lims repo s")
    case (Inl e)
    then have "\<not> (\<exists>s'. acquire_slot lims repo s = Inr s')" by simp
    then have "MAX_CONCURRENT_TASKS_GLOBAL lims \<le> int (size running)
        \<or> MAX_CONCURRENT_TASKS_PER_REPO lims \<le> int (count running repo)"
      using acquire_slot_iff [OF assms(1), of lims repo] by auto
    then show ?thesis using assms(3) Inl Inr by (auto simp: gated_by_task_slot_def task_slot_def)
  next
    case (Inr s1)
    have "slot_inv (s1, add_mset repo running)" using assms(1) Inr by (rule acquire_slot_inv)
    from release_slot_inv [OF this, of repo] have "slot_inv (release_slot repo s1, running)" by simp
    then have "release_slot repo s1 = s"
      using assms(1) by (auto simp: slot_inv_def intro!: slots.equality)
    moreover have "s' = release_slot repo (snd (body s1))" "out = Ended (fst (body s1))"
      using assms(3) \<open>normalize_repo _ _ _ _ = Inr repo\<close> Inr
      by (auto simp: gated_by_task_slot_def task_slot_def case_prod_beta)
    ultimately show ?thesis using assms(2) by simp
  qed
qed

theorem slot_given_back_witness:
  "snd (gated_by_task_slot (\<lambda>_. None) 8 [] default_limits (Some ''/repo'')
     (\<lambda>s. (Inl ''boom'' :: (string, nat) result, s)) no_slots) = no_slots"
proof -
  have "slot_inv (no_slots, {#})" by (simp add: slot_inv_def no_slots_def)
  from slot_given_back [OF this, of "\<lambda>s. (Inl ''boom'' :: (string, nat) result, s)"] show ?thesis
    by (metis prod.collapse snd_conv)
qed

end
