(* ===== verification/ChainStages.thy ===== *)
theory ChainStages
  imports ChainRouting Concurrency AgentLoop TaskStore ScopeGuard
begin

text \<open>
  The state of a fix run, the effects it has and the helpers its stages call: the second part
  of \<open>amop/orchestrator/chain.py\<close> with \<open>amop/agents/tester.py\<close>'s classification.  A chain
  action maps a \<open>chain_state\<close> to a result and a new state; \<open>Inl\<close> is an exception on its way
  up.  The agents, git in the sandbox, the test runner, the pull-request tool and the
  counterexample runner are functions of an environment state \<open>'x\<close>, in the record
  \<open>chain_env\<close>.  Progress lines are the constructors of \<open>stage\<close> with the values they print.
\<close>

section \<open>Results and state\<close>

datatype stage =
    StTriaged | StAlreadyTriaged task_state | StMemoryInjected nat | StInvestigating
  | StRootCause string rat "string list" | StUncited | StMissingFiles "string list"
  | StLowConfidence rat | StPlanning | StResumed string
  | StWaitingOnLock "string list" | StHoldingLock "string list"
  | StCoding nat | StCoded change_status "string list" bool | StOverCap nat | StTooLarge
  | StTesting | StTested bool string | StNoEditNeeded | StNoOpDiscarded nat | StNoOpExhausted
  | StTestsExhausted | StReviewing | StCounterexample counterexample_status string
  | StMechanicalOverride bool "string option" | StReviewed bool "string option" "string option"
  | StReviewExhausted | StSquashed "string option" | StOpeningPR | StPRFailed "string option" "string option"
  | StPRParked "string option" | StPROpened "string option" | StWaitingForApproval
  | StFailedIn task_state string

record chain_result =
  res_final_state :: task_state
  res_root_cause_report :: "root_cause_report option"
  res_code_change_report :: "code_change_report option"
  res_test_report :: "test_report option"
  res_review_verdict :: "review_verdict option"
  res_diff :: string
  res_pr_url :: "string option"
  res_container_id :: "string option"
  res_error :: "string option"
  res_stages :: "stage list"
  res_tool_calls :: "(string \<times> tool_call_entry) list"

datatype chain_exn =
    ChainFailure string
  | MoveFailed task_error
  | StaleTask
  | OtherFailure string

record 'x chain_state =
  cs_task :: task_row
  cs_world :: world
  cs_env :: 'x
  cs_result :: chain_result
  cs_locks :: "int list option"

type_synonym ('x, 'a) action = "'x chain_state \<Rightarrow> (chain_exn, 'a) result \<times> 'x chain_state"

text \<open>What running something outside the chain gives: an exception's text or a value.\<close>

type_synonym ('x, 'a) outside = "'x \<Rightarrow> (string, 'a) result \<times> 'x"

text \<open>The parts of the \<open>run_tests\<close> tool's result that the chain reads.\<close>

record test_run =
  tru_success :: bool
  tru_all_passed :: bool
  tru_failed :: nat
  tru_failures :: "(string \<times> string option) list"

record 'x chain_env =
  ce_hash :: "string \<Rightarrow> string"
  ce_key :: "string \<Rightarrow> 64 word"
  ce_host :: host
  ce_cwd :: rpath
  ce_scratch_dir :: rpath
  ce_repo_path :: "string option"
  ce_short_id :: "string option"
  ce_registry :: "string \<rightharpoonup> tool_spec"
  ce_interference :: interference
  ce_polls :: nat
  ce_max_loc :: nat
  ce_now :: "world \<Rightarrow> utc_datetime"
  ce_file_exists :: "'x \<Rightarrow> rpath \<Rightarrow> bool"
  ce_search_memory :: "string \<Rightarrow> ('x, string \<times> nat) outside"
  ce_try_lock :: "int list \<Rightarrow> ('x, bool) outside"
  ce_investigator :: "string \<Rightarrow> ('x, root_cause_report agent_result) outside"
  ce_coder :: "string \<Rightarrow> ('x, unit agent_result) outside"
  ce_tester :: "string \<Rightarrow> ('x, test_report agent_result) outside"
  ce_reviewer :: "string \<Rightarrow> ('x, review_verdict agent_result) outside"
  ce_current_branch :: "('x, string) outside"
  ce_current_sha :: "('x, string) outside"
  ce_commit_all :: "string \<Rightarrow> ('x, string option) outside"
  ce_changed_files :: "('x, string list) outside"
  ce_diff :: "('x, string) outside"
  ce_stash_if_dirty :: "('x, bool) outside"
  ce_pop_stash :: "('x, unit) outside"
  ce_checkout :: "string \<Rightarrow> ('x, unit) outside"
  ce_squash :: "string \<Rightarrow> ('x, string option) outside"
  ce_run_tests :: "(string option \<times> string) option \<Rightarrow> ('x, test_run) outside"
  ce_get_diff :: "('x, tool_result) outside"
  ce_verify_counterexample :: "pydict option \<Rightarrow> ('x, counterexample_status \<times> string) outside"
  ce_create_pr :: "pydict \<Rightarrow> ('x, tool_result) outside"
  ce_record_pr :: "pydict \<Rightarrow> ('x, unit) outside"

section \<open>Actions\<close>

definition return :: "'a \<Rightarrow> ('x, 'a) action" where "return a = (\<lambda>s. (Inr a, s))"

definition raise :: "chain_exn \<Rightarrow> ('x, 'a) action" where "raise e = (\<lambda>s. (Inl e, s))"

definition bind :: "('x, 'a) action \<Rightarrow> ('a \<Rightarrow> ('x, 'b) action) \<Rightarrow> ('x, 'b) action" where
  "bind m k = (\<lambda>s. case m s of (Inl e, s') \<Rightarrow> (Inl e, s') | (Inr a, s') \<Rightarrow> k a s')"

definition andthen :: "('x, unit) action \<Rightarrow> ('x, 'b) action \<Rightarrow> ('x, 'b) action" where
  "andthen m k = bind m (\<lambda>_. k)"

definition outside :: "('x, 'a) outside \<Rightarrow> ('x, 'a) action" where
  "outside f = (\<lambda>s. case f (cs_env s) of
      (Inl e, x) \<Rightarrow> (Inl (OtherFailure e), s\<lparr>cs_env := x\<rparr>)
    | (Inr a, x) \<Rightarrow> (Inr a, s\<lparr>cs_env := x\<rparr>))"

definition get_state :: "('x chain_state \<Rightarrow> 'a) \<Rightarrow> ('x, 'a) action" where
  "get_state f = (\<lambda>s. (Inr (f s), s))"

definition set_result :: "(chain_result \<Rightarrow> chain_result) \<Rightarrow> ('x, unit) action" where
  "set_result f = (\<lambda>s. (Inr (), s\<lparr>cs_result := f (cs_result s)\<rparr>))"

definition stage :: "stage \<Rightarrow> ('x, unit) action" where
  "stage m = set_result (\<lambda>r. r\<lparr>res_stages := res_stages r @ [m]\<rparr>)"

text \<open>\<open>run_chain\<close>'s \<open>go\<close>: move the task, and remember where it is.\<close>

definition go :: "'x chain_env \<Rightarrow> task_state \<Rightarrow> string \<Rightarrow> string option \<Rightarrow> ('x, unit) action" where
  "go env to_state actor trigger = (\<lambda>s.
     case transition_with_retry (ce_hash env) (ce_interference env) (ce_polls env)
            (ce_now env (cs_world s)) (cs_task s) to_state trigger actor MAX_OCC_RETRIES (cs_world s) of
       (Inl e, w) \<Rightarrow> (Inl (MoveFailed e), s\<lparr>cs_world := w\<rparr>)
     | (Inr task, w) \<Rightarrow>
         (Inr (), s\<lparr>cs_world := w, cs_task := task,
                    cs_result := (cs_result s)\<lparr>res_final_state := to_state\<rparr>\<rparr>))"

text \<open>
  \<open>task.task_context = {**(task.task_context or {}), ...}\<close> and a commit.  The write is guarded
  by the version like any other; assigning an equal value writes nothing.
\<close>

definition save_context :: "'x chain_env \<Rightarrow> pydict \<Rightarrow> ('x, unit) action" where
  "save_context env updates = (\<lambda>s.
     let task = cs_task s;
         old = (case tk_task_context task of None \<Rightarrow> [] | Some d \<Rightarrow> d);
         new = fold (\<lambda>(k, v). dict_put k v) updates old;
         w = tick (ce_interference env) (cs_world s)
     in if tk_task_context task = Some new then (Inr (), s\<lparr>cs_world := w\<rparr>)
        else
          (case st_tasks (w_store w) (tk_id task) of
             Some row \<Rightarrow>
               if tk_version row = tk_version task then
                 (let task' = task\<lparr>tk_task_context := Some new, tk_version := tk_version task + 1\<rparr>
                  in (Inr (), s\<lparr>cs_task := task',
                        cs_world := w\<lparr>w_store := (w_store w)\<lparr>st_tasks :=
                          (st_tasks (w_store w))(tk_id task \<mapsto> task')\<rparr>\<rparr>\<rparr>))
               else (Inl StaleTask, s\<lparr>cs_world := w\<rparr>)
           | None \<Rightarrow> (Inl StaleTask, s\<lparr>cs_world := w\<rparr>)))"

section \<open>Running agents\<close>

definition record_tool_calls :: "string \<Rightarrow> 'h agent_result \<Rightarrow> ('x, unit) action" where
  "record_tool_calls agent_name r =
     set_result (\<lambda>c. c\<lparr>res_tool_calls := res_tool_calls c @ map (Pair agent_name) (ar_tool_calls r)\<rparr>)"

definition opt_or_None :: "string option \<Rightarrow> string" where
  "opt_or_None x = (case x of None \<Rightarrow> ''None'' | Some m \<Rightarrow> m)"

definition run_handoff_agent ::
    "string \<Rightarrow> (string \<Rightarrow> ('x, 'h agent_result) outside) \<Rightarrow> string \<Rightarrow> ('x, 'h) action" where
  "run_handoff_agent agent_name agent prompt =
     bind (outside (agent prompt)) (\<lambda>r.
     andthen (record_tool_calls agent_name r)
       (if \<not> ar_success r
        then raise (ChainFailure (agent_name @ '' failed: '' @ opt_or_None (ar_error r)))
        else case ar_handoff r of
               None \<Rightarrow> raise (ChainFailure (agent_name @ '' produced no valid handoff payload''))
             | Some h \<Rightarrow> return h))"

section \<open>Prompts\<close>

definition nl :: string where "nl = [CHR 0x0A]"

definition wrap_untrusted :: "string \<Rightarrow> string \<Rightarrow> string" where
  \<open>wrap_untrusted text source =
     ''<untrusted_external_input source="'' @ source @ ''">'' @ nl @ text @ nl @
     ''</untrusted_external_input>''\<close>

definition investigator_prompt :: "string \<Rightarrow> string \<Rightarrow> string" where
  "investigator_prompt description relevant_memory =
     ''Bug report: '' @ wrap_untrusted description ''bug_report'' @
     (if relevant_memory = [] then [] else nl @ nl @ relevant_memory) @ nl @ nl @
     ''The repository is checked out at /workspace. Investigate and report the root cause.''"

text \<open>\<open>_retrieve_relevant_memory\<close>; a failing search is no memory.\<close>

definition retrieve_relevant_memory :: "'x chain_env \<Rightarrow> string \<Rightarrow> ('x, string \<times> nat) action" where
  "retrieve_relevant_memory env description = (\<lambda>s.
     if ce_repo_path env = None then (Inr ([], 0), s)
     else case ce_search_memory env description (cs_env s) of
            (Inl e, x) \<Rightarrow> (Inr ([], 0), s\<lparr>cs_env := x\<rparr>)
          | (Inr m, x) \<Rightarrow> (Inr m, s\<lparr>cs_env := x\<rparr>))"

definition coder_prompt :: "root_cause_report \<Rightarrow> string \<Rightarrow> string" where
  "coder_prompt report feedback =
     ''Root cause: '' @ rc_root_cause report @ nl @
     ''Suggested fix plan: '' @ rc_suggested_fix_plan report @ nl @ nl @
     (if rc_affected_files report = [] then []
      else ''Affected files (from the investigation -- read these '' @
           ''directly with read_file first; only use search_code if you '' @
           ''need more context beyond them): '' @ repr_list (rc_affected_files report) @ nl @ nl) @
     ''Apply the smallest change that fixes this root cause. Fix the '' @
     ''source code, not the tests. The repository is at /workspace.'' @
     (if feedback = [] then [] else nl @ nl @ ''Feedback you must address:'' @ nl @ feedback)"

definition render_findings :: "review_verdict \<Rightarrow> string" where
  "render_findings verdict = join_with nl
     ((''The reviewer rejected your change: '' @
        (case rv_rejection_reason verdict of None \<Rightarrow> [] | Some r \<Rightarrow> r)) #
      map (\<lambda>f. ''- ['' @ severity_text (fi_severity f) @ '']'' @
             (case fi_file f of
                None \<Rightarrow> []
              | Some file \<Rightarrow> if file = [] then [] else '' ('' @ file @ '':'' @
                  (case fi_line f of None \<Rightarrow> ''None'' | Some l \<Rightarrow> int_str l) @ '')'') @
             '' '' @ fi_description f) (rv_findings verdict))"

section \<open>Coder\<close>

definition mutated :: "(string \<rightharpoonup> tool_spec) \<Rightarrow> tool_call_entry \<Rightarrow> bool" where
  "mutated registry call \<longleftrightarrow> tc_success call \<and>
     (case tc_name call of
        PStr name \<Rightarrow> (case registry name of None \<Rightarrow> False | Some spec \<Rightarrow> ts_mutating spec)
      | _ \<Rightarrow> False)"

definition run_coder ::
    "'x chain_env \<Rightarrow> root_cause_report \<Rightarrow> string \<Rightarrow> string \<Rightarrow> ('x, code_change_report \<times> string) action" where
  "run_coder env report feedback task_id =
     bind (outside (ce_coder env (coder_prompt report feedback))) (\<lambda>r.
     andthen (record_tool_calls ''coder'' r)
     (let diagnostic = (if ar_success r then None
                        else Some (''coder agent failed: '' @ opt_or_None (ar_error r)));
          no_op = (\<not> list_ex (mutated (ce_registry env)) (ar_tool_calls r));
          diagnostic1 = (if no_op \<and> diagnostic = None
             then Some (''coder made no mutating tool calls this attempt (no write_file/'' @
                        ''patch_file) -- nothing new was produced to test or review'')
             else diagnostic)
      in bind (outside (ce_current_branch env)) (\<lambda>branch.
         bind (outside (ce_commit_all env (''fix: '' @ take 60 (rc_root_cause report)))) (\<lambda>sha.
         bind (outside (ce_changed_files env)) (\<lambda>changed.
         bind (outside (ce_diff env)) (\<lambda>full_diff.
           return
             (\<lparr>cc_task_id = task_id,
               cc_status = (if changed \<noteq> [] \<and> ar_success r \<and> \<not> no_op then ChangeSuccess else ChangeFailed),
               cc_branch = branch, cc_commit_sha = sha, cc_files_changed = changed,
               cc_diff_summary = take 2000 full_diff, cc_iterations_used = ar_iterations_used r,
               cc_failure_diagnostic = (if changed = [] \<and> diagnostic1 = None
                  then Some ''coder made no file changes'' else diagnostic1),
               cc_no_op = no_op\<rparr>, full_diff)))))))"

section \<open>Tester\<close>

definition is_carveout_protected :: "string \<Rightarrow> string \<Rightarrow> string list \<Rightarrow> bool" where
  "is_carveout_protected test_name description new_tests_added \<longleftrightarrow>
     test_name \<in> set new_tests_added \<or> (description \<noteq> [] \<and> contains test_name description)"

fun classify_failures ::
    "string list \<Rightarrow> (string \<rightharpoonup> bool) \<Rightarrow> string \<Rightarrow> string list \<Rightarrow> string list \<times> string list" where
  "classify_failures [] base description new_tests = ([], [])"
| "classify_failures (name # names) base description new_tests =
     (let (excluded, effective) = classify_failures names base description new_tests
      in if is_carveout_protected name description new_tests then (excluded, name # effective)
         else if base name = Some True then (name # excluded, effective)
         else (excluded, name # effective))"

text \<open>\<open>candidates[name] = (file, name)\<close>: one entry per name, the last file of that name.\<close>

fun rerun_candidates ::
    "(string \<times> string option) list \<Rightarrow> string \<Rightarrow> string list \<Rightarrow> (string \<times> string option) list \<Rightarrow>
     (string \<times> string option) list" where
  "rerun_candidates [] description new_tests acc = acc"
| "rerun_candidates ((name, file) # fs) description new_tests acc =
     rerun_candidates fs description new_tests
       (if is_carveout_protected name description new_tests then acc
        else if name \<in> fst ` set acc
        then map (\<lambda>(n, f). (n, if n = name then file else f)) acc
        else acc @ [(name, file)])"

definition BASE_BRANCH :: string where "BASE_BRANCH = ''main''"

fun rerun_each ::
    "'x chain_env \<Rightarrow> (string \<times> string option) list \<Rightarrow> (string \<rightharpoonup> bool) \<Rightarrow> ('x, string \<rightharpoonup> bool) action" where
  "rerun_each env [] results = return results"
| "rerun_each env ((name, file) # rest) results =
     bind (outside (ce_run_tests env (Some (case file of None \<Rightarrow> None | Some p \<Rightarrow> if p = [] then None else Some p,
                                            name)))) (\<lambda>outcome.
       rerun_each env rest (results(name \<mapsto> tru_success outcome \<and> 0 < tru_failed outcome)))"

text \<open>\<open>try: ... finally: ...\<close>: the cleanup runs after either outcome; its own failure wins.\<close>

definition finally_do :: "('x, 'a) action \<Rightarrow> ('x, unit) action \<Rightarrow> ('x, 'a) action" where
  "finally_do body cleanup = (\<lambda>s. case body s of (r, s') \<Rightarrow>
     (case cleanup s' of (Inl e, s'') \<Rightarrow> (Inl e, s'') | (Inr _, s'') \<Rightarrow> (r, s'')))"

definition rerun_failing_tests_against_base ::
    "'x chain_env \<Rightarrow> (string \<times> string option) list \<Rightarrow> ('x, string \<rightharpoonup> bool) action" where
  "rerun_failing_tests_against_base env targets =
     (if targets = [] then return Map.empty
      else bind (outside (ce_current_branch env)) (\<lambda>original_branch.
           bind (outside (ce_stash_if_dirty env)) (\<lambda>stashed.
           finally_do
             (andthen (outside (ce_checkout env BASE_BRANCH)) (rerun_each env targets Map.empty))
             (andthen (outside (ce_checkout env original_branch))
                (if stashed then outside (ce_pop_stash env) else return ())))))"

definition run_tests_ground_truth :: "'x chain_env \<Rightarrow> ('x, test_run) action" where
  "run_tests_ground_truth env =
     bind (outside (ce_run_tests env None)) (\<lambda>r.
       return (if tru_success r then r
               else \<lparr>tru_success = False, tru_all_passed = False, tru_failed = 0, tru_failures = []\<rparr>))"

definition tester_prompt :: string where
  "tester_prompt = ''A fix has just been applied to the repository at /workspace. '' @
     ''Run the test suite and summarize the current state of it.''"

text \<open>
  The Tester agent contributes the details; the verdict is the test runner's.
\<close>

definition run_tester :: "'x chain_env \<Rightarrow> string \<Rightarrow> string \<Rightarrow> ('x, test_report) action" where
  "run_tester env task_id description =
     bind (run_tests_ground_truth env) (\<lambda>ground_truth.
     bind (outside (ce_tester env tester_prompt)) (\<lambda>r.
     andthen (record_tool_calls ''tester'' r)
     (let (details, new_tests, confirmed) =
            (case (ar_success r, ar_handoff r) of
               (True, Some h) \<Rightarrow> (tp_details h, tp_new_tests_added h, tp_regression_confirmed h)
             | _ \<Rightarrow> (''(tester agent unavailable: '' @ opt_or_None (ar_error r) @ '')'', [], False));
          failing = map fst (tru_failures ground_truth)
      in bind (if failing = [] then return ([], [])
               else bind (rerun_failing_tests_against_base env
                      (rerun_candidates (tru_failures ground_truth) description new_tests [])) (\<lambda>base.
                    return (classify_failures failing base description new_tests)))
           (\<lambda>(excluded, effective).
             let details1 = (if excluded = [] then details
                   else details @ '' | also fails on the base branch (may be pre-existing, not '' @
                        ''caused by this fix): '' @ repr_list excluded);
                 details2 = (if effective = [] then details1
                   else details1 @ '' | failing: '' @ join_with '', '' effective)
             in return \<lparr>tp_task_id = task_id, tp_all_passed = tru_all_passed ground_truth,
                        tp_details = py_strip details2, tp_new_tests_added = new_tests,
                        tp_regression_confirmed = confirmed\<rparr>))))"

section \<open>Reviewer and pull request\<close>

definition reviewer_prompt :: "root_cause_report \<Rightarrow> test_report \<Rightarrow> string \<Rightarrow> string" where
  "reviewer_prompt report tests description =
     ''ORIGINAL BUG REPORT (what the user actually reported):'' @ nl @ description @ nl @ nl @
     ''Stated root cause: '' @ rc_root_cause report @ nl @
     ''Files the root cause identified: '' @ repr_list (rc_affected_files report) @ nl @
     ''Test suite currently passing: '' @ py_repr (PBool (tp_all_passed tests)) @ nl @
     ''Test details: '' @ tp_details tests @ nl @ nl @
     ''Fetch the diff with get_diff and review the change. Judge it '' @
     ''against the ORIGINAL BUG REPORT above, not only against the stated root cause.''"

definition run_reviewer ::
    "'x chain_env \<Rightarrow> root_cause_report \<Rightarrow> test_report \<Rightarrow> string \<Rightarrow> string \<Rightarrow> ('x, review_verdict) action" where
  "run_reviewer env report tests description task_id =
     bind (run_handoff_agent ''reviewer'' (ce_reviewer env) (reviewer_prompt report tests description)) (\<lambda>v.
       return (v\<lparr>rv_task_id := task_id\<rparr>))"

definition get_diff :: "'x chain_env \<Rightarrow> ('x, string) action" where
  "get_diff env = bind (outside (ce_get_diff env)) (\<lambda>r.
     return (if tr_success r then py_str (tr_output r) else []))"

definition create_pull_request ::
    "'x chain_env \<Rightarrow> root_cause_report \<Rightarrow> code_change_report \<Rightarrow> string \<Rightarrow> string \<Rightarrow> ('x, tool_result) action" where
  "create_pull_request env report code_report diff task_id =
     outside (ce_create_pr env
       [(''title'', PStr (''fix: '' @ take 72 (rc_root_cause report))),
        (''body'', PStr (''Opened automatically by AMOP for task '' @ task_id @ ''.'' @ nl @ nl @
           ''## Root cause'' @ nl @ rc_root_cause report @ nl @ nl @
           ''## Fix plan'' @ nl @ rc_suggested_fix_plan report @ nl @ nl @
           ''## Files changed'' @ nl @ repr_list (cc_files_changed code_report) @ nl @ nl @
           ''## Diff'' @ nl @ ''```diff'' @ nl @ diff @ nl @ ''```'' @ nl)),
        (''head'', PStr (cc_branch code_report)),
        (''base'', PStr BASE_BRANCH)])"

section \<open>Reasoning about actions\<close>

text \<open>
  \<open>holds P m Q E\<close>: from a state with \<open>P\<close>, if \<open>m\<close> returns then the value and the state satisfy
  \<open>Q\<close>, and if it raises then the state satisfies \<open>E\<close>.  Every action terminates, so nothing is
  left unsaid.
\<close>

definition holds ::
    "('x chain_state \<Rightarrow> bool) \<Rightarrow> ('x, 'a) action \<Rightarrow> ('a \<Rightarrow> 'x chain_state \<Rightarrow> bool)
     \<Rightarrow> (chain_exn \<Rightarrow> 'x chain_state \<Rightarrow> bool) \<Rightarrow> bool" where
  "holds P m Q E \<longleftrightarrow>
     (\<forall>s. P s \<longrightarrow> (case m s of (Inr a, s') \<Rightarrow> Q a s' | (Inl e, s') \<Rightarrow> E e s'))"

named_theorems action_rules

lemma holds_return [action_rules]: "(\<And>s. P s \<Longrightarrow> Q a s) \<Longrightarrow> holds P (return a) Q E"
  by (simp add: holds_def return_def)

lemma holds_raise [action_rules]: "(\<And>s. P s \<Longrightarrow> E e s) \<Longrightarrow> holds P (raise e) Q E"
  by (simp add: holds_def raise_def)

lemma holds_bind: "holds P m R E \<Longrightarrow> (\<And>a. holds (R a) (k a) Q E) \<Longrightarrow> holds P (bind m k) Q E"
  unfolding holds_def bind_def by (fastforce split: prod.splits sum.splits)

lemma holds_andthen: "holds P m (\<lambda>_. R) E \<Longrightarrow> holds R k Q E \<Longrightarrow> holds P (andthen m k) Q E"
  unfolding andthen_def by (rule holds_bind)

lemma holds_if [action_rules]:
  "(b \<Longrightarrow> holds P m Q E) \<Longrightarrow> (\<not> b \<Longrightarrow> holds P n Q E) \<Longrightarrow> holds P (if b then m else n) Q E"
  by simp

lemma holds_option:
  "(x = None \<Longrightarrow> holds P m Q E) \<Longrightarrow> (\<And>a. x = Some a \<Longrightarrow> holds P (f a) Q E) \<Longrightarrow>
     holds P (case x of None \<Rightarrow> m | Some a \<Rightarrow> f a) Q E"
  by (cases x) simp_all

lemma holds_prod:
  "(\<And>a b. x = (a, b) \<Longrightarrow> holds P (f a b) Q E) \<Longrightarrow> holds P (case x of (a, b) \<Rightarrow> f a b) Q E"
  by (cases x) simp

lemma holds_weaken:
  "holds P m Q E \<Longrightarrow> (\<And>s. P' s \<Longrightarrow> P s) \<Longrightarrow> (\<And>a s. Q a s \<Longrightarrow> Q' a s) \<Longrightarrow> (\<And>e s. E e s \<Longrightarrow> E' e s) \<Longrightarrow>
     holds P' m Q' E'"
  unfolding holds_def by (fastforce split: prod.splits sum.splits)

lemma holdsD:
  "holds P m Q E \<Longrightarrow> P s \<Longrightarrow> m s = (Inr a, s') \<Longrightarrow> Q a s'"
  "holds P m Q E \<Longrightarrow> P s \<Longrightarrow> m s = (Inl e, s') \<Longrightarrow> E e s'"
  unfolding holds_def by fastforce+

text \<open>Whatever runs outside changes only the environment's state.\<close>

lemma holds_outside: "(\<And>s x. P s \<Longrightarrow> P (s\<lparr>cs_env := x\<rparr>)) \<Longrightarrow> holds P (outside f) (\<lambda>_. P) (\<lambda>_. P)"
  by (auto simp: holds_def outside_def split: prod.split sum.split)

end
