(* ===== verification/ChainRun.thy ===== *)
theory ChainRun
  imports ChainStages
begin

text \<open>
  \<open>run_chain\<close> of \<open>amop/orchestrator/chain.py\<close>, the drive of one task through the state
  machine, stage by stage.  A stage that ends the run early gives \<open>None\<close> where the next stage
  expects a value.  The coding loop is a recursion on the three retry counters.
\<close>

section \<open>Size cap\<close>

definition apply_size_cap_if_over ::
    "'x chain_env \<Rightarrow> code_change_report \<Rightarrow> string \<Rightarrow> ('x, bool) action" where
  "apply_size_cap_if_over env code_report diff =
     (if \<not> over_cap diff (ce_max_loc env) then return False
      else
        let loc = changed_line_count diff;
            report = code_report\<lparr>cc_status := NeedsDecomposition,
              cc_failure_diagnostic := Some (''diff is '' @ nat_digits loc @ '' changed lines, exceeding the '' @
                nat_digits (ce_max_loc env) @ ''-line cap (Section 29.1)'')\<rparr>
        in andthen (set_result (\<lambda>r. r\<lparr>res_code_change_report := Some report\<rparr>))
           (andthen (stage (StOverCap loc))
           (andthen (go env NEEDS_HUMAN_INPUT ''agent:coder''
              (Some (''diff exceeds coder.max_loc_per_task cap ('' @ nat_digits loc @ '' > '' @
                     nat_digits (ce_max_loc env) @ '')'')))
           (andthen (stage StTooLarge) (return True)))))"

section \<open>Investigation\<close>

definition resume_from_report :: "'x chain_env \<Rightarrow> root_cause_report \<Rightarrow> ('x, unit) action" where
  "resume_from_report env report =
     andthen (set_result (\<lambda>r. r\<lparr>res_root_cause_report := Some report\<rparr>))
     (andthen (go env PLANNING_FIX ''system:reconcile''
        (Some ''reconciliation: resuming from a recovered root cause (Section 4.6.2)''))
     (stage (StResumed (take 120 (rc_root_cause report)))))"

text \<open>The report as \<open>model_dump(mode="json")\<close> stores it; \<open>confidence\<close> as the float \<open>repr\<close> prints.\<close>

definition evidence_dict :: "evidence \<Rightarrow> pyval" where
  "evidence_dict e = PDict
     [(''type'', PStr (case ev_type e of LogEvidence \<Rightarrow> ''log'' | CommitEvidence \<Rightarrow> ''commit'' | CodeEvidence \<Rightarrow> ''code'')),
      (''ref'', PStr (ev_ref e)), (''excerpt'', PStr (ev_excerpt e))]"

definition dump_report :: "(rat \<Rightarrow> string) \<Rightarrow> root_cause_report \<Rightarrow> pyval" where
  "dump_report float_repr r = PDict
     [(''task_id'', PStr (rc_task_id r)), (''root_cause'', PStr (rc_root_cause r)),
      (''confidence'', PFloat (float_repr (rc_confidence r))),
      (''evidence'', PList (map evidence_dict (rc_evidence r))),
      (''affected_files'', PList (map PStr (rc_affected_files r))),
      (''suggested_fix_plan'', PStr (rc_suggested_fix_plan r))]"

definition check_citations :: "'x chain_env \<Rightarrow> root_cause_report \<Rightarrow> ('x, string list) action" where
  "check_citations env report = (\<lambda>s.
     case missing_cited_files (ce_host env) (ce_file_exists env (cs_env s)) report (ce_scratch_dir env) of
       Inl e \<Rightarrow> (Inl (OtherFailure (path_error_text e)), s)
     | Inr missing \<Rightarrow> (Inr missing, s))"

definition park_investigation ::
    "'x chain_env \<Rightarrow> root_cause_report \<Rightarrow> string list \<Rightarrow> bool \<Rightarrow> ('x, unit) action" where
  "park_investigation env report missing uncited =
     (let (reason, detail) =
        (if uncited then
           (''investigator named no affected files (Section 6.2 evidence gap)'', StUncited)
         else if missing \<noteq> [] then
           (''cited files do not exist in the repo: '' @ repr_list missing @ '' (Section 6.2 evidence gap)'',
            StMissingFiles missing)
         else
           (''confidence '' @ fixed_point 2 (rc_confidence report) @ '' < 0.6 (Section 6.2 guardrail)'',
            StLowConfidence (rc_confidence report)))
      in andthen (go env NEEDS_HUMAN_INPUT ''agent:investigator'' (Some reason)) (stage detail))"

definition investigate ::
    "'x chain_env \<Rightarrow> (rat \<Rightarrow> string) \<Rightarrow> string \<Rightarrow> ('x, root_cause_report option) action" where
  "investigate env float_repr description =
     bind (get_state (\<lambda>s. cs_task s)) (\<lambda>task.
     andthen (if tk_state task = CREATED
              then andthen (go env TRIAGING ''system'' None) (stage StTriaged)
              else stage (StAlreadyTriaged (tk_state task)))
     (andthen (go env INVESTIGATING ''system'' None)
     (bind (retrieve_relevant_memory env description) (\<lambda>(memory, hits).
     andthen (if hits \<noteq> 0 then stage (StMemoryInjected hits) else return ())
     (andthen (stage StInvestigating)
     (bind (run_handoff_agent ''investigator'' (ce_investigator env)
              (investigator_prompt description memory)) (\<lambda>raw.
     bind (get_state (\<lambda>s. tk_id (cs_task s))) (\<lambda>tid.
     let report = raw\<lparr>rc_task_id := tid\<rparr>
     in andthen (set_result (\<lambda>r. r\<lparr>res_root_cause_report := Some report\<rparr>))
        (andthen (stage (StRootCause (take 120 (rc_root_cause report)) (rc_confidence report)
                          (rc_affected_files report)))
        (andthen (save_context env [(''root_cause_report'', dump_report float_repr report)])
        (bind (check_citations env report) (\<lambda>missing.
        let uncited = has_no_citations report
        in if route_after_investigation report missing uncited = NEEDS_HUMAN_INPUT
           then andthen (park_investigation env report missing uncited) (return None)
           else andthen (go env PLANNING_FIX ''agent:investigator'' None)
                (andthen (stage StPlanning) (return (Some report)))))))))))))))"

section \<open>Locking\<close>

definition acquire_repo_locks :: "'x chain_env \<Rightarrow> root_cause_report \<Rightarrow> ('x, unit) action" where
  "acquire_repo_locks env report =
     (let declared = filter (\<lambda>f. f \<noteq> [] \<and> py_strip f \<noteq> []) (rc_affected_files report);
          repo = (case ce_repo_path env of None \<Rightarrow> [] | Some p \<Rightarrow> p)
      in case lock_keys (fs_links (ce_host env)) (link_budget (ce_host env)) (ce_cwd env) (ce_key env)
                repo declared of
           Inl e \<Rightarrow> raise (OtherFailure (path_error_text e))
         | Inr keys \<Rightarrow>
             andthen (if declared = [] then return ()
                      else bind (outside (ce_try_lock env keys)) (\<lambda>was_free.
                             stage (if was_free then StHoldingLock (sort declared)
                                    else StWaitingOnLock (sort declared))))
               (\<lambda>s. (Inr (), s\<lparr>cs_locks := Some keys\<rparr>)))"

definition release_repo_locks :: "('x, unit) action" where
  "release_repo_locks = (\<lambda>s. (Inr (), s\<lparr>cs_locks := None\<rparr>))"

section \<open>One attempt\<close>

record loop_state =
  ls_fix_iterations :: nat
  ls_review_cycles :: nat
  ls_noop_attempts :: nat
  ls_feedback :: string
  ls_coding_actor :: string
  ls_coding_trigger :: "string option"

datatype attempt_end =
    RunEnded
  | TryAgain loop_state
  | Approved code_change_report

definition coding_stage ::
    "'x chain_env \<Rightarrow> root_cause_report \<Rightarrow> loop_state \<Rightarrow> ('x, (code_change_report \<times> string) option) action" where
  "coding_stage env report ls =
     andthen (go env CODING (ls_coding_actor ls) (ls_coding_trigger ls))
     (andthen (stage (StCoding (ls_fix_iterations ls + 1)))
     (bind (get_state (\<lambda>s. tk_id (cs_task s))) (\<lambda>tid.
     bind (run_coder env report (ls_feedback ls) tid) (\<lambda>(code_report, full_diff).
     andthen (set_result (\<lambda>r. r\<lparr>res_code_change_report := Some code_report\<rparr>))
     (andthen (stage (StCoded (cc_status code_report) (cc_files_changed code_report) (cc_no_op code_report)))
     (bind (outside (ce_current_sha env)) (\<lambda>sha.
     bind (outside (ce_current_branch env)) (\<lambda>branch.
     andthen (save_context env [(''branch'', PStr branch), (''commit_sha'', PStr sha)])
     (bind (if cc_status code_report = ChangeSuccess
            then apply_size_cap_if_over env code_report full_diff else return False) (\<lambda>over.
     return (if over then None else Some (code_report, full_diff))))))))))))"

definition testing_stage :: "'x chain_env \<Rightarrow> string \<Rightarrow> ('x, test_report) action" where
  "testing_stage env description =
     andthen (go env TESTING ''agent:coder'' None)
     (andthen (stage StTesting)
     (bind (get_state (\<lambda>s. tk_id (cs_task s))) (\<lambda>tid.
     bind (run_tester env tid description) (\<lambda>tests.
     andthen (set_result (\<lambda>r. r\<lparr>res_test_report := Some tests\<rparr>))
     (andthen (stage (StTested (tp_all_passed tests) (take 160 (tp_details tests))))
     (return tests))))))"

definition no_op_feedback :: string where
  "no_op_feedback =
     ''Your last turn ended without calling write_file or '' @
     ''patch_file -- no file was actually changed, so there was '' @
     ''nothing new to test or review. You must make a concrete '' @
     ''edit (write_file or patch_file) before giving your final answer.''"

text \<open>A no-op attempt whose tests fail: its own small budget.\<close>

definition discard_no_op :: "'x chain_env \<Rightarrow> loop_state \<Rightarrow> ('x, attempt_end) action" where
  "discard_no_op env ls =
     (let n = ls_noop_attempts ls + 1
      in andthen (stage (StNoOpDiscarded n))
         (if n \<ge> MAX_NOOP_ATTEMPTS
          then andthen (go env FAILED ''agent:coder''
                  (Some (''coder made no mutating tool calls across '' @
                         nat_digits MAX_NOOP_ATTEMPTS @ '' attempts'')))
               (andthen (stage StNoOpExhausted) (return RunEnded))
          else return (TryAgain (ls\<lparr>ls_noop_attempts := n, ls_coding_actor := ''agent:coder'',
                 ls_coding_trigger := Some (''coder attempt made no mutating tool calls (no_op retry '' @
                   nat_digits n @ '' < '' @ nat_digits MAX_NOOP_ATTEMPTS @
                   '', does not consume the fix-iteration or review-cycle budget)''),
                 ls_feedback := no_op_feedback\<rparr>))))"

definition retry_failing_tests :: "'x chain_env \<Rightarrow> loop_state \<Rightarrow> test_report \<Rightarrow> ('x, attempt_end) action" where
  "retry_failing_tests env ls tests =
     (if route_after_testing tests (ls_fix_iterations ls) = CODING
      then let n = ls_fix_iterations ls + 1
           in return (TryAgain (ls\<lparr>ls_fix_iterations := n,
                ls_feedback := ''The test suite still fails after your last change:'' @ nl @ tp_details tests,
                ls_coding_actor := ''agent:tester'',
                ls_coding_trigger := Some (''test failure AND retry_count '' @ nat_digits n @
                  '' < '' @ nat_digits MAX_FIX_ITERATIONS)\<rparr>))
      else andthen (go env FAILED ''agent:tester'' (Some ''test failure AND retries exhausted''))
           (andthen (stage StTestsExhausted) (return RunEnded)))"

definition review_stage ::
    "'x chain_env \<Rightarrow> root_cause_report \<Rightarrow> code_change_report \<Rightarrow> test_report \<Rightarrow> string \<Rightarrow> ('x, review_verdict) action" where
  "review_stage env report code_report tests description =
     andthen (go env REVIEWING ''agent:tester'' None)
     (andthen (stage StReviewing)
     (bind (get_state (\<lambda>s. tk_id (cs_task s))) (\<lambda>tid.
     bind (run_reviewer env report tests description tid) (\<lambda>verdict.
     bind (if rv_approved verdict then return CE_NONE
           else bind (outside (ce_verify_counterexample env (rv_counterexample_claim verdict)))
                  (\<lambda>(status, detail). andthen (stage (StCounterexample status detail)) (return status)))
       (\<lambda>status.
     let checked = enforce_review_checks verdict (cc_files_changed code_report) report
                     (tp_all_passed tests) status
     in andthen (if rv_approved checked \<noteq> rv_approved verdict
                 then stage (StMechanicalOverride (rv_approved verdict) (rv_rejection_reason checked))
                 else return ())
        (andthen (set_result (\<lambda>r. r\<lparr>res_review_verdict := Some checked\<rparr>))
        (andthen (stage (StReviewed (rv_approved checked) (rv_rejection_reason checked)
                          (if rv_approved checked then None else rv_counterexample checked)))
        (return checked))))))))"

definition after_review ::
    "'x chain_env \<Rightarrow> loop_state \<Rightarrow> code_change_report \<Rightarrow> review_verdict \<Rightarrow> ('x, attempt_end) action" where
  "after_review env ls code_report verdict =
     (let next_state = route_after_review verdict (ls_review_cycles ls)
      in if next_state = CODING
         then let n = ls_review_cycles ls + 1
              in return (TryAgain (ls\<lparr>ls_review_cycles := n, ls_feedback := render_findings verdict,
                   ls_coding_actor := ''agent:reviewer'',
                   ls_coding_trigger := Some (''Reviewer rejects with actionable feedback AND review_cycles '' @
                     nat_digits n @ '' < '' @ nat_digits MAX_REVIEW_CYCLES)\<rparr>))
         else if next_state = FAILED
         then andthen (go env FAILED ''agent:reviewer'' (Some ''Reviewer rejects and cycles exhausted''))
              (andthen (stage StReviewExhausted) (return RunEnded))
         else return (Approved code_report))"

text \<open>
  One round of the loop.  A no-op attempt over a passing suite is promoted to a success,
  after the size cap that its status had kept it from.
\<close>

definition attempt ::
    "'x chain_env \<Rightarrow> root_cause_report \<Rightarrow> string \<Rightarrow> loop_state \<Rightarrow> ('x, attempt_end) action" where
  "attempt env report description ls =
     bind (coding_stage env report ls) (\<lambda>coded.
       case coded of
         None \<Rightarrow> return RunEnded
       | Some (code_report, full_diff) \<Rightarrow>
           bind (testing_stage env description) (\<lambda>tests.
           if cc_no_op code_report \<and> \<not> tp_all_passed tests then discard_no_op env ls
           else
             bind (if cc_no_op code_report
                   then let promoted = code_report\<lparr>cc_status := ChangeSuccess\<rparr>
                        in andthen (set_result (\<lambda>r. r\<lparr>res_code_change_report := Some promoted\<rparr>))
                           (bind (apply_size_cap_if_over env promoted full_diff) (\<lambda>over.
                             if over then return None
                             else andthen (stage StNoEditNeeded) (return (Some promoted))))
                   else return (Some code_report)) (\<lambda>kept.
             case kept of
               None \<Rightarrow> return RunEnded
             | Some final_report \<Rightarrow>
                 if route_after_testing tests (ls_fix_iterations ls) \<noteq> REVIEWING
                 then retry_failing_tests env ls tests
                 else bind (review_stage env report final_report tests description) (\<lambda>verdict.
                        after_review env ls final_report verdict))))"

section \<open>The loop\<close>

definition retries_left :: "loop_state \<Rightarrow> nat" where
  "retries_left ls = (MAX_FIX_ITERATIONS - ls_fix_iterations ls)
     + (MAX_REVIEW_CYCLES - ls_review_cycles ls) + (MAX_NOOP_ATTEMPTS - 1 - ls_noop_attempts ls)"

abbreviation (input) anything :: "'a \<Rightarrow> 'b \<Rightarrow> bool" where "anything \<equiv> \<lambda>_ _. True"

abbreviation (input) retrying_less :: "loop_state \<Rightarrow> attempt_end \<Rightarrow> 'x chain_state \<Rightarrow> bool" where
  "retrying_less ls \<equiv> \<lambda>r _. case r of TryAgain ls' \<Rightarrow> retries_left ls' < retries_left ls | _ \<Rightarrow> True"

lemma holds_top: "holds P m anything anything"
  by (simp add: holds_def split: prod.split sum.split)

lemma holds_bind_top: "(\<And>a. holds (\<lambda>_. True) (k a) Q anything) \<Longrightarrow> holds (\<lambda>_. True) (bind m k) Q anything"
  by (rule holds_bind [OF holds_top])

lemma holds_andthen_top: "holds (\<lambda>_. True) k Q anything \<Longrightarrow> holds (\<lambda>_. True) (andthen m k) Q anything"
  unfolding andthen_def by (rule holds_bind_top)

lemmas top_rules = holds_bind_top holds_andthen_top holds_if holds_return

lemma discard_no_op_less: "holds (\<lambda>_. True) (discard_no_op env ls) (retrying_less ls) anything"
  unfolding discard_no_op_def Let_def
  by (intro top_rules) (auto simp: retries_left_def MAX_NOOP_ATTEMPTS_def)

lemma retry_failing_tests_less:
  "route_after_testing tests (ls_fix_iterations ls) \<noteq> REVIEWING \<Longrightarrow>
     holds (\<lambda>_. True) (retry_failing_tests env ls tests) (retrying_less ls) anything"
  unfolding retry_failing_tests_def Let_def
  by (intro top_rules) (auto simp: retries_left_def route_after_testing_def split: if_splits)

lemma after_review_less: "holds (\<lambda>_. True) (after_review env ls c v) (retrying_less ls) anything"
  unfolding after_review_def Let_def
  by (intro top_rules) (auto simp: retries_left_def route_after_review_def split: if_splits)

lemma attempt_less: "holds (\<lambda>_. True) (attempt env report description ls) (retrying_less ls) anything"
  unfolding attempt_def Let_def
  by (intro holds_bind_top holds_option holds_prod holds_if discard_no_op_less after_review_less
      retry_failing_tests_less)
    (assumption | rule holds_return, simp)+

lemma attempt_decreases:
  "attempt env report description ls s = (Inr (TryAgain ls'), s') \<Longrightarrow> retries_left ls' < retries_left ls"
  using holdsD(1) [OF attempt_less TrueI] by fastforce

function chain_loop ::
    "'x chain_env \<Rightarrow> root_cause_report \<Rightarrow> string \<Rightarrow> loop_state \<Rightarrow> ('x, code_change_report option) action" where
  "chain_loop env report description ls s =
     (case attempt env report description ls s of
        (Inl e, s') \<Rightarrow> (Inl e, s')
      | (Inr RunEnded, s') \<Rightarrow> (Inr None, s')
      | (Inr (Approved code_report), s') \<Rightarrow> (Inr (Some code_report), s')
      | (Inr (TryAgain ls'), s') \<Rightarrow> chain_loop env report description ls' s')"
  by pat_completeness auto

termination
  by (relation "measure (\<lambda>(env, report, description, ls, s). retries_left ls)")
    (auto dest: attempt_decreases [OF sym])

declare chain_loop.simps [simp del]

section \<open>Pull request\<close>

definition squash_history ::
    "'x chain_env \<Rightarrow> root_cause_report \<Rightarrow> code_change_report \<Rightarrow> ('x, code_change_report) action" where
  "squash_history env report code_report =
     bind (outside (ce_squash env (''fix: '' @ take 60 (rc_root_cause report)))) (\<lambda>squashed.
       case squashed of
         None \<Rightarrow> return code_report
       | Some sha \<Rightarrow>
           if sha = [] then return code_report
           else
             let updated = code_report\<lparr>cc_commit_sha := Some sha\<rparr>
             in andthen (save_context env [(''branch'', PStr (cc_branch updated)), (''commit_sha'', PStr sha)])
                (return updated))"

definition pr_url_of :: "tool_result \<Rightarrow> string option" where
  "pr_url_of r = (case tr_output r of
     PDict d \<Rightarrow> (case dict_get d ''url'' of PStr u \<Rightarrow> Some u | _ \<Rightarrow> None)
   | _ \<Rightarrow> None)"

definition pr_stage ::
    "'x chain_env \<Rightarrow> root_cause_report \<Rightarrow> code_change_report \<Rightarrow> ('x, unit) action" where
  "pr_stage env report code_report =
     andthen (go env PR_CREATION ''agent:reviewer'' None)
     (bind (squash_history env report code_report) (\<lambda>updated.
     andthen (stage (StSquashed (cc_commit_sha updated)))
     (bind (get_diff env) (\<lambda>diff.
     andthen (set_result (\<lambda>r. r\<lparr>res_diff := diff\<rparr>))
     (andthen (stage StOpeningPR)
     (bind (get_state (\<lambda>s. tk_id (cs_task s))) (\<lambda>tid.
     bind (create_pull_request env report updated diff tid) (\<lambda>pr.
     if \<not> tr_success pr then
       andthen (stage (StPRFailed (tr_error_code pr) (tr_message pr)))
       (andthen (go env NEEDS_HUMAN_INPUT ''system''
          (Some (''create_pull_request failed: '' @ opt_or_None (tr_error_code pr))))
       (andthen (set_result (\<lambda>r. r\<lparr>res_error := tr_message pr\<rparr>))
       (stage (StPRParked (tr_error_code pr)))))
     else
       andthen (set_result (\<lambda>r. r\<lparr>res_pr_url := pr_url_of pr\<rparr>))
       (andthen (stage (StPROpened (pr_url_of pr)))
       (andthen (\<lambda>s. case ce_record_pr env
            [(''task_id'', PStr tid), (''repo_path'', PStr (case ce_repo_path env of None \<Rightarrow> [] | Some p \<Rightarrow> p)),
             (''url'', PStr (case pr_url_of pr of None \<Rightarrow> [] | Some u \<Rightarrow> u)),
             (''number'', (case tr_output pr of PDict d \<Rightarrow> dict_get d ''number'' | _ \<Rightarrow> PNone)),
             (''status'', PStr ''open'')] (cs_env s) of (_, x) \<Rightarrow> (Inr (), s\<lparr>cs_env := x\<rparr>))
       (andthen (go env WAITING_FOR_APPROVAL ''system''
          (Some (''create_pull_request succeeded (auto-merge not implemented '' @
                 ''this milestone -- human-gated)'')))
       (stage StWaitingForApproval))))))))))))"

section \<open>The run\<close>

definition first_loop_state :: loop_state where
  "first_loop_state = \<lparr>ls_fix_iterations = 0, ls_review_cycles = 0, ls_noop_attempts = 0,
     ls_feedback = [], ls_coding_actor = ''agent:investigator'', ls_coding_trigger = None\<rparr>"

definition fix_report ::
    "'x chain_env \<Rightarrow> root_cause_report \<Rightarrow> string \<Rightarrow> ('x, unit) action" where
  "fix_report env report description =
     andthen (acquire_repo_locks env report)
     (bind (chain_loop env report description first_loop_state) (\<lambda>approved.
        case approved of None \<Rightarrow> return () | Some code_report \<Rightarrow> pr_stage env report code_report))"

definition chain_body ::
    "'x chain_env \<Rightarrow> (rat \<Rightarrow> string) \<Rightarrow> string \<Rightarrow> root_cause_report option \<Rightarrow> ('x, unit) action" where
  "chain_body env float_repr description resume_report =
     (case resume_report of
        Some report \<Rightarrow> andthen (resume_from_report env report) (fix_report env report description)
      | None \<Rightarrow>
          bind (investigate env float_repr description) (\<lambda>found.
            case found of None \<Rightarrow> return () | Some report \<Rightarrow> fix_report env report description))"

text \<open>An agent's failure is recorded in the best state the table allows; nothing else is caught.\<close>

definition record_chain_failure :: "'x chain_env \<Rightarrow> string \<Rightarrow> ('x, unit) action" where
  "record_chain_failure env exc =
     bind (get_state (\<lambda>s. failure_state (tk_state (cs_task s)))) (\<lambda>target.
     andthen (go env target ''system'' (Some exc))
     (andthen (set_result (\<lambda>r. r\<lparr>res_error := Some exc\<rparr>))
     (stage (StFailedIn target exc))))"

definition catch_chain_failure :: "'x chain_env \<Rightarrow> ('x, unit) action \<Rightarrow> ('x, unit) action" where
  "catch_chain_failure env body = (\<lambda>s. case body s of
      (Inl (ChainFailure exc), s') \<Rightarrow> record_chain_failure env exc s'
    | other \<Rightarrow> other)"

definition fresh_result :: "'x chain_env \<Rightarrow> task_row \<Rightarrow> chain_result" where
  "fresh_result env task = \<lparr>res_final_state = tk_state task, res_root_cause_report = None,
     res_code_change_report = None, res_test_report = None, res_review_verdict = None, res_diff = [],
     res_pr_url = None, res_container_id = ce_short_id env, res_error = None, res_stages = [],
     res_tool_calls = []\<rparr>"

definition run_chain ::
    "'x chain_env \<Rightarrow> (rat \<Rightarrow> string) \<Rightarrow> string \<Rightarrow> root_cause_report option \<Rightarrow> task_row \<Rightarrow> world \<Rightarrow> 'x
     \<Rightarrow> (chain_exn, unit) result \<times> 'x chain_state" where
  "run_chain env float_repr description resume_report task w x =
     finally_do (catch_chain_failure env (chain_body env float_repr description resume_report))
       release_repo_locks
       \<lparr>cs_task = task, cs_world = w, cs_env = x, cs_result = fresh_result env task, cs_locks = None\<rparr>"

end
