(* ===== verification/ChainProps.thy ===== *)
theory ChainProps
  imports ChainRun
begin

text \<open>
  What holds of every fix run, whatever the agents, the sandbox, the tools and the other
  writers of the task do: when a pull request may be opened, how often the coder is sent to
  work, where a run ends, and whose word the test verdict is.  The lemmas go action by action:
  \<open>leaves g m\<close> says that \<open>m\<close> leaves the part \<open>g\<close> of the footprint alone, \<open>holds\<close> gives pre- and
  postconditions.
\<close>

section \<open>Footprints\<close>

text \<open>
  The part of the state the properties speak of: the reports recorded in the result, how often
  the coder was sent to work, and the locks held.
\<close>

fun is_coding :: "stage \<Rightarrow> bool" where
  "is_coding (StCoding n) = True"
| "is_coding _ = False"

definition coder_runs :: "chain_result \<Rightarrow> nat" where
  "coder_runs r = length (filter is_coding (res_stages r))"

record footprint =
  fo_root :: "root_cause_report option"
  fo_code :: "code_change_report option"
  fo_tests :: "test_report option"
  fo_verdict :: "review_verdict option"
  fo_url :: "string option"
  fo_coder_runs :: nat
  fo_locks :: "int list option"

definition footprint :: "'x chain_state \<Rightarrow> footprint" where
  "footprint s = (let r = cs_result s in
     \<lparr>fo_root = res_root_cause_report r, fo_code = res_code_change_report r,
      fo_tests = res_test_report r, fo_verdict = res_review_verdict r, fo_url = res_pr_url r,
      fo_coder_runs = coder_runs r, fo_locks = cs_locks s\<rparr>)"

text \<open>\<open>preserves v m\<close>: \<open>m\<close> leaves what \<open>v\<close> observes of the state as it was, exception or not.\<close>

definition preserves :: "('x chain_state \<Rightarrow> 'v) \<Rightarrow> ('x, 'a) action \<Rightarrow> bool" where
  "preserves v m \<longleftrightarrow> (\<forall>s. v (snd (m s)) = v s)"

definition leaves :: "(footprint \<Rightarrow> 'v) \<Rightarrow> ('x, 'a) action \<Rightarrow> bool" where
  "leaves g m \<longleftrightarrow> preserves (\<lambda>s. g (footprint s)) m"

named_theorems preserves_rules
named_theorems leaves_rules

lemma preservesD: "preserves v m \<Longrightarrow> m s = (r, s') \<Longrightarrow> v s' = v s"
  unfolding preserves_def by (metis snd_conv)

lemma leavesD: "leaves g m \<Longrightarrow> m s = (r, s') \<Longrightarrow> g (footprint s') = g (footprint s)"
  unfolding leaves_def by (drule preservesD)

lemma leaves_iff: "leaves g m \<longleftrightarrow> (\<forall>s. g (footprint (snd (m s))) = g (footprint s))"
  by (simp add: leaves_def preserves_def)

lemma preserves_return [preserves_rules]: "preserves v (return a)"
  by (simp add: preserves_def return_def)

lemma preserves_raise [preserves_rules]: "preserves v (raise e)"
  by (simp add: preserves_def raise_def)

lemma preserves_bind [preserves_rules]:
  assumes "preserves v m" "\<And>a. preserves v (k a)" shows "preserves v (bind m k)"
  unfolding preserves_def
proof
  fix s
  obtain r s' where m: "m s = (r, s')" by (metis prod.exhaust)
  then have v: "v s' = v s" by (rule preservesD [OF assms(1)])
  show "v (snd (bind m k s)) = v s"
    using m v assms(2) by (cases r) (simp_all add: bind_def preserves_def)
qed

lemma preserves_andthen [preserves_rules]: "preserves v m \<Longrightarrow> preserves v k \<Longrightarrow> preserves v (andthen m k)"
  unfolding andthen_def by (rule preserves_bind)

lemma preserves_get_state [preserves_rules]: "preserves v (get_state f)"
  by (simp add: preserves_def get_state_def)

lemma preserves_finally_do [preserves_rules]:
  assumes "preserves v b" "preserves v c" shows "preserves v (finally_do b c)"
  unfolding preserves_def
proof
  fix s
  obtain r s' where b: "b s = (r, s')" by (metis prod.exhaust)
  obtain q s'' where c: "c s' = (q, s'')" by (metis prod.exhaust)
  show "v (snd (finally_do b c s)) = v s"
    using preservesD [OF assms(1) b] preservesD [OF assms(2) c] b c
    by (simp add: finally_do_def split: sum.split)
qed

lemma preserves_control [preserves_rules]:
  "preserves v m \<Longrightarrow> preserves v n \<Longrightarrow> preserves v (if b then m else n)"
  "preserves v m \<Longrightarrow> (\<And>a. preserves v (f a)) \<Longrightarrow> preserves v (case x of None \<Rightarrow> m | Some a \<Rightarrow> f a)"
  "(\<And>a b. preserves v (h a b)) \<Longrightarrow> preserves v (case p of (a, b) \<Rightarrow> h a b)"
  by (simp_all split: option.split prod.split)

lemmas leaves_control [leaves_rules] =
  preserves_rules [where v = "\<lambda>s. g (footprint s)" for g, folded leaves_def]

lemma leaves_same_result:
  "(\<And>s. cs_locks (snd (m s)) = cs_locks s) \<Longrightarrow> (\<And>s. res_root_cause_report (cs_result (snd (m s))) = res_root_cause_report (cs_result s)) \<Longrightarrow>
     (\<And>s. res_code_change_report (cs_result (snd (m s))) = res_code_change_report (cs_result s)) \<Longrightarrow>
     (\<And>s. res_test_report (cs_result (snd (m s))) = res_test_report (cs_result s)) \<Longrightarrow>
     (\<And>s. res_review_verdict (cs_result (snd (m s))) = res_review_verdict (cs_result s)) \<Longrightarrow>
     (\<And>s. res_pr_url (cs_result (snd (m s))) = res_pr_url (cs_result s)) \<Longrightarrow>
     (\<And>s. coder_runs (cs_result (snd (m s))) = coder_runs (cs_result s)) \<Longrightarrow> leaves g m"
  by (simp add: leaves_iff footprint_def Let_def)

lemma leaves_outside [leaves_rules]: "leaves g (outside f)"
  by (rule leaves_same_result) (simp_all add: outside_def split: prod.split sum.split)

lemma leaves_stage [leaves_rules]: "\<not> is_coding m \<Longrightarrow> leaves g (stage m)"
  by (rule leaves_same_result) (simp_all add: stage_def set_result_def coder_runs_def)

lemma leaves_go [leaves_rules]: "leaves g (go env t a trigger)"
  by (rule leaves_same_result) (simp_all add: go_def coder_runs_def split: prod.split sum.split)

lemma leaves_save_context [leaves_rules]: "leaves g (save_context env updates)"
  by (rule leaves_same_result) (simp_all add: save_context_def Let_def split: option.split)

lemma leaves_record_tool_calls [leaves_rules]: "leaves g (record_tool_calls n r)"
  by (rule leaves_same_result) (simp_all add: record_tool_calls_def set_result_def coder_runs_def)

lemma leaves_run_handoff_agent [leaves_rules]: "leaves g (run_handoff_agent n a p)"
  unfolding run_handoff_agent_def by (intro leaves_rules)

lemma leaves_run_coder [leaves_rules]: "leaves g (run_coder env report feedback tid)"
  unfolding run_coder_def Let_def by (intro leaves_rules)

lemma leaves_rerun_each [leaves_rules]: "leaves g (rerun_each env ts results)"
proof (induction ts arbitrary: results)
  case Nil
  show ?case by (simp add: leaves_control)
next
  case (Cons t ts)
  then show ?case by (cases t) (simp only: rerun_each.simps, intro leaves_rules)
qed

lemma leaves_run_tester [leaves_rules]: "leaves g (run_tester env tid description)"
  unfolding run_tester_def Let_def run_tests_ground_truth_def rerun_failing_tests_against_base_def
  by (intro leaves_rules)

lemma leaves_run_reviewer [leaves_rules]: "leaves g (run_reviewer env report tests description tid)"
  unfolding run_reviewer_def by (intro leaves_rules)

lemma leaves_discard_no_op [leaves_rules]: "leaves g (discard_no_op env ls)"
  unfolding discard_no_op_def Let_def by (intro leaves_rules) simp_all

lemma leaves_retry_failing_tests [leaves_rules]: "leaves g (retry_failing_tests env ls tests)"
  unfolding retry_failing_tests_def Let_def by (intro leaves_rules) simp_all

lemma leaves_after_review [leaves_rules]: "leaves g (after_review env ls c v)"
  unfolding after_review_def Let_def by (intro leaves_rules) simp_all

lemma leaves_get_diff [leaves_rules]: "leaves g (get_diff env)"
  unfolding get_diff_def by (intro leaves_rules)

text \<open>Setters change one component of the footprint.\<close>

lemma leaves_set_code [leaves_rules]:
  "(\<And>f c. g (f\<lparr>fo_code := c\<rparr>) = g f) \<Longrightarrow> leaves g (set_result (\<lambda>r. r\<lparr>res_code_change_report := c\<rparr>))"
  unfolding leaves_iff
proof
  fix s :: "'x chain_state"
  assume g: "\<And>f c. g (f\<lparr>fo_code := c\<rparr>) = g f"
  have "footprint (snd (set_result (\<lambda>r. r\<lparr>res_code_change_report := c\<rparr>) s)) = (footprint s)\<lparr>fo_code := c\<rparr>"
    by (simp add: footprint_def set_result_def coder_runs_def Let_def)
  then show "g (footprint (snd (set_result (\<lambda>r. r\<lparr>res_code_change_report := c\<rparr>) s))) = g (footprint s)"
    by (simp add: g)
qed

lemma leaves_apply_size_cap [leaves_rules]:
  "(\<And>f c. g (f\<lparr>fo_code := c\<rparr>) = g f) \<Longrightarrow> leaves g (apply_size_cap_if_over env c d)"
  unfolding apply_size_cap_if_over_def Let_def by (intro leaves_rules) simp_all

section \<open>What an approval rests on\<close>

lemma holds_bind_any: "(\<And>a. holds (\<lambda>_. True) (k a) Q anything) \<Longrightarrow> holds P (bind m k) Q anything"
  by (rule holds_bind [OF holds_top])

lemma holds_andthen_any: "holds (\<lambda>_. True) k Q anything \<Longrightarrow> holds P (andthen m k) Q anything"
  unfolding andthen_def by (rule holds_bind_any)

lemma holds_anything [action_rules]: "(\<And>a s. Q a s) \<Longrightarrow> holds P m Q anything"
  by (simp add: holds_def split: prod.split sum.split)

lemma leaves_still:
  "leaves id m \<Longrightarrow> (\<And>s s'. footprint s' = footprint s \<Longrightarrow> P s \<Longrightarrow> P s') \<Longrightarrow> holds P m (\<lambda>_. P) anything"
  unfolding holds_def using leavesD [of id m] by (fastforce split: prod.split sum.split)

lemma still_bind:
  assumes "leaves id m" "\<And>s s'. footprint s' = footprint s \<Longrightarrow> P s \<Longrightarrow> P s'"
    "\<And>a. holds P (k a) Q anything"
  shows "holds P (bind m k) Q anything"
  by (rule holds_bind [OF leaves_still [OF assms(1,2)] assms(3)])

lemma still_andthen:
  "leaves id m \<Longrightarrow> (\<And>s s'. footprint s' = footprint s \<Longrightarrow> P s \<Longrightarrow> P s') \<Longrightarrow>
     holds P k Q anything \<Longrightarrow> holds P (andthen m k) Q anything"
  unfolding andthen_def by (rule still_bind)

lemma holds_set_result:
  "(\<And>s. P s \<Longrightarrow> R (s\<lparr>cs_result := f (cs_result s)\<rparr>)) \<Longrightarrow> holds R k Q anything \<Longrightarrow>
     holds P (andthen (set_result f) k) Q anything"
  by (rule holds_andthen [where R = R]) (simp_all add: holds_def set_result_def)

lemmas still_rules = still_bind still_andthen holds_if holds_return

lemma footprint_set [simp]:
  "footprint (s\<lparr>cs_result := (cs_result s)\<lparr>res_code_change_report := c\<rparr>\<rparr>) = (footprint s)\<lparr>fo_code := c\<rparr>"
  "footprint (s\<lparr>cs_result := (cs_result s)\<lparr>res_test_report := t\<rparr>\<rparr>) = (footprint s)\<lparr>fo_tests := t\<rparr>"
  "footprint (s\<lparr>cs_result := (cs_result s)\<lparr>res_review_verdict := v\<rparr>\<rparr>) = (footprint s)\<lparr>fo_verdict := v\<rparr>"
  "footprint (s\<lparr>cs_result := (cs_result s)\<lparr>res_root_cause_report := r\<rparr>\<rparr>) = (footprint s)\<lparr>fo_root := r\<rparr>"
  "footprint (s\<lparr>cs_result := (cs_result s)\<lparr>res_pr_url := u\<rparr>\<rparr>) = (footprint s)\<lparr>fo_url := u\<rparr>"
  "footprint (s\<lparr>cs_result := (cs_result s)\<lparr>res_diff := d\<rparr>\<rparr>) = footprint s"
  "footprint (s\<lparr>cs_result := (cs_result s)\<lparr>res_error := e\<rparr>\<rparr>) = footprint s"
  "footprint (s\<lparr>cs_locks := l\<rparr>) = (footprint s)\<lparr>fo_locks := l\<rparr>"
  by (simp_all add: footprint_def coder_runs_def Let_def)

lemma size_cap_keeps_code:
  "holds (\<lambda>s. P (footprint s)) (apply_size_cap_if_over env c d) (\<lambda>over s. over \<or> P (footprint s)) anything"
  unfolding apply_size_cap_if_over_def Let_def
  by (intro holds_if holds_return holds_andthen_any) simp_all

lemma coding_stage_code:
  "holds (\<lambda>_. True) (coding_stage env report ls)
     (\<lambda>r s. case r of None \<Rightarrow> True | Some (c, d) \<Rightarrow> fo_code (footprint s) = Some c) anything"
  unfolding coding_stage_def
  apply (rule holds_andthen_any, rule holds_andthen_any, rule holds_bind_any, rule holds_bind_any, rule holds_prod)
  subgoal for tid r c d
    apply (rule holds_set_result [where R = "\<lambda>s. fo_code (footprint s) = Some c"], simp)
    apply (rule still_andthen, rule leaves_rules, simp, simp)
    apply (rule still_bind, rule leaves_rules, simp)
    apply (rule still_bind, rule leaves_rules, simp)
    apply (rule still_andthen, rule leaves_rules, simp)
    apply (rule holds_bind [where R = "\<lambda>over s. over \<or> fo_code (footprint s) = Some c"])
     apply (rule holds_if, rule size_cap_keeps_code, rule holds_return, simp)
    apply (rule holds_return, auto)
    done
  done


lemma testing_stage_tests:
  "holds (\<lambda>s. fo_code (footprint s) = c) (testing_stage env description)
     (\<lambda>t s. fo_tests (footprint s) = Some t \<and> fo_code (footprint s) = c) anything"
  unfolding testing_stage_def
  apply (rule still_andthen, rule leaves_rules, simp)
  apply (rule still_andthen, rule leaves_rules, simp, simp)
  apply (rule still_bind, rule leaves_rules, simp)
  apply (rule still_bind, rule leaves_rules, simp)
  subgoal for tid t
    apply (rule holds_set_result [where R = "\<lambda>s. fo_tests (footprint s) = Some t \<and> fo_code (footprint s) = c"], simp)
    apply (rule still_andthen, rule leaves_rules, simp, simp)
    apply (rule holds_return, simp)
    done
  done

lemma enforced_in_scope:
  "rv_approved (enforce_review_checks v changed report passed status) \<Longrightarrow>
     out_of_scope_files changed (rc_affected_files report) = []"
  by (simp add: review_defs split: if_splits)

lemma review_stage_verdict:
  "holds (\<lambda>s. fo_tests (footprint s) = t \<and> fo_code (footprint s) = c) (review_stage env report code tests description)
     (\<lambda>v s. fo_verdict (footprint s) = Some v
        \<and> (rv_approved v \<longrightarrow> out_of_scope_files (cc_files_changed code) (rc_affected_files report) = [])
        \<and> fo_tests (footprint s) = t \<and> fo_code (footprint s) = c) anything"
  unfolding review_stage_def Let_def
  apply (rule still_andthen, rule leaves_rules, simp)
  apply (rule still_andthen, rule leaves_rules, simp, simp)
  apply (rule still_bind, rule leaves_rules, simp)
  apply (rule still_bind, rule leaves_rules, simp)
  apply (rule still_bind, (intro leaves_rules; simp), simp)
  subgoal for tid v status
    apply (rule still_andthen, (intro leaves_rules; simp), simp)
    apply (rule holds_set_result [where R = "\<lambda>s. fo_verdict (footprint s) = Some (enforce_review_checks v (cc_files_changed code) report (tp_all_passed tests) status)
         \<and> fo_tests (footprint s) = t \<and> fo_code (footprint s) = c"], simp)
    apply (rule still_andthen, rule leaves_rules, simp, simp)
    apply (rule holds_return, simp add: enforced_in_scope)
    done
  done

definition ready_for_pr :: "root_cause_report \<Rightarrow> code_change_report \<Rightarrow> footprint \<Rightarrow> bool" where
  "ready_for_pr report code f \<longleftrightarrow> fo_code f = Some code
     \<and> (case fo_tests f of None \<Rightarrow> False | Some t \<Rightarrow> tp_all_passed t)
     \<and> (case fo_verdict f of None \<Rightarrow> False | Some v \<Rightarrow> rv_approved v)
     \<and> out_of_scope_files (cc_files_changed code) (rc_affected_files report) = []"

abbreviation (input) approved_ready :: "root_cause_report \<Rightarrow> attempt_end \<Rightarrow> 'x chain_state \<Rightarrow> bool" where
  "approved_ready report \<equiv> \<lambda>r s. case r of Approved c \<Rightarrow> ready_for_pr report c (footprint s) | _ \<Rightarrow> True"

lemma discard_not_approved: "holds P (discard_no_op env ls) (approved_ready report) anything"
  unfolding discard_no_op_def Let_def by (intro holds_andthen_any holds_if holds_return) simp_all

lemma retry_not_approved: "holds P (retry_failing_tests env ls tests) (approved_ready report) anything"
  unfolding retry_failing_tests_def Let_def by (intro holds_andthen_any holds_if holds_return) simp_all

lemma after_review_ready:
  "holds (\<lambda>s. rv_approved v \<longrightarrow> ready_for_pr report c (footprint s)) (after_review env ls c v) (approved_ready report) anything"
  unfolding after_review_def Let_def
  by (intro holds_if holds_return holds_andthen_any)
    (auto simp: route_after_review_def split: if_splits)

lemma promotion_code:
  "holds (\<lambda>s. fo_code (footprint s) = Some c \<and> fo_tests (footprint s) = Some t)
     (andthen (set_result (\<lambda>r. r\<lparr>res_code_change_report := Some p\<rparr>))
        (bind (apply_size_cap_if_over env p d) (\<lambda>over.
           if over then return None else andthen (stage StNoEditNeeded) (return (Some p)))))
     (\<lambda>k s. case k of None \<Rightarrow> True | Some c' \<Rightarrow> fo_code (footprint s) = Some c' \<and> fo_tests (footprint s) = Some t)
     anything"
  apply (rule holds_set_result [where R = "\<lambda>s. fo_code (footprint s) = Some p \<and> fo_tests (footprint s) = Some t"], simp)
  apply (rule holds_bind [OF size_cap_keeps_code])
  apply (rule holds_if)
   apply (rule holds_return, simp)
  apply (rule still_andthen, rule leaves_rules, simp, simp)
  apply (rule holds_return, simp)
  done


lemma attempt_ready: "holds (\<lambda>_. True) (attempt env report description ls) (approved_ready report) anything"
  unfolding attempt_def Let_def
  apply (rule holds_bind [OF coding_stage_code])
  apply (rule holds_option, rule holds_return, simp)
  apply (rule holds_prod)
  subgoal for coded cd c d
    apply (rule holds_bind [where R = "\<lambda>t s. fo_tests (footprint s) = Some t \<and> fo_code (footprint s) = Some c"])
     apply (rule holds_weaken [OF testing_stage_tests [where c = "Some c"]]; simp)
    apply (rule holds_if, rule discard_not_approved)
    subgoal for tests
      apply (rule holds_bind [where R = "\<lambda>k s. case k of None \<Rightarrow> True
             | Some c' \<Rightarrow> fo_code (footprint s) = Some c' \<and> fo_tests (footprint s) = Some tests"])
       apply (rule holds_if)
        apply (rule holds_weaken [OF promotion_code [of c tests]]; simp)
       apply (rule holds_return, simp)
      apply (rule holds_option, rule holds_return, simp)
      apply (rule holds_if, rule retry_not_approved)
      subgoal for kept final_report
        apply (rule holds_bind [where R = "\<lambda>v s. rv_approved v \<longrightarrow> ready_for_pr report final_report (footprint s)"])
         apply (rule holds_weaken [OF review_stage_verdict [of "Some tests" "Some final_report"]])
           apply (auto simp: ready_for_pr_def route_after_testing_def split: if_splits) [3]
        apply (rule after_review_ready)
        done
      done
    done
  done

lemma attempt_approved:
  "attempt env report description ls s = (Inr (Approved c), s') \<Longrightarrow> ready_for_pr report c (footprint s')"
  using holdsD(1) [OF attempt_ready TrueI] by fastforce

lemma chain_loop_ready:
  "chain_loop env report description ls s = (Inr (Some c), s') \<Longrightarrow> ready_for_pr report c (footprint s')"
  by (induction env report description ls s rule: chain_loop.induct)
    (subst (asm) (2) chain_loop.simps,
     auto split: prod.splits sum.splits attempt_end.splits dest: attempt_approved)

section \<open>What a round leaves alone\<close>

lemma leaves_set_other [leaves_rules]:
  "(\<And>f. g (f\<lparr>fo_tests := t\<rparr>) = g f) \<Longrightarrow> leaves g (set_result (\<lambda>r. r\<lparr>res_test_report := t\<rparr>))"
  "(\<And>f. g (f\<lparr>fo_verdict := v\<rparr>) = g f) \<Longrightarrow> leaves g (set_result (\<lambda>r. r\<lparr>res_review_verdict := v\<rparr>))"
  "(\<And>f. g (f\<lparr>fo_root := c\<rparr>) = g f) \<Longrightarrow> leaves g (set_result (\<lambda>r. r\<lparr>res_root_cause_report := c\<rparr>))"
  "(\<And>f. g (f\<lparr>fo_url := u\<rparr>) = g f) \<Longrightarrow> leaves g (set_result (\<lambda>r. r\<lparr>res_pr_url := u\<rparr>))"
  "leaves g (set_result (\<lambda>r. r\<lparr>res_diff := d\<rparr>))"
  "leaves g (set_result (\<lambda>r. r\<lparr>res_error := e\<rparr>))"
  by (simp_all add: leaves_iff set_result_def)


lemma footprint_stages:
  "footprint (s\<lparr>cs_result := (cs_result s)\<lparr>res_stages := ms\<rparr>\<rparr>)
     = (footprint s)\<lparr>fo_coder_runs := length (filter is_coding ms)\<rparr>"
  by (simp add: footprint_def coder_runs_def Let_def)

lemma leaves_stage_coding: "(\<And>f n. g (f\<lparr>fo_coder_runs := n\<rparr>) = g f) \<Longrightarrow> leaves g (stage m)"
  by (simp add: leaves_iff stage_def set_result_def footprint_stages)

lemma leaves_coding_stage:
  "(\<And>f c. g (f\<lparr>fo_code := c\<rparr>) = g f) \<Longrightarrow> (\<And>f n. g (f\<lparr>fo_coder_runs := n\<rparr>) = g f) \<Longrightarrow>
     leaves g (coding_stage env report ls)"
  unfolding coding_stage_def by (intro leaves_rules leaves_stage_coding) simp_all

lemma leaves_testing_stage:
  "(\<And>f t. g (f\<lparr>fo_tests := t\<rparr>) = g f) \<Longrightarrow> leaves g (testing_stage env description)"
  unfolding testing_stage_def by (intro leaves_rules) simp_all

lemma leaves_review_stage:
  "(\<And>f v. g (f\<lparr>fo_verdict := v\<rparr>) = g f) \<Longrightarrow> leaves g (review_stage env report c t description)"
  unfolding review_stage_def Let_def by (intro leaves_rules) simp_all

text \<open>A round changes the code report, the test report, the verdict and the coder's count only.\<close>

definition outside_round :: "footprint \<Rightarrow> footprint" where
  "outside_round f = f\<lparr>fo_code := None, fo_tests := None, fo_verdict := None, fo_coder_runs := 0\<rparr>"

lemma leaves_attempt: "leaves outside_round (attempt env report description ls)"
  unfolding attempt_def Let_def
  by (intro leaves_rules leaves_coding_stage leaves_testing_stage leaves_review_stage)
    (simp_all add: outside_round_def)

lemma leaves_chain_loop: "leaves outside_round (chain_loop env report description ls)"
  unfolding leaves_iff
proof
  fix s show "outside_round (footprint (snd (chain_loop env report description ls s))) = outside_round (footprint s)"
  proof (induction env report description ls s rule: chain_loop.induct)
    case (1 env report description ls s)
    obtain r s' where a: "attempt env report description ls s = (r, s')" by (metis prod.exhaust)
    have "outside_round (footprint s') = outside_round (footprint s)" using leavesD [OF leaves_attempt a] .
    then show ?case using 1 a
      by (subst chain_loop.simps) (auto split: sum.splits attempt_end.splits)
  qed
qed

lemma leaves_record_pr [leaves_rules]: "leaves g (\<lambda>s. case f (cs_env s) of (_, x) \<Rightarrow> (Inr (), s\<lparr>cs_env := x\<rparr>))"
  by (rule leaves_same_result) (simp_all split: prod.split)

lemma leaves_pr_stage:
  "(\<And>f u. g (f\<lparr>fo_url := u\<rparr>) = g f) \<Longrightarrow> leaves g (pr_stage env report code)"
  unfolding pr_stage_def squash_history_def create_pull_request_def Let_def
  by (intro leaves_rules) simp_all

lemma leaves_retrieve_memory [leaves_rules]: "leaves g (retrieve_relevant_memory env d)"
  by (rule leaves_same_result) (simp_all add: retrieve_relevant_memory_def split: prod.split sum.split)

lemma leaves_check_citations [leaves_rules]: "leaves g (check_citations env report)"
  by (rule leaves_same_result) (simp_all add: check_citations_def split: sum.split)

lemma leaves_park [leaves_rules]: "leaves g (park_investigation env report missing uncited)"
  unfolding park_investigation_def Let_def by (auto intro!: leaves_rules)

lemma leaves_investigate:
  "(\<And>f c. g (f\<lparr>fo_root := c\<rparr>) = g f) \<Longrightarrow> leaves g (investigate env fr d)"
  unfolding investigate_def Let_def by (intro leaves_rules) simp_all

lemma leaves_resume:
  "(\<And>f c. g (f\<lparr>fo_root := c\<rparr>) = g f) \<Longrightarrow> leaves g (resume_from_report env report)"
  unfolding resume_from_report_def by (intro leaves_rules) simp_all

lemma leaves_set_locks:
  "(\<And>f l. g (f\<lparr>fo_locks := l\<rparr>) = g f) \<Longrightarrow> leaves g (\<lambda>s. (Inr (), s\<lparr>cs_locks := l\<rparr>))"
  by (simp add: leaves_iff)

lemma leaves_acquire:
  "(\<And>f l. g (f\<lparr>fo_locks := l\<rparr>) = g f) \<Longrightarrow> leaves g (acquire_repo_locks env report)"
  unfolding acquire_repo_locks_def Let_def
  by (auto intro!: leaves_rules leaves_set_locks split: sum.split if_splits)

lemma leaves_record_failure [leaves_rules]: "leaves g (record_chain_failure env exc)"
  unfolding record_chain_failure_def by (intro leaves_rules) simp_all

lemma leaves_catch:
  assumes "leaves g m" shows "leaves g (catch_chain_failure env m)"
  unfolding leaves_iff
proof
  fix s
  obtain r s' where m: "m s = (r, s')" by (metis prod.exhaust)
  show "g (footprint (snd (catch_chain_failure env m s))) = g (footprint s)"
    using leavesD [OF assms m] leavesD [OF leaves_record_failure] m
    by (auto simp: catch_chain_failure_def leaves_record_failure [unfolded leaves_iff, rule_format]
        split: sum.split chain_exn.split)
qed


section \<open>Independence of the pull-request tool\<close>

lemma other_tool_basic [simp]:
  "go (env\<lparr>ce_create_pr := tool\<rparr>) = go env"
  "save_context (env\<lparr>ce_create_pr := tool\<rparr>) = save_context env"
  "apply_size_cap_if_over (env\<lparr>ce_create_pr := tool\<rparr>) = apply_size_cap_if_over env"
  "run_coder (env\<lparr>ce_create_pr := tool\<rparr>) = run_coder env"
  "run_tests_ground_truth (env\<lparr>ce_create_pr := tool\<rparr>) = run_tests_ground_truth env"
  "retrieve_relevant_memory (env\<lparr>ce_create_pr := tool\<rparr>) = retrieve_relevant_memory env"
  "check_citations (env\<lparr>ce_create_pr := tool\<rparr>) = check_citations env"
  "run_reviewer (env\<lparr>ce_create_pr := tool\<rparr>) = run_reviewer env"
  "acquire_repo_locks (env\<lparr>ce_create_pr := tool\<rparr>) = acquire_repo_locks env"
  "discard_no_op (env\<lparr>ce_create_pr := tool\<rparr>) = discard_no_op env"
  "retry_failing_tests (env\<lparr>ce_create_pr := tool\<rparr>) = retry_failing_tests env"
  "after_review (env\<lparr>ce_create_pr := tool\<rparr>) = after_review env"
  by (intro ext; simp add: go_def save_context_def apply_size_cap_if_over_def run_coder_def
      run_tests_ground_truth_def retrieve_relevant_memory_def check_citations_def run_reviewer_def
      acquire_repo_locks_def discard_no_op_def retry_failing_tests_def after_review_def
      cong del: if_weak_cong option.case_cong_weak sum.case_cong_weak)+

lemma other_tool_rerun [simp]: "rerun_each (env\<lparr>ce_create_pr := tool\<rparr>) ts results = rerun_each env ts results"
  by (induction ts arbitrary: results) auto

lemma other_tool_stages [simp]:
  "rerun_failing_tests_against_base (env\<lparr>ce_create_pr := tool\<rparr>) = rerun_failing_tests_against_base env"
  "coding_stage (env\<lparr>ce_create_pr := tool\<rparr>) = coding_stage env"
  "review_stage (env\<lparr>ce_create_pr := tool\<rparr>) = review_stage env"
  "park_investigation (env\<lparr>ce_create_pr := tool\<rparr>) = park_investigation env"
  "resume_from_report (env\<lparr>ce_create_pr := tool\<rparr>) = resume_from_report env"
  "record_chain_failure (env\<lparr>ce_create_pr := tool\<rparr>) = record_chain_failure env"
  by (intro ext; simp add: rerun_failing_tests_against_base_def coding_stage_def review_stage_def
      park_investigation_def resume_from_report_def record_chain_failure_def
      cong del: if_weak_cong option.case_cong_weak sum.case_cong_weak)+

lemma other_tool_tester [simp]: "run_tester (env\<lparr>ce_create_pr := tool\<rparr>) = run_tester env"
  by (intro ext) (simp add: run_tester_def cong del: if_weak_cong)

lemma other_tool_rounds [simp]:
  "testing_stage (env\<lparr>ce_create_pr := tool\<rparr>) = testing_stage env"
  "investigate (env\<lparr>ce_create_pr := tool\<rparr>) = investigate env"
  "catch_chain_failure (env\<lparr>ce_create_pr := tool\<rparr>) = catch_chain_failure env"
  by (intro ext; simp add: testing_stage_def investigate_def catch_chain_failure_def
      cong del: if_weak_cong option.case_cong_weak sum.case_cong_weak)+

lemma other_tool_attempt [simp]: "attempt (env\<lparr>ce_create_pr := tool\<rparr>) = attempt env"
  by (intro ext) (simp add: attempt_def cong del: if_weak_cong option.case_cong_weak)

lemma other_tool_loop [simp]:
  "chain_loop (env\<lparr>ce_create_pr := tool\<rparr>) report description ls s = chain_loop env report description ls s"
  by (induction env report description ls s rule: chain_loop.induct)
    (simp add: chain_loop.simps split: prod.split sum.split attempt_end.split)


text \<open>The recorded test report, verdict and change, as a pull request needs them.\<close>

definition reviewed :: "footprint \<Rightarrow> bool" where
  "reviewed f \<longleftrightarrow>
     (case (fo_root f, fo_code f, fo_tests f, fo_verdict f) of
        (Some report, Some code, Some tests, Some verdict) \<Rightarrow>
          tp_all_passed tests \<and> rv_approved verdict
          \<and> out_of_scope_files (cc_files_changed code) (rc_affected_files report) = []
      | _ \<Rightarrow> False)"

lemma ready_reviewed: "ready_for_pr report code f \<Longrightarrow> fo_root f = Some report \<Longrightarrow> reviewed f"
  by (auto simp: ready_for_pr_def reviewed_def split: option.splits)

lemma reviewed_ignores [simp]:
  "reviewed (f\<lparr>fo_url := u\<rparr>) = reviewed f" "reviewed (f\<lparr>fo_locks := l\<rparr>) = reviewed f"
  by (simp_all add: reviewed_def)

lemma investigate_root:
  "holds (\<lambda>_. True) (investigate env fr d)
     (\<lambda>r s. case r of None \<Rightarrow> True | Some report \<Rightarrow> fo_root (footprint s) = Some report) anything"
  unfolding investigate_def Let_def
  apply (rule holds_bind_any, rule holds_andthen_any, rule holds_andthen_any, rule holds_bind_any,
      rule holds_prod, rule holds_andthen_any, rule holds_andthen_any, rule holds_bind_any, rule holds_bind_any)
  subgoal for task m memory hits raw tid
    apply (rule holds_set_result [where R = "\<lambda>s. fo_root (footprint s) = Some (raw\<lparr>rc_task_id := tid\<rparr>)"], simp)
    apply (rule still_andthen, rule leaves_rules, simp, simp)
    apply (rule still_andthen, rule leaves_rules, simp)
    apply (rule still_bind, rule leaves_rules, simp)
    apply (rule holds_if)
     apply (rule holds_andthen_any, rule holds_return, simp)
    apply (rule still_andthen, rule leaves_rules, simp)
    apply (rule still_andthen, rule leaves_rules, simp, simp)
    apply (rule holds_return, simp)
    done
  done

lemma resume_root:
  "holds (\<lambda>_. True) (resume_from_report env report) (\<lambda>_ s. fo_root (footprint s) = Some report) anything"
  unfolding resume_from_report_def
  apply (rule holds_set_result [where R = "\<lambda>s. fo_root (footprint s) = Some report"], simp)
  apply (rule leaves_still)
   apply (intro leaves_rules; simp)
  apply simp
  done

lemma outside_roundD: "outside_round f = outside_round g \<Longrightarrow> fo_root f = fo_root g \<and> fo_url f = fo_url g"
  by (metis (no_types, lifting) footprint.select_convs(1,5) footprint.surjective footprint.update_convs
      outside_round_def)

text \<open>What a run without an approved change cannot do.\<close>

abbreviation (input) tool_unused :: "(footprint \<Rightarrow> bool) \<Rightarrow> ('x, 'a) action \<Rightarrow> ('x, 'a) action \<Rightarrow> 'x chain_state \<Rightarrow> bool" where
  "tool_unused P m m' s \<equiv> P (footprint (snd (m s))) \<or> m' s = m s \<and> fo_url (footprint (snd (m s))) = None"

lemma fix_report_tool:
  assumes "fo_root (footprint s) = Some report" "fo_url (footprint s) = None"
  shows "tool_unused reviewed (fix_report env report d) (fix_report (env\<lparr>ce_create_pr := tool\<rparr>) report d) s"
proof -
  obtain r1 s1 where a: "acquire_repo_locks env report s = (r1, s1)" by (metis prod.exhaust)
  have f1: "fo_root (footprint s1) = Some report" "fo_url (footprint s1) = None"
    using leavesD [OF leaves_acquire a, of fo_root] leavesD [OF leaves_acquire a, of fo_url] assms by simp_all
  obtain r2 s2 where l: "chain_loop env report d first_loop_state s1 = (r2, s2)" by (metis prod.exhaust)
  have f2: "fo_root (footprint s2) = Some report" "fo_url (footprint s2) = None"
    using outside_roundD [OF leavesD [OF leaves_chain_loop l]] f1 by simp_all
  show ?thesis
  proof (cases "\<exists>u c. r1 = Inr u \<and> r2 = Inr (Some c)")
    case True
    then obtain u c where r: "r1 = Inr u" "r2 = Inr (Some c)" by blast
    have "ready_for_pr report c (footprint s2)" using l r(2) chain_loop_ready by blast
    then have "reviewed (footprint s2)" using f2(1) by (rule ready_reviewed)
    then have "reviewed (footprint (snd (pr_stage env report c s2)))"
      using leaves_pr_stage [of reviewed env report c] by (simp add: leaves_iff)
    then show ?thesis using a l r by (simp add: fix_report_def andthen_def bind_def)
  next
    case False
    then show ?thesis using a l f1 f2
      by (cases r1; cases r2) (auto simp: fix_report_def andthen_def bind_def return_def split: option.split)
  qed
qed


lemma chain_body_tool:
  assumes "fo_url (footprint s) = None"
  shows "tool_unused reviewed (chain_body env fr d resume) (chain_body (env\<lparr>ce_create_pr := tool\<rparr>) fr d resume) s"
proof (cases resume)
  case (Some report)
  obtain r1 s1 where a: "resume_from_report env report s = (r1, s1)" by (metis prod.exhaust)
  have u: "fo_url (footprint s1) = None" using leavesD [OF leaves_resume a, of fo_url] assms by simp
  have "r1 = Inr () \<Longrightarrow> fo_root (footprint s1) = Some report"
    using holdsD(1) [OF resume_root TrueI] a by fastforce
  then show ?thesis using a u Some fix_report_tool [of s1 report env d tool]
    by (cases r1) (auto simp: chain_body_def andthen_def bind_def)
next
  case None
  obtain r1 s1 where a: "investigate env fr d s = (r1, s1)" by (metis prod.exhaust)
  have u: "fo_url (footprint s1) = None" using leavesD [OF leaves_investigate a, of fo_url] assms by simp
  have "\<And>report. r1 = Inr (Some report) \<Longrightarrow> fo_root (footprint s1) = Some report"
    using holdsD(1) [OF investigate_root TrueI] a by fastforce
  then show ?thesis using a u None fix_report_tool [of s1 _ env d tool]
    by (cases r1) (auto simp: chain_body_def bind_def return_def split: option.split)
qed

lemma catch_tool:
  assumes "tool_unused reviewed m m' s"
  shows "tool_unused reviewed (catch_chain_failure env m) (catch_chain_failure (env\<lparr>ce_create_pr := tool\<rparr>) m') s"
proof -
  obtain r s1 where m: "m s = (r, s1)" by (metis prod.exhaust)
  have "footprint (snd (catch_chain_failure env m s)) = footprint s1"
    using m leaves_record_failure [of id env, unfolded leaves_iff]
    by (auto simp: catch_chain_failure_def split: sum.split chain_exn.split)
  then show ?thesis using assms m by (auto simp: catch_chain_failure_def)
qed

section \<open>Counting the coder's turns\<close>

definition adds :: "nat \<Rightarrow> ('x, 'a) action \<Rightarrow> bool" where
  "adds k m \<longleftrightarrow> (\<forall>s. fo_coder_runs (footprint (snd (m s))) \<le> fo_coder_runs (footprint s) + k)"

lemma adds_leaves: "leaves fo_coder_runs m \<Longrightarrow> adds 0 m"
  by (simp add: adds_def leaves_iff)

lemma adds_bind:
  assumes "adds j m" "\<And>a. adds k (f a)" shows "adds (j + k) (bind m f)"
  unfolding adds_def
proof
  fix s
  obtain r s' where m: "m s = (r, s')" by (metis prod.exhaust)
  have one: "fo_coder_runs (footprint s') \<le> fo_coder_runs (footprint s) + j"
    using assms(1) m unfolding adds_def by (metis snd_conv)
  have two: "fo_coder_runs (footprint (snd (f a s'))) \<le> fo_coder_runs (footprint s') + k" for a
    using assms(2) unfolding adds_def by blast
  show "fo_coder_runs (footprint (snd (bind m f s))) \<le> fo_coder_runs (footprint s) + (j + k)"
  proof (cases r)
    case (Inr b)
    then show ?thesis using m one two [of b] by (simp add: bind_def)
  qed (use m one in \<open>simp add: bind_def\<close>)
qed

lemma adds_stage: "adds 1 (stage m)"
  by (simp add: adds_def stage_def set_result_def footprint_stages) (simp add: footprint_def coder_runs_def Let_def)

lemma adds_coding_stage: "adds 1 (coding_stage env report ls)"
proof -
  have "adds (0 + (1 + 0)) (coding_stage env report ls)"
    unfolding coding_stage_def andthen_def
    by (intro adds_bind adds_stage adds_leaves leaves_rules [unfolded andthen_def]) simp_all
  then show ?thesis by simp
qed

lemma adds_attempt: "adds 1 (attempt env report description ls)"
proof -
  have "adds (1 + 0) (attempt env report description ls)"
    unfolding attempt_def Let_def
    by (intro adds_bind adds_coding_stage adds_leaves leaves_rules leaves_testing_stage leaves_review_stage) simp_all
  then show ?thesis by simp
qed

lemma adds_chain_loop: "adds (retries_left ls + 1) (chain_loop env report description ls)"
  unfolding adds_def
proof
  fix s show "fo_coder_runs (footprint (snd (chain_loop env report description ls s)))
      \<le> fo_coder_runs (footprint s) + (retries_left ls + 1)"
  proof (induction env report description ls s rule: chain_loop.induct)
    case (1 env report description ls s)
    obtain r s' where a: "attempt env report description ls s = (r, s')" by (metis prod.exhaust)
    have one: "fo_coder_runs (footprint s') \<le> fo_coder_runs (footprint s) + 1"
      using adds_attempt a unfolding adds_def by (metis snd_conv)
    show ?case
    proof (cases "\<exists>ls'. r = Inr (TryAgain ls')")
      case True
      then obtain ls' where r: "r = Inr (TryAgain ls')" by blast
      have "retries_left ls' < retries_left ls" using attempt_decreases a r by blast
      then show ?thesis using 1(1) [OF a [symmetric] r refl] one a r by (subst chain_loop.simps) simp
    next
      case False
      then show ?thesis using one a
        by (subst chain_loop.simps) (auto split: sum.split attempt_end.split)
    qed
  qed
qed

lemma adds_chain_body: "adds (retries_left first_loop_state + 1) (chain_body env fr d resume)"
proof -
  have pr: "adds 0 (pr_stage env report c)" for report c
    by (rule adds_leaves, rule leaves_pr_stage) simp
  have "adds (0 + ((retries_left first_loop_state + 1) + 0)) (fix_report env report d)" for report
    unfolding fix_report_def andthen_def
    by (intro adds_bind adds_chain_loop adds_leaves leaves_acquire)
      (simp_all add: leaves_pr_stage leaves_control split: option.split)
  then have f: "adds (retries_left first_loop_state + 1) (fix_report env report d)" for report by simp
  have "adds (0 + (retries_left first_loop_state + 1)) (chain_body env fr d resume)"
  proof (cases resume)
    case None
    have "adds (retries_left first_loop_state + 1)
        (case found of None \<Rightarrow> return () | Some report \<Rightarrow> fix_report env report d)" for found
      using f by (cases found) (auto simp: adds_def return_def)
    then show ?thesis using None unfolding chain_body_def
      by (simp, intro adds_bind [where j = 0, simplified] adds_leaves leaves_investigate) simp_all
  next
    case (Some report)
    then show ?thesis using f unfolding chain_body_def andthen_def
      by (simp, intro adds_bind [where j = 0, simplified] adds_leaves leaves_resume) simp_all
  qed
  then show ?thesis by simp
qed

section \<open>From the footprint to the result\<close>

lemma footprint_result:
  "res_pr_url (cs_result s) = fo_url (footprint s)" "coder_runs (cs_result s) = fo_coder_runs (footprint s)"
  by (simp_all add: footprint_def Let_def)

definition chain_start :: "'x chain_env \<Rightarrow> task_row \<Rightarrow> world \<Rightarrow> 'x \<Rightarrow> 'x chain_state" where
  "chain_start env task w x =
     \<lparr>cs_task = task, cs_world = w, cs_env = x, cs_result = fresh_result env task, cs_locks = None\<rparr>"

lemma footprint_start: "footprint (chain_start env task w x) =
    \<lparr>fo_root = None, fo_code = None, fo_tests = None, fo_verdict = None, fo_url = None,
     fo_coder_runs = 0, fo_locks = None\<rparr>"
  by (simp add: chain_start_def footprint_def fresh_result_def coder_runs_def Let_def)

lemma run_chain_outcome:
  "run_chain env fr d resume task w x =
     (let (r, s) = catch_chain_failure env (chain_body env fr d resume) (chain_start env task w x)
      in (r, s\<lparr>cs_locks := None\<rparr>))"
  by (simp add: run_chain_def chain_start_def finally_do_def release_repo_locks_def Let_def split: prod.split)

section \<open>Properties\<close>

text \<open>
  C7: No pull request without a reviewed change.  Whatever the agents, the sandbox, the tests
  and other writers do, a run either ends with a root cause, a change, a passing test report
  and an approving verdict on record, every changed file within the scope the root cause
  declared; or it records no URL and runs exactly as it would with any other pull-request
  tool, so the tool was never used.
\<close>

theorem pull_request_needs_review:
  "reviewed (footprint (snd (run_chain env fr d resume task w x)))
   \<or> run_chain (env\<lparr>ce_create_pr := tool\<rparr>) fr d resume task w x = run_chain env fr d resume task w x
     \<and> res_pr_url (cs_result (snd (run_chain env fr d resume task w x))) = None"
proof -
  have "tool_unused reviewed (catch_chain_failure env (chain_body env fr d resume))
     (catch_chain_failure (env\<lparr>ce_create_pr := tool\<rparr>) (chain_body (env\<lparr>ce_create_pr := tool\<rparr>) fr d resume))
     (chain_start env task w x)"
    by (rule catch_tool, rule chain_body_tool) (simp add: footprint_start)
  moreover have "chain_start (env\<lparr>ce_create_pr := tool\<rparr>) = chain_start env"
    by (intro ext) (simp add: chain_start_def fresh_result_def)
  ultimately show ?thesis
    by (auto simp: run_chain_outcome footprint_result split: prod.split)
qed

text \<open>
  C9: The retry budgets bound the work.  However the agents, tests and reviews go, the coder is
  sent to work at most \<open>MAX_FIX_ITERATIONS + MAX_REVIEW_CYCLES + MAX_NOOP_ATTEMPTS\<close> times in a
  run, whether the run ends normally or with an exception.
\<close>

theorem coder_turns_bounded:
  "coder_runs (cs_result (snd (run_chain env fr d resume task w x)))
     \<le> MAX_FIX_ITERATIONS + MAX_REVIEW_CYCLES + MAX_NOOP_ATTEMPTS"
proof -
  obtain r s1 where b: "chain_body env fr d resume (chain_start env task w x) = (r, s1)" by (metis prod.exhaust)
  have "fo_coder_runs (footprint s1) \<le> retries_left first_loop_state + 1"
    using adds_chain_body [of env fr d resume] b unfolding adds_def
    by (metis add_0 footprint.select_convs(6) footprint_start snd_conv)
  also have "\<dots> = MAX_FIX_ITERATIONS + MAX_REVIEW_CYCLES + MAX_NOOP_ATTEMPTS"
    by (simp add: retries_left_def first_loop_state_def MAX_NOOP_ATTEMPTS_def)
  finally show ?thesis
    using b by (auto simp: run_chain_outcome footprint_result catch_chain_failure_def
        split: prod.split sum.split chain_exn.split
        dest: leavesD [OF leaves_record_failure [of fo_coder_runs]])
qed

end
