(* ===== verification/ChainInvariants.thy ===== *)
theory ChainInvariants
  imports ChainProps
begin

text \<open>
  Invariants of a whole fix run, proved once.  A run touches the task and the store only through
  \<open>go\<close> and \<open>save_context\<close>; the locale \<open>run_invariant\<close> takes what these two keep and gives what
  \<open>run_chain\<close> keeps.
\<close>

section \<open>What most actions leave alone\<close>

text \<open>The store, the task row the run holds, and the state the result reports.\<close>

definition vitals :: "'x chain_state \<Rightarrow> world \<times> task_row \<times> task_state" where
  "vitals s = (cs_world s, cs_task s, res_final_state (cs_result s))"

lemma vitals_same:
  "(\<And>s. cs_world (snd (m s)) = cs_world s) \<Longrightarrow> (\<And>s. cs_task (snd (m s)) = cs_task s) \<Longrightarrow>
     (\<And>s. res_final_state (cs_result (snd (m s))) = res_final_state (cs_result s)) \<Longrightarrow> preserves vitals m"
  by (simp add: preserves_def vitals_def)

lemma vitals_outside [preserves_rules]: "preserves vitals (outside f)"
  by (rule vitals_same) (simp_all add: outside_def split: prod.split sum.split)

lemma vitals_set_result [preserves_rules]:
  "(\<And>r. res_final_state (f r) = res_final_state r) \<Longrightarrow> preserves vitals (set_result f)"
  by (rule vitals_same) (simp_all add: set_result_def)

lemma vitals_stage [preserves_rules]: "preserves vitals (stage m)"
  unfolding stage_def by (rule vitals_set_result) simp

lemma vitals_record_tool_calls [preserves_rules]: "preserves vitals (record_tool_calls n r)"
  unfolding record_tool_calls_def by (rule vitals_set_result) simp

lemma vitals_small [preserves_rules]:
  "preserves vitals (retrieve_relevant_memory env d)"
  "preserves vitals (check_citations env report)"
  "preserves vitals (\<lambda>s. case f (cs_env s) of (_, x) \<Rightarrow> (Inr (), s\<lparr>cs_env := x\<rparr>))"
  "preserves vitals (\<lambda>s. (Inr (), s\<lparr>cs_locks := l\<rparr>))"
  "preserves vitals release_repo_locks"
  by (rule vitals_same; simp add: retrieve_relevant_memory_def check_citations_def release_repo_locks_def
      split: prod.split sum.split)+

lemma vitals_run_handoff_agent [preserves_rules]: "preserves vitals (run_handoff_agent n a p)"
  unfolding run_handoff_agent_def by (intro preserves_rules)

lemma vitals_run_coder [preserves_rules]: "preserves vitals (run_coder env report feedback tid)"
  unfolding run_coder_def Let_def by (intro preserves_rules)

lemma vitals_rerun_each [preserves_rules]: "preserves vitals (rerun_each env ts results)"
proof (induction ts arbitrary: results)
  case Nil
  show ?case by (simp add: preserves_return)
next
  case (Cons t ts)
  then show ?case by (cases t) (simp only: rerun_each.simps, intro preserves_rules)
qed

lemma vitals_run_tester [preserves_rules]: "preserves vitals (run_tester env tid description)"
  unfolding run_tester_def Let_def run_tests_ground_truth_def rerun_failing_tests_against_base_def
  by (intro preserves_rules)

lemma vitals_run_reviewer [preserves_rules]: "preserves vitals (run_reviewer env report tests description tid)"
  unfolding run_reviewer_def by (intro preserves_rules)

lemma vitals_pr_parts [preserves_rules]:
  "preserves vitals (get_diff env)" "preserves vitals (create_pull_request env report c d tid)"
  unfolding get_diff_def create_pull_request_def Let_def by (intro preserves_rules)+

lemma vitals_acquire [preserves_rules]: "preserves vitals (acquire_repo_locks env report)"
  unfolding acquire_repo_locks_def Let_def by (auto intro!: preserves_rules split: sum.split)

section \<open>Invariants of actions\<close>

definition keeps :: "('x chain_state \<Rightarrow> bool) \<Rightarrow> ('x, 'a) action \<Rightarrow> bool" where
  "keeps I m \<longleftrightarrow> (\<forall>s. I s \<longrightarrow> I (snd (m s)))"

named_theorems keeps_rules

lemma keepsI: "(\<And>s r s'. I s \<Longrightarrow> m s = (r, s') \<Longrightarrow> I s') \<Longrightarrow> keeps I m"
  by (auto simp: keeps_def intro: prod.collapse [symmetric])

lemma keepsD: "keeps I m \<Longrightarrow> I s \<Longrightarrow> m s = (r, s') \<Longrightarrow> I s'"
  unfolding keeps_def by (metis snd_conv)

lemma keeps_bind [keeps_rules]:
  assumes "keeps I m" "\<And>a. keeps I (k a)" shows "keeps I (bind m k)"
proof (rule keepsI)
  fix s r s' assume s: "I s" and b: "bind m k s = (r, s')"
  obtain q s1 where m: "m s = (q, s1)" by (metis prod.exhaust)
  have "I s1" using keepsD [OF assms(1) s m] .
  then show "I s'" using b m keepsD [OF assms(2)] by (cases q) (simp_all add: bind_def)
qed

lemma keeps_andthen [keeps_rules]: "keeps I m \<Longrightarrow> keeps I k \<Longrightarrow> keeps I (andthen m k)"
  unfolding andthen_def by (rule keeps_bind)

lemma keeps_control [keeps_rules]:
  "keeps I m \<Longrightarrow> keeps I n \<Longrightarrow> keeps I (if b then m else n)"
  "keeps I m \<Longrightarrow> (\<And>a. keeps I (f a)) \<Longrightarrow> keeps I (case x of None \<Rightarrow> m | Some a \<Rightarrow> f a)"
  "(\<And>a b. keeps I (h a b)) \<Longrightarrow> keeps I (case p of (a, b) \<Rightarrow> h a b)"
  by (simp_all split: option.split prod.split)

lemma keeps_finally [keeps_rules]:
  assumes "keeps I m" "keeps I c" shows "keeps I (finally_do m c)"
proof (rule keepsI)
  fix s r s' assume s: "I s" and b: "finally_do m c s = (r, s')"
  obtain q s1 where m: "m s = (q, s1)" by (metis prod.exhaust)
  obtain p s2 where c: "c s1 = (p, s2)" by (metis prod.exhaust)
  have "I s2" using keepsD [OF assms(2) keepsD [OF assms(1) s m] c] .
  then show "I s'" using b m c by (cases p) (simp_all add: finally_do_def)
qed

lemma keeps_catch:
  assumes "keeps I m" "\<And>exc. keeps I (record_chain_failure env exc)"
  shows "keeps I (catch_chain_failure env m)"
proof (rule keepsI)
  fix s r s' assume s: "I s" and b: "catch_chain_failure env m s = (r, s')"
  obtain q s1 where m: "m s = (q, s1)" by (metis prod.exhaust)
  have "I s1" using keepsD [OF assms(1) s m] .
  then show "I s'" using b m keepsD [OF assms(2)]
    by (auto simp: catch_chain_failure_def split: sum.splits chain_exn.splits)
qed

section \<open>Invariants of runs\<close>

locale run_invariant =
  fixes I :: "'x chain_state \<Rightarrow> bool" and env :: "'x chain_env"
  assumes after_go: "I s \<Longrightarrow> go env t actor trigger s = (r, s') \<Longrightarrow> I s'"
    and after_save: "I s \<Longrightarrow> save_context env d s = (q, s') \<Longrightarrow> I s'"
    and after_other: "I s \<Longrightarrow> vitals s' = vitals s \<Longrightarrow> I s'"
begin

lemma calm: "preserves vitals m \<Longrightarrow> keeps I m"
  by (rule keepsI) (metis after_other preservesD)

lemma moving [keeps_rules]: "keeps I (go env t actor trigger)"
  by (rule keepsI) (rule after_go)

lemma saving [keeps_rules]: "keeps I (save_context env d)"
  by (rule keepsI) (rule after_save)

lemma squashing [keeps_rules]: "keeps I (squash_history env report c)"
  unfolding squash_history_def Let_def
  by (intro keeps_rules; (rule calm, intro preserves_rules)?; simp)

lemma pieces [keeps_rules]:
  "keeps I (apply_size_cap_if_over env c diff)"
  "keeps I (testing_stage env description)" "keeps I (discard_no_op env ls)"
  "keeps I (retry_failing_tests env ls tests)" "keeps I (review_stage env report c tests description)"
  "keeps I (after_review env ls c v)" "keeps I (resume_from_report env report)"
  "keeps I (record_chain_failure env exc)" "keeps I (pr_stage env report c)"
  "keeps I (park_investigation env report missing uncited)"
  unfolding apply_size_cap_if_over_def testing_stage_def discard_no_op_def retry_failing_tests_def
    review_stage_def after_review_def resume_from_report_def record_chain_failure_def pr_stage_def
    park_investigation_def Let_def
  by (intro keeps_rules; (rule calm, intro preserves_rules)?; simp)+

lemma coding [keeps_rules]: "keeps I (coding_stage env report ls)"
  unfolding coding_stage_def
  by (intro keeps_rules; (rule calm, intro preserves_rules)?; simp)

lemma investigating [keeps_rules]: "keeps I (investigate env fr description)"
  unfolding investigate_def Let_def
  by (intro keeps_rules; (rule calm, intro preserves_rules)?; simp)

lemma one_attempt [keeps_rules]: "keeps I (attempt env report description ls)"
  unfolding attempt_def Let_def
  by (intro keeps_rules; (rule calm, intro preserves_rules)?; simp)

lemma looping [keeps_rules]: "keeps I (chain_loop env report description ls)"
proof -
  have "e = env \<Longrightarrow> I s \<Longrightarrow> I (snd (chain_loop e report description ls s))" for e s
  proof (induction e report description ls s rule: chain_loop.induct)
    case (1 e report description ls s)
    obtain r s' where a: "attempt env report description ls s = (r, s')" by (metis prod.exhaust)
    have "I s'" by (rule keepsD [OF one_attempt 1(3) a])
    then show ?case using 1 a by (subst chain_loop.simps) (auto split: sum.splits attempt_end.splits)
  qed
  then show ?thesis by (simp add: keeps_def)
qed

lemma body [keeps_rules]: "keeps I (chain_body env fr description resume)"
  unfolding chain_body_def fix_report_def
  by (intro keeps_rules; (rule calm, intro preserves_rules)?; simp)

lemma body_caught [keeps_rules]: "keeps I (catch_chain_failure env (chain_body env fr description resume))"
  by (intro keeps_catch keeps_rules)

theorem whole_run:
  assumes "I (chain_start env task w x)" shows "I (snd (run_chain env fr description resume task w x))"
proof -
  have "keeps I (finally_do (catch_chain_failure env (chain_body env fr description resume)) release_repo_locks)"
    by (intro keeps_rules calm preserves_rules)
  then show ?thesis using assms by (simp add: keeps_def run_chain_def chain_start_def)
qed

end

end
