(* ===== verification/ChainEnds.thy ===== *)
theory ChainEnds
  imports ChainInvariants
begin

text \<open>
  Where a fix run ends, and who decides whether the tests passed.  \<open>preserves whereabouts\<close> is
  what every action but \<open>go\<close> satisfies; \<open>synced\<close> says that the task row and the result agree on the
  state, an invariant of every run; the \<open>_parks\<close> lemmas follow each early return to the \<open>go\<close> before it.
\<close>

section \<open>Where a run ends\<close>

text \<open>The task's state and the one the result reports; they move together.\<close>

definition whereabouts :: "'x chain_state \<Rightarrow> task_state \<times> task_state" where
  "whereabouts s = (tk_state (cs_task s), res_final_state (cs_result s))"

definition synced :: "'x chain_state \<Rightarrow> bool" where
  "synced s \<longleftrightarrow> fst (whereabouts s) = snd (whereabouts s)"

lemma calm_same:
  "(\<And>s. tk_state (cs_task (snd (m s))) = tk_state (cs_task s)) \<Longrightarrow>
     (\<And>s. res_final_state (cs_result (snd (m s))) = res_final_state (cs_result s)) \<Longrightarrow> preserves whereabouts m"
  by (simp add: preserves_def whereabouts_def)

lemma calm_vitals: "preserves vitals m \<Longrightarrow> preserves whereabouts m"
  by (simp add: preserves_def vitals_def whereabouts_def)

lemmas calm_basic [preserves_rules] =
  vitals_outside [THEN calm_vitals] vitals_set_result [THEN calm_vitals] vitals_stage [THEN calm_vitals]
  vitals_record_tool_calls [THEN calm_vitals] vitals_small [THEN calm_vitals]
  vitals_run_handoff_agent [THEN calm_vitals] vitals_run_coder [THEN calm_vitals]
  vitals_run_tester [THEN calm_vitals] vitals_run_reviewer [THEN calm_vitals]
  vitals_pr_parts [THEN calm_vitals] vitals_acquire [THEN calm_vitals]

lemmas calm_outside = vitals_outside [THEN calm_vitals]

lemma calm_save_context [preserves_rules]: "preserves whereabouts (save_context env updates)"
  by (rule calm_same) (simp_all add: save_context_def Let_def split: option.split)

lemma calm_squash_history [preserves_rules]: "preserves whereabouts (squash_history env report c)"
  unfolding squash_history_def Let_def by (intro preserves_rules)

text \<open>Moving the task.\<close>

lemma transition_reaches:
  "transition H env fuel now task to_state trigger actor w = (Inr task', w') \<Longrightarrow> tk_state task' = to_state"
  by (auto elim!: transition_cases commit_cases)

lemma retry_reaches:
  "retry_loop H env fuel now tid to_state trigger actor n task w = (Inr task', w') \<Longrightarrow> tk_state task' = to_state"
  by (induction n arbitrary: task w)
    (auto simp: Let_def dest: transition_reaches split: prod.splits sum.splits task_error.splits option.splits if_splits)

lemma go_reaches:
  "holds P (go env t actor trigger) (\<lambda>_ s. whereabouts s = (t, t)) anything"
  by (auto simp: holds_def go_def transition_with_retry_def whereabouts_def dest: retry_reaches
      split: prod.split sum.split)

lemma go_failed_calm: "go env t actor trigger s = (Inl e, s') \<Longrightarrow> whereabouts s' = whereabouts s"
  by (auto simp: go_def whereabouts_def split: prod.splits sum.splits)

interpretation ends: run_invariant synced env for env :: "'x chain_env"
proof
  fix s s' :: "'x chain_state" and t actor trigger r
  assume s: "synced s" and g: "go env t actor trigger s = (r, s')"
  show "synced s'"
  proof (cases r)
    case (Inl e)
    then show ?thesis using g s go_failed_calm by (fastforce simp: synced_def)
  next
    case (Inr a)
    then show ?thesis using g holdsD(1) [OF go_reaches [of "\<lambda>_. True"] TrueI] by (fastforce simp: synced_def)
  qed
next
  fix s s' :: "'x chain_state" and d q
  assume "synced s" "save_context env d s = (q, s')"
  then show "synced s'" using preservesD [OF calm_save_context] by (fastforce simp: synced_def)
qed (simp add: synced_def vitals_def whereabouts_def)

section \<open>Normal ends\<close>

definition run_ends :: "task_state set" where
  "run_ends = {NEEDS_HUMAN_INPUT, FAILED, CANCELLED, WAITING_FOR_APPROVAL}"

abbreviation (input) parked :: "'x chain_state \<Rightarrow> bool" where
  "parked s \<equiv> snd (whereabouts s) \<in> run_ends"

lemma calm_still: "preserves whereabouts m \<Longrightarrow> holds parked m (\<lambda>_. parked) anything"
  unfolding holds_def using preservesD [of whereabouts m] by (fastforce split: prod.split sum.split)

lemma parks_bind: "preserves whereabouts m \<Longrightarrow> (\<And>a. holds parked (k a) Q anything) \<Longrightarrow> holds parked (bind m k) Q anything"
  by (rule holds_bind [OF calm_still])

lemma parks_andthen: "preserves whereabouts m \<Longrightarrow> holds parked k Q anything \<Longrightarrow> holds parked (andthen m k) Q anything"
  unfolding andthen_def by (rule parks_bind)

lemma go_parks: "t \<in> run_ends \<Longrightarrow> holds parked k Q anything \<Longrightarrow> holds P (andthen (go env t actor trigger) k) Q anything"
  by (rule holds_andthen [where R = parked], rule holds_weaken [OF go_reaches]) auto

lemma failure_state_ends: "failure_state t \<in> run_ends"
  by (cases t) (simp_all add: failure_state_find FAILURE_PREFERENCE_def run_ends_def)

lemma ends_simps [simp]:
  "NEEDS_HUMAN_INPUT \<in> run_ends" "FAILED \<in> run_ends" "WAITING_FOR_APPROVAL \<in> run_ends"
  by (simp_all add: run_ends_def)

lemmas parks_rules = go_parks parks_andthen parks_bind calm_still holds_return preserves_rules

lemma holds_get_state:
  "(\<And>s. P s \<Longrightarrow> holds (\<lambda>s'. s' = s) (k (f s)) Q E) \<Longrightarrow> holds P (bind (get_state f) k) Q E"
  by (simp add: holds_def bind_def get_state_def)

lemma record_failure_parks: "holds P (record_chain_failure env exc) (\<lambda>_. parked) anything"
  unfolding record_chain_failure_def
  by (rule holds_get_state, rule go_parks) (intro failure_state_ends parks_rules; simp)+

lemma size_cap_parks: "holds P (apply_size_cap_if_over env c d) (\<lambda>over s. over \<longrightarrow> parked s) anything"
  unfolding apply_size_cap_if_over_def Let_def
  by (rule holds_if, rule holds_return, simp, rule holds_andthen_any, rule holds_andthen_any)
    (intro parks_rules; simp)+

lemma park_parks: "holds P (park_investigation env report missing uncited) (\<lambda>_. parked) anything"
  unfolding park_investigation_def Let_def by (rule holds_prod) (intro parks_rules; simp)

lemma investigate_parks:
  "holds (\<lambda>_. True) (investigate env fr d) (\<lambda>r s. r = None \<longrightarrow> parked s) anything"
  unfolding investigate_def Let_def
  apply (rule holds_bind_any, rule holds_andthen_any, rule holds_andthen_any, rule holds_bind_any,
      rule holds_prod, rule holds_andthen_any, rule holds_andthen_any, rule holds_bind_any, rule holds_bind_any,
      rule holds_andthen_any, rule holds_andthen_any, rule holds_andthen_any, rule holds_bind_any)
  apply (rule holds_if)
   apply (rule holds_andthen [OF park_parks], rule holds_return, simp)
  apply (rule holds_andthen_any, rule holds_andthen_any, rule holds_return, simp)
  done

lemma coding_parks:
  "holds (\<lambda>_. True) (coding_stage env report ls) (\<lambda>r s. r = None \<longrightarrow> parked s) anything"
  unfolding coding_stage_def
  apply (rule holds_andthen_any, rule holds_andthen_any, rule holds_bind_any, rule holds_bind_any,
      rule holds_prod, rule holds_andthen_any, rule holds_andthen_any, rule holds_bind_any, rule holds_bind_any,
      rule holds_andthen_any)
  apply (rule holds_bind [where R = "\<lambda>over s. over \<longrightarrow> parked s"])
   apply (rule holds_if, rule size_cap_parks, rule holds_return, simp)
  apply (rule holds_return, simp)
  done

lemma discard_parks: "holds P (discard_no_op env ls) (\<lambda>r s. r = RunEnded \<longrightarrow> parked s) anything"
  unfolding discard_no_op_def Let_def
  by (rule holds_andthen_any, rule holds_if) (intro parks_rules; simp)+

lemma retry_parks: "holds P (retry_failing_tests env ls tests) (\<lambda>r s. r = RunEnded \<longrightarrow> parked s) anything"
  unfolding retry_failing_tests_def Let_def
  by (rule holds_if) (intro parks_rules; simp)+

lemma after_review_parks: "holds P (after_review env ls c v) (\<lambda>r s. r = RunEnded \<longrightarrow> parked s) anything"
  unfolding after_review_def Let_def
  by (rule holds_if, rule holds_return, simp, rule holds_if) (intro parks_rules; simp)+

lemma promotion_parks:
  "holds P (andthen (set_result f) (bind (apply_size_cap_if_over env p d) (\<lambda>over.
       if over then return None else andthen (stage StNoEditNeeded) (return (Some p)))))
     (\<lambda>k s. k = None \<longrightarrow> parked s) anything"
  by (rule holds_andthen_any, rule holds_bind [OF size_cap_parks], rule holds_if, rule holds_return, simp,
      rule holds_andthen_any, rule holds_return, simp)

lemma attempt_parks:
  "holds (\<lambda>_. True) (attempt env report description ls) (\<lambda>r s. r = RunEnded \<longrightarrow> parked s) anything"
  unfolding attempt_def Let_def
  apply (rule holds_bind [OF coding_parks])
  apply (rule holds_option, rule holds_return, simp)
  apply (rule holds_prod, rule holds_bind_any, rule holds_if, rule discard_parks)
  apply (rule holds_bind [where R = "\<lambda>k s. k = None \<longrightarrow> parked s"])
   apply (rule holds_if, rule promotion_parks, rule holds_return, simp)
  apply (rule holds_option, rule holds_return, simp)
  apply (rule holds_if, rule retry_parks)
  apply (rule holds_bind_any, rule after_review_parks)
  done

lemma chain_loop_parks:
  "chain_loop env report description ls s = (Inr None, s') \<Longrightarrow> parked s'"
proof (induction env report description ls s rule: chain_loop.induct)
  case (1 env report description ls s)
  obtain r s1 where a: "attempt env report description ls s = (r, s1)" by (metis prod.exhaust)
  show ?case using 1 a holdsD(1) [OF attempt_parks TrueI, of env report description ls s]
    by (subst (asm) (2) chain_loop.simps) (auto split: sum.splits attempt_end.splits)
qed

lemma pr_stage_parks: "holds P (pr_stage env report c) (\<lambda>_. parked) anything"
  unfolding pr_stage_def
  apply (rule holds_andthen_any, rule holds_bind_any, rule holds_andthen_any, rule holds_bind_any,
      rule holds_andthen_any, rule holds_andthen_any, rule holds_bind_any, rule holds_bind_any)
  apply (rule holds_if)
   apply (rule holds_andthen_any, intro parks_rules; simp)
  apply (rule holds_andthen_any, rule holds_andthen_any, rule holds_andthen_any, intro parks_rules; simp)
  done

lemma fix_report_parks: "holds P (fix_report env report d) (\<lambda>_. parked) anything"
  unfolding fix_report_def
  apply (rule holds_andthen_any)
  apply (rule holds_bind [where R = "\<lambda>r s. r = None \<longrightarrow> parked s"])
   apply (auto simp: holds_def dest: chain_loop_parks split: prod.split sum.split) [1]
  apply (rule holds_option, rule holds_return, simp)
  apply (rule pr_stage_parks)
  done

lemma chain_body_parks: "holds (\<lambda>_. True) (chain_body env fr d resume) (\<lambda>_. parked) anything"
  unfolding chain_body_def
  apply (rule holds_option)
   apply (rule holds_bind [OF investigate_parks], rule holds_option, rule holds_return, simp)
   apply (rule fix_report_parks)
  apply (rule holds_andthen_any, rule fix_report_parks)
  done

lemma catch_parks:
  assumes "holds (\<lambda>_. True) m (\<lambda>_. parked) anything"
  shows "holds (\<lambda>_. True) (catch_chain_failure env m) (\<lambda>_. parked) anything"
  unfolding holds_def
proof (intro allI impI)
  fix s
  obtain r s' where r: "m s = (r, s')" by (metis prod.exhaust)
  show "case catch_chain_failure env m s of (Inr a, s') \<Rightarrow> parked s' | (Inl e, s') \<Rightarrow> True"
    using r holdsD(1) [OF assms TrueI, of s] holdsD(1) [OF record_failure_parks [of "\<lambda>_. True"] TrueI]
    by (auto simp: catch_chain_failure_def split: sum.split chain_exn.split prod.split)
qed


section \<open>Whose verdict\<close>

lemma holds_pure: "(b \<Longrightarrow> holds (\<lambda>_. True) m Q E) \<Longrightarrow> holds (\<lambda>_. b) m Q E"
  by (simp add: holds_def)

lemma run_tester_verdict:
  assumes "run_tests_ground_truth env s = (Inr g, s1)"
  shows "holds (\<lambda>s'. s' = s) (run_tester env tid d) (\<lambda>report _. tp_all_passed report = tru_all_passed g) anything"
  unfolding run_tester_def Let_def
  apply (rule holds_bind [where R = "\<lambda>a _. a = g"])
   apply (simp add: holds_def assms)
  apply (rule holds_pure, rule holds_bind_any, rule holds_andthen_any, rule holds_prod, rule holds_prod)
  apply (rule holds_bind_any, rule holds_prod, rule holds_return, simp)
  done

text \<open>
  C10: The test verdict is the runner's.  Whatever the Tester agent reports, or if it fails, the
  test report says that all tests passed exactly if the suite ran and all its tests passed;
  neither the agent nor the re-run of failures on the base branch can turn a failing suite
  into a passing report.
\<close>

theorem test_verdict_is_the_runners:
  "case fst (run_tester env task_id description s) of
     Inr report \<Rightarrow>
       (case fst (ce_run_tests env None (cs_env s)) of
          Inr run \<Rightarrow> tp_all_passed report = (tru_success run \<and> tru_all_passed run)
        | Inl exc \<Rightarrow> False)
   | Inl exc \<Rightarrow> True"
proof -
  obtain q s1 where o: "ce_run_tests env None (cs_env s) = (q, s1)" by (metis prod.exhaust)
  obtain r s2 where r: "run_tester env task_id description s = (r, s2)" by (metis prod.exhaust)
  show ?thesis
  proof (cases q)
    case (Inl e)
    then show ?thesis using o by (simp add: run_tester_def run_tests_ground_truth_def bind_def outside_def)
  next
    case (Inr run)
    then have "\<exists>g s1. run_tests_ground_truth env s = (Inr g, s1)
        \<and> tru_all_passed g = (tru_success run \<and> tru_all_passed run)"
      using o by (auto simp: run_tests_ground_truth_def bind_def outside_def return_def)
    then obtain g s3 where g: "run_tests_ground_truth env s = (Inr g, s3)"
      "tru_all_passed g = (tru_success run \<and> tru_all_passed run)" by blast
    show ?thesis
    proof (cases r)
      case (Inr report)
      then have "run_tester env task_id description s = (Inr report, s2)" using r by simp
      from holdsD(1) [OF run_tester_verdict [OF g(1)] refl this] show ?thesis
        using g(2) o r Inr \<open>q = Inr run\<close> by simp
    qed (use r in simp)
  qed
qed

end
