(* ===== verification/ChainTrail.thy ===== *)
theory ChainTrail
  imports ChainInvariants
begin

text \<open>
  A fix run as a refinement of the task lifecycle: whatever path a run takes and whatever other
  writers do in between, every move it makes is an edge of the state machine and is in the audit
  trail.
\<close>

section \<open>Copies and stores\<close>

text \<open>
  A store grows when no row is lost and a row that keeps its version keeps its state.  A copy
  tracks a store when it was read from it at some time in the past.
\<close>

definition grows :: "store \<Rightarrow> store \<Rightarrow> bool" where
  "grows s s' \<longleftrightarrow> (\<forall>tid row. st_tasks s tid = Some row \<longrightarrow>
     (\<exists>row'. st_tasks s' tid = Some row' \<and>
        (tk_version row < tk_version row' \<or> tk_version row = tk_version row' \<and> tk_state row = tk_state row')))"

definition tracks :: "store \<Rightarrow> task_row \<Rightarrow> bool" where
  "tracks s task \<longleftrightarrow> (\<exists>row. st_tasks s (tk_id task) = Some row \<and>
     (tk_version task < tk_version row \<or> tk_version task = tk_version row \<and> tk_state task = tk_state row))"

text \<open>The other writers keep the trail and never lose or silently change a row.\<close>

definition lawful :: "(string \<Rightarrow> string) \<Rightarrow> interference \<Rightarrow> bool" where
  "lawful H env \<longleftrightarrow> (\<forall>n s. trail_inv H s \<longrightarrow> trail_inv H (env n s) \<and> grows s (env n s))"

definition accounted :: "(string \<Rightarrow> string) \<Rightarrow> store \<Rightarrow> store \<Rightarrow> bool" where
  "accounted H s s' \<longleftrightarrow> trail_inv H s' \<and> grows s s'"

lemma grows_refl [simp]: "grows s s"
  by (simp add: grows_def)

lemma grows_trans: "grows s t \<Longrightarrow> grows t u \<Longrightarrow> grows s u"
  unfolding grows_def
proof (intro allI impI)
  fix tid row
  assume st: "\<forall>tid row. st_tasks s tid = Some row \<longrightarrow> (\<exists>row'. st_tasks t tid = Some row' \<and>
        (tk_version row < tk_version row' \<or> tk_version row = tk_version row' \<and> tk_state row = tk_state row'))"
    and tu: "\<forall>tid row. st_tasks t tid = Some row \<longrightarrow> (\<exists>row'. st_tasks u tid = Some row' \<and>
        (tk_version row < tk_version row' \<or> tk_version row = tk_version row' \<and> tk_state row = tk_state row'))"
    and row: "st_tasks s tid = Some row"
  obtain row1 where r1: "st_tasks t tid = Some row1"
    "tk_version row < tk_version row1 \<or> tk_version row = tk_version row1 \<and> tk_state row = tk_state row1"
    using st row by blast
  obtain row2 where r2: "st_tasks u tid = Some row2"
    "tk_version row1 < tk_version row2 \<or> tk_version row1 = tk_version row2 \<and> tk_state row1 = tk_state row2"
    using tu r1(1) by blast
  show "\<exists>row'. st_tasks u tid = Some row' \<and>
        (tk_version row < tk_version row' \<or> tk_version row = tk_version row' \<and> tk_state row = tk_state row')"
    using r1(2) r2 by auto
qed

lemma grows_tasks: "st_tasks s' = st_tasks s \<Longrightarrow> grows s s'"
  by (simp add: grows_def)

lemma grows_tracks: "tracks s task \<Longrightarrow> grows s s' \<Longrightarrow> tracks s' task"
proof -
  assume t: "tracks s task" and g: "grows s s'"
  obtain row where row: "st_tasks s (tk_id task) = Some row"
    "tk_version task < tk_version row \<or> tk_version task = tk_version row \<and> tk_state task = tk_state row"
    using t by (auto simp: tracks_def)
  obtain row' where "st_tasks s' (tk_id task) = Some row'"
    "tk_version row < tk_version row' \<or> tk_version row = tk_version row' \<and> tk_state row = tk_state row'"
    using g row(1) unfolding grows_def by blast
  with row(2) show "tracks s' task" unfolding tracks_def by auto
qed

lemma tracks_row: "trail_inv H s \<Longrightarrow> st_tasks s tid = Some row \<Longrightarrow> tracks s row"
  by (auto simp: trail_inv_def tracks_def)

lemma tracks_coherent: "tracks s task \<Longrightarrow> coherent s task"
  by (auto simp: tracks_def coherent_def)

lemma accounted_trans: "accounted H s t \<Longrightarrow> accounted H t u \<Longrightarrow> accounted H s u"
  unfolding accounted_def using grows_trans by blast

lemma accounted_tick:
  "lawful H env \<Longrightarrow> trail_inv H (w_store w) \<Longrightarrow> accounted H (w_store w) (w_store (tick env w))"
  by (simp add: lawful_def accounted_def tick_def)

lemma accounted_put:
  assumes "trail_inv H s" "st_tasks s tid = Some row" "tk_id new = tid" "tk_state new = tk_state row"
    and "tk_version row < tk_version new"
  shows "accounted H s (s\<lparr>st_tasks := (st_tasks s)(tid \<mapsto> new)\<rparr>)"
proof -
  have "grows s (s\<lparr>st_tasks := (st_tasks s)(tid \<mapsto> new)\<rparr>)" using assms by (auto simp: grows_def)
  moreover have "trail_inv H (s\<lparr>st_tasks := (st_tasks s)(tid \<mapsto> new)\<rparr>)"
    using assms by (auto simp: trail_inv_def)
  ultimately show ?thesis by (simp add: accounted_def)
qed

section \<open>Transitions\<close>

lemma trail_inv_same: "st_tasks s' = st_tasks s \<Longrightarrow> st_audit s' = st_audit s \<Longrightarrow> trail_inv H s' = trail_inv H s"
  by (simp add: trail_inv_def)

lemma accounted_wait:
  "lawful H env \<Longrightarrow> trail_inv H (w_store w) \<Longrightarrow> wait_while_paused env fuel w = Some w' \<Longrightarrow>
     accounted H (w_store w) (w_store w')"
proof (induction fuel arbitrary: w)
  case (Suc n)
  show ?case
  proof (cases "paused_now (w_store w)")
    case True
    then have "wait_while_paused env n (tick env w) = Some w'"
      using Suc.prems(3) by (simp only: wait_paused_step)
    moreover have t: "accounted H (w_store w) (w_store (tick env w))"
      using Suc.prems by (intro accounted_tick)
    moreover have "trail_inv H (w_store (tick env w))" using t by (simp add: accounted_def)
    ultimately show ?thesis using accounted_trans [OF t Suc.IH [OF Suc.prems(1)]] by blast
  next
    case False
    from wait_open [OF this, of env n] obtain u where "w' = w\<lparr>w_store := u\<rparr>"
      "st_tasks u = st_tasks (w_store w)" "st_audit u = st_audit (w_store w)"
      using Suc.prems(3) by auto
    then show ?thesis
      using Suc.prems(2) trail_inv_same [of u "w_store w"] grows_tasks [of u "w_store w"]
      by (simp add: accounted_def)
  qed
qed simp

lemma accounted_commit:
  assumes "trail_inv H s" "tracks s task"
    and "commit_transition H now task to_state trigger actor s = (r, s')"
  shows "accounted H s s' \<and> (case r of Inr task' \<Rightarrow> tracks s' task' \<and> tk_id task' = tk_id task | Inl _ \<Rightarrow> True)"
proof -
  have "trail_inv H s'" using commit_trail_inv [OF assms(1) tracks_coherent [OF assms(2)] assms(3)] .
  with assms(3) show ?thesis
    by (cases rule: commit_cases) (auto simp: accounted_def grows_def tracks_def)
qed

lemma accounted_transition:
  assumes env: "lawful H env" and inv: "trail_inv H (w_store w)" and copy: "tracks (w_store w) task"
    and step: "transition H env fuel now task to_state trigger actor w = (r, w')"
  shows "accounted H (w_store w) (w_store w') \<and> (case r of Inr task' \<Rightarrow> tracks (w_store w') task' \<and> tk_id task' = tk_id task | Inl _ \<Rightarrow> True)"
  using step
proof (cases rule: transition_cases)
  case waiting
  then show ?thesis using inv by (simp add: accounted_def)
next
  case (acted w1 s)
  have 1: "accounted H (w_store w) (w_store w1)" using accounted_wait [OF env inv acted(1)] .
  then have 2: "accounted H (w_store w1) (w_store (tick env w1))"
    using env by (intro accounted_tick) (simp_all add: accounted_def)
  have 3: "accounted H (w_store w) (w_store (tick env w1))" using accounted_trans [OF 1 2] .
  then have "trail_inv H (w_store (tick env w1))" "tracks (w_store (tick env w1)) task"
    using copy grows_tracks by (auto simp: accounted_def)
  from accounted_commit [OF this acted(2)] show ?thesis
    using accounted_trans [OF 3] acted(3) by (cases r) simp_all
qed

lemma accounted_retry:
  assumes env: "lawful H env"
  shows "trail_inv H (w_store w) \<Longrightarrow> tracks (w_store w) task \<Longrightarrow> tk_id task = tid \<Longrightarrow>
    retry_loop H env fuel now tid to_state trigger actor n task w = (r, w') \<Longrightarrow>
    accounted H (w_store w) (w_store w') \<and> (case r of Inr task' \<Rightarrow> tracks (w_store w') task' \<and> tk_id task' = tid | Inl _ \<Rightarrow> True)"
proof (induction n arbitrary: task w)
  case 0
  then show ?case by (auto simp: accounted_def)
next
  case (Suc n)
  obtain r1 w1 where s: "transition H env fuel now task to_state trigger actor w = (r1, w1)" by fastforce
  have one: "accounted H (w_store w) (w_store w1) \<and> (case r1 of Inr task' \<Rightarrow> tracks (w_store w1) task' \<and> tk_id task' = tid | Inl _ \<Rightarrow> True)"
    using accounted_transition [OF env Suc.prems(1,2) s] Suc.prems(3) by (cases r1) simp_all
  then have two: "accounted H (w_store w1) (w_store (tick env w1))"
    using env by (intro accounted_tick) (simp_all add: accounted_def)
  have three: "accounted H (w_store w) (w_store (tick env w1))"
    using one two accounted_trans by blast
  have again: "accounted H (w_store w) (w_store w') \<and> (case r of Inr task' \<Rightarrow> tracks (w_store w') task' \<and> tk_id task' = tid | Inl _ \<Rightarrow> True)"
    if "st_tasks (w_store (tick env w1)) tid = Some fresh"
      "retry_loop H env fuel now tid to_state trigger actor n fresh (tick env w1) = (r, w')" for fresh
  proof -
    have inv: "trail_inv H (w_store (tick env w1))" using two by (simp add: accounted_def)
    moreover have "tk_id fresh = tid" using inv that(1) by (simp add: trail_inv_def)
    ultimately have "accounted H (w_store (tick env w1)) (w_store w')
        \<and> (case r of Inr task' \<Rightarrow> tracks (w_store w') task' \<and> tk_id task' = tid | Inl _ \<Rightarrow> True)"
      using Suc.IH tracks_row that by blast
    with three show ?thesis
      using accounted_trans by blast
  qed
  show ?case
    using Suc.prems(4) s one three again
    by (auto simp: Let_def split: sum.splits task_error.splits if_splits option.splits)
qed

section \<open>Runs\<close>

definition on_record :: "'x chain_env \<Rightarrow> store \<Rightarrow> string \<Rightarrow> 'x chain_state \<Rightarrow> bool" where
  "on_record env s0 tid s \<longleftrightarrow> tk_id (cs_task s) = tid \<and> accounted (ce_hash env) s0 (w_store (cs_world s)) \<and> tracks (w_store (cs_world s)) (cs_task s)"

lemma saved_on_record:
  assumes "save_context env d s = (q, s')"
    and "accounted (ce_hash env) s0 (w_store (tick (ce_interference env) (cs_world s)))"
    and "tracks (w_store (tick (ce_interference env) (cs_world s))) (cs_task s)" and "tk_id (cs_task s) = tid"
  shows "on_record env s0 tid s'"
proof -
  let ?w = "tick (ce_interference env) (cs_world s)"
  have same: "on_record env s0 tid (s\<lparr>cs_world := ?w\<rparr>)" using assms by (simp add: on_record_def)
  consider "s' = s\<lparr>cs_world := ?w\<rparr>"
    | row new where "st_tasks (w_store ?w) (tk_id (cs_task s)) = Some row" "tk_version row = tk_version (cs_task s)"
      "s' = (let task' = (cs_task s)\<lparr>tk_task_context := Some new, tk_version := tk_version (cs_task s) + 1\<rparr>
             in s\<lparr>cs_task := task', cs_world := ?w\<lparr>w_store := (w_store ?w)\<lparr>st_tasks :=
                          (st_tasks (w_store ?w))(tk_id (cs_task s) \<mapsto> task')\<rparr>\<rparr>\<rparr>)"
    using assms(1) unfolding save_context_def Let_def by (simp split: if_splits option.splits) blast+
  then show ?thesis
  proof cases
    case 1
    then show ?thesis using same by simp
  next
    case (2 row new)
    have "tk_state row = tk_state (cs_task s)" "tk_id row = tk_id (cs_task s)"
      using assms 2 by (auto simp: tracks_def accounted_def trail_inv_def)
    then have "accounted (ce_hash env) (w_store ?w) (w_store (cs_world s'))"
      using accounted_put [OF _ 2(1), of "ce_hash env" "(cs_task s)\<lparr>tk_task_context := Some new,
          tk_version := tk_version (cs_task s) + 1\<rparr>"] assms(2) 2(2) \<open>tk_state row = tk_state (cs_task s)\<close>
      unfolding 2(3) by (simp add: Let_def accounted_def)
    moreover have "tracks (w_store (cs_world s')) (cs_task s') \<and> tk_id (cs_task s') = tid"
      using 2(3) assms(4) by (simp add: Let_def tracks_def)
    ultimately show ?thesis using assms(2) accounted_trans unfolding on_record_def by blast
  qed
qed

interpretation trails: run_invariant "\<lambda>s. lawful (ce_hash env) (ce_interference env) \<longrightarrow> on_record env s0 tid s" env
  for env :: "'x chain_env" and s0 tid
proof
  fix s s' :: "'x chain_state" and t actor trigger r
  assume inv: "lawful (ce_hash env) (ce_interference env) \<longrightarrow> on_record env s0 tid s"
    and g: "go env t actor trigger s = (r, s')"
  show "lawful (ce_hash env) (ce_interference env) \<longrightarrow> on_record env s0 tid s'"
  proof
    assume l: "lawful (ce_hash env) (ce_interference env)"
    with inv have a: "accounted (ce_hash env) s0 (w_store (cs_world s))"
      and c: "tracks (w_store (cs_world s)) (cs_task s)" and i: "tk_id (cs_task s) = tid" by (simp_all add: on_record_def)
    obtain q w where q: "transition_with_retry (ce_hash env) (ce_interference env) (ce_polls env)
        (ce_now env (cs_world s)) (cs_task s) t trigger actor MAX_OCC_RETRIES (cs_world s) = (q, w)" by fastforce
    have k: "accounted (ce_hash env) (w_store (cs_world s)) (w_store w)
        \<and> (case q of Inr task' \<Rightarrow> tracks (w_store w) task' \<and> tk_id task' = tid | Inl _ \<Rightarrow> True)"
      using a c i q by (intro accounted_retry [OF l]) (simp_all add: accounted_def transition_with_retry_def)
    then have "tracks (w_store w) (cs_task s)" using c grows_tracks by (simp add: accounted_def)
    then show "on_record env s0 tid s'"
      using k g q i accounted_trans [OF a] by (auto simp: go_def on_record_def split: sum.splits)
  qed
next
  fix s s' :: "'x chain_state" and d q
  assume inv: "lawful (ce_hash env) (ce_interference env) \<longrightarrow> on_record env s0 tid s"
    and g: "save_context env d s = (q, s')"
  show "lawful (ce_hash env) (ce_interference env) \<longrightarrow> on_record env s0 tid s'"
  proof
    assume l: "lawful (ce_hash env) (ce_interference env)"
    let ?w = "tick (ce_interference env) (cs_world s)"
    from inv l have a: "accounted (ce_hash env) s0 (w_store (cs_world s))"
      and c: "tracks (w_store (cs_world s)) (cs_task s)" and i: "tk_id (cs_task s) = tid" by (simp_all add: on_record_def)
    have t: "accounted (ce_hash env) (w_store (cs_world s)) (w_store ?w)"
      using a l by (intro accounted_tick) (simp_all add: accounted_def)
    have a': "accounted (ce_hash env) s0 (w_store ?w)" using accounted_trans [OF a t] .
    have c': "tracks (w_store ?w) (cs_task s)" using t c grows_tracks by (simp add: accounted_def)
    show "on_record env s0 tid s'"
      using g a' c' i by (rule saved_on_record)
  qed
qed (simp add: on_record_def vitals_def)

section \<open>Properties\<close>

text \<open>
  A fix run refines the task's lifecycle.  If the other writers keep the audit trail and
  never lose or silently change a row, then whatever the agents and the sandbox do, and whether
  the run returns or raises, the store still accounts for every task; the run's task is still
  there; the recorded moves of that task lead from \<open>CREATED\<close> to the state in its row, an edge of
  the state machine each; and the run's own copy is that row or an older version of it.
\<close>

theorem run_refines_lifecycle:
  assumes "lawful (ce_hash env) (ce_interference env)" and "trail_inv (ce_hash env) (w_store w)"
    and "st_tasks (w_store w) (tk_id task) = Some task"
  shows "let s = snd (run_chain env fr description resume task w x); st = w_store (cs_world s)
     in trail_inv (ce_hash env) st \<and>
        (\<exists>row h. st_tasks st (tk_id task) = Some row
           \<and> leads CREATED (trail (tk_id task) (contents (st_audit st))) (tk_state row)
           \<and> history h \<and> last h = tk_state row \<and> tk_id (cs_task s) = tk_id task
           \<and> (tk_version (cs_task s) < tk_version row
              \<or> tk_version (cs_task s) = tk_version row \<and> tk_state (cs_task s) = tk_state row))"
proof -
  define s where "s = snd (run_chain env fr description resume task w x)"
  have "on_record env (w_store w) (tk_id task) (chain_start env task w x)"
    using assms(2,3) by (simp add: on_record_def chain_start_def accounted_def tracks_def)
  then have r: "on_record env (w_store w) (tk_id task) s"
    unfolding s_def
    using trails.whole_run [of env "w_store w" "tk_id task" task w x fr description resume] assms(1) by simp
  then obtain row where row: "st_tasks (w_store (cs_world s)) (tk_id task) = Some row"
    and c: "tk_version (cs_task s) < tk_version row
              \<or> tk_version (cs_task s) = tk_version row \<and> tk_state (cs_task s) = tk_state row"
    by (auto simp: on_record_def tracks_def)
  have inv: "trail_inv (ce_hash env) (w_store (cs_world s))" using r by (simp add: on_record_def accounted_def)
  then have l: "leads CREATED (trail (tk_id task) (contents (st_audit (w_store (cs_world s))))) (tk_state row)"
    using row by (auto simp: trail_inv_def)
  from leads_history [OF l, of "[]"] fresh obtain h where "history (CREATED # h)" "last (CREATED # h) = tk_state row"
    by auto
  then show ?thesis using inv row l c r unfolding s_def [symmetric] Let_def on_record_def by blast
qed

definition demo_chain_env :: "'x chain_env" where
  "demo_chain_env = \<lparr>ce_hash = unary_digest, ce_key = (\<lambda>_. 0), ce_host = demo_host, ce_cwd = [],
     ce_scratch_dir = [], ce_repo_path = None, ce_short_id = None, ce_registry = Map.empty,
     ce_interference = (\<lambda>n s. s), ce_polls = 1, ce_max_loc = 0, ce_now = (\<lambda>_. demo_time),
     ce_file_exists = (\<lambda>_ _. False), ce_search_memory = (\<lambda>_ x. (Inl ''down'', x)),
     ce_try_lock = (\<lambda>_ x. (Inr True, x)), ce_investigator = (\<lambda>_ x. (Inl ''down'', x)),
     ce_coder = (\<lambda>_ x. (Inl ''down'', x)), ce_tester = (\<lambda>_ x. (Inl ''down'', x)),
     ce_reviewer = (\<lambda>_ x. (Inl ''down'', x)), ce_current_branch = (\<lambda>x. (Inr ''main'', x)),
     ce_current_sha = (\<lambda>x. (Inr ''0'', x)), ce_commit_all = (\<lambda>_ x. (Inr None, x)),
     ce_changed_files = (\<lambda>x. (Inr [], x)), ce_diff = (\<lambda>x. (Inr [], x)),
     ce_stash_if_dirty = (\<lambda>x. (Inr False, x)), ce_pop_stash = (\<lambda>x. (Inr (), x)),
     ce_checkout = (\<lambda>_ x. (Inr (), x)), ce_squash = (\<lambda>_ x. (Inr None, x)),
     ce_run_tests = (\<lambda>_ x. (Inl ''down'', x)), ce_get_diff = (\<lambda>x. (Inl ''down'', x)),
     ce_verify_counterexample = (\<lambda>_ x. (Inl ''down'', x)), ce_create_pr = (\<lambda>_ x. (Inl ''down'', x)),
     ce_record_pr = (\<lambda>_ x. (Inr (), x))\<rparr>"

theorem run_refines_lifecycle_witness:
  "\<exists>row h. st_tasks (w_store (cs_world (snd (run_chain demo_chain_env (\<lambda>_. []) ''crash'' None
       (the (st_tasks demo_store ''t1'')) \<lparr>w_store = demo_store, w_clock = 0\<rparr> ())))) ''t1'' = Some row
     \<and> history h \<and> last h = tk_state row"
proof -
  have t: "tk_id (the (st_tasks demo_store ''t1'')) = ''t1''" "st_tasks demo_store ''t1'' \<noteq> None"
    by (simp_all add: demo_store_def create_task_def Let_def)
  have "lawful (ce_hash demo_chain_env) (ce_interference demo_chain_env)"
    by (simp add: lawful_def demo_chain_env_def)
  moreover have "trail_inv (ce_hash demo_chain_env) (w_store \<lparr>w_store = demo_store, w_clock = 0\<rparr>)"
    using demo_store_trail [OF unary_digest_ok] by (simp add: demo_chain_env_def)
  ultimately show ?thesis
    using run_refines_lifecycle [of demo_chain_env "\<lparr>w_store = demo_store, w_clock = 0\<rparr>"
        "the (st_tasks demo_store ''t1'')" "\<lambda>_. []" "''crash''" None "()"] t
    unfolding Let_def by auto
qed

end
