(* ===== verification/PatchDiff.thy ===== *)
theory PatchDiff
  imports PyValues
begin

text \<open>
  The diff inspection of \<open>amop/sandbox/tools.py\<close>: what \<open>patch_file\<close> checks of a unified diff
  before git sees it.  The two \<open>while\<close> loops over the lines of a diff become one recursion each
  whose state is the current old-file line number, \<open>None\<close> outside a hunk.  Line numbers start
  at 1, as in a diff.
\<close>

section \<open>Lines\<close>

text \<open>\<open>s.splitlines(keepends=True)\<close>.\<close>

fun splitlines_keep :: "string \<Rightarrow> string list" where
  "splitlines_keep [] = []"
| "splitlines_keep (c # cs) =
     (if line_break c then
        (if c = CHR 0x0D \<and> take 1 cs = [CHR 0x0A]
         then [c, CHR 0x0A] # splitlines_keep (tl cs) else [c] # splitlines_keep cs)
      else (case splitlines_keep cs of [] \<Rightarrow> [[c]] | l # ls \<Rightarrow> (c # l) # ls))"

section \<open>Headers\<close>

definition normalize_diff_headers :: "string \<Rightarrow> string \<Rightarrow> string" where
  "normalize_diff_headers diff relative_path =
     (let diff1 = (if diff \<noteq> [] \<and> \<not> ends_with diff [CHR 0x0A] then diff @ [CHR 0x0A] else diff);
          old_header = ''--- a/'' @ relative_path @ [CHR 0x0A];
          new_header = ''+++ b/'' @ relative_path @ [CHR 0x0A];
          lines = splitlines_keep diff1;
          has_old = list_ex (\<lambda>l. starts_with l ''--- '') lines;
          has_new = list_ex (\<lambda>l. starts_with l ''+++ '') lines
      in if \<not> (has_old \<and> has_new) then old_header @ new_header @ diff1
         else
           let replace = (\<lambda>(out, replaced_old, replaced_new) line.
                 if \<not> replaced_old \<and> starts_with line ''--- '' then (out @ [old_header], True, replaced_new)
                 else if \<not> replaced_new \<and> starts_with line ''+++ '' then (out @ [new_header], replaced_old, True)
                 else (out @ [line], replaced_old, replaced_new));
               (out, _, _) = foldl replace ([], False, False) lines
           in concat out)"

text \<open>\<open>_HUNK_HEADER_RE.match\<close>: the old file's starting line, its first group.\<close>

definition digit :: "char \<Rightarrow> bool" where
  "digit c = (let n = (of_char c :: nat) in 48 \<le> n \<and> n \<le> 57)"

definition digits_value :: "string \<Rightarrow> nat" where
  "digits_value s = foldl (\<lambda>n c. 10 * n + (of_char c - 48)) 0 s"

definition skip_digits :: "string \<Rightarrow> string option" where
  "skip_digits s = (if s \<noteq> [] \<and> digit (hd s) then Some (dropWhile digit s) else None)"

definition skip_count :: "string \<Rightarrow> string" where
  "skip_count s =
     (case s of [] \<Rightarrow> []
      | c # cs \<Rightarrow> if c = CHR 0x2C then (case skip_digits cs of Some r \<Rightarrow> r | None \<Rightarrow> s) else s)"

definition hunk_start :: "string \<Rightarrow> nat option" where
  "hunk_start line =
     (if \<not> starts_with line ''@@ -'' then None
      else let s = drop 4 line in
        case skip_digits s of None \<Rightarrow> None
        | Some r \<Rightarrow>
            let r1 = skip_count r in
            if \<not> starts_with r1 '' +'' then None
            else (case skip_digits (drop 2 r1) of None \<Rightarrow> None
              | Some r2 \<Rightarrow> if starts_with (skip_count r2) '' @@'' then Some (digits_value (takeWhile digit s))
                           else None))"

section \<open>Walking a diff\<close>

text \<open>\<open>line[0] in " -"\<close> for a non-empty line: context and removed lines use up an old-file line.\<close>

definition old_side :: "string \<Rightarrow> bool" where
  "old_side line \<longleftrightarrow> line \<noteq> [] \<and> (hd line = CHR 0x20 \<or> hd line = CHR 0x2D)"

text \<open>\<open>real_lines[n - 1] if 0 <= n - 1 < len(real_lines) else None\<close>.\<close>

definition real_line :: "string list \<Rightarrow> nat \<Rightarrow> string option" where
  "real_line real_lines n = (if 0 < n \<and> n \<le> length real_lines then Some (real_lines ! (n - 1)) else None)"

text \<open>
  \<open>_find_context_mismatch\<close>.  A line starting \<open>@@ \<close> ends a hunk and is looked at again by the
  outer loop, which enters a hunk only if it parses.
\<close>

fun mismatch_walk :: "string list \<Rightarrow> nat option \<Rightarrow> string list \<Rightarrow> (nat \<times> char \<times> string \<times> string) option" where
  "mismatch_walk real_lines pos [] = None"
| "mismatch_walk real_lines None (line # lines) = mismatch_walk real_lines (hunk_start line) lines"
| "mismatch_walk real_lines (Some n) (line # lines) =
     (if starts_with line ''@@ '' then mismatch_walk real_lines (hunk_start line) lines
      else if \<not> old_side line then mismatch_walk real_lines (Some n) lines
      else case real_line real_lines n of
             Some actual \<Rightarrow>
               if actual \<noteq> tl line then Some (n, hd line, tl line, actual)
               else mismatch_walk real_lines (Some (n + 1)) lines
           | None \<Rightarrow> mismatch_walk real_lines (Some (n + 1)) lines)"

definition find_context_mismatch :: "string \<Rightarrow> string \<Rightarrow> (nat \<times> char \<times> string \<times> string) option" where
  "find_context_mismatch diff current_content =
     mismatch_walk (splitlines current_content) None (splitlines diff)"

definition mismatch_text :: "nat \<times> char \<times> string \<times> string \<Rightarrow> string" where
  "mismatch_text m = (case m of (line_no, marker, expected, actual) \<Rightarrow>
     ''line '' @ nat_digits line_no @ '' of the diff assumes (as '' @
     (if marker = CHR 0x20 then ''unchanged context'' else ''a line to remove'') @ ''): '' @
     repr_str expected)"

definition diagnose_context_mismatch :: "string \<Rightarrow> string \<Rightarrow> string option" where
  "diagnose_context_mismatch diff current_content =
     (case find_context_mismatch diff current_content of
        None \<Rightarrow> None
      | Some m \<Rightarrow> (case m of (line_no, marker, expected, actual) \<Rightarrow>
          Some (mismatch_text m @ '' -- but the file's real current line '' @ nat_digits line_no @
            '' is: '' @ repr_str actual @ ''. This diff looks like it '' @
            ''was built against an intended future version of the '' @
            ''file, not what's actually there -- re-read this exact '' @
            ''region fresh and construct a new diff against it, '' @
            ''rather than adjusting the same one again.'')))"

text \<open>\<open>_hunk_old_side_sequences\<close>: here any line starting \<open>@@\<close> opens a hunk, parsed or not.\<close>

fun take_hunk :: "string list \<Rightarrow> string list \<times> string list" where
  "take_hunk [] = ([], [])"
| "take_hunk (line # lines) =
     (if starts_with line ''@@'' then ([], line # lines)
      else let (seq, rest) = take_hunk lines
           in (if old_side line then tl line # seq else seq, rest))"

lemma take_hunk_rest: "take_hunk lines = (seq, rest) \<Longrightarrow> length rest \<le> length lines"
  by (induction lines arbitrary: seq) (auto simp: Let_def split: prod.splits if_splits)

function sequences_from :: "string list \<Rightarrow> string list list" where
  "sequences_from [] = []"
| "sequences_from (line # lines) =
     (if \<not> starts_with line ''@@'' then sequences_from lines
      else let (seq, rest) = take_hunk lines
           in if seq \<noteq> [] then seq # sequences_from rest else sequences_from rest)"
  by pat_completeness auto

termination
  by (relation "measure length") (auto simp: less_Suc_eq_le dest: take_hunk_rest [OF sym])

definition hunk_old_side_sequences :: "string \<Rightarrow> string list list" where
  "hunk_old_side_sequences diff = sequences_from (splitlines diff)"

definition sequence_appears :: "string list \<Rightarrow> string list \<Rightarrow> bool" where
  "sequence_appears seq real_lines \<longleftrightarrow>
     seq = [] \<or> list_ex (\<lambda>start. take (length seq) (drop start real_lines) = seq)
                  [0 ..< Suc (length real_lines) - length seq]"

definition check_content_fidelity :: "string \<Rightarrow> string \<Rightarrow> bool \<Rightarrow> string option" where
  "check_content_fidelity diff current_content position_trustworthy =
     (if position_trustworthy then
        (case find_context_mismatch diff current_content of
           None \<Rightarrow> None
         | Some m \<Rightarrow> (case m of (line_no, marker, expected, actual) \<Rightarrow>
             Some (mismatch_text m @ '' -- but the file's real current line '' @ nat_digits line_no @
               '' is: '' @ repr_str actual @ ''. '' @
               ''You were just shown this exact region, numbered, moments ago '' @
               ''-- this diff's content does not match what you saw. Re-read '' @
               ''this exact region fresh (with_line_numbers=true) and '' @
               ''transcribe it exactly into your diff, rather than from '' @
               ''memory or an earlier attempt.'')))
      else
        (case find (\<lambda>seq. \<not> sequence_appears seq (splitlines current_content))
                (hunk_old_side_sequences diff) of
           None \<Rightarrow> None
         | Some seq \<Rightarrow>
             let detail = (case find_context_mismatch diff current_content of
                   None \<Rightarrow> []
                 | Some m \<Rightarrow> (case m of (line_no, marker, expected, actual) \<Rightarrow>
                     mismatch_text m @ '' -- but the file's real current line '' @ nat_digits line_no @
                     '' is: '' @ repr_str actual @ ''. ''))
             in Some (detail @ ''A hunk's context/removed lines (starting '' @
                  repr_str (case seq of [] \<Rightarrow> [] | l # _ \<Rightarrow> l) @
                  '') do not appear as a contiguous, exact block '' @
                  ''ANYWHERE in the file's real current content -- regardless '' @
                  ''of position. This diff's content is fabricated or '' @
                  ''garbled, not just mis-positioned. Re-read the region '' @
                  ''you're actually targeting (with_line_numbers=true) and '' @
                  ''construct a new diff that transcribes its real content '' @
                  ''exactly.'')))"

fun format_walk :: "nat \<Rightarrow> bool \<Rightarrow> string list \<Rightarrow> string option" where
  "format_walk lineno in_hunk [] = None"
| "format_walk lineno in_hunk (line # lines) =
     (if starts_with line ''@@'' then format_walk (lineno + 1) True lines
      else if list_ex (starts_with line) [''diff --git'', ''index '', ''--- '', ''+++ '']
      then format_walk (lineno + 1) False lines
      else if \<not> in_hunk then format_walk (lineno + 1) False lines
      else if line = [] then
        Some (''line '' @ nat_digits lineno @ '' of the diff is empty inside a hunk body -- '' @
              ''a blank context line must be a single space (' '), never '' @
              ''zero characters. Malformed diff, rejected before ever '' @
              ''reaching git apply.'')
      else if hd line \<notin> {CHR 0x20, CHR 0x2D, CHR 0x2B, CHR 0x5C} then
        Some (''line '' @ nat_digits lineno @ '' of the diff ('' @ repr_str line @
              '') does not start with a valid unified-diff marker (' ' for context, '-' for '' @
              ''removed, '+' for added). Malformed diff, rejected before '' @
              ''ever reaching git apply.'')
      else format_walk (lineno + 1) True lines)"

definition find_diff_format_defect :: "string \<Rightarrow> string option" where
  "find_diff_format_defect diff = format_walk 1 False (splitlines diff)"

text \<open>
  \<open>_diff_target_range\<close>: \<open>pos\<close> is the open hunk's start and next old-file line; a hunk counts when
  it ends, with at least its anchor line.
\<close>

definition widen :: "(nat \<times> nat) option \<Rightarrow> nat \<Rightarrow> nat \<Rightarrow> (nat \<times> nat) option" where
  "widen touched start next_line =
     (let stop = max (next_line - 1) start
      in case touched of None \<Rightarrow> Some (start, stop) | Some (lo, hi) \<Rightarrow> Some (min lo start, max hi stop))"

fun range_walk :: "(nat \<times> nat) option \<Rightarrow> (nat \<times> nat) option \<Rightarrow> string list \<Rightarrow> (nat \<times> nat) option" where
  "range_walk touched None [] = touched"
| "range_walk touched (Some (start, n)) [] = widen touched start n"
| "range_walk touched None (line # lines) =
     range_walk touched (case hunk_start line of None \<Rightarrow> None | Some s \<Rightarrow> Some (s, s)) lines"
| "range_walk touched (Some (start, n)) (line # lines) =
     (if starts_with line ''@@ ''
      then range_walk (widen touched start n) (case hunk_start line of None \<Rightarrow> None | Some s \<Rightarrow> Some (s, s)) lines
      else range_walk touched (Some (start, if old_side line then n + 1 else n)) lines)"

definition diff_target_range :: "string \<Rightarrow> (nat \<times> nat) option" where
  "diff_target_range diff = range_walk None None (splitlines diff)"

section \<open>Hunks\<close>

text \<open>
  What a diff claims of the old file: for each parsed hunk its starting line and the old-side
  lines, in order.
\<close>

definition open_hunk :: "string \<Rightarrow> (nat \<times> string list) option" where
  "open_hunk line = map_option (\<lambda>n. (n, [])) (hunk_start line)"

fun hunks_from :: "(nat \<times> string list) option \<Rightarrow> string list \<Rightarrow> (nat \<times> string list) list" where
  "hunks_from None [] = []"
| "hunks_from (Some h) [] = [h]"
| "hunks_from None (line # lines) = hunks_from (open_hunk line) lines"
| "hunks_from (Some (start, olds)) (line # lines) =
     (if starts_with line ''@@ '' then (start, olds) # hunks_from (open_hunk line) lines
      else hunks_from (Some (start, if old_side line then olds @ [tl line] else olds)) lines)"

definition hunks_of :: "string \<Rightarrow> (nat \<times> string list) list" where
  "hunks_of diff = hunks_from None (splitlines diff)"

text \<open>The old side of a hunk agrees with the file where the file has a line.\<close>

definition fits :: "string list \<Rightarrow> nat \<times> string list \<Rightarrow> bool" where
  "fits real_lines h = (case h of (start, olds) \<Rightarrow>
     list_all (\<lambda>(n, text). real_line real_lines n = None \<or> real_line real_lines n = Some text)
       (zip [start ..< start + length olds] olds))"

lemma fits_snoc:
  "fits real_lines (start, olds @ [l]) \<longleftrightarrow> fits real_lines (start, olds)
     \<and> (real_line real_lines (start + length olds) = None \<or> real_line real_lines (start + length olds) = Some l)"
  by (simp add: fits_def)

lemma fits_Nil [simp]: "fits real_lines (start, [])"
  by (simp add: fits_def)

fun position :: "(nat \<times> string list) option \<Rightarrow> nat option" where
  "position None = None"
| "position (Some (start, olds)) = Some (start + length olds)"

lemma position_open [simp]: "position (open_hunk line) = hunk_start line"
  by (cases "hunk_start line") (simp_all add: open_hunk_def)

fun fits_open :: "string list \<Rightarrow> (nat \<times> string list) option \<Rightarrow> bool" where
  "fits_open real_lines None = True"
| "fits_open real_lines (Some h) = fits real_lines h"

lemma fits_open_hunk [simp]: "fits_open real_lines (open_hunk line)"
  by (cases "hunk_start line") (simp_all add: open_hunk_def)

lemma mismatch_walk_None:
  "list_all (fits real_lines) (hunks_from h lines) \<longleftrightarrow>
     fits_open real_lines h \<and> mismatch_walk real_lines (position h) lines = None"
proof (induction h lines rule: hunks_from.induct)
  case (4 start olds line lines)
  then show ?case
    by (cases "real_line real_lines (start + length olds)") (auto simp: fits_snoc)
qed auto

lemma range_walk_hunks:
  "range_walk touched (map_option (\<lambda>(start, olds). (start, start + length olds)) h) lines
     = foldl (\<lambda>t (start, olds). widen t start (start + length olds)) touched (hunks_from h lines)"
proof (induction h lines arbitrary: touched rule: hunks_from.induct)
  case (3 line lines)
  then show ?case by (cases "hunk_start line") (simp_all add: open_hunk_def)
next
  case (4 start olds line lines)
  then show ?case by (cases "hunk_start line") (auto simp: open_hunk_def)
qed auto

definition hunk_stop :: "nat \<times> string list \<Rightarrow> nat" where
  "hunk_stop h = (case h of (start, olds) \<Rightarrow> max (start + length olds - 1) start)"

lemma widen_hull:
  "foldl (\<lambda>t (start, olds). widen t start (start + length olds)) (Some (lo, hi)) hs
     = Some (Min (insert lo (fst ` set hs)), Max (insert hi (hunk_stop ` set hs)))"
proof (induction hs arbitrary: lo hi)
  case (Cons h hs)
  obtain start olds where h: "h = (start, olds)" by (cases h)
  have "Min (insert (min lo start) (fst ` set hs)) = Min (insert lo (insert start (fst ` set hs)))"
    by (cases "hs = []") (simp_all add: min.assoc)
  moreover have "Max (insert (max hi (hunk_stop h)) (hunk_stop ` set hs)) = Max (insert hi (insert (hunk_stop h) (hunk_stop ` set hs)))"
    by (cases "hs = []") (simp_all add: max.assoc)
  ultimately show ?case using Cons by (simp add: h widen_def hunk_stop_def Let_def)
qed simp

lemma sequence_appears_sublist: "sequence_appears seq real_lines \<longleftrightarrow> sublist seq real_lines"
proof
  assume "sequence_appears seq real_lines"
  then obtain start where "seq = [] \<or> take (length seq) (drop start real_lines) = seq"
    by (auto simp: sequence_appears_def list_ex_iff)
  then show "sublist seq real_lines"
    by (metis append_take_drop_id sublist_Nil_left sublist_def)
next
  assume "sublist seq real_lines"
  then obtain ps ss where "real_lines = ps @ seq @ ss" by (auto simp: sublist_def)
  then show "sequence_appears seq real_lines"
    by (auto simp: sequence_appears_def list_ex_iff intro!: bexI [where x = "length ps"])
qed

section \<open>Header lines\<close>

lemma splitlines_keep_line:
  "\<forall>c \<in> set l. \<not> line_break c \<Longrightarrow> splitlines_keep (l @ CHR 0x0A # s) = (l @ [CHR 0x0A]) # splitlines_keep s"
proof (induction l)
  case Nil
  then show ?case by (simp add: line_break_def)
qed simp

lemma concat_splitlines_keep [simp]: "concat (splitlines_keep s) = s"
proof (induction s rule: splitlines_keep.induct)
  case (2 c cs)
  show ?case
  proof (cases "line_break c")
    case True
    then show ?thesis using 2 by (cases cs) auto
  next
    case False
    then show ?thesis using 2 by (cases "splitlines_keep cs") auto
  qed
qed simp

text \<open>Once both header lines have been replaced the rest is copied.\<close>

lemma replaced_copies:
  "foldl (\<lambda>(out, replaced_old, replaced_new) line.
      if \<not> replaced_old \<and> starts_with line ''--- '' then (out @ [old], True, replaced_new)
      else if \<not> replaced_new \<and> starts_with line ''+++ '' then (out @ [new], replaced_old, True)
      else (out @ [line], replaced_old, replaced_new)) (out, True, True) lines = (out @ lines, True, True)"
  by (induction lines arbitrary: out) auto

section \<open>Properties\<close>

text \<open>
  C17: The content gate decides exactly what it promises.  After a numbered read a diff passes
  if and only if every context or removed line agrees with the file at the line number its
  hunk claims (lines past the end are left to git); after an unnumbered one if and only if
  each hunk's old side occurs somewhere in the file as a contiguous block, whatever position
  the header gives.
\<close>

theorem content_gate_exact:
  "(check_content_fidelity diff content True = None \<longleftrightarrow>
      list_all (fits (splitlines content)) (hunks_of diff))
   \<and> (check_content_fidelity diff content False = None \<longleftrightarrow>
      list_all (\<lambda>seq. sublist seq (splitlines content)) (hunk_old_side_sequences diff))"
proof
  have "find_context_mismatch diff content = None \<longleftrightarrow> list_all (fits (splitlines content)) (hunks_of diff)"
    using mismatch_walk_None [of "splitlines content" None "splitlines diff"]
    by (simp add: find_context_mismatch_def hunks_of_def)
  then show "check_content_fidelity diff content True = None \<longleftrightarrow>
      list_all (fits (splitlines content)) (hunks_of diff)"
    by (auto simp: check_content_fidelity_def split: option.splits)
  show "check_content_fidelity diff content False = None \<longleftrightarrow>
      list_all (\<lambda>seq. sublist seq (splitlines content)) (hunk_old_side_sequences diff)"
    using find_None_iff [of "\<lambda>seq. \<not> sublist seq (splitlines content)" "hunk_old_side_sequences diff"]
    by (auto simp: check_content_fidelity_def sequence_appears_sublist list_all_iff Let_def split: option.splits)
qed

text \<open>
  The freshness gate and the content gate look at the same lines: the range a diff is said
  to touch is the hull of its hunks, with a pure insertion counted at its anchor, and there is
  none exactly when no hunk header parses.
\<close>

theorem target_range_is_hull:
  "diff_target_range diff =
     (if hunks_of diff = [] then None
      else Some (Min (fst ` set (hunks_of diff)), Max (hunk_stop ` set (hunks_of diff))))"
proof (cases "hunks_of diff")
  case Nil
  then show ?thesis using range_walk_hunks [of None None] by (simp add: diff_target_range_def hunks_of_def)
next
  case (Cons h hs)
  then show ?thesis using range_walk_hunks [of None None] widen_hull [of "fst h" "hunk_stop h" hs]
    by (cases h) (simp add: diff_target_range_def hunks_of_def widen_def hunk_stop_def Let_def)
qed


text \<open>
  Only the header lines are rewritten.  For a diff that opens with its two header lines,
  whatever paths they name, the normalised diff has the requested path in both and every byte
  after them unchanged.
\<close>

theorem headers_only_rewritten:
  assumes "\<forall>c \<in> set from_path \<union> set to_path. \<not> line_break c"
    and "body = [] \<or> last body = CHR 0x0A"
  shows "normalize_diff_headers (''--- '' @ from_path @ CHR 0x0A # ''+++ '' @ to_path @ CHR 0x0A # body) path
    = ''--- a/'' @ path @ CHR 0x0A # ''+++ b/'' @ path @ CHR 0x0A # body"
proof -
  let ?old = "''--- '' @ from_path" and ?new = "''+++ '' @ to_path"
  let ?diff = "?old @ CHR 0x0A # ?new @ CHR 0x0A # body"
  have keep: "splitlines_keep ?diff = (?old @ [CHR 0x0A]) # (?new @ [CHR 0x0A]) # splitlines_keep body"
    using splitlines_keep_line [of ?old "?new @ CHR 0x0A # body"] splitlines_keep_line [of ?new body] assms(1)
    by (simp add: line_break_def ball_Un)
  have nl: "suffix [CHR 0x0A] ?diff"
    using assms(2) by (cases body rule: rev_cases) (auto simp: suffix_def)
  show ?thesis
    using nl by (simp add: normalize_diff_headers_def Let_def keep [simplified] replaced_copies)
qed

theorem headers_only_rewritten_witness:
  "normalize_diff_headers (''--- '' @ ''x.py'' @ CHR 0x0A # ''+++ '' @ ''y.py'' @ CHR 0x0A # ''@@ -1 +1 @@'' @ [CHR 0x0A]) ''calc.py''
    = ''--- a/'' @ ''calc.py'' @ CHR 0x0A # ''+++ b/'' @ ''calc.py'' @ CHR 0x0A # ''@@ -1 +1 @@'' @ [CHR 0x0A]"
  by (rule headers_only_rewritten) (simp_all add: line_break_def)

text \<open>
  Without header lines of its own a diff can lose hunk lines: a removed line \<open>-- x\<close> and an added
  line \<open>++ y\<close> look like headers and are replaced by the path, although the code means to leave
  hunk bodies alone.
\<close>

lemma hunk_lines_taken_for_headers:
  "normalize_diff_headers (concat (map (\<lambda>l. l @ [CHR 0x0A]) [''@@ -1 +1 @@'', ''--- x'', ''+++ y''])) ''q.sql''
    = concat (map (\<lambda>l. l @ [CHR 0x0A]) [''@@ -1 +1 @@'', ''--- a/q.sql'', ''+++ b/q.sql''])"
  by code_simp

end
