(* ===== verification/GitRepo.thy ===== *)
theory GitRepo
  imports AmopPrelude
begin

text \<open>
  \<open>amop/sandbox/repo.py\<close>: git in the task's container.  Running a command line in the sandbox is
  a function of the container's state \<open>'x\<close>; every operation is the sequence of command lines the
  code runs, with the exit code and output deciding what comes next.  The host-side copy and push (\<open>shutil\<close>, \<open>subprocess\<close>) are not modelled.
\<close>

record exec_result =
  ex_exit_code :: int
  ex_stdout :: string
  ex_stderr :: string
  ex_timed_out :: bool

text \<open>The container client can itself raise; the code tells that apart from a failed command.\<close>

datatype git_exn = GitError string | ExecFailed string

type_synonym 'x exec = "string \<Rightarrow> 'x \<Rightarrow> (git_exn, exec_result) result \<times> 'x"
type_synonym ('x, 'a) git = "'x \<Rightarrow> (git_exn, 'a) result \<times> 'x"

fun git_exn_text :: "git_exn \<Rightarrow> string" where
  "git_exn_text (GitError t) = t"
| "git_exn_text (ExecFailed t) = t"

definition git_return :: "'a \<Rightarrow> ('x, 'a) git" where "git_return a = (\<lambda>x. (Inr a, x))"

definition git_bind :: "('x, 'a) git \<Rightarrow> ('a \<Rightarrow> ('x, 'b) git) \<Rightarrow> ('x, 'b) git" where
  "git_bind m k = (\<lambda>x. case m x of (Inl e, y) \<Rightarrow> (Inl e, y) | (Inr a, y) \<Rightarrow> k a y)"

section \<open>Constants\<close>

definition BOT_NAME :: string where "BOT_NAME = ''amop-bot''"
definition BOT_EMAIL :: string where "BOT_EMAIL = ''amop-bot@localhost''"
definition EMPTY_HOOKS_DIR :: string where "EMPTY_HOOKS_DIR = ''/tmp/amop-no-hooks''"
definition WIP_MARKER :: string where "WIP_MARKER = ''[AMOP][wip]''"
definition WORKSPACE :: string where "WORKSPACE = ''/workspace''"
definition GIT_BASE_BRANCH :: string where "GIT_BASE_BRANCH = ''main''"

section \<open>Quoting\<close>

definition shell_quote :: "string \<Rightarrow> string" where
  "shell_quote value =
     [CHR 0x27] @ concat (map (\<lambda>c. if c = CHR 0x27 then [CHR 0x27, CHR 0x5C, CHR 0x27, CHR 0x27] else [c]) value)
     @ [CHR 0x27]"

section \<open>Commands\<close>

definition run_git :: "'x exec \<Rightarrow> string \<Rightarrow> ('x, string) git" where
  "run_git exec args =
     git_bind (exec (''cd '' @ WORKSPACE @ '' && git '' @ args)) (\<lambda>r.
       if ex_exit_code r \<noteq> 0
       then (\<lambda>x. (Inl (GitError (''git '' @ args @ '' failed (exit '' @ int_str (ex_exit_code r) @ ''): '' @
               (if py_strip (ex_stderr r) \<noteq> [] then py_strip (ex_stderr r) else py_strip (ex_stdout r)))), x))
       else git_return (ex_stdout r))"

definition current_sha :: "'x exec \<Rightarrow> ('x, string) git" where
  "current_sha exec = git_bind (run_git exec ''rev-parse HEAD'') (\<lambda>out. git_return (py_strip out))"

definition current_branch :: "'x exec \<Rightarrow> ('x, string) git" where
  "current_branch exec =
     git_bind (run_git exec ''rev-parse --abbrev-ref HEAD'') (\<lambda>out. git_return (py_strip out))"

definition has_changes :: "'x exec \<Rightarrow> ('x, bool) git" where
  "has_changes exec = git_bind (run_git exec ''status --porcelain'') (\<lambda>out. git_return (py_strip out \<noteq> []))"

definition init_baseline :: "'x exec \<Rightarrow> ('x, string) git" where
  "init_baseline exec =
     git_bind (exec (''cd '' @ WORKSPACE @ '' && git rev-parse --is-inside-work-tree'')) (\<lambda>r.
     git_bind (run_git exec (if ex_exit_code r = 0 then ''checkout '' @ GIT_BASE_BRANCH
                             else ''init -b '' @ GIT_BASE_BRANCH)) (\<lambda>_.
     git_bind (exec (''mkdir -p '' @ EMPTY_HOOKS_DIR)) (\<lambda>_.
     git_bind (run_git exec (''config core.hooksPath '' @ EMPTY_HOOKS_DIR)) (\<lambda>_.
     git_bind (has_changes exec) (\<lambda>dirty.
     git_bind (if dirty
               then git_bind (run_git exec ''add -A'') (\<lambda>_.
                    run_git exec (''commit --no-verify -m '' @ shell_quote ''baseline: fixture repo as seeded''))
               else git_return [])
       (\<lambda>_. current_sha exec))))))"

definition create_branch :: "'x exec \<Rightarrow> string \<Rightarrow> ('x, unit) git" where
  "create_branch exec branch = git_bind (run_git exec (''checkout -b '' @ branch)) (\<lambda>_. git_return ())"

definition bot_identity :: string where
  "bot_identity = ''-c user.name='' @ BOT_NAME @ '' -c user.email='' @ BOT_EMAIL @ '' ''"

definition commit_all :: "'x exec \<Rightarrow> string \<Rightarrow> ('x, string option) git" where
  "commit_all exec message =
     git_bind (has_changes exec) (\<lambda>dirty.
       if \<not> dirty then git_return None
       else git_bind (run_git exec ''add -A'') (\<lambda>_.
            git_bind (run_git exec (''commit --no-verify -m '' @ shell_quote message)) (\<lambda>_.
            git_bind (current_sha exec) (\<lambda>sha. git_return (Some sha)))))"

definition micro_commit :: "'x exec \<Rightarrow> string \<Rightarrow> string \<Rightarrow> string \<Rightarrow> ('x, string option) git" where
  "micro_commit exec task_id tool_name path =
     git_bind (has_changes exec) (\<lambda>dirty.
       if \<not> dirty then git_return None
       else git_bind (run_git exec ''add -A'') (\<lambda>_.
            git_bind (run_git exec (bot_identity @ ''commit --no-verify -m '' @
              shell_quote (WIP_MARKER @ ''['' @ task_id @ ''] '' @ tool_name @ '': '' @ path))) (\<lambda>_.
            git_bind (current_sha exec) (\<lambda>sha. git_return (Some sha)))))"

definition squash_wip_commits :: "'x exec \<Rightarrow> string \<Rightarrow> ('x, string option) git" where
  "squash_wip_commits exec message =
     git_bind (run_git exec (''merge-base '' @ GIT_BASE_BRANCH @ '' HEAD'')) (\<lambda>out.
     git_bind (current_sha exec) (\<lambda>sha.
       if sha = py_strip out then git_return None
       else git_bind (run_git exec (''reset --soft '' @ py_strip out)) (\<lambda>_.
            git_bind (run_git exec (bot_identity @ ''commit --no-verify -m '' @ shell_quote message)) (\<lambda>_.
            git_bind (current_sha exec) (\<lambda>new_sha. git_return (Some new_sha))))))"

definition has_wip_commits :: "'x exec \<Rightarrow> string \<Rightarrow> ('x, bool) git" where
  "has_wip_commits exec base =
     git_bind (run_git exec (''log '' @ base @ ''..HEAD --format=%s'')) (\<lambda>log.
       git_return (list_ex (\<lambda>line. contains line WIP_MARKER) (splitlines log)))"

definition diff_against_baseline :: "'x exec \<Rightarrow> string \<Rightarrow> ('x, string) git" where
  "diff_against_baseline exec base =
     git_bind (run_git exec (''diff '' @ base @ '' HEAD'')) (\<lambda>committed.
     git_bind (run_git exec ''diff HEAD'') (\<lambda>uncommitted. git_return (committed @ uncommitted)))"

definition changed_files :: "'x exec \<Rightarrow> string \<Rightarrow> ('x, string list) git" where
  "changed_files exec base =
     git_bind (run_git exec (''diff --name-only '' @ base @ '' HEAD'')) (\<lambda>committed.
     git_bind (run_git exec ''diff --name-only HEAD'') (\<lambda>uncommitted.
     git_bind (run_git exec ''ls-files --others --exclude-standard'') (\<lambda>untracked.
       git_return (sort (remdups (filter (\<lambda>n. n \<noteq> [])
         (map py_strip (splitlines (committed @ uncommitted @ untracked)))))))))"

definition revert_to_baseline :: "'x exec \<Rightarrow> string \<Rightarrow> ('x, unit) git" where
  "revert_to_baseline exec base =
     git_bind (run_git exec (''reset --hard '' @ base)) (\<lambda>_.
     git_bind (run_git exec ''clean -fd'') (\<lambda>_. git_return ()))"

definition stash_if_dirty :: "'x exec \<Rightarrow> ('x, bool) git" where
  "stash_if_dirty exec =
     git_bind (has_changes exec) (\<lambda>dirty.
       if \<not> dirty then git_return False
       else git_bind (run_git exec ''stash push --include-untracked'') (\<lambda>_. git_return True))"

definition checkout :: "'x exec \<Rightarrow> string \<Rightarrow> ('x, unit) git" where
  "checkout exec ref = git_bind (run_git exec (''checkout '' @ ref)) (\<lambda>_. git_return ())"

definition pop_stash :: "'x exec \<Rightarrow> ('x, unit) git" where
  "pop_stash exec = git_bind (run_git exec ''stash pop'') (\<lambda>_. git_return ())"

section \<open>Questions asked on resume\<close>

definition git_fsck :: "'x exec \<Rightarrow> ('x, bool) git" where
  "git_fsck exec =
     git_bind (exec (''cd '' @ WORKSPACE @ '' && git fsck --no-dangling'')) (\<lambda>r. git_return (ex_exit_code r = 0))"

definition KNOWN_AMOP_IDENTITIES :: "string list" where
  "KNOWN_AMOP_IDENTITIES = [BOT_EMAIL, ''agent@amop.local'']"

definition commit_exists :: "'x exec \<Rightarrow> string \<Rightarrow> ('x, bool) git" where
  "commit_exists exec sha =
     git_bind (exec (''cd '' @ WORKSPACE @ '' && git cat-file -e '' @ sha @ ''^{commit}''))
       (\<lambda>r. git_return (ex_exit_code r = 0))"

definition is_ancestor :: "'x exec \<Rightarrow> string \<Rightarrow> string \<Rightarrow> ('x, bool) git" where
  "is_ancestor exec maybe_ancestor descendant =
     git_bind (exec (''cd '' @ WORKSPACE @ '' && git merge-base --is-ancestor '' @ maybe_ancestor @ '' '' @ descendant))
       (\<lambda>r. git_return (ex_exit_code r = 0))"

definition branch_advanced_by_amop_only :: "'x exec \<Rightarrow> string \<Rightarrow> ('x, bool) git" where
  "branch_advanced_by_amop_only exec since_sha =
     git_bind (run_git exec (''log '' @ since_sha @ ''..HEAD --format=%ae'')) (\<lambda>log.
       git_return (list_all (\<lambda>a. a \<in> set KNOWN_AMOP_IDENTITIES)
         (filter (\<lambda>l. l \<noteq> []) (map py_strip (splitlines log)))))"

section \<open>A shell's view of a quoted word\<close>

text \<open>
  How a POSIX shell reads the next word of a command line: text between apostrophes stands for
  itself, a backslash takes the next character literally, a blank or an operator character ends
  the word.  \<open>None\<close> is an unfinished quote, or a double quote, back-quote or dollar sign, whose
  meaning this reader does not follow.
\<close>

definition ends_word :: "char \<Rightarrow> bool" where
  "ends_word c = (c \<in> set '' ;&|<>()'' \<or> c = CHR 0x0A \<or> c = CHR 0x09)"

fun shell_word :: "bool \<Rightarrow> string \<Rightarrow> string \<Rightarrow> (string \<times> string) option" where
  "shell_word True acc [] = None"
| "shell_word False acc [] = Some (acc, [])"
| "shell_word True acc (c # cs) =
     (if c = CHR 0x27 then shell_word False acc cs else shell_word True (acc @ [c]) cs)"
| "shell_word False acc (c # cs) =
     (if ends_word c then Some (acc, c # cs)
      else if c = CHR 0x27 then shell_word True acc cs
      else if c = CHR 0x5C then (case cs of [] \<Rightarrow> None | d # ds \<Rightarrow> shell_word False (acc @ [d]) ds)
      else if c \<in> {CHR 0x22, CHR 0x60, CHR 0x24} then None
      else shell_word False (acc @ [c]) cs)"

lemma quoted_word:
  "shell_word True acc (concat (map (\<lambda>c. if c = CHR 0x27 then [CHR 0x27, CHR 0x5C, CHR 0x27, CHR 0x27] else [c]) v)
      @ CHR 0x27 # rest) = shell_word False (acc @ v) rest"
  by (induction v arbitrary: acc) (auto simp: ends_word_def)

text \<open>
  C22: No text can break out of its quotes.  Whatever a commit message holds (an agent's root
  cause or a path an agent chose), the shell reads \<open>_shell_quote\<close> of it as one word that is
  exactly the message.
\<close>

theorem quoted_text_is_one_word:
  "shell_word False [] (shell_quote message) = Some (message, [])"
  using quoted_word [of "[]" message "[]"] by (simp add: shell_quote_def ends_word_def)

end
