(* ===== verification/FileTools.thy ===== *)
theory FileTools
  imports ToolRegistry PatchDiff GitRepo
begin

text \<open>
  \<open>read_file\<close>, \<open>write_file\<close> and \<open>patch_file\<close> of \<open>amop/sandbox/tools.py\<close>, with the record of what
  a coder has been shown that gates its patches.  The container is a record of functions over
  its state \<open>'x\<close>: the byte count, reading, writing, and running a command line.  The diagnostics
  file written for an unexplained conflict has no effect on a result and is left out.
\<close>

section \<open>The environment of a call\<close>

datatype read_exn = FileNotFound | ReadFailed string

record 'x sandbox =
  sb_stat :: "'x \<Rightarrow> string \<Rightarrow> (read_exn, nat) result"
  sb_read :: "'x \<Rightarrow> string \<Rightarrow> (read_exn, string) result"
  sb_write :: "string \<Rightarrow> string \<Rightarrow> 'x \<Rightarrow> (string, unit) result \<times> 'x"
  sb_exec :: "'x exec"

text \<open>
  \<open>fe_uuid\<close> is the fresh name of the patch file, \<open>fe_percent\<close> how \<open>:.1%\<close> prints a quotient.
\<close>

record 'x file_env =
  fe_host :: host
  fe_scratch :: rpath
  fe_sandbox :: "'x sandbox option"
  fe_task_id :: "string option"
  fe_uuid :: string
  fe_percent :: "nat \<Rightarrow> nat \<Rightarrow> string"

text \<open>\<open>coder_read_tracking\<close> and \<open>coder_read_numbered\<close>, \<open>None\<close> outside a coder's turn.\<close>

record read_tracking =
  rt_ranges :: "(string \<rightharpoonup> int \<times> int) option"
  rt_numbered :: "(string \<rightharpoonup> bool) option"

datatype tool_exn = PathExn path_error | ContainerExn string

definition path_not_permitted :: "string \<Rightarrow> tool_result" where
  "path_not_permitted path =
     failure ''PATH_NOT_PERMITTED'' (Some (repr_str path @ '' is outside the scratch directory''))"

definition no_sandbox :: tool_result where
  "no_sandbox = failure ''SANDBOX_UNAVAILABLE'' (Some ''no sandbox session for this task'')"

definition succeed :: "string \<Rightarrow> tool_result" where
  "succeed output = \<lparr>tr_success = True, tr_output = PStr output, tr_error_code = None, tr_message = None\<rparr>"

text \<open>The common opening of the file tools: the resolved path in the container.\<close>

definition container_path :: "rpath \<Rightarrow> rpath \<Rightarrow> string" where
  "container_path target base =
     (let relative = drop (length base) target
      in if relative = [] then ''/workspace'' else ''/workspace/'' @ join_with ''/'' relative)"

definition open_target :: "'x file_env \<Rightarrow> string \<Rightarrow> (tool_exn, tool_result + 'x sandbox \<times> string) result" where
  "open_target env path =
     (case resolve_within_scratch (fe_host env) path (fe_scratch env) of
        Inl e \<Rightarrow> Inl (PathExn e)
      | Inr None \<Rightarrow> Inr (Inl (path_not_permitted path))
      | Inr (Some target) \<Rightarrow>
          (case fe_sandbox env of
             None \<Rightarrow> Inr (Inl no_sandbox)
           | Some sb \<Rightarrow>
               (case walk (fs_links (fe_host env)) (link_budget (fe_host env)) [] (fe_scratch env) of
                  Inl e \<Rightarrow> Inl (PathExn e)
                | Inr base \<Rightarrow> Inr (Inr (sb, container_path target base)))))"

section \<open>Reading\<close>

definition LARGE_FILE_NOTICE_THRESHOLD :: nat where "LARGE_FILE_NOTICE_THRESHOLD = 8000"
definition SCOPED_READ_THRESHOLD :: nat where "SCOPED_READ_THRESHOLD = 24000"
definition SCOPED_READ_DEFAULT_LINES :: nat where "SCOPED_READ_DEFAULT_LINES = 60"
definition UNBOUNDED_END :: int where "UNBOUNDED_END = 1000000000"

definition large_file_notice :: "string \<Rightarrow> nat \<Rightarrow> string" where
  "large_file_notice content total_lines =
     ''[NOTE: this file is '' @ nat_digits (length content) @ '' chars / '' @ nat_digits total_lines @
     '' lines -- likely too large to fully fit in your context window at once. '' @
     ''If you don't find what you're looking for in what follows, '' @
     ''re-call read_file with start_line/end_line to read a specific '' @
     ''slice instead of assuming it isn't in the file.]'' @ [CHR 0x0A, CHR 0x0A]"

definition scoped_default_notice :: "nat \<Rightarrow> nat \<Rightarrow> nat \<Rightarrow> string" where
  "scoped_default_notice size_bytes total_lines shown_lines =
     ''[NOTE: this file is '' @ nat_digits size_bytes @ '' bytes / '' @ nat_digits total_lines @
     '' lines -- too large to read in full, so only the first '' @ nat_digits shown_lines @
     '' lines are shown below (line numbers included). This is not the whole '' @
     ''file. To see a different part: call read_file again with '' @
     ''start_line/end_line (add with_line_numbers=true if you're about '' @
     ''to construct a patch_file diff and need to know exact line '' @
     ''numbers) -- or use search_code first to find which lines are '' @
     ''actually relevant before reading them.]'' @ [CHR 0x0A, CHR 0x0A]"

definition narrowed_notice :: "int \<Rightarrow> int \<Rightarrow> nat \<Rightarrow> nat \<Rightarrow> string" where
  "narrowed_notice lo hi approx_size capped =
     ''[NOTE: the requested range (lines '' @ int_str lo @ ''-'' @ int_str hi @ '', ~'' @
     nat_digits approx_size @ '' chars) is too large to return in full -- narrowed to lines '' @
     int_str lo @ ''-'' @ int_str (lo + int capped - 1) @ '' ('' @ nat_digits capped @
     '' lines) instead. Request a '' @
     ''smaller start_line/end_line span to see a different part.]'' @ [CHR 0x0A, CHR 0x0A]"

text \<open>Lines as shown: \<open>N: \<close> in front of each when numbers were asked for.\<close>

fun numbered_lines :: "int \<Rightarrow> string list \<Rightarrow> string" where
  "numbered_lines n [] = []"
| "numbered_lines n (line # lines) = int_str n @ '': '' @ line @ numbered_lines (n + 1) lines"

definition show_lines :: "bool \<Rightarrow> int \<Rightarrow> string list \<Rightarrow> string" where
  "show_lines with_numbers lo lines = (if with_numbers then numbered_lines lo lines else concat lines)"

text \<open>\<open>start_line or 1\<close>, at least 1.\<close>

definition first_line :: "int option \<Rightarrow> int" where
  "first_line start_line = max 1 (case start_line of None \<Rightarrow> 1 | Some s \<Rightarrow> if s = 0 then 1 else s)"

definition read_file_effective_range :: "int option \<Rightarrow> int option \<Rightarrow> tool_result \<Rightarrow> (int \<times> int) option" where
  "read_file_effective_range start_line end_line r =
     (case tr_output r of
        PStr out \<Rightarrow>
          if \<not> tr_success r then None
          else
            let truncated = starts_with out ''[NOTE:'' in
            if start_line = None \<and> end_line = None
            then Some (1, if truncated then int SCOPED_READ_DEFAULT_LINES else UNBOUNDED_END)
            else
              let lo = first_line start_line in
              Some (lo, if truncated then lo + int SCOPED_READ_DEFAULT_LINES - 1
                        else case end_line of None \<Rightarrow> UNBOUNDED_END | Some e \<Rightarrow> e)
      | _ \<Rightarrow> None)"

definition track_read ::
    "string \<Rightarrow> int option \<Rightarrow> int option \<Rightarrow> bool \<Rightarrow> tool_result \<Rightarrow> read_tracking \<Rightarrow> read_tracking" where
  "track_read path start_line end_line numbered r trk =
     (case rt_ranges trk of
        None \<Rightarrow> trk
      | Some ranges \<Rightarrow>
          (case read_file_effective_range start_line end_line r of
             None \<Rightarrow> trk
           | Some rng \<Rightarrow>
               trk\<lparr>rt_ranges := Some (ranges(path \<mapsto> rng)),
                   rt_numbered := map_option (\<lambda>m. m(path \<mapsto> numbered)) (rt_numbered trk)\<rparr>))"

text \<open>What is returned for the content once it has been read, and whether it shows numbers.\<close>

definition read_scoped :: "string \<Rightarrow> int option \<Rightarrow> int option \<Rightarrow> bool \<Rightarrow> tool_result" where
  "read_scoped content start_line end_line with_numbers =
     (let lines = splitlines_keep content;
          total = int (length lines);
          lo = first_line start_line;
          hi = min total (case end_line of None \<Rightarrow> total | Some e \<Rightarrow> e)
      in if lo > total \<or> lo > hi then
           failure ''INVALID_ARGS''
             (Some (''start_line/end_line out of range for a '' @ int_str total @ ''-line file''))
         else
           let selected = drop (nat (lo - 1)) (take (nat hi) lines);
               approx_size = sum_list (map length selected) +
                 (if with_numbers
                  then sum_list (map (\<lambda>i. length (int_str (lo + int i) @ '': '')) [0 ..< length selected])
                  else 0)
           in if approx_size > SCOPED_READ_THRESHOLD then
                let capped = take SCOPED_READ_DEFAULT_LINES selected
                in succeed (narrowed_notice lo hi approx_size (length capped) @ show_lines with_numbers lo capped)
              else succeed (show_lines with_numbers lo selected))"

definition read_whole :: "string \<Rightarrow> bool \<Rightarrow> tool_result" where
  "read_whole content with_numbers =
     (let total_lines = length (filter (\<lambda>c. c = CHR 0x0A) content) + 1;
          body = (if with_numbers then numbered_lines 1 (splitlines_keep content) else content)
      in succeed (if length body > LARGE_FILE_NOTICE_THRESHOLD
                  then large_file_notice body total_lines @ body else body))"

definition read_oversized :: "nat \<Rightarrow> string \<Rightarrow> tool_result" where
  "read_oversized size_bytes content =
     (let lines = splitlines_keep content;
          shown = take SCOPED_READ_DEFAULT_LINES lines
      in succeed (scoped_default_notice size_bytes (length lines) (length shown) @ numbered_lines 1 shown))"

definition read_error :: "string \<Rightarrow> read_exn \<Rightarrow> tool_result" where
  "read_error path e =
     (case e of FileNotFound \<Rightarrow> failure ''NOT_FOUND'' (Some (''No such file: '' @ path))
              | ReadFailed t \<Rightarrow> failure ''READ_ERROR'' (Some t))"

definition read_file ::
    "'x file_env \<Rightarrow> string \<Rightarrow> int option \<Rightarrow> int option \<Rightarrow> bool \<Rightarrow> 'x \<Rightarrow> read_tracking
     \<Rightarrow> (tool_exn, tool_result) result \<times> read_tracking" where
  "read_file env path start_line end_line with_numbers x trk =
     (case open_target env path of
        Inl e \<Rightarrow> (Inl e, trk)
      | Inr (Inl refusal) \<Rightarrow> (Inr refusal, trk)
      | Inr (Inr (sb, cpath)) \<Rightarrow>
          let whole = (start_line = None \<and> end_line = None);
              stat = (if whole then sb_stat sb x cpath else Inr 0)
          in (case stat of
                Inl e \<Rightarrow> (Inr (read_error path e), trk)
              | Inr n \<Rightarrow>
                  (case sb_read sb x cpath of
                     Inl e \<Rightarrow> (Inr (read_error path e), trk)
                   | Inr content \<Rightarrow>
                       if n > SCOPED_READ_THRESHOLD then
                         let r = read_oversized n content
                         in (Inr r, track_read path start_line end_line True r trk)
                       else
                         let r = (if whole then read_whole content with_numbers
                                  else read_scoped content start_line end_line with_numbers)
                         in (Inr r, track_read path start_line end_line with_numbers r trk))))"

section \<open>Writing\<close>

text \<open>\<open>len(content.encode("utf-8"))\<close> for code points below 256.\<close>

definition utf8_length :: "string \<Rightarrow> nat" where
  "utf8_length s = sum_list (map (\<lambda>c. if (of_char c :: nat) < 128 then 1 else 2) s)"

definition micro_commit_after_edit ::
    "'x file_env \<Rightarrow> 'x sandbox \<Rightarrow> string \<Rightarrow> string \<Rightarrow> string \<Rightarrow> 'x \<Rightarrow> (tool_exn, string) result \<times> 'x" where
  "micro_commit_after_edit env sb tool_name path success_output x =
     (case fe_task_id env of
        None \<Rightarrow> (Inr success_output, x)
      | Some tid \<Rightarrow>
          (case micro_commit (sb_exec sb) tid tool_name path x of
             (Inl (GitError t), y) \<Rightarrow> (Inr (success_output @ '' (warning: micro-commit failed: '' @ t @ '')''), y)
           | (Inl (ExecFailed t), y) \<Rightarrow> (Inl (ContainerExn t), y)
           | (Inr _, y) \<Rightarrow> (Inr success_output, y)))"

text \<open>After an edit the tracked read of that path is stale.\<close>

definition forget_read :: "string \<Rightarrow> read_tracking \<Rightarrow> read_tracking" where
  "forget_read path trk = trk\<lparr>rt_ranges := map_option (\<lambda>m. m(path := None)) (rt_ranges trk)\<rparr>"

definition finish_edit ::
    "'x file_env \<Rightarrow> 'x sandbox \<Rightarrow> string \<Rightarrow> string \<Rightarrow> string \<Rightarrow> 'x \<Rightarrow> read_tracking
     \<Rightarrow> (tool_exn, tool_result) result \<times> 'x \<times> read_tracking" where
  "finish_edit env sb tool_name path output x trk =
     (case micro_commit_after_edit env sb tool_name path output x of
        (Inl e, y) \<Rightarrow> (Inl e, y, trk)
      | (Inr out, y) \<Rightarrow> (Inr (succeed out), y, forget_read path trk))"

text \<open>\<open>new_size < current_size * 0.20\<close>, exact below \<open>2 ^ 50\<close> bytes.\<close>

definition suspicious_shrink :: "nat \<Rightarrow> nat \<Rightarrow> bool" where
  "suspicious_shrink new_size current_size \<longleftrightarrow> 0 < current_size \<and> 5 * new_size < current_size"

definition write_file ::
    "'x file_env \<Rightarrow> string \<Rightarrow> string \<Rightarrow> 'x \<Rightarrow> read_tracking
     \<Rightarrow> (tool_exn, tool_result) result \<times> 'x \<times> read_tracking" where
  "write_file env path content x trk =
     (case open_target env path of
        Inl e \<Rightarrow> (Inl e, x, trk)
      | Inr (Inl refusal) \<Rightarrow> (Inr refusal, x, trk)
      | Inr (Inr (sb, cpath)) \<Rightarrow>
          (case sb_stat sb x cpath of
             Inl (ReadFailed t) \<Rightarrow> (Inr (failure ''WRITE_ERROR'' (Some t)), x, trk)
           | stat \<Rightarrow>
               let current_size = (case stat of Inr n \<Rightarrow> n | Inl _ \<Rightarrow> 0);
                   new_size = utf8_length content
               in if suspicious_shrink new_size current_size then
                    (Inr (failure ''SUSPICIOUS_SHRINK''
                       (Some (''refusing to overwrite '' @ repr_str path @ '': new content is '' @
                          nat_digits new_size @ '' bytes, existing file is '' @ nat_digits current_size @
                          '' bytes ('' @ fe_percent env new_size current_size @ '' of the original) -- this '' @
                          ''looks like a fragment overwriting a much larger real '' @
                          ''file, not a deliberate rewrite. Re-read the file to '' @
                          ''confirm you have the full picture, and use patch_file '' @
                          ''for a targeted change instead of retrying write_file.''))), x, trk)
                  else
                    (case sb_write sb cpath content x of
                       (Inl t, y) \<Rightarrow> (Inr (failure ''WRITE_ERROR'' (Some t)), y, trk)
                     | (Inr _, y) \<Rightarrow>
                         finish_edit env sb ''write_file'' path
                           (''wrote '' @ nat_digits (length content) @ '' bytes to '' @ path) y trk)))"


section \<open>Patching\<close>

definition read_covers_target :: "(int \<times> int) option \<Rightarrow> nat \<times> nat \<Rightarrow> bool" where
  "read_covers_target read_range target =
     (case read_range of
        None \<Rightarrow> False
      | Some (read_lo, read_hi) \<Rightarrow> read_lo \<le> int (fst target) \<and> int (snd target) \<le> read_hi)"

text \<open>
  The forced-fresh-read gate: \<open>None\<close> when the diff may go on, otherwise the refusal.  It is
  active in a coder's turn only.
\<close>

definition seen_text :: "(int \<times> int) option \<Rightarrow> string" where
  "seen_text read_range =
     (case read_range of
        None \<Rightarrow> ''no prior read_file call on this path this attempt''
      | Some (lo, hi) \<Rightarrow> ''lines '' @ int_str lo @ ''-'' @ int_str hi)"

definition numbered_read :: "read_tracking \<Rightarrow> string \<Rightarrow> bool" where
  "numbered_read trk path =
     (case rt_numbered trk of None \<Rightarrow> False
      | Some m \<Rightarrow> (case m path of None \<Rightarrow> False | Some b \<Rightarrow> b))"

definition stale_read :: "read_tracking \<Rightarrow> string \<Rightarrow> string \<Rightarrow> tool_result option" where
  "stale_read trk path diff =
     (case (rt_ranges trk, diff_target_range diff) of
        (Some ranges, Some target) \<Rightarrow>
          if \<not> read_covers_target (ranges path) target then
            Some (failure ''STALE_READ''
              (Some (''this diff touches lines '' @ nat_digits (fst target) @ ''-'' @ nat_digits (snd target) @
                 '' of '' @ repr_str path @ '', but the most recent read_file on it '' @
                 ''covered '' @ seen_text (ranges path) @ '' -- that doesn't fully cover the '' @
                 ''diff's target range, so it was rejected before '' @
                 ''ever reaching git apply. Call read_file again with '' @
                 ''start_line<='' @ nat_digits (fst target) @ '', end_line>='' @ nat_digits (snd target) @
                 '' (with_line_numbers=true if you need exact line '' @
                 ''numbers for the '@@' header) to see the file's '' @
                 ''real, current content there, then construct a new '' @
                 ''diff against what you actually just saw.'')))
          else if ranges path = Some (1, UNBOUNDED_END) \<and> \<not> numbered_read trk path then
            Some (failure ''STALE_READ''
              (Some (''the most recent read_file on '' @ repr_str path @ '' covered the '' @
                 ''whole file, but as an unnumbered, unscoped '' @
                 ''whole-file read -- not enough for patch_file to '' @
                 ''trust the position this diff claims. Call '' @
                 ''read_file again with with_line_numbers=true '' @
                 ''(scoped to the region you're editing, or the '' @
                 ''whole file if it's small) so you know the real '' @
                 ''line numbers before constructing the diff's '@@' header.'')))
          else None
      | _ \<Rightarrow> None)"

definition position_trustworthy :: "read_tracking \<Rightarrow> string \<Rightarrow> bool" where
  "position_trustworthy trk path \<longleftrightarrow> rt_ranges trk \<noteq> None \<and> numbered_read trk path"

definition conflict_message :: "string \<Rightarrow> string \<Rightarrow> exec_result \<Rightarrow> string" where
  "conflict_message normalized current_content r =
     (let base = py_strip (if ex_stderr r \<noteq> [] then ex_stderr r
                           else if ex_stdout r \<noteq> [] then ex_stdout r
                           else ''diff did not apply cleanly'')
      in case diagnose_context_mismatch normalized current_content of
           None \<Rightarrow> base
         | Some detail \<Rightarrow> base @ [CHR 0x0A] @ detail)"

text \<open>The body of the \<open>try\<close>: \<open>None\<close> once both git commands have succeeded.\<close>

definition git_apply ::
    "'x sandbox \<Rightarrow> string \<Rightarrow> string \<Rightarrow> string \<Rightarrow> 'x \<Rightarrow> tool_result option \<times> 'x" where
  "git_apply sb patch_path normalized current_content x =
     (let raised = (\<lambda>t y. (Some (failure ''PATCH_ERROR'' (Some t)), y));
          conflict = (\<lambda>r y. (Some (failure ''PATCH_CONFLICT''
                               (Some (conflict_message normalized current_content r))), y))
      in case sb_write sb patch_path normalized x of
           (Inl t, y) \<Rightarrow> raised t y
         | (Inr _, x1) \<Rightarrow>
             (case sb_exec sb (''git apply --check --recount '' @ patch_path) x1 of
                (Inl e, y) \<Rightarrow> raised (git_exn_text e) y
              | (Inr r, x2) \<Rightarrow>
                  if ex_exit_code r \<noteq> 0 then conflict r x2
                  else
                    (case sb_exec sb (''git apply --recount '' @ patch_path) x2 of
                       (Inl e, y) \<Rightarrow> raised (git_exn_text e) y
                     | (Inr r, x3) \<Rightarrow> if ex_exit_code r \<noteq> 0 then conflict r x3 else (None, x3))))"

definition patch_file ::
    "'x file_env \<Rightarrow> string \<Rightarrow> string \<Rightarrow> 'x \<Rightarrow> read_tracking
     \<Rightarrow> (tool_exn, tool_result) result \<times> 'x \<times> read_tracking" where
  "patch_file env path diff x trk =
     (case open_target env path of
        Inl e \<Rightarrow> (Inl e, x, trk)
      | Inr (Inl refusal) \<Rightarrow> (Inr refusal, x, trk)
      | Inr (Inr (sb, cpath)) \<Rightarrow>
          (case find_diff_format_defect diff of
             Some msg \<Rightarrow> (Inr (failure ''MALFORMED_DIFF'' (Some msg)), x, trk)
           | None \<Rightarrow>
          (case stale_read trk path diff of
             Some refusal \<Rightarrow> (Inr refusal, x, trk)
           | None \<Rightarrow>
          (case sb_read sb x cpath of
             Inl FileNotFound \<Rightarrow>
               (Inr (failure ''NOT_FOUND''
                  (Some (''No such file: '' @ path @ '' -- use write_file to create a new file''))), x, trk)
           | Inl (ReadFailed t) \<Rightarrow> (Inr (failure ''READ_ERROR'' (Some t)), x, trk)
           | Inr current_content \<Rightarrow>
          (case check_content_fidelity diff current_content (position_trustworthy trk path) of
             Some msg \<Rightarrow> (Inr (failure ''CONTENT_MISMATCH'' (Some msg)), x, trk)
           | None \<Rightarrow>
               let normalized = normalize_diff_headers diff (removeprefix ''/workspace/'' cpath);
                   patch_path = ''/tmp/amop-patch-'' @ fe_uuid env @ ''.diff'';
                   (ended, x1) = git_apply sb patch_path normalized current_content x
               in (case sb_exec sb (''rm -f '' @ patch_path) x1 of
                     (Inl e, x2) \<Rightarrow> (Inl (ContainerExn (git_exn_text e)), x2, trk)
                   | (Inr _, x2) \<Rightarrow>
                       (case ended of
                          Some r \<Rightarrow> (Inr r, x2, trk)
                        | None \<Rightarrow> finish_edit env sb ''patch_file'' path (''applied patch to '' @ path) x2 trk)))))))"

section \<open>Running tests\<close>

text \<open>
  The command line of \<open>run_tests\<close>: the target is the resolved path in the container as it is,
  the test name goes through \<open>shlex.quote\<close> (a parameter).
\<close>

definition JEST_STACKS :: "string list" where "JEST_STACKS = [''javascript'', ''typescript'']"

definition test_command :: "(string \<Rightarrow> string) \<Rightarrow> string \<Rightarrow> string \<Rightarrow> string option \<Rightarrow> string \<Rightarrow> string" where
  "test_command shlex_quote stack target test_name report_path =
     (let jest = stack \<in> set JEST_STACKS;
          name_filter = (case test_name of
              None \<Rightarrow> []
            | Some n \<Rightarrow> if n = [] then [] else '' '' @ (if jest then ''-t'' else ''-k'') @ '' '' @ shlex_quote n)
      in if jest then
           ''cd /workspace && jest --json --testLocationInResults --outputFile='' @ report_path @
           (if target = ''.'' then [] else '' '' @ target) @ name_filter
         else
           ''cd /workspace && python -m pytest '' @ target @ name_filter @
           '' --junit-xml='' @ report_path @ '' -q'')"

text \<open>
  The normalised summary.  JUnit's report is the tree the XML parser gives: a tag, attributes
  and children; \<open>int\<close> of an attribute raises on text that is not a number.
\<close>

datatype xml = Element (xml_tag: string) (xml_attrs: "(string \<times> string) list") (xml_children: "xml list")

record test_failure =
  tf_name :: string
  tf_message :: string
  tf_file :: "string option"
  tf_line :: "int option"

record test_summary =
  sm_passed :: int
  sm_failed :: int
  sm_skipped :: int
  sm_failures :: "test_failure list"

fun xml_iter :: "string \<Rightarrow> xml \<Rightarrow> xml list" where
  "xml_iter tag (Element t attrs children) =
     (if t = tag then [Element t attrs children] else []) @ concat (map (xml_iter tag) children)"

definition xml_get :: "xml \<Rightarrow> string \<Rightarrow> string option" where
  "xml_get e key = map_of (xml_attrs e) key"

text \<open>\<open>int(suite.get(key, 0))\<close>, for an \<open>int\<close> of text given as \<open>py_int\<close>.\<close>

definition xml_count :: "(string \<Rightarrow> int option) \<Rightarrow> xml \<Rightarrow> string \<Rightarrow> int option" where
  "xml_count py_int e key = (case xml_get e key of None \<Rightarrow> Some 0 | Some t \<Rightarrow> py_int t)"

definition case_failures :: "(string \<Rightarrow> int option) \<Rightarrow> xml \<Rightarrow> test_failure list option" where
  "case_failures py_int test_case =
     (let outcomes = filter (\<lambda>o'. xml_tag o' \<in> {''failure'', ''error''}) (xml_children test_case);
          line = (case xml_get test_case ''line'' of
                    None \<Rightarrow> Some None
                  | Some t \<Rightarrow> if t = [] then Some None else map_option Some (py_int t))
      in if outcomes = [] then Some []
         else map_option (\<lambda>n. map (\<lambda>o'.
           \<lparr>tf_name = (case xml_get test_case ''name'' of None \<Rightarrow> [] | Some t \<Rightarrow> t),
            tf_message = take 500 (case xml_get o' ''message'' of None \<Rightarrow> [] | Some t \<Rightarrow> t),
            tf_file = xml_get test_case ''file'', tf_line = n\<rparr>) outcomes) line)"

text \<open>\<open>None\<close> is an exception: no suite under \<open>testsuites\<close>, or an attribute that is not a number.\<close>

definition parse_junit_xml :: "(string \<Rightarrow> int option) \<Rightarrow> xml \<Rightarrow> test_summary option" where
  "parse_junit_xml py_int root =
     (case (if xml_tag root = ''testsuites''
            then find (\<lambda>e. xml_tag e = ''testsuite'') (xml_children root) else Some root) of
        None \<Rightarrow> None
      | Some suite \<Rightarrow>
          (case (xml_count py_int suite ''tests'', xml_count py_int suite ''failures'',
                 xml_count py_int suite ''errors'', xml_count py_int suite ''skipped'') of
             (Some all_run, Some fails, Some errors, Some skipped) \<Rightarrow>
               (let parts = map (case_failures py_int) (xml_iter ''testcase'' suite)
                in if None \<in> set parts then None
                   else Some \<lparr>sm_passed = all_run - (fails + errors) - skipped, sm_failed = fails + errors,
                          sm_skipped = skipped, sm_failures = concat (map the parts)\<rparr>)
           | _ \<Rightarrow> None))"

text \<open>
  The rest of \<open>run_tests\<close>, for a reader \<open>parse\<close> of either report format: text that is no XML or
  JSON is told apart from any other exception, which the tool lets through.
\<close>

datatype parse_exn = ReportUnreadable | ReportMalformed

definition read_junit ::
    "(string \<Rightarrow> xml option) \<Rightarrow> (string \<Rightarrow> int option) \<Rightarrow> string \<Rightarrow> (parse_exn, test_summary) result" where
  "read_junit xml_of py_int text =
     (case xml_of text of
        None \<Rightarrow> Inl ReportUnreadable
      | Some root \<Rightarrow> (case parse_junit_xml py_int root of None \<Rightarrow> Inl ReportMalformed | Some m \<Rightarrow> Inr m))"

definition last_chars :: "nat \<Rightarrow> string \<Rightarrow> string" where
  "last_chars n s = drop (length s - n) s"

record test_outcome =
  to_summary :: test_summary
  to_all_passed :: bool
  to_output_tail :: string

definition run_tests ::
    "'x file_env \<Rightarrow> (string \<Rightarrow> string) \<Rightarrow> (string \<Rightarrow> (parse_exn, test_summary) result) \<Rightarrow> string \<Rightarrow> string option
     \<Rightarrow> string option \<Rightarrow> 'x \<Rightarrow> (tool_exn, tool_result + test_outcome) result \<times> 'x" where
  "run_tests env shlex_quote parse stack path test_name x =
     (case fe_sandbox env of
        None \<Rightarrow> (Inr (Inl no_sandbox), x)
      | Some sb \<Rightarrow>
          (case (case path of
                   None \<Rightarrow> Inr (Inr ''.'')
                 | Some p \<Rightarrow> if p = [] then Inr (Inr ''.'')
                            else bind_result (open_target env p) (\<lambda>t.
                              Inr (case t of Inl refusal \<Rightarrow> Inl refusal | Inr (_, cpath) \<Rightarrow> Inr cpath))) of
             Inl e \<Rightarrow> (Inl e, x)
           | Inr (Inl refusal) \<Rightarrow> (Inr (Inl refusal), x)
           | Inr (Inr target) \<Rightarrow>
               let jest = stack \<in> set JEST_STACKS;
                   report_path = (if jest then ''/tmp/amop-jest-'' @ fe_uuid env @ ''.json''
                                  else ''/tmp/amop-junit-'' @ fe_uuid env @ ''.xml'')
               in (case sb_exec sb (test_command shlex_quote stack target test_name report_path) x of
                     (Inl e, y) \<Rightarrow> (Inr (Inl (failure ''RUN_ERROR'' (Some (git_exn_text e)))), y)
                   | (Inr r, y) \<Rightarrow>
                       if ex_timed_out r then
                         (Inr (Inl (failure ''TIMEOUT'' (Some ''test run exceeded 300.0s''))), y)
                       else
                         let said = last_chars 2000 (ex_stdout r @ ex_stderr r);
                             missing = failure ''NO_TEST_REPORT''
                               (Some (if said \<noteq> [] then said
                                      else (if jest then ''jest'' else ''pytest'') @ '' produced no report''))
                         in (case sb_read sb y report_path of
                               Inl FileNotFound \<Rightarrow> (Inr (Inl missing), y)
                             | Inl (ReadFailed t) \<Rightarrow> (Inl (ContainerExn t), y)
                             | Inr text \<Rightarrow>
                                 (case parse text of
                                    Inl ReportUnreadable \<Rightarrow> (Inr (Inl missing), y)
                                  | Inl ReportMalformed \<Rightarrow> (Inl (ContainerExn ''malformed report''), y)
                                  | Inr summary \<Rightarrow>
                                      (Inr (Inr \<lparr>to_summary = summary,
                                        to_all_passed = (sm_failed summary = 0 \<and> sm_passed summary > 0),
                                        to_output_tail = said\<rparr>), y))))))"

end
