(* ===== verification/FileGates.thy ===== *)
theory FileGates
  imports FileTools
begin

text \<open>
  What holds of the file tools: the credit a read earns, what a patch that went through has
  passed, and what the size guard of \<open>write_file\<close> keeps.
\<close>

section \<open>What a read shows\<close>

lemma succeed_simps [simp]: "tr_success (succeed t)" "tr_output (succeed t) = PStr t"
  by (simp_all add: succeed_def)

lemma failure_simps [simp]: "\<not> tr_success (failure c m)" "tr_error_code (failure c m) = Some c"
  by (simp_all add: failure_def)

lemma show_lines_append:
  "show_lines b n (xs @ ys) = show_lines b n xs @ show_lines b (n + int (length xs)) ys"
proof -
  have "numbered_lines n (xs @ ys) = numbered_lines n xs @ numbered_lines (n + int (length xs)) ys"
    by (induction xs arbitrary: n) (simp_all add: ac_simps)
  then show ?thesis by (simp add: show_lines_def)
qed

lemma show_lines_prefix: "prefix xs ys \<Longrightarrow> \<exists>post. show_lines b n ys = show_lines b n xs @ post"
  by (auto simp: prefix_def show_lines_append)

lemma first_line_pos: "1 \<le> first_line s"
  by (simp add: first_line_def)

text \<open>The lines a range asks for, of those there are.\<close>

definition lines_between :: "int \<Rightarrow> int \<Rightarrow> string list \<Rightarrow> string list" where
  "lines_between lo hi lines = take (nat (hi - lo + 1)) (drop (nat (lo - 1)) lines)"

lemma lines_between_selected:
  assumes "1 \<le> lo"
  shows "drop (nat (lo - 1)) (take (nat (min (int (length lines)) hi)) lines) = lines_between lo hi lines"
proof -
  have "take (nat (min (int (length lines)) hi)) lines = take (nat hi) lines"
    by (cases "int (length lines) \<le> hi") (auto simp: min_def)
  moreover have "nat (hi - lo + 1) = nat hi - nat (lo - 1)" using assms by arith
  ultimately show ?thesis by (simp add: lines_between_def drop_take)
qed

lemma lines_between_prefix: "hi \<le> hi' \<Longrightarrow> prefix (lines_between lo hi lines) (lines_between lo hi' lines)"
  unfolding lines_between_def
  by (metis add_right_mono diff_right_mono min.absorb1 nat_mono take_is_prefix take_take)

lemma lines_between_take: "lines_between lo hi lines = take (nat (hi - lo + 1)) (lines_between lo hi' lines)"
  if "hi \<le> hi'"
  using that by (simp add: lines_between_def min_def nat_mono)

text \<open>\<open>displays out numbered lo ls\<close>: the text holds these lines, in order, numbered from \<open>lo\<close> or plain.\<close>

definition displays :: "string \<Rightarrow> bool \<Rightarrow> int \<Rightarrow> string list \<Rightarrow> bool" where
  "displays out numbered lo ls \<longleftrightarrow> sublist (show_lines numbered lo ls) out"

lemma displaysI:
  assumes "out = pre @ show_lines b lo ls" "prefix xs ls" shows "displays out b lo xs"
proof -
  obtain post where "show_lines b lo ls = show_lines b lo xs @ post" using show_lines_prefix [OF assms(2)] by blast
  then show ?thesis using assms(1) by (auto simp: displays_def sublist_def)
qed

lemma read_whole_shows: "\<exists>out. read_whole content num = succeed out \<and> displays out num 1 (lines_between 1 hi (splitlines_keep content))"
proof -
  have p: "prefix (lines_between 1 hi (splitlines_keep content)) (splitlines_keep content)"
    by (simp add: lines_between_def take_is_prefix)
  have "show_lines num 1 (splitlines_keep content)
      = (if num then numbered_lines 1 (splitlines_keep content) else content)"
    by (simp add: show_lines_def)
  then have "\<exists>pre. read_whole content num = succeed (pre @ show_lines num 1 (splitlines_keep content))"
    by (auto simp: read_whole_def Let_def intro: exI [of _ "[]"])
  then show ?thesis using displaysI [OF refl p] by blast
qed

lemma read_oversized_shows:
  "\<exists>out. read_oversized n content = succeed out \<and> starts_with out ''[NOTE:''
     \<and> displays out True 1 (lines_between 1 60 (splitlines_keep content))"
proof -
  have "lines_between 1 60 (splitlines_keep content) = take SCOPED_READ_DEFAULT_LINES (splitlines_keep content)"
    by (simp add: lines_between_def SCOPED_READ_DEFAULT_LINES_def)
  then show ?thesis
    by (auto simp: read_oversized_def Let_def scoped_default_notice_def show_lines_def
        intro!: displaysI [where pre = "scoped_default_notice n (length (splitlines_keep content)) k" for k])
qed

lemma read_scoped_shows:
  assumes "tr_success (read_scoped content s e num)" and "lo = first_line s"
    and "hi \<le> (case e of None \<Rightarrow> hi | Some m \<Rightarrow> m)"
  obtains out where "read_scoped content s e num = succeed out"
    and "\<not> starts_with out ''[NOTE:'' \<Longrightarrow> displays out num lo (lines_between lo hi (splitlines_keep content))"
    and "starts_with out ''[NOTE:'' \<Longrightarrow> hi \<le> lo + 59 \<Longrightarrow>
      displays out num lo (lines_between lo hi (splitlines_keep content))"
proof -
  let ?lines = "splitlines_keep content"
  let ?total = "int (length ?lines)"
  let ?e = "case e of None \<Rightarrow> ?total | Some m \<Rightarrow> m"
  let ?sel = "drop (nat (lo - 1)) (take (nat (min ?total ?e)) ?lines)"
  have lo: "1 \<le> lo" using assms(2) first_line_pos by simp
  have sel: "?sel = lines_between lo ?e ?lines" by (rule lines_between_selected [OF lo])
  have within: "prefix (lines_between lo hi ?lines) ?sel"
  proof (cases e)
    case None
    have "lines_between lo hi ?lines = lines_between lo (min hi ?total) ?lines"
      using lo by (auto simp: lines_between_def min_def)
    then show ?thesis using sel None lines_between_prefix [of "min hi ?total" ?total lo ?lines] by simp
  next
    case (Some m)
    then show ?thesis using sel assms(3) lines_between_prefix [of hi m lo ?lines] by simp
  qed
  define notice where "notice = narrowed_notice lo (min ?total ?e)
      (sum_list (map length ?sel) + (if num then sum_list (map (\<lambda>i. length (int_str (lo + int i) @ '': '')) [0 ..< length ?sel]) else 0))
      (length (take SCOPED_READ_DEFAULT_LINES ?sel))"
  have valid: "\<not> (lo > ?total \<or> lo > min ?total ?e)"
  proof
    assume out: "lo > ?total \<or> lo > min ?total ?e"
    have "\<not> tr_success (read_scoped content s e num)"
      unfolding read_scoped_def Let_def assms(2) [symmetric] if_P [OF out] by (rule failure_simps)
    then show False using assms(1) by blast
  qed
  have cases: "read_scoped content s e num = succeed (notice @ show_lines num lo (take 60 ?sel))
     \<or> read_scoped content s e num = succeed (show_lines num lo ?sel)"
    unfolding read_scoped_def Let_def assms(2) [symmetric] if_not_P [OF valid] notice_def
      SCOPED_READ_DEFAULT_LINES_def
    by (rule if_split [THEN iffD2]) blast
  have starts: "starts_with (notice @ t) ''[NOTE:''" for t by (simp add: notice_def narrowed_notice_def)
  have short: "prefix (lines_between lo hi ?lines) (take 60 ?sel)" if "hi \<le> lo + 59"
  proof -
    have "length (lines_between lo hi ?lines) \<le> 60" using that by (simp add: lines_between_def)
    then show ?thesis using within by (auto simp: prefix_def)
  qed
  from cases show ?thesis
  proof
    assume r: "read_scoped content s e num = succeed (notice @ show_lines num lo (take 60 ?sel))"
    show ?thesis using that [OF r] starts displaysI [OF refl short] by blast
  next
    assume r: "read_scoped content s e num = succeed (show_lines num lo ?sel)"
    have "displays (show_lines num lo ?sel) num lo (lines_between lo hi ?lines)"
      by (rule displaysI [where pre = "[]", OF _ within]) simp
    then show ?thesis using that [OF r] by blast
  qed
qed


lemma track_read_range:
  assumes "rt_ranges (track_read path s e numbered (succeed out) trk) = Some ranges" "ranges path = Some (lo, hi)"
  shows "read_file_effective_range s e (succeed out) = Some (lo, hi)
    \<and> (case rt_numbered (track_read path s e numbered (succeed out) trk) of None \<Rightarrow> True | Some m \<Rightarrow> m path = Some numbered)"
proof -
  obtain rng where r: "read_file_effective_range s e (succeed out) = Some rng"
    by (cases "read_file_effective_range s e (succeed out)") (simp_all add: read_file_effective_range_def Let_def split: if_splits)
  show ?thesis
  proof (cases "rt_ranges trk")
    case None
    then show ?thesis using assms by (simp add: track_read_def)
  next
    case (Some old)
    then show ?thesis using assms r by (cases "rt_numbered trk") (auto simp: track_read_def)
  qed
qed

lemma effective_range_scoped:
  assumes "\<not> (s = None \<and> e = None)" "read_file_effective_range s e (succeed out) = Some (lo, hi)"
  shows "lo = first_line s" "starts_with out ''[NOTE:'' \<Longrightarrow> hi = lo + 59"
    and "\<not> starts_with out ''[NOTE:'' \<Longrightarrow> hi = (case e of None \<Rightarrow> UNBOUNDED_END | Some m \<Rightarrow> m)"
  using assms by (auto simp: read_file_effective_range_def Let_def SCOPED_READ_DEFAULT_LINES_def split: if_splits)

lemma effective_range_whole:
  "read_file_effective_range None None (succeed out) = Some (lo, hi) \<Longrightarrow> lo = 1
     \<and> (starts_with out ''[NOTE:'' \<longrightarrow> hi = 60)"
  by (auto simp: read_file_effective_range_def Let_def SCOPED_READ_DEFAULT_LINES_def split: if_splits)

section \<open>Properties\<close>

text \<open>
  C19: What a coder is credited with having read was in the text it got.  After a successful
  tracked read, every line of the file that is both in the credited range and in the range
  asked for is in the returned text, in order and at its own line number, and the read is
  recorded as numbered exactly if the lines were shown with their numbers.
\<close>

theorem credited_lines_were_shown:
  assumes "read_file env path s e num x trk = (Inr r, trk')" and "tr_success r"
    and "rt_ranges trk' = Some ranges" and "ranges path = Some (lo, hi)"
    and "open_target env path = Inr (Inr (sb, cpath))" and "sb_read sb x cpath = Inr content"
  shows "\<exists>out numbered. tr_output r = PStr out
     \<and> (case rt_numbered trk' of None \<Rightarrow> True | Some m \<Rightarrow> m path = Some numbered)
     \<and> displays out numbered lo
         (lines_between lo (case e of None \<Rightarrow> hi | Some m \<Rightarrow> min hi m) (splitlines_keep content))"
proof (cases "s = None \<and> e = None")
  case True
  obtain n where n: "sb_stat sb x cpath = Inr n"
    using assms(1,2,5) True by (cases "sb_stat sb x cpath") (auto simp: read_file_def read_error_def split: read_exn.splits)
  show ?thesis
  proof (cases "n > SCOPED_READ_THRESHOLD")
    case big: True
    obtain out where out: "read_oversized n content = succeed out" "starts_with out ''[NOTE:''"
      "displays out True 1 (lines_between 1 60 (splitlines_keep content))"
      using read_oversized_shows by blast
    have r: "r = succeed out" "trk' = track_read path s e True r trk"
      using assms(1,5,6) True n big out(1) by (auto simp: read_file_def Let_def)
    have "lo = 1 \<and> hi = 60"
      using effective_range_whole [of out lo hi] track_read_range [of path s e True out trk ranges lo hi] r assms(3,4) out(2) True
      by simp
    then show ?thesis using r out(3) track_read_range [of path s e True out trk ranges lo hi] assms(3,4) True by fastforce
  next
    case small: False
    obtain out where out: "read_whole content num = succeed out"
      "displays out num 1 (lines_between 1 hi (splitlines_keep content))"
      using read_whole_shows by blast
    have r: "r = succeed out" "trk' = track_read path s e num r trk"
      using assms(1,5,6) True n small out(1) by (auto simp: read_file_def Let_def)
    have "lo = 1"
      using effective_range_whole [of out lo hi] track_read_range [of path s e num out trk ranges lo hi] r assms(3,4) True
      by simp
    then show ?thesis using r out(2) track_read_range [of path s e num out trk ranges lo hi] assms(3,4) True by fastforce
  qed
next
  case False
  have r: "r = read_scoped content s e num" "trk' = track_read path s e num r trk"
    using assms(1,5,6) False by (auto simp: read_file_def Let_def SCOPED_READ_THRESHOLD_def)
  let ?hi = "case e of None \<Rightarrow> hi | Some m \<Rightarrow> min hi m"
  have ok: "tr_success (read_scoped content s e num)" using assms(2) r(1) by simp
  have le: "?hi \<le> (case e of None \<Rightarrow> ?hi | Some m \<Rightarrow> m)" by (simp split: option.split)
  from read_scoped_shows [OF ok refl le] obtain out where out: "read_scoped content s e num = succeed out"
    "\<not> starts_with out ''[NOTE:'' \<Longrightarrow> displays out num (first_line s) (lines_between (first_line s) ?hi (splitlines_keep content))"
    "starts_with out ''[NOTE:'' \<Longrightarrow> ?hi \<le> first_line s + 59 \<Longrightarrow>
      displays out num (first_line s) (lines_between (first_line s) ?hi (splitlines_keep content))" by blast
  have t: "read_file_effective_range s e (succeed out) = Some (lo, hi)"
    "case rt_numbered trk' of None \<Rightarrow> True | Some m \<Rightarrow> m path = Some num"
    using track_read_range [of path s e num out trk ranges lo hi] assms(3,4) r out(1) by simp_all
  have lo: "lo = first_line s" by (rule effective_range_scoped(1) [OF False t(1)])
  have "?hi \<le> lo + 59" if "starts_with out ''[NOTE:''"
    using effective_range_scoped(2) [OF False t(1) that] by (auto split: option.split)
  then have "displays out num lo (lines_between lo ?hi (splitlines_keep content))"
    using out(2,3) lo by blast
  then show ?thesis using r(1) out(1) t(2) by fastforce
qed


definition demo_sandbox :: "string \<Rightarrow> string sandbox" where
  "demo_sandbox content = \<lparr>sb_stat = (\<lambda>x p. Inr (length x)), sb_read = (\<lambda>x p. Inr x),
     sb_write = (\<lambda>p t x. (Inr (), if starts_with p ''/tmp/'' then x else t)),
     sb_exec = (\<lambda>cmd x. (Inr \<lparr>ex_exit_code = 0, ex_stdout = [], ex_stderr = [], ex_timed_out = False\<rparr>, x))\<rparr>"

definition demo_file_env :: "string file_env" where
  "demo_file_env = \<lparr>fe_host = demo_host, fe_scratch = [''s''], fe_sandbox = Some (demo_sandbox []),
     fe_task_id = None, fe_uuid = ''0'', fe_percent = (\<lambda>a b. [])\<rparr>"

definition demo_text :: string where "demo_text = ''a = 1'' @ CHR 0x0A # ''b = 2'' @ [CHR 0x0A]"

definition in_turn :: read_tracking where
  "in_turn = \<lparr>rt_ranges = Some Map.empty, rt_numbered = Some Map.empty\<rparr>"

lemma demo_open: "open_target demo_file_env ''calc.py'' = Inr (Inr (demo_sandbox [], ''/workspace/calc.py''))"
  by (simp add: open_target_def demo_file_env_def demo_host_def resolve_within_scratch_def resolve_from_def
      strip_container_mount_def CONTAINER_MOUNT_def container_path_def)

theorem credited_lines_were_shown_witness:
  "\<exists>out numbered. tr_output (succeed (numbered_lines 2 [''b = 2'' @ [CHR 0x0A]])) = PStr out
     \<and> displays out numbered 2 (lines_between 2 (min 2 2) (splitlines_keep demo_text))"
proof -
  have r: "read_file demo_file_env ''calc.py'' (Some 2) (Some 2) True demo_text in_turn
      = (Inr (succeed (numbered_lines 2 [''b = 2'' @ [CHR 0x0A]])),
         \<lparr>rt_ranges = Some [''calc.py'' \<mapsto> (2, 2)], rt_numbered = Some [''calc.py'' \<mapsto> True]\<rparr>)"
  proof -
    have "read_scoped demo_text (Some 2) (Some 2) True = succeed (numbered_lines 2 [''b = 2'' @ [CHR 0x0A]])"
      "read_file_effective_range (Some 2) (Some 2) (succeed (numbered_lines 2 [''b = 2'' @ [CHR 0x0A]])) = Some (2, 2)"
      by code_simp+
    then show ?thesis
      by (simp add: read_file_def demo_open demo_sandbox_def track_read_def in_turn_def SCOPED_READ_THRESHOLD_def)
  qed
  from credited_lines_were_shown [OF r _ _ _ demo_open, of _ 2 2 demo_text] show ?thesis
    by (auto simp: demo_sandbox_def)
qed

text \<open>
  Two gaps in that credit.  A file whose own text begins with \<open>[NOTE:\<close> makes a read of one line
  look narrowed, and sixty are credited; and a whole-file read between the two size limits,
  shown in full behind a notice, is credited with its first sixty lines only.
\<close>

lemma note_prefix_overcredits:
  "read_file_effective_range (Some 1) (Some 1)
     (read_scoped (''[NOTE: draft]'' @ CHR 0x0A # demo_text) (Some 1) (Some 1) False) = Some (1, 60)"
  by code_simp

lemma full_read_undercredited:
  "8000 < length content \<Longrightarrow> read_file_effective_range None None (read_whole content False) = Some (1, 60)"
  by (simp add: read_file_effective_range_def read_whole_def Let_def LARGE_FILE_NOTICE_THRESHOLD_def
      large_file_notice_def SCOPED_READ_DEFAULT_LINES_def)

lemma open_target_refusal: "open_target env path = Inr (Inl refusal) \<Longrightarrow> \<not> tr_success refusal"
  by (auto simp: open_target_def path_not_permitted_def no_sandbox_def split: sum.splits option.splits)

lemma git_apply_failed: "git_apply sb p n c x = (Some r, y) \<Longrightarrow> \<not> tr_success r"
  by (auto simp: git_apply_def Let_def split: sum.splits prod.splits if_splits)

lemma stale_read_failed: "stale_read trk path diff = Some r \<Longrightarrow> \<not> tr_success r"
  by (auto simp: stale_read_def split: option.splits if_splits)

lemma finish_edit_ok: "finish_edit env sb t path out x trk = (Inr r, y, trk') \<Longrightarrow> trk' = forget_read path trk"
  by (auto simp: finish_edit_def split: sum.splits prod.splits)

text \<open>What a patch that went through has passed.\<close>

lemma patch_file_success:
  assumes "patch_file env path diff x trk = (Inr r, y, trk')" "tr_success r"
  obtains sb cpath content where "open_target env path = Inr (Inr (sb, cpath))"
    "find_diff_format_defect diff = None" "stale_read trk path diff = None"
    "sb_read sb x cpath = Inr content"
    "check_content_fidelity diff content (position_trustworthy trk path) = None"
    "trk' = forget_read path trk"
proof -
  obtain sb cpath where o: "open_target env path = Inr (Inr (sb, cpath))"
  proof (cases "open_target env path")
    case (Inl e)
    then show ?thesis using assms by (simp add: patch_file_def)
  next
    case (Inr t)
    then show ?thesis using assms that by (cases t) (auto simp: patch_file_def dest: open_target_refusal)
  qed
  have f: "find_diff_format_defect diff = None"
    using assms o by (cases "find_diff_format_defect diff") (auto simp: patch_file_def)
  have st: "stale_read trk path diff = None"
    using assms o f by (cases "stale_read trk path diff") (auto simp: patch_file_def dest: stale_read_failed)
  obtain content where c: "sb_read sb x cpath = Inr content"
  proof (cases "sb_read sb x cpath")
    case (Inl e)
    then show ?thesis using assms o f st by (cases e) (auto simp: patch_file_def)
  qed (use that in blast)
  have g: "check_content_fidelity diff content (position_trustworthy trk path) = None"
    using assms o f st c
    by (cases "check_content_fidelity diff content (position_trustworthy trk path)") (auto simp: patch_file_def)
  obtain ended x1 where a: "git_apply sb (''/tmp/amop-patch-'' @ fe_uuid env @ ''.diff'')
      (normalize_diff_headers diff (removeprefix ''/workspace/'' cpath)) content x = (ended, x1)"
    by (metis prod.exhaust)
  obtain q x2 where rm: "sb_exec sb (''rm -f '' @ ''/tmp/amop-patch-'' @ fe_uuid env @ ''.diff'') x1 = (q, x2)"
    by (metis prod.exhaust)
  have "trk' = forget_read path trk"
    using assms a rm unfolding patch_file_def o Let_def
    by (cases q; cases ended) (auto simp: f st c g dest: git_apply_failed finish_edit_ok)
  then show ?thesis using that [OF o f st c g] by blast
qed

lemma write_file_success:
  assumes "write_file env path content x trk = (Inr r, y, trk')" "tr_success r"
  obtains sb cpath where "open_target env path = Inr (Inr (sb, cpath))"
    "trk' = forget_read path trk"
    "\<And>n. sb_stat sb x cpath = Inr n \<Longrightarrow> \<not> suspicious_shrink (utf8_length content) n"
  using assms unfolding write_file_def Let_def
  by (auto dest: open_target_refusal finish_edit_ok split: sum.splits prod.splits read_exn.splits if_splits)

text \<open>
  C18: No second edit on one read.  In a coder's turn, once an edit of a path has succeeded, a
  patch of the same path whose diff touches any line is refused until the path is read again,
  and the refusal leaves the container and the record of reads as they were.
\<close>

theorem second_edit_needs_new_read:
  assumes "patch_file env path diff x trk = (Inr r, y, trk') \<or> write_file env path content x trk = (Inr r, y, trk')"
    and "tr_success r" and "rt_ranges trk \<noteq> None" and "diff_target_range diff2 \<noteq> None"
  shows "\<exists>r2. patch_file env path diff2 y trk' = (Inr r2, y, trk') \<and> \<not> tr_success r2"
proof -
  obtain sb cpath where o: "open_target env path = Inr (Inr (sb, cpath))" and t: "trk' = forget_read path trk"
    using assms(1) by (elim disjE) (metis patch_file_success assms(2), metis write_file_success assms(2))
  obtain refusal where s: "stale_read trk' path diff2 = Some refusal"
    using assms(3,4) by (auto simp: t forget_read_def stale_read_def read_covers_target_def)
  show ?thesis
    using o s stale_read_failed [OF s] by (auto simp: patch_file_def split: option.split)
qed


lemma demo_write:
  "write_file demo_file_env ''calc.py'' demo_text demo_text in_turn
     = (Inr (succeed ''wrote 12 bytes to calc.py''), demo_text, forget_read ''calc.py'' in_turn)"
proof -
  have "\<not> suspicious_shrink (utf8_length demo_text) (length demo_text)"
    "''wrote '' @ nat_digits (length demo_text) @ '' bytes to '' @ ''calc.py'' = ''wrote 12 bytes to calc.py''"
    by code_simp+
  moreover have "fe_task_id demo_file_env = None" by (simp add: demo_file_env_def)
  ultimately show ?thesis
    by (simp add: write_file_def demo_open demo_sandbox_def finish_edit_def micro_commit_after_edit_def Let_def)
qed

definition demo_diff :: string where
  "demo_diff = ''@@ -1 +1 @@'' @ CHR 0x0A # ''-a = 1'' @ CHR 0x0A # ''+a = 2'' @ [CHR 0x0A]"

theorem second_edit_needs_new_read_witness:
  "\<exists>r2. patch_file demo_file_env ''calc.py'' demo_diff demo_text (forget_read ''calc.py'' in_turn)
      = (Inr r2, demo_text, forget_read ''calc.py'' in_turn) \<and> \<not> tr_success r2"
proof (rule second_edit_needs_new_read [OF disjI2, OF demo_write])
  show "diff_target_range demo_diff \<noteq> None" by code_simp
qed (simp_all add: in_turn_def)

text \<open>
  A fragment does not replace a file.  If \<open>write_file\<close> succeeds over an existing file, the
  new content has at least a fifth of its bytes.
\<close>

theorem write_never_shrinks_far:
  assumes "write_file env path content x trk = (Inr r, y, trk')" and "tr_success r"
    and "open_target env path = Inr (Inr (sb, cpath))" and "sb_stat sb x cpath = Inr n"
  shows "n \<le> 5 * utf8_length content"
proof -
  obtain sb' cpath' where "open_target env path = Inr (Inr (sb', cpath'))"
    "\<And>m. sb_stat sb' x cpath' = Inr m \<Longrightarrow> \<not> suspicious_shrink (utf8_length content) m"
    using write_file_success [OF assms(1,2)] by blast
  then have "\<not> suspicious_shrink (utf8_length content) n" using assms(3,4) by simp
  then show ?thesis by (auto simp: suspicious_shrink_def)
qed

theorem write_never_shrinks_far_witness: "length demo_text \<le> 5 * utf8_length demo_text"
  by (rule write_never_shrinks_far [OF demo_write _ demo_open]) (simp_all add: demo_sandbox_def)

section \<open>An unquoted path\<close>

text \<open>
  \<open>run_tests\<close> puts the resolved path into its command line unquoted, so a path inside the scratch
  directory ends the shell word early and starts a command of its own.
\<close>

lemma test_path_runs_commands:
  "open_target demo_file_env ''x;id'' = Inr (Inr (demo_sandbox [], ''/workspace/x;id''))"
  "shell_word False [] (drop (length ''cd /workspace && python -m pytest '')
      (test_command shlex_quote ''python'' ''/workspace/x;id'' None report_path))
     = Some (''/workspace/x'', '';id --junit-xml='' @ report_path @ '' -q'')"
  by (simp_all add: open_target_def demo_file_env_def demo_host_def resolve_within_scratch_def resolve_from_def
      strip_container_mount_def CONTAINER_MOUNT_def container_path_def test_command_def JEST_STACKS_def ends_word_def)

end
