(* ===== verification/Reconcile.thy ===== *)
theory Reconcile
  imports ChainEnds GitRepo
begin

text \<open>
  \<open>amop/orchestrator/reconcile.py\<close>: what becomes of a task that a crash left in \<open>CODING\<close> or
  \<open>TESTING\<close>.  The surviving scratch directory is inspected in a container, the branch's head is
  compared with the commit the database remembers, and the task is either handed back with its
  root cause for \<open>run_chain\<close> to resume or parked for a human.  The actions are the chain's
  (\<open>go\<close>, \<open>save_context\<close>); the chain's result record plays no part here.
\<close>

section \<open>Environment and verdict\<close>

record 'x recon_env =
  re_chain :: "'x chain_env"
  re_exec :: "'x exec"
  re_scratch_exists :: "string \<Rightarrow> 'x \<Rightarrow> bool"
  re_create :: "string \<Rightarrow> ('x, unit) outside"
  re_destroy :: "string \<Rightarrow> ('x, unit) outside"
  re_validate :: "pyval \<Rightarrow> (string, root_cause_report) result"
  re_token :: bool
  re_find_pr :: "string \<Rightarrow> ('x, pydict option) outside"
  re_record_pr :: "pydict \<Rightarrow> ('x, unit) outside"

text \<open>
  The \<open>case\<close> field: what was found, or for a parked task the reason once more.  The \<open>detail\<close> line,
  text for the operator, is left out.
\<close>

datatype recon_case = CaseEqual | CaseA | CaseB | CaseC | CaseReason (case_reason: string)

record reconcile_result =
  rr_resumable :: bool
  rr_report :: "root_cause_report option"
  rr_case :: recon_case
  rr_needs_fresh_checkout :: bool
  rr_reason :: string

definition RECONCILE_ACTOR :: string where "RECONCILE_ACTOR = ''system:reconcile''"

definition git_action :: "('x, 'a) git \<Rightarrow> ('x, 'a) action" where
  "git_action g = outside (\<lambda>x. case g x of (Inl e, y) \<Rightarrow> (Inl (git_exn_text e), y) | (Inr a, y) \<Rightarrow> (Inr a, y))"

section \<open>Steps\<close>

definition to_human_input :: "'x recon_env \<Rightarrow> string \<Rightarrow> ('x, reconcile_result) action" where
  "to_human_input env reason =
     andthen (go (re_chain env) NEEDS_HUMAN_INPUT RECONCILE_ACTOR (Some reason))
       (return \<lparr>rr_resumable = False, rr_report = None, rr_case = CaseReason reason,
                rr_needs_fresh_checkout = False, rr_reason = reason\<rparr>)"

definition load_report :: "'x recon_env \<Rightarrow> pydict \<Rightarrow> ('x, root_cause_report option) action" where
  "load_report env task_context =
     (let raw = dict_get task_context ''root_cause_report''
      in if \<not> truthy raw then return None
         else case re_validate env raw of Inl e \<Rightarrow> raise (OtherFailure e) | Inr r \<Rightarrow> return (Some r))"

definition resumable :: "root_cause_report \<Rightarrow> recon_case \<Rightarrow> bool \<Rightarrow> reconcile_result" where
  "resumable report c fresh = \<lparr>rr_resumable = True, rr_report = Some report, rr_case = c,
     rr_needs_fresh_checkout = fresh, rr_reason = []\<rparr>"

definition adopt_head :: "'x recon_env \<Rightarrow> string \<Rightarrow> string \<Rightarrow> ('x, unit) action" where
  "adopt_head env branch head = save_context (re_chain env) [(''branch'', PStr branch), (''commit_sha'', PStr head)]"

text \<open>Best effort: an exception of either half is swallowed.\<close>

definition attempt_outside :: "('x, 'a) outside \<Rightarrow> ('x, 'a option) action" where
  "attempt_outside f = (\<lambda>s. case f (cs_env s) of
      (Inl e, x) \<Rightarrow> (Inr None, s\<lparr>cs_env := x\<rparr>)
    | (Inr a, x) \<Rightarrow> (Inr (Some a), s\<lparr>cs_env := x\<rparr>))"

definition check_orphaned_pr :: "'x recon_env \<Rightarrow> string \<Rightarrow> string \<Rightarrow> ('x, unit) action" where
  "check_orphaned_pr env repo_path branch =
     (if \<not> re_token env then return ()
      else bind (attempt_outside (re_find_pr env branch)) (\<lambda>found.
        case found of
          Some (Some pr) \<Rightarrow>
            bind (get_state (\<lambda>s. tk_id (cs_task s))) (\<lambda>tid.
            bind (attempt_outside (re_record_pr env
              [(''task_id'', PStr tid), (''repo_path'', PStr repo_path), (''url'', dict_get pr ''url''),
               (''number'', dict_get pr ''number''), (''status'', PStr ''open'')])) (\<lambda>_. return ()))
        | _ \<Rightarrow> return ()))"

text \<open>
  How the head compares with the recorded commit: \<open>None\<close> is case D, a branch something other
  than the program has changed.
\<close>

definition compare_head :: "'x recon_env \<Rightarrow> pyval \<Rightarrow> string \<Rightarrow> ('x, recon_case option) action" where
  "compare_head env db_sha head =
     (if db_sha = PNone then return (Some CaseA)
      else if db_sha = PStr head then return (Some CaseEqual)
      else bind (git_action (commit_exists (re_exec env) (py_str db_sha))) (\<lambda>known.
        if \<not> known then return (Some CaseB)
        else bind (git_action (is_ancestor (re_exec env) (py_str db_sha) head)) (\<lambda>ahead.
          if \<not> ahead then return None
          else bind (git_action (branch_advanced_by_amop_only (re_exec env) (py_str db_sha))) (\<lambda>ours.
            return (if ours then Some CaseA else None)))))"

definition inspect_scratch :: "'x recon_env \<Rightarrow> pydict \<Rightarrow> string \<Rightarrow> ('x, reconcile_result) action" where
  "inspect_scratch env task_context repo_path =
     bind (git_action (git_fsck (re_exec env))) (\<lambda>sound.
     if \<not> sound then to_human_input env ''repo_integrity_failure''
     else
       bind (git_action (current_sha (re_exec env))) (\<lambda>head.
       bind (git_action (current_branch (re_exec env))) (\<lambda>branch.
       bind (compare_head env (dict_get task_context ''commit_sha'') head) (\<lambda>verdict.
       case verdict of
         None \<Rightarrow> to_human_input env ''branch_modified_externally''
       | Some c \<Rightarrow>
           bind (load_report env task_context) (\<lambda>report.
           case report of
             None \<Rightarrow> to_human_input env ''root_cause_not_recorded''
           | Some r \<Rightarrow>
               andthen (if c = CaseA \<or> c = CaseB then adopt_head env branch head else return ())
               (andthen (check_orphaned_pr env repo_path branch)
               (return (resumable r c False))))))))"

definition reconcile :: "'x recon_env \<Rightarrow> ('x, reconcile_result) action" where
  "reconcile env =
     bind (get_state (\<lambda>s. cs_task s)) (\<lambda>task.
     let task_context = (case tk_task_context task of None \<Rightarrow> [] | Some d \<Rightarrow> d);
         repo = dict_get task_context ''repo''
     in if \<not> truthy repo then to_human_input env ''no_working_repo_recorded''
        else
          bind (get_state (\<lambda>s. re_scratch_exists env (tk_id task) (cs_env s))) (\<lambda>survives.
          if \<not> survives then
            bind (load_report env task_context) (\<lambda>report.
            case report of
              None \<Rightarrow> to_human_input env ''root_cause_not_recorded''
            | Some r \<Rightarrow> return (resumable r CaseC True))
          else
            andthen (outside (re_create env (tk_id task)))
            (finally_do (inspect_scratch env task_context (py_str repo))
               (outside (re_destroy env (tk_id task))))))"

section \<open>Where reconciliation leaves the task\<close>

abbreviation (input) at_place :: "task_state \<times> task_state \<Rightarrow> 'x chain_state \<Rightarrow> bool" where
  "at_place w s \<equiv> whereabouts s = w"

abbreviation (input) parked_for_human :: "'x chain_state \<Rightarrow> bool" where
  "parked_for_human s \<equiv> whereabouts s = (NEEDS_HUMAN_INPUT, NEEDS_HUMAN_INPUT)"

definition recon_reasons :: "string set" where
  "recon_reasons = {''no_working_repo_recorded'', ''root_cause_not_recorded'', ''repo_integrity_failure'',
     ''branch_modified_externally''}"

definition settled :: "task_state \<times> task_state \<Rightarrow> reconcile_result \<Rightarrow> 'x chain_state \<Rightarrow> bool" where
  "settled w r s \<longleftrightarrow>
     (if rr_resumable r then rr_report r \<noteq> None \<and> \<not> is_CaseReason (rr_case r) \<and> at_place w s
      else rr_report r = None \<and> rr_reason r \<in> recon_reasons \<and> parked_for_human s)"

abbreviation (input) raised_at :: "task_state \<times> task_state \<Rightarrow> chain_exn \<Rightarrow> 'x chain_state \<Rightarrow> bool" where
  "raised_at w \<equiv> \<lambda>e s. at_place w s \<or> parked_for_human s"

lemma calm_holds:
  "preserves whereabouts m \<Longrightarrow> holds (at_place w) m (\<lambda>_. at_place w) (raised_at w)"
  unfolding holds_def using preservesD [of whereabouts m] by (fastforce split: prod.split sum.split)

lemma place_bind:
  "preserves whereabouts m \<Longrightarrow> (\<And>a. holds (at_place w) (k a) Q (raised_at w)) \<Longrightarrow>
     holds (at_place w) (bind m k) Q (raised_at w)"
  by (rule holds_bind [OF calm_holds])

lemma place_andthen:
  "preserves whereabouts m \<Longrightarrow> holds (at_place w) k Q (raised_at w) \<Longrightarrow>
     holds (at_place w) (andthen m k) Q (raised_at w)"
  unfolding andthen_def by (rule place_bind)

lemma place_get_state:
  "(\<And>a. holds (at_place w) (k a) Q (raised_at w)) \<Longrightarrow> holds (at_place w) (bind (get_state f) k) Q (raised_at w)"
  by (rule place_bind [OF preserves_get_state])

lemma calm_attempt_outside [preserves_rules]: "preserves whereabouts (attempt_outside f)"
  by (rule calm_same) (simp_all add: attempt_outside_def split: prod.split sum.split)

lemma calm_recon [preserves_rules]:
  "preserves whereabouts (git_action g)" "preserves whereabouts (load_report env d)"
  "preserves whereabouts (check_orphaned_pr env p b)" "preserves whereabouts (adopt_head env b h)"
  "preserves whereabouts (compare_head env v h)"
  unfolding git_action_def load_report_def check_orphaned_pr_def adopt_head_def compare_head_def Let_def
  by (auto intro!: preserves_rules split: sum.split option.split)

lemma human_input_settles:
  assumes "reason \<in> recon_reasons"
  shows "holds (at_place w) (to_human_input env reason) (settled w) (raised_at w)"
  unfolding to_human_input_def
proof (rule holds_andthen [where R = parked_for_human])
  show "holds (at_place w) (go (re_chain env) NEEDS_HUMAN_INPUT RECONCILE_ACTOR (Some reason))
      (\<lambda>_. parked_for_human) (raised_at w)"
    using go_reaches [of "\<lambda>_. True" "re_chain env" NEEDS_HUMAN_INPUT RECONCILE_ACTOR "Some reason"] go_failed_calm
    unfolding holds_def by (fastforce split: prod.splits sum.splits)
  show "holds parked_for_human (return \<lparr>rr_resumable = False, rr_report = None, rr_case = CaseReason reason,
      rr_needs_fresh_checkout = False, rr_reason = reason\<rparr>) (settled w) (raised_at w)"
    by (rule holds_return) (simp add: settled_def assms)
qed

lemma reasons [simp]:
  "''no_working_repo_recorded'' \<in> recon_reasons" "''root_cause_not_recorded'' \<in> recon_reasons"
  "''repo_integrity_failure'' \<in> recon_reasons" "''branch_modified_externally'' \<in> recon_reasons"
  by (simp_all add: recon_reasons_def)

lemma compare_head_case:
  "holds P (compare_head env v h) (\<lambda>c s. pred_option (\<lambda>x. \<not> is_CaseReason x) c) (\<lambda>_ _. True)"
  unfolding compare_head_def
  by (intro holds_if holds_return holds_bind_any) simp_all

lemma holds_fact: "(b \<Longrightarrow> holds P m Q E) \<Longrightarrow> holds (\<lambda>s. b \<and> P s) m Q E"
  by (simp add: holds_def)

lemma holds_both:
  assumes "holds P m Q E" "holds P m R F"
  shows "holds P m (\<lambda>a s. Q a s \<and> R a s) E"
  unfolding holds_def
proof (intro allI impI)
  fix s assume "P s"
  then have "case m s of (Inl e, s') \<Rightarrow> E e s' | (Inr a, s') \<Rightarrow> Q a s'"
    "case m s of (Inl e, s') \<Rightarrow> F e s' | (Inr a, s') \<Rightarrow> R a s'"
    using assms by (simp_all add: holds_def)
  then show "case m s of (Inl e, s') \<Rightarrow> E e s' | (Inr a, s') \<Rightarrow> Q a s' \<and> R a s'"
    by (cases "m s"; cases "fst (m s)") simp_all
qed

lemma holds_true: "holds P m (\<lambda>_ _. True) (\<lambda>_ _. True)"
  by (simp add: holds_def split: prod.split sum.split)

lemma holds_finally:
  assumes body: "holds P b (\<lambda>a s. Q a (v s)) (\<lambda>_ s. F (v s))" and calm: "preserves v c"
    and weak: "\<And>a x. Q a x \<Longrightarrow> F x"
  shows "holds P (finally_do b c) (\<lambda>a s. Q a (v s)) (\<lambda>_ s. F (v s))"
  unfolding holds_def
proof (intro allI impI)
  fix s assume "P s"
  obtain r s1 where b: "b s = (r, s1)" by fastforce
  obtain q s2 where c: "c s1 = (q, s2)" by fastforce
  have kept: "v s2 = v s1" using calm c by (rule preservesD)
  have "case b s of (Inl e, s') \<Rightarrow> F (v s') | (Inr a, s') \<Rightarrow> Q a (v s')"
    using body \<open>P s\<close> by (simp add: holds_def)
  then show "case finally_do b c s of (Inl e, s') \<Rightarrow> F (v s') | (Inr a, s') \<Rightarrow> Q a (v s')"
    by (cases r; cases q) (auto simp: finally_do_def b c kept intro: weak)
qed

lemma compare_head_place:
  "holds (at_place w) (compare_head env v h) (\<lambda>c s. pred_option (\<lambda>x. \<not> is_CaseReason x) c \<and> at_place w s) (raised_at w)"
proof -
  have "holds (at_place w) (compare_head env v h) (\<lambda>c s. at_place w s \<and> pred_option (\<lambda>x. \<not> is_CaseReason x) c) (raised_at w)"
    using calm_holds [OF calm_recon(5)] compare_head_case by (rule holds_both)
  then show ?thesis by (simp add: conj_commute)
qed

lemma found_case:
  assumes "\<not> is_CaseReason c"
  shows "holds (at_place w) (case found of None \<Rightarrow> to_human_input env ''root_cause_not_recorded''
     | Some r \<Rightarrow> andthen (if c = CaseA \<or> c = CaseB then adopt_head env b h else return ())
         (andthen (check_orphaned_pr env p b) (return (resumable r c False)))) (settled w) (raised_at w)"
proof (cases found)
  case None
  then show ?thesis by (simp add: human_input_settles)
next
  case (Some r)
  have "holds (at_place w) (return (resumable r c False)) (settled w) (raised_at w)"
    by (rule holds_return) (simp add: settled_def resumable_def assms)
  then show ?thesis
    unfolding Some option.case by (intro place_andthen preserves_rules)
qed

lemma inspect_settles: "holds (at_place w) (inspect_scratch env d p) (settled w) (raised_at w)"
  unfolding inspect_scratch_def
  apply (rule place_bind, rule preserves_rules)
  apply (rule holds_if, rule human_input_settles, simp)
  apply (rule place_bind, rule preserves_rules)
  apply (rule place_bind, rule preserves_rules)
  apply (rule holds_bind [OF compare_head_place])
  apply (rule holds_fact)
  subgoal for sound head branch verdict
    apply (cases verdict)
     apply (simp only: option.case, rule human_input_settles, simp)
    apply (simp only: option.case, rule place_bind, rule preserves_rules, rule found_case, simp)
    done
  done

lemma settled_whereabouts: "settled w r s \<longleftrightarrow>
     (if rr_resumable r then rr_report r \<noteq> None \<and> \<not> is_CaseReason (rr_case r) \<and> whereabouts s = w
      else rr_report r = None \<and> rr_reason r \<in> recon_reasons \<and> whereabouts s = (NEEDS_HUMAN_INPUT, NEEDS_HUMAN_INPUT))"
  by (rule settled_def)

lemma scratch_settles:
  "holds (at_place w) (finally_do (inspect_scratch env d p) (outside (re_destroy env t))) (settled w) (raised_at w)"
  unfolding settled_whereabouts [abs_def]
  by (rule holds_finally [where v = whereabouts and F = "\<lambda>x. x = w \<or> x = (NEEDS_HUMAN_INPUT, NEEDS_HUMAN_INPUT)"])
    (use inspect_settles [of w env d p] in \<open>simp_all add: settled_whereabouts [abs_def] calm_outside split: if_splits\<close>)

lemma reconcile_settles: "holds (at_place w) (reconcile env) (settled w) (raised_at w)"
  unfolding reconcile_def Let_def
  apply (rule place_get_state, rule holds_if, rule human_input_settles, simp)
  apply (rule place_get_state, rule holds_if)
   apply (rule place_bind, rule preserves_rules)
  subgoal for task survives report
    apply (cases report)
     apply (simp only: option.case, rule human_input_settles, simp)
    apply (simp only: option.case, rule holds_return, simp add: settled_def resumable_def)
    done
  apply (rule place_andthen, rule preserves_rules, rule scratch_settles)
  done

section \<open>Whose commits are taken over\<close>


lemma git_action_returned: "git_action g s = (Inr a, s') \<Longrightarrow> g (cs_env s) = (Inr a, cs_env s')"
  by (auto simp: git_action_def outside_def split: prod.splits sum.splits)

lemma bind_returned: "bind m k s = (Inr b, s') \<Longrightarrow> \<exists>a s1. m s = (Inr a, s1) \<and> k a s1 = (Inr b, s')"
  by (auto simp: bind_def split: prod.splits sum.splits)

lemma advanced_log:
  assumes "branch_advanced_by_amop_only exec sha x = (Inr True, y)"
  shows "\<exists>log. run_git exec (''log '' @ sha @ ''..HEAD --format=%ae'') x = (Inr log, y)
    \<and> set (map py_strip (splitlines log)) - {[]} \<subseteq> set KNOWN_AMOP_IDENTITIES"
  using assms unfolding branch_advanced_by_amop_only_def git_bind_def git_return_def
  by (cases "run_git exec (''log '' @ sha @ ''..HEAD --format=%ae'') x"; cases "fst (run_git exec (''log '' @ sha @ ''..HEAD --format=%ae'') x)")
    (auto simp: list_all_iff)

lemma compare_head_adopts:
  assumes "compare_head env (PStr sha) head s = (Inr (Some c), s')" "sha \<noteq> head"
  shows "(\<exists>x. commit_exists (re_exec env) sha (cs_env s) = (Inr False, x))
       \<or> (\<exists>x y z. commit_exists (re_exec env) sha (cs_env s) = (Inr True, x)
            \<and> is_ancestor (re_exec env) sha head x = (Inr True, y)
            \<and> branch_advanced_by_amop_only (re_exec env) sha y = (Inr True, z))"
proof -
  obtain known s1 where 1: "commit_exists (re_exec env) sha (cs_env s) = (Inr known, cs_env s1)"
    and k1: "(if \<not> known then return (Some CaseB)
        else bind (git_action (is_ancestor (re_exec env) sha head)) (\<lambda>ahead.
          if \<not> ahead then return None
          else bind (git_action (branch_advanced_by_amop_only (re_exec env) sha)) (\<lambda>ours.
            return (if ours then Some CaseA else None)))) s1 = (Inr (Some c), s')"
    using assms unfolding compare_head_def
    by (auto dest!: bind_returned git_action_returned simp: py_str.simps cong del: if_weak_cong)
  show ?thesis
  proof (cases known)
    case True
    then obtain ahead s2 where 2: "is_ancestor (re_exec env) sha head (cs_env s1) = (Inr ahead, cs_env s2)"
      and k2: "(if \<not> ahead then return None
          else bind (git_action (branch_advanced_by_amop_only (re_exec env) sha)) (\<lambda>ours.
            return (if ours then Some CaseA else None))) s2 = (Inr (Some c), s')"
      using k1 by (auto dest!: bind_returned git_action_returned)
    have ahead using k2 by (cases ahead) (simp_all add: return_def)
    then obtain ours s3 where 3: "branch_advanced_by_amop_only (re_exec env) sha (cs_env s2) = (Inr ours, cs_env s3)"
      and k3: "return (if ours then Some CaseA else None) s3 = (Inr (Some c), s')"
      using k2 by (auto dest!: bind_returned git_action_returned)
    have ours using k3 by (cases ours) (simp_all add: return_def)
    with 1 2 3 True \<open>ahead\<close> show ?thesis by auto
  qed (use 1 in auto)
qed

section \<open>Properties\<close>



end
