(* ===== verification/Counterexample.thy ===== *)
theory Counterexample
  imports ChainStages FileTools
begin

text \<open>
  \<open>amop/orchestrator/counterexample.py\<close>: a reviewer's counterexample is validated into data, run
  by a fixed script in the sandbox, and compared with what the code really returned.  Parsing
  JSON and parsing an expression (\<open>json.loads\<close>, \<open>ast.parse\<close>) are parameters; so is \<open>fv\<close>, the
  number a float's text stands for (finite floats; the tolerance is computed exactly).
\<close>

section \<open>Claims\<close>

definition ident_start :: "char \<Rightarrow> bool" where
  "ident_start c \<longleftrightarrow> between CHR ''A'' CHR ''Z'' c \<or> between CHR ''a'' CHR ''z'' c \<or> c = CHR ''_''"

definition plain_ident :: "string \<Rightarrow> bool" where
  "plain_ident s \<longleftrightarrow> s \<noteq> [] \<and> ident_start (hd s)
     \<and> list_all (\<lambda>c. ident_start c \<or> between CHR ''0'' CHR ''9'' c) s"

text \<open>\<open>_IDENT_RE.match\<close>: the dollar sign of the pattern also matches before a final newline.\<close>

definition IDENT_RE :: "string \<Rightarrow> bool" where
  "IDENT_RE s \<longleftrightarrow> plain_ident s \<or> (s \<noteq> [] \<and> last s = CHR 0x0A \<and> plain_ident (butlast s))"

definition MAX_LIST_LEN :: nat where "MAX_LIST_LEN = 32"
definition MAX_CALLS :: nat where "MAX_CALLS = 4"
definition MAX_ARGS :: nat where "MAX_ARGS = 8"
definition REL_TOL :: rat where "REL_TOL = 1 / 1000000"
definition ABS_TOL :: rat where "ABS_TOL = 1 / 1000000000"

text \<open>\<open>isinstance(v, _ALLOWED_ARG_TYPES)\<close>\<close>

fun ALLOWED_ARG_TYPES :: "pyval \<Rightarrow> bool" where
  "ALLOWED_ARG_TYPES (PList _) = False"
| "ALLOWED_ARG_TYPES (PDict _) = False"
| "ALLOWED_ARG_TYPES _ = True"

definition is_allowed_arg :: "pyval \<Rightarrow> bool" where
  "is_allowed_arg value \<longleftrightarrow> ALLOWED_ARG_TYPES value \<or>
     (case value of PList items \<Rightarrow> length items \<le> MAX_LIST_LEN \<and> list_all ALLOWED_ARG_TYPES items | _ \<Rightarrow> False)"

record ce_outcome =
  co_status :: counterexample_status
  co_detail :: string
  co_observed :: "pydict option"

record claim_call =
  cl_name :: string
  cl_args :: pydict
  cl_expect :: pyval
  cl_expect_raises :: "string option"

record claim =
  cm_module :: string
  cm_function :: string
  cm_calls :: "claim_call list"
  cm_claim :: "string option"

fun type_name :: "pyval \<Rightarrow> string" where
  "type_name PNone = ''NoneType''"
| "type_name (PBool _) = ''bool''"
| "type_name (PInt _) = ''int''"
| "type_name (PFloat _) = ''float''"
| "type_name (PStr _) = ''str''"
| "type_name (PList _) = ''list''"
| "type_name (PDict _) = ''dict''"

section \<open>Relations\<close>

text \<open>
  An expression as \<open>ast.parse\<close> gives it: the node types the code asks for, and any other by its
  class name.  The \<open>Load\<close> context of a name is left out; it is always accepted.
\<close>

datatype cmp_op = Lt | LtE | Gt | GtE | Eq | NotEq | OtherOp string

datatype py_expr =
    Compare py_expr "(cmp_op \<times> py_expr) list"
  | Constant pyval
  | Name string
  | OtherNode string "py_expr list"

datatype ast_node = ExprNode py_expr | OpNode cmp_op

fun op_name :: "cmp_op \<Rightarrow> string" where
  "op_name Lt = ''Lt''" | "op_name LtE = ''LtE''" | "op_name Gt = ''Gt''" | "op_name GtE = ''GtE''"
| "op_name Eq = ''Eq''" | "op_name NotEq = ''NotEq''" | "op_name (OtherOp k) = k"

fun ALLOWED_COMPARE_OPS :: "cmp_op \<Rightarrow> bool" where
  "ALLOWED_COMPARE_OPS (OtherOp _) = False"
| "ALLOWED_COMPARE_OPS _ = True"

text \<open>\<open>ast.walk\<close>: breadth first, a comparison's children being its left side, operators, right sides.\<close>

fun child_nodes :: "ast_node \<Rightarrow> ast_node list" where
  "child_nodes (ExprNode (Compare left rest)) =
     ExprNode left # map (\<lambda>(op, _). OpNode op) rest @ map (\<lambda>(_, e). ExprNode e) rest"
| "child_nodes (ExprNode (OtherNode _ es)) = map ExprNode es"
| "child_nodes _ = []"

fun node_weight :: "ast_node \<Rightarrow> nat" where
  "node_weight (ExprNode e) = 2 * size e + 2"
| "node_weight (OpNode op) = 1"

lemma child_weight: "sum_list (map node_weight (child_nodes n)) < node_weight n"
proof (induction n rule: child_nodes.induct)
  case (1 left rest)
  have "sum_list (map (\<lambda>p. node_weight (case p of (op, _) \<Rightarrow> OpNode op)) rest)
      + sum_list (map (\<lambda>p. node_weight (case p of (_, e) \<Rightarrow> ExprNode e)) rest)
      \<le> 2 * size_list (size_prod (\<lambda>x. 0) size) rest"
    by (induction rest) auto
  then show ?case by (simp add: o_def)
next
  case (2 k es)
  have "sum_list (map (\<lambda>e. node_weight (ExprNode e)) es) \<le> 2 * size_list size es"
    by (induction es) auto
  then show ?case by (simp add: o_def)
qed auto

function ast_walk :: "ast_node list \<Rightarrow> ast_node list" where
  "ast_walk [] = []"
| "ast_walk (n # queue) = n # ast_walk (queue @ child_nodes n)"
  by pat_completeness auto
termination
  by (relation "measure (\<lambda>queue. sum_list (map node_weight queue))") (auto simp: child_weight)

definition node_defect :: "string list \<Rightarrow> ast_node \<Rightarrow> string option" where
  "node_defect names n =
     (case n of
        ExprNode (Compare _ _) \<Rightarrow> None
      | ExprNode (Constant _) \<Rightarrow> None
      | OpNode op \<Rightarrow> if ALLOWED_COMPARE_OPS op then None else Some (''claim may not contain '' @ op_name op)
      | ExprNode (Name i) \<Rightarrow>
          if i \<notin> set names
          then Some (''claim references '' @ repr_str i @ '', which is not one of the declared calls '' @
                     repr_list (sort names))
          else None
      | ExprNode (OtherNode kind _) \<Rightarrow> Some (''claim may not contain '' @ kind))"

definition first_defect :: "string list \<Rightarrow> ast_node list \<Rightarrow> string option" where
  "first_defect names nodes = (case List.map_filter (node_defect names) nodes of [] \<Rightarrow> None | d # _ \<Rightarrow> Some d)"

definition validate_relation ::
    "(string \<Rightarrow> (string, py_expr) result) \<Rightarrow> string \<Rightarrow> string list \<Rightarrow> (string, py_expr) result" where
  "validate_relation parse claim names =
     (case parse claim of
        Inl e \<Rightarrow> Inl (''claim is not a parsable expression: '' @ e)
      | Inr (Compare left rest) \<Rightarrow>
          (case find (\<lambda>(op, _). \<not> ALLOWED_COMPARE_OPS op) rest of
             Some (op, _) \<Rightarrow> Inl (''comparison operator '' @ op_name op @ '' not allowed'')
           | None \<Rightarrow>
               (case first_defect names (ast_walk [ExprNode (Compare left rest)]) of
                  Some defect \<Rightarrow> Inl defect
                | None \<Rightarrow> Inr (Compare left rest)))
      | Inr _ \<Rightarrow> Inl (''claim must be a comparison, e.g. '' @ [CHR 0x27] @ ''a > b'' @ [CHR 0x27]))"

section \<open>Parsing a claim\<close>

definition parse_call :: "string list \<Rightarrow> pyval \<Rightarrow> (string, claim_call) result" where
  "parse_call names entry =
     (case entry of
        PDict d \<Rightarrow>
          (let name_raw = dict_get d ''name'' in
           case name_raw of
             PStr name \<Rightarrow>
               if \<not> IDENT_RE name then Inl (''call name must be an identifier, got '' @ py_repr name_raw)
               else if name \<in> set names then Inl (''duplicate call name '' @ repr_str name)
               else
                 (case dict_get d ''args'' of
                    PDict args \<Rightarrow>
                      if length args > MAX_ARGS
                      then Inl (''call '' @ repr_str name @ '': args must be an object of <= '' @ nat_digits MAX_ARGS)
                      else
                        (case find (\<lambda>(key, value). \<not> IDENT_RE key \<or> \<not> is_allowed_arg value) args of
                           Some (key, value) \<Rightarrow>
                             if \<not> IDENT_RE key
                             then Inl (''call '' @ repr_str name @ '': bad argument name '' @ repr_str key)
                             else Inl (''call '' @ repr_str name @ '': argument '' @ repr_str key @
                                    '' must be a JSON scalar or a flat list of scalars, got '' @ type_name value)
                         | None \<Rightarrow>
                             (let expect = dict_get d ''expect'' in
                              if \<not> ALLOWED_ARG_TYPES expect
                              then Inl (''call '' @ repr_str name @ '': expect must be a JSON scalar'')
                              else
                                (case dict_get d ''expect_raises'' of
                                   PNone \<Rightarrow> Inr \<lparr>cl_name = name, cl_args = args, cl_expect = expect, cl_expect_raises = None\<rparr>
                                 | PStr exc \<Rightarrow>
                                     if \<not> IDENT_RE exc
                                     then Inl (''call '' @ repr_str name @
                                       '': expect_raises must be an exception type name, got '' @ repr_str exc)
                                     else if expect \<noteq> PNone
                                     then Inl (''call '' @ repr_str name @ '': a call cannot both return '' @
                                       py_repr expect @ '' and raise'')
                                     else Inr \<lparr>cl_name = name, cl_args = args, cl_expect = expect,
                                               cl_expect_raises = Some exc\<rparr>
                                 | other \<Rightarrow> Inl (''call '' @ repr_str name @
                                     '': expect_raises must be an exception type name, got '' @ py_repr other))))
                  | _ \<Rightarrow> Inl (''call '' @ repr_str name @ '': args must be an object of <= '' @ nat_digits MAX_ARGS))
           | _ \<Rightarrow> Inl (''call name must be an identifier, got '' @ py_repr name_raw))
      | _ \<Rightarrow> Inl ''each call must be an object'')"

fun parse_calls :: "string list \<Rightarrow> pyval list \<Rightarrow> (string, claim_call list) result" where
  "parse_calls names [] = Inr []"
| "parse_calls names (entry # entries) =
     bind_result (parse_call names entry) (\<lambda>c.
     bind_result (parse_calls (cl_name c # names) entries) (\<lambda>cs. Inr (c # cs)))"

definition parse_function :: "pyval \<Rightarrow> (string, string) result" where
  "parse_function function =
     (case function of
        PStr f \<Rightarrow>
          (let segments = split_on (CHR ''.'') f in
           if \<not> (1 \<le> length segments \<and> length segments \<le> 2)
           then Inl (''function must be `name` or `Class.name`, got '' @ repr_str f)
           else
             (case find (\<lambda>s. \<not> IDENT_RE s \<or> prefix ''__'' s) segments of
                Some s \<Rightarrow> if \<not> IDENT_RE s then Inl (''function segment '' @ repr_str s @ '' is not an identifier'')
                          else Inl ''function may not contain a dunder name''
              | None \<Rightarrow> Inr f))
      | other \<Rightarrow> Inl (''function must be a string, got '' @ py_repr other))"

definition parse_module :: "pyval \<Rightarrow> (string, string) result" where
  "parse_module modname =
     (case modname of
        PStr m \<Rightarrow> if \<not> IDENT_RE m then Inl (''module must be a bare Python identifier, got '' @ repr_str m)
                  else if prefix ''__'' m then Inl ''module may not be a dunder name'' else Inr m
      | other \<Rightarrow> Inl (''module must be a bare Python identifier, got '' @ py_repr other))"

definition parse_relation ::
    "(string \<Rightarrow> (string, py_expr) result) \<Rightarrow> string list \<Rightarrow> pyval \<Rightarrow> (string, string option) result" where
  "parse_relation parse names claim =
     (case claim of
        PNone \<Rightarrow> Inr None
      | PStr t \<Rightarrow> bind_result (validate_relation parse t names) (\<lambda>_. Inr (Some t))
      | _ \<Rightarrow> Inl ''claim must be a string'')"

definition asserts :: "claim_call \<Rightarrow> bool" where
  "asserts c \<longleftrightarrow> cl_expect c \<noteq> PNone \<or> cl_expect_raises c \<noteq> None"

definition parse_claim ::
    "(string \<Rightarrow> (string, pyval) result) \<Rightarrow> (string \<Rightarrow> (string, py_expr) result) \<Rightarrow> pyval \<Rightarrow> (string, claim) result" where
  "parse_claim loads parse raw =
     bind_result (case raw of PStr t \<Rightarrow> (case loads t of Inl e \<Rightarrow> Inl (''not valid JSON: '' @ e) | Inr v \<Rightarrow> Inr v)
                  | other \<Rightarrow> Inr other) (\<lambda>v.
     case v of
       PDict d \<Rightarrow>
         bind_result (parse_module (dict_get d ''module'')) (\<lambda>modname.
         bind_result (parse_function (dict_get d ''function'')) (\<lambda>function.
         case dict_get d ''calls'' of
           PList entries \<Rightarrow>
             if \<not> (1 \<le> length entries \<and> length entries \<le> MAX_CALLS)
             then Inl (''calls must be a list of 1..'' @ nat_digits MAX_CALLS @ '' entries'')
             else
               bind_result (parse_calls [] entries) (\<lambda>calls.
               bind_result (parse_relation parse (map cl_name calls) (dict_get d ''claim'')) (\<lambda>claim.
               if claim = None \<and> \<not> list_ex asserts calls
               then Inl (''a counterexample must assert something: give `expect` or '' @
                         ''`expect_raises` on at least one call, or a `claim` relation'')
               else Inr \<lparr>cm_module = modname, cm_function = function, cm_calls = calls, cm_claim = claim\<rparr>))
         | _ \<Rightarrow> Inl (''calls must be a list of 1..'' @ nat_digits MAX_CALLS @ '' entries'')))
     | _ \<Rightarrow> Inl ''claim must be a JSON object'')"

section \<open>Values\<close>

fun numeric :: "(string \<Rightarrow> rat) \<Rightarrow> pyval \<Rightarrow> rat option" where
  "numeric fv (PBool b) = Some (if b then 1 else 0)"
| "numeric fv (PInt i) = Some (of_int i)"
| "numeric fv (PFloat t) = Some (fv t)"
| "numeric fv _ = None"

text \<open>Python's \<open>==\<close> on JSON values: numbers by value, lists item by item, objects key by key.\<close>

fun py_eq :: "(string \<Rightarrow> rat) \<Rightarrow> pyval \<Rightarrow> pyval \<Rightarrow> bool" where
  "py_eq fv PNone b = (b = PNone)"
| "py_eq fv (PStr s) b = (b = PStr s)"
| "py_eq fv (PList xs) b = (case b of PList ys \<Rightarrow> list_all2 (py_eq fv) xs ys | _ \<Rightarrow> False)"
| "py_eq fv (PDict d) b = (case b of
     PDict e \<Rightarrow> length d = length e \<and>
       list_all (\<lambda>(k, v). case map_of e k of None \<Rightarrow> False | Some w \<Rightarrow> py_eq fv v w) d
   | _ \<Rightarrow> False)"
| "py_eq fv a b = (case numeric fv b of None \<Rightarrow> False | Some y \<Rightarrow> numeric fv a = Some y)"

text \<open>\<open><\<close> (\<open>strict\<close>) and \<open><=\<close>; \<open>None\<close> is a \<open>TypeError\<close>.\<close>

fun py_order :: "(string \<Rightarrow> rat) \<Rightarrow> bool \<Rightarrow> pyval \<Rightarrow> pyval \<Rightarrow> bool option"
and list_order :: "(string \<Rightarrow> rat) \<Rightarrow> bool \<Rightarrow> pyval list \<Rightarrow> pyval list \<Rightarrow> bool option" where
  "py_order fv strict a b =
     (case (numeric fv a, numeric fv b) of
        (Some x, Some y) \<Rightarrow> Some (if strict then x < y else x \<le> y)
      | _ \<Rightarrow>
          (case a of
             PStr s \<Rightarrow> (case b of PStr t \<Rightarrow> Some (if strict then s < t else s \<le> t) | _ \<Rightarrow> None)
           | PList xs \<Rightarrow> (case b of PList ys \<Rightarrow> list_order fv strict xs ys | _ \<Rightarrow> None)
           | _ \<Rightarrow> None))"
| "list_order fv strict [] [] = Some (\<not> strict)"
| "list_order fv strict [] (y # ys) = Some True"
| "list_order fv strict (x # xs) [] = Some False"
| "list_order fv strict (x # xs) (y # ys) =
     (if py_eq fv x y then list_order fv strict xs ys else py_order fv strict x y)"

declare py_order.simps [simp del]

definition compare_values :: "(string \<Rightarrow> rat) \<Rightarrow> cmp_op \<Rightarrow> pyval \<Rightarrow> pyval \<Rightarrow> bool option" where
  "compare_values fv op left right =
     (case op of
        Lt \<Rightarrow> py_order fv True left right
      | LtE \<Rightarrow> py_order fv False left right
      | Gt \<Rightarrow> py_order fv True right left
      | GtE \<Rightarrow> py_order fv False right left
      | Eq \<Rightarrow> Some (py_eq fv left right)
      | _ \<Rightarrow> Some (\<not> py_eq fv left right))"

text \<open>What evaluating a relation can raise: the error the caller catches, or another one.\<close>

datatype eval_exn = InvalidClaim string | Uncaught string

definition value_of :: "pydict \<Rightarrow> py_expr \<Rightarrow> (eval_exn, pyval) result" where
  "value_of observed node =
     (case node of
        Constant v \<Rightarrow> Inr v
      | Name i \<Rightarrow> (case map_of observed i of None \<Rightarrow> Inl (Uncaught ''KeyError'') | Some v \<Rightarrow> Inr v)
      | _ \<Rightarrow> Inl (Uncaught ''AttributeError''))"

fun compare_chain ::
    "(string \<Rightarrow> rat) \<Rightarrow> pydict \<Rightarrow> pyval \<Rightarrow> (cmp_op \<times> py_expr) list \<Rightarrow> (eval_exn, bool) result" where
  "compare_chain fv observed left [] = Inr True"
| "compare_chain fv observed left ((op, e) # rest) =
     bind_result (value_of observed e) (\<lambda>right.
     case compare_values fv op left right of
       None \<Rightarrow> Inl (Uncaught ''TypeError'')
     | Some ok \<Rightarrow> if \<not> ok then Inr False else compare_chain fv observed right rest)"

definition evaluate_relation ::
    "(string \<Rightarrow> rat) \<Rightarrow> (string \<Rightarrow> (string, py_expr) result) \<Rightarrow> string \<Rightarrow> pydict \<Rightarrow> (eval_exn, bool) result" where
  "evaluate_relation fv parse claim observed =
     (case validate_relation parse claim (map fst observed) of
        Inr (Compare left rest) \<Rightarrow>
          bind_result (value_of observed left) (\<lambda>v. compare_chain fv observed v rest)
      | Inr _ \<Rightarrow> Inl (Uncaught ''AttributeError'')
      | Inl e \<Rightarrow> Inl (InvalidClaim e))"

definition claim_matches :: "(string \<Rightarrow> rat) \<Rightarrow> pyval \<Rightarrow> pyval \<Rightarrow> bool" where
  "claim_matches fv expected actual =
     (case (expected, actual) of
        (PBool a, PBool b) \<Rightarrow> a = b
      | (PBool _, _) \<Rightarrow> False
      | (_, PBool _) \<Rightarrow> False
      | _ \<Rightarrow>
          (case (numeric fv expected, numeric fv actual) of
             (Some x, Some y) \<Rightarrow> \<bar>x - y\<bar> \<le> max ABS_TOL (REL_TOL * max \<bar>x\<bar> \<bar>y\<bar>)
           | _ \<Rightarrow> py_eq fv expected actual))"

section \<open>Checking a claim against a run\<close>

text \<open>Check 1: the first call whose claimed value or exception is not what happened.\<close>

fun check_calls ::
    "(string \<Rightarrow> rat) \<Rightarrow> string \<Rightarrow> pydict \<Rightarrow> pydict \<Rightarrow> claim_call list \<Rightarrow> string option" where
  "check_calls fv function observed raised [] = None"
| "check_calls fv function observed raised (c # cs) =
     (let shown = function @ ''(**'' @ py_repr (PDict (cl_args c)) @ '')'';
          actual = dict_get observed (cl_name c)
      in case cl_expect_raises c of
           Some exc \<Rightarrow>
             (let actually_raised = dict_get raised (cl_name c) in
              if actually_raised \<noteq> PStr exc
              then Some (''claimed '' @ shown @ '' raises '' @ exc @ '', but it '' @
                     (if truthy actually_raised then ''raised '' @ py_str actually_raised
                      else ''returned '' @ py_repr actual @ '' without raising''))
              else check_calls fv function observed raised cs)
         | None \<Rightarrow>
             (case map_of raised (cl_name c) of
                Some exc \<Rightarrow> Some (''claimed '' @ cl_name c @ ''='' @ py_repr (cl_expect c) @ '' but '' @
                              shown @ '' raised '' @ py_str exc)
              | None \<Rightarrow>
                  if cl_expect c = PNone then check_calls fv function observed raised cs
                  else if \<not> claim_matches fv (cl_expect c) actual
                  then Some (''claimed '' @ cl_name c @ ''='' @ py_repr (cl_expect c) @ '' but '' @
                         shown @ '' actually returns '' @ py_repr actual)
                  else check_calls fv function observed raised cs))"

definition check_claim ::
    "(string \<Rightarrow> rat) \<Rightarrow> (string \<Rightarrow> (string, py_expr) result) \<Rightarrow> claim \<Rightarrow> pydict \<Rightarrow> pydict
     \<Rightarrow> (string, ce_outcome) result" where
  "check_claim fv parse c observed raised =
     (let result = (\<lambda>status detail. \<lparr>co_status = status, co_detail = detail, co_observed = Some observed\<rparr>);
          seen = py_repr (PDict observed);
          verified = (\<lambda>suffix. result CE_VERIFIED (''executed against the real code: '' @ seen @ suffix))
      in case check_calls fv (cm_function c) observed raised (cm_calls c) of
           Some detail \<Rightarrow> Inr (result CE_REFUTED detail)
         | None \<Rightarrow>
             (case cm_claim c of
                None \<Rightarrow> Inr (verified [])
              | Some [] \<Rightarrow> Inr (verified [])
              | Some relation \<Rightarrow>
                  if raised \<noteq> []
                  then Inr (result CE_UNAVAILABLE (''cannot evaluate '' @ repr_str relation @ '': '' @
                         repr_list (sort (map fst raised)) @ '' raised ('' @ py_repr (PDict raised) @
                         ''), so there is no value to compare''))
                  else
                    (case evaluate_relation fv parse relation observed of
                       Inl (InvalidClaim e) \<Rightarrow> Inr (result CE_UNAVAILABLE (''claim relation invalid: '' @ e))
                     | Inl (Uncaught e) \<Rightarrow> Inl e
                     | Inr ok \<Rightarrow>
                         if \<not> ok
                         then Inr (result CE_REFUTED (''claimed '' @ repr_str relation @
                                '' but the real values are '' @ seen @ '' -- the relation does not hold''))
                         else Inr (verified ('', and '' @ repr_str relation @ '' holds'')))))"

section \<open>Running a claim\<close>

definition RUNNER :: string where
  \<open>RUNNER = join_with nl ([] # [
     ''import json, sys, importlib, traceback'',
     '''',
     ''def main():'',
     ''    with open(sys.argv[1]) as fh:'',
     ''        payload = json.load(fh)'',
     ''    sys.path.insert(0, payload["repo_root"])'',
     ''    out = {}'',
     ''    try:'',
     ''        module = importlib.import_module(payload["module"])'',
     ''        segments = payload["function"].split(".")'',
     ''        target = getattr(module, segments[0])'',
     ''        if len(segments) == 2:'',
     ''            # Class.method -- instantiate with no args, then bind.'',
     ''            if isinstance(target, type):'',
     ''                target = target()'',
     ''            target = getattr(target, segments[1])'',
     ''        func = target'',
     ''    except Exception as exc:'',
     ''        print(json.dumps({"error": f"{type(exc).__name__}: {exc}"}))'',
     ''        return'',
     ''    raised = {}'',
     ''    for call in payload["calls"]:'',
     ''        try:'',
     ''            value = func(**call["args"])'',
     ''        except Exception as exc:'',
     ''            # A raise is DATA here, not a failure: the claim may be'',
     ''            # asserting precisely that this call raises.'',
     ''            raised[call["name"]] = type(exc).__name__'',
     ''            out[call["name"]] = None'',
     ''            continue'',
     ''        try:'',
     ''            json.dumps(value)'',
     ''        except TypeError:'',
     ''            value = repr(value)'',
     ''        out[call["name"]] = value'',
     ''    print(json.dumps({"observed": out, "raised": raised}))'',
     '''',
     ''try:'',
     ''    main()'',
     ''except Exception:'',
     ''    print(json.dumps({"error": traceback.format_exc(limit=1)}))''] @ [[]])\<close>

definition unavailable :: "string \<Rightarrow> ce_outcome" where
  "unavailable detail = \<lparr>co_status = CE_UNAVAILABLE, co_detail = detail, co_observed = None\<rparr>"

text \<open>
  The last line the runner printed, as the values and the exceptions it reports.  A last line
  that is JSON but not an object with objects in it is an uncaught exception here; the code
  raises on it when it asks such a value for a key.
\<close>

definition read_report ::
    "(string \<Rightarrow> (string, pyval) result) \<Rightarrow> exec_result \<Rightarrow> (string, ce_outcome + pydict \<times> pydict) result" where
  "read_report loads r =
     (let out = py_strip (ex_stdout r) in
      if ex_exit_code r \<noteq> 0 \<or> out = []
      then Inr (Inl (unavailable (''runner failed (exit '' @ int_str (ex_exit_code r) @ ''): '' @
             take 300 (if ex_stderr r \<noteq> [] then ex_stderr r else out))))
      else
        (case loads (last (splitlines out)) of
           Inl _ \<Rightarrow> Inr (Inl (unavailable (''runner output not JSON: '' @ take 300 out)))
         | Inr (PDict parsed) \<Rightarrow>
             (case map_of parsed ''error'' of
                Some (PStr e) \<Rightarrow> Inr (Inl (unavailable (''claim did not run: '' @ take 300 e)))
              | Some _ \<Rightarrow> Inl ''TypeError''
              | None \<Rightarrow>
                  (let pick = (\<lambda>k. let v = dict_get parsed k in if truthy v then v else PDict [])
                   in case (pick ''observed'', pick ''raised'') of
                        (PDict observed, PDict raised) \<Rightarrow> Inr (Inr (observed, raised))
                      | _ \<Rightarrow> Inl ''AttributeError''))
         | Inr _ \<Rightarrow> Inl ''TypeError''))"

definition claim_payload :: "string \<Rightarrow> claim \<Rightarrow> pyval" where
  "claim_payload repo_root c = PDict
     [(''repo_root'', PStr repo_root), (''module'', PStr (cm_module c)), (''function'', PStr (cm_function c)),
      (''calls'', PList (map (\<lambda>k. PDict [(''name'', PStr (cl_name k)), (''args'', PDict (cl_args k))]) (cm_calls c)))]"

text \<open>The two files are written and the runner is run; the first exception ends it.\<close>

definition execute_claim ::
    "'x sandbox \<Rightarrow> string \<Rightarrow> string \<Rightarrow> string \<Rightarrow> 'x \<Rightarrow> (string, exec_result) result \<times> 'x" where
  "execute_claim sb payload_path runner_path payload x =
     (case sb_write sb payload_path payload x of
        (Inl e, x1) \<Rightarrow> (Inl e, x1)
      | (Inr _, x1) \<Rightarrow>
          (case sb_write sb runner_path RUNNER x1 of
             (Inl e, x2) \<Rightarrow> (Inl e, x2)
           | (Inr _, x2) \<Rightarrow>
               (case sb_exec sb (''python '' @ runner_path @ '' '' @ payload_path) x2 of
                  (Inl e, x3) \<Rightarrow> (Inl (git_exn_text e), x3)
                | (Inr r, x3) \<Rightarrow> (Inr r, x3))))"

text \<open>\<open>raw_claim in (None, "", {})\<close>\<close>

definition no_claim :: "pyval \<Rightarrow> bool" where
  "no_claim raw \<longleftrightarrow> raw \<in> {PNone, PStr [], PDict []}"

definition verify_counterexample ::
    "(string \<Rightarrow> rat) \<Rightarrow> (string \<Rightarrow> (string, pyval) result) \<Rightarrow> (string \<Rightarrow> (string, py_expr) result)
     \<Rightarrow> 'x sandbox option \<Rightarrow> string \<Rightarrow> string \<Rightarrow> pyval \<Rightarrow> 'x \<Rightarrow> (string, ce_outcome) result \<times> 'x" where
  "verify_counterexample fv loads parse sandbox token repo_root raw x =
     (if no_claim raw
      then (Inr \<lparr>co_status = CE_NONE, co_detail = ''no counterexample given'', co_observed = None\<rparr>, x)
      else
        (case parse_claim loads parse raw of
           Inl e \<Rightarrow> (Inr (unavailable (''malformed counterexample: '' @ e)), x)
         | Inr c \<Rightarrow>
             (case sandbox of
                None \<Rightarrow> (Inr (unavailable ''no sandbox available to execute the claim''), x)
              | Some sb \<Rightarrow>
                  (let payload_path = ''/tmp/amop-ce-'' @ token @ ''.json'';
                       runner_path = ''/tmp/amop-ce-'' @ token @ ''.py'';
                       (ran, x1) = execute_claim sb payload_path runner_path
                                     (json_dumps (claim_payload repo_root c)) x;
                       x2 = snd (sb_exec sb (''rm -f '' @ payload_path @ '' '' @ runner_path) x1)
                   in case ran of
                        Inl e \<Rightarrow> (Inr (unavailable (''could not execute: '' @ e)), x2)
                      | Inr r \<Rightarrow>
                          (case read_report loads r of
                             Inl e \<Rightarrow> (Inl e, x2)
                           | Inr (Inl out) \<Rightarrow> (Inr out, x2)
                           | Inr (Inr (observed, raised)) \<Rightarrow>
                               (check_claim fv parse c observed raised, x2))))))"

section \<open>Where the checks let something through\<close>

text \<open>An identifier may be followed by a newline.\<close>

lemma identifier_with_newline: "IDENT_RE (''os'' @ [CHR 0x0A])"
  by (simp add: IDENT_RE_def plain_ident_def ident_start_def between_def)

text \<open>
  A comparison inside a comparison passes the check and then raises something that is not
  caught; so does an order of values that have none.
\<close>

lemma nested_comparison_crashes:
  assumes "parse ''(a < b) == True'' = Inr (Compare (Compare (Name ''a'') [(Lt, Name ''b'')]) [(Eq, Constant (PBool True))])"
  shows "(\<exists>e. validate_relation parse ''(a < b) == True'' [''a'', ''b''] = Inr e)
    \<and> evaluate_relation fv parse ''(a < b) == True'' [(''a'', PInt 1), (''b'', PInt 2)]
        = Inl (Uncaught ''AttributeError'')"
  using assms
  by (simp add: evaluate_relation_def validate_relation_def first_defect_def node_defect_def value_of_def
      bind_result_def map_filter_simps)

lemma unordered_values_crash:
  assumes "parse ''a < b'' = Inr (Compare (Name ''a'') [(Lt, Name ''b'')])"
  shows "evaluate_relation fv parse ''a < b'' [(''a'', PInt 1), (''b'', PNone)] = Inl (Uncaught ''TypeError'')"
  using assms
  by (simp add: evaluate_relation_def validate_relation_def first_defect_def node_defect_def value_of_def
      bind_result_def map_filter_simps compare_values_def py_order.simps)

text \<open>A relation between constants is accepted, and true.\<close>

lemma constant_claim_verified:
  assumes "parse ''1 < 2'' = Inr (Compare (Constant (PInt 1)) [(Lt, Constant (PInt 2))])"
  shows "evaluate_relation fv parse ''1 < 2'' observed = Inr True"
  using assms
  by (simp add: evaluate_relation_def validate_relation_def first_defect_def node_defect_def value_of_def
      bind_result_def map_filter_simps compare_values_def py_order.simps)

section \<open>What a verdict means\<close>

definition call_true :: "(string \<Rightarrow> rat) \<Rightarrow> pydict \<Rightarrow> pydict \<Rightarrow> claim_call \<Rightarrow> bool" where
  "call_true fv observed raised c \<longleftrightarrow>
     (case cl_expect_raises c of
        Some exc \<Rightarrow> dict_get raised (cl_name c) = PStr exc
      | None \<Rightarrow> map_of raised (cl_name c) = None \<and>
          (cl_expect c = PNone \<or> claim_matches fv (cl_expect c) (dict_get observed (cl_name c))))"

definition relation_is ::
    "bool \<Rightarrow> (string \<Rightarrow> rat) \<Rightarrow> (string \<Rightarrow> (string, py_expr) result) \<Rightarrow> claim \<Rightarrow> pydict \<Rightarrow> pydict \<Rightarrow> bool" where
  "relation_is b fv parse c observed raised \<longleftrightarrow>
     (case cm_claim c of
        None \<Rightarrow> b
      | Some r \<Rightarrow> if r = [] then b else raised = [] \<and> evaluate_relation fv parse r observed = Inr b)"

lemma check_calls_None:
  "check_calls fv f observed raised cs = None \<longleftrightarrow> list_all (call_true fv observed raised) cs"
  by (induction cs) (auto simp: call_true_def Let_def split: option.split)

lemma check_claim_verdict:
  assumes "check_claim fv parse c observed raised = Inr out"
  shows "(co_status out = CE_VERIFIED) =
      (list_all (call_true fv observed raised) (cm_calls c) \<and> relation_is True fv parse c observed raised)"
    and "(co_status out = CE_REFUTED) =
      (list_ex (\<lambda>k. \<not> call_true fv observed raised k) (cm_calls c) \<or>
       list_all (call_true fv observed raised) (cm_calls c) \<and> relation_is False fv parse c observed raised)"
    and "co_status out \<noteq> CE_NONE"
proof -
  let ?T = "list_all (call_true fv observed raised) (cm_calls c)"
  have calls: "list_ex (\<lambda>k. \<not> call_true fv observed raised k) (cm_calls c) \<longleftrightarrow> \<not> ?T"
    by (simp add: list_all_iff list_ex_iff)
  have T: "?T \<longleftrightarrow> check_calls fv (cm_function c) observed raised (cm_calls c) = None"
    by (simp add: check_calls_None)
  consider (refuted) "\<not> ?T" "co_status out = CE_REFUTED"
    | (bare) "?T" "cm_claim c = None \<or> cm_claim c = Some []" "co_status out = CE_VERIFIED"
    | (raises) r where "?T" "cm_claim c = Some r" "r \<noteq> []" "raised \<noteq> []" "co_status out = CE_UNAVAILABLE"
    | (invalid) r e where "?T" "cm_claim c = Some r" "r \<noteq> []" "raised = []"
        "evaluate_relation fv parse r observed = Inl e" "co_status out = CE_UNAVAILABLE"
    | (evaluated) r b where "?T" "cm_claim c = Some r" "r \<noteq> []" "raised = []"
        "evaluate_relation fv parse r observed = Inr b" "co_status out = (if b then CE_VERIFIED else CE_REFUTED)"
  proof (cases "check_calls fv (cm_function c) observed raised (cm_calls c)")
    case (Some d)
    then show ?thesis using assms by (intro that(1)) (auto simp: T check_claim_def Let_def)
  next
    case n: None
    then have t: "?T" by (simp add: T)
    show ?thesis
    proof (cases "cm_claim c")
      case None
      then show ?thesis using n t assms by (intro that(2)) (auto simp: check_claim_def Let_def)
    next
      case r: (Some r)
      show ?thesis
      proof (cases r)
        case Nil
        then show ?thesis using n t r assms by (intro that(2)) (auto simp: check_claim_def Let_def)
      next
        case (Cons a as)
        show ?thesis
        proof (cases "raised = []")
          case False
          then show ?thesis using n t r Cons assms by (intro that(3) [of r]) (auto simp: check_claim_def Let_def)
        next
          case True
          show ?thesis
          proof (cases "evaluate_relation fv parse r observed")
            case (Inl e)
            show ?thesis
            proof (cases e)
              case (InvalidClaim d)
              then show ?thesis using n t r Cons True assms Inl
                by (intro that(4) [of r e]) (auto simp: check_claim_def Let_def)
            next
              case (Uncaught d)
              then show ?thesis using n r Cons True assms Inl by (simp add: check_claim_def Let_def)
            qed
          next
            case (Inr b)
            then show ?thesis using n t r Cons True assms
              by (intro that(5) [of r b]) (auto simp: check_claim_def Let_def)
          qed
        qed
      qed
    qed
  qed
  then show "(co_status out = CE_VERIFIED) = (?T \<and> relation_is True fv parse c observed raised)"
    and "(co_status out = CE_REFUTED) = (list_ex (\<lambda>k. \<not> call_true fv observed raised k) (cm_calls c) \<or>
       ?T \<and> relation_is False fv parse c observed raised)"
    and "co_status out \<noteq> CE_NONE"
    unfolding calls by (cases; auto simp: relation_is_def)+
qed

definition ran_to ::
    "(string \<Rightarrow> (string, pyval) result) \<Rightarrow> (string \<Rightarrow> (string, py_expr) result) \<Rightarrow> 'x sandbox option \<Rightarrow> string
     \<Rightarrow> string \<Rightarrow> pyval \<Rightarrow> 'x \<Rightarrow> claim \<Rightarrow> pydict \<Rightarrow> pydict \<Rightarrow> bool" where
  "ran_to loads parse sandbox token repo_root raw x c observed raised \<longleftrightarrow>
     \<not> no_claim raw \<and> parse_claim loads parse raw = Inr c \<and>
     (\<exists>sb r. sandbox = Some sb
        \<and> fst (execute_claim sb (''/tmp/amop-ce-'' @ token @ ''.json'') (''/tmp/amop-ce-'' @ token @ ''.py'')
                 (json_dumps (claim_payload repo_root c)) x) = Inr r
        \<and> read_report loads r = Inr (Inr (observed, raised)))"

lemma verify_cases:
  assumes "verify_counterexample fv loads parse sandbox token repo_root raw x = (Inr out, y)"
  obtains "co_status out = CE_NONE" "\<And>c o' r'. \<not> ran_to loads parse sandbox token repo_root raw x c o' r'"
    | "co_status out = CE_UNAVAILABLE" "\<And>c o' r'. \<not> ran_to loads parse sandbox token repo_root raw x c o' r'"
    | c observed raised where "ran_to loads parse sandbox token repo_root raw x c observed raised"
      "check_claim fv parse c observed raised = Inr out"
      "\<And>c2 o2 r2. ran_to loads parse sandbox token repo_root raw x c2 o2 r2 \<Longrightarrow> c2 = c \<and> o2 = observed \<and> r2 = raised"
proof -
  consider (none) "no_claim raw"
    | (bad) e where "\<not> no_claim raw" "parse_claim loads parse raw = Inl e"
    | (nosb) c where "\<not> no_claim raw" "parse_claim loads parse raw = Inr c" "sandbox = None"
    | (run) c sb where "\<not> no_claim raw" "parse_claim loads parse raw = Inr c" "sandbox = Some sb"
    by (cases "no_claim raw"; cases "parse_claim loads parse raw"; cases sandbox) blast+
  then show ?thesis
  proof cases
    case none
    then show ?thesis using assms by (intro that(1)) (auto simp: verify_counterexample_def ran_to_def)
  next
    case bad
    then show ?thesis using assms
      by (intro that(2)) (auto simp: verify_counterexample_def ran_to_def unavailable_def)
  next
    case nosb
    then show ?thesis using assms
      by (intro that(2)) (auto simp: verify_counterexample_def ran_to_def unavailable_def)
  next
    case run
    obtain ran x1 where ex: "execute_claim sb (''/tmp/amop-ce-'' @ token @ ''.json'')
        (''/tmp/amop-ce-'' @ token @ ''.py'') (json_dumps (claim_payload repo_root c)) x = (ran, x1)"
      by fastforce
    have v: "(case ran of Inl e \<Rightarrow> Inr (unavailable (''could not execute: '' @ e))
        | Inr r \<Rightarrow> (case read_report loads r of Inl e \<Rightarrow> Inl e | Inr (Inl out) \<Rightarrow> Inr out
            | Inr (Inr (observed, raised)) \<Rightarrow> check_claim fv parse c observed raised)) = Inr out"
      using assms run ex unfolding verify_counterexample_def Let_def
      by (auto split: sum.splits prod.splits)
    have no: "\<not> ran_to loads parse sandbox token repo_root raw x c' o' r'"
      if "\<And>r. ran = Inr r \<Longrightarrow> (\<exists>e. read_report loads r = Inl e) \<or> (\<exists>o'. read_report loads r = Inr (Inl o'))" for c' o' r'
      using that run ex unfolding ran_to_def by auto
    show ?thesis
    proof (cases ran)
      case (Inl e)
      then show ?thesis using v no by (intro that(2)) (auto simp: unavailable_def)
    next
      case ran: (Inr r)
      show ?thesis
      proof (cases "read_report loads r")
        case (Inl e)
        then show ?thesis using v ran by simp
      next
        case (Inr q)
        show ?thesis
        proof (cases q)
          case early: (Inl out')
          have "co_status out' = CE_UNAVAILABLE"
            using Inr early by (auto simp: read_report_def unavailable_def Let_def
                split: if_splits sum.splits pyval.splits option.splits)
          then show ?thesis using v ran Inr early no by (intro that(2)) auto
        next
          case pair: (Inr p)
          obtain observed raised where p: "p = (observed, raised)" by fastforce
          show ?thesis
            using v ran Inr pair p run ex
            by (intro that(3) [of c observed raised]) (auto simp: ran_to_def)
        qed
      qed
    qed
  qed
qed

section \<open>What passes the parser\<close>

text \<open>A scalar, or a short list of scalars.\<close>

definition flat_value :: "pyval \<Rightarrow> bool" where
  "flat_value v \<longleftrightarrow>
     (case v of
        PList items \<Rightarrow> length items \<le> 32 \<and>
          list_all (\<lambda>x. case x of PList _ \<Rightarrow> False | PDict _ \<Rightarrow> False | _ \<Rightarrow> True) items
      | PDict _ \<Rightarrow> False
      | _ \<Rightarrow> True)"

lemma allowed_scalar: "ALLOWED_ARG_TYPES v = (case v of PList _ \<Rightarrow> False | PDict _ \<Rightarrow> False | _ \<Rightarrow> True)"
  by (cases v) simp_all

lemma allowed_flat: "is_allowed_arg v = flat_value v"
  by (cases v) (simp_all add: is_allowed_arg_def flat_value_def MAX_LIST_LEN_def list_all_iff allowed_scalar)

definition safe_call :: "claim_call \<Rightarrow> bool" where
  "safe_call c \<longleftrightarrow> IDENT_RE (cl_name c) \<and> length (cl_args c) \<le> 8
     \<and> list_all (\<lambda>(k, v). IDENT_RE k \<and> flat_value v) (cl_args c) \<and> ALLOWED_ARG_TYPES (cl_expect c)
     \<and> (case cl_expect_raises c of None \<Rightarrow> True | Some e \<Rightarrow> IDENT_RE e \<and> cl_expect c = PNone)"

definition safe_claim :: "(string \<Rightarrow> (string, py_expr) result) \<Rightarrow> claim \<Rightarrow> bool" where
  "safe_claim parse c \<longleftrightarrow> IDENT_RE (cm_module c) \<and> \<not> prefix ''__'' (cm_module c)
     \<and> length (split_on (CHR ''.'') (cm_function c)) \<le> 2
     \<and> list_all (\<lambda>s. IDENT_RE s \<and> \<not> prefix ''__'' s) (split_on (CHR ''.'') (cm_function c))
     \<and> 1 \<le> length (cm_calls c) \<and> length (cm_calls c) \<le> 4
     \<and> distinct (map cl_name (cm_calls c)) \<and> list_all safe_call (cm_calls c)
     \<and> (case cm_claim c of
          None \<Rightarrow> list_ex asserts (cm_calls c)
        | Some r \<Rightarrow> (\<exists>e. validate_relation parse r (map cl_name (cm_calls c)) = Inr e))"

lemma parse_call_safe: "parse_call names entry = Inr c \<Longrightarrow> safe_call c \<and> cl_name c \<notin> set names"
  by (auto simp: parse_call_def safe_call_def Let_def find_None_iff list_all_iff allowed_flat MAX_ARGS_def
      split: pyval.splits if_splits option.splits)

lemma parse_calls_safe:
  "parse_calls names entries = Inr cs \<Longrightarrow>
     list_all safe_call cs \<and> distinct (map cl_name cs) \<and> set (map cl_name cs) \<inter> set names = {}
     \<and> length cs = length entries"
proof (induction names entries arbitrary: cs rule: parse_calls.induct)
  case (2 names entry entries)
  then obtain c ds where c: "parse_call names entry = Inr c" and ds: "parse_calls (cl_name c # names) entries = Inr ds"
    and cs: "cs = c # ds"
    by (auto dest!: bind_result_InrD)
  show ?case using "2.IH" [OF ds] parse_call_safe [OF c] cs by auto
qed simp

lemma parse_module_safe: "parse_module v = Inr m \<Longrightarrow> IDENT_RE m \<and> \<not> prefix ''__'' m"
  by (auto simp: parse_module_def split: pyval.splits if_splits)

lemma parse_function_safe:
  "parse_function v = Inr f \<Longrightarrow> length (split_on (CHR ''.'') f) \<le> 2
     \<and> list_all (\<lambda>s. IDENT_RE s \<and> \<not> prefix ''__'' s) (split_on (CHR ''.'') f)"
  by (auto simp: parse_function_def Let_def find_None_iff list_all_iff split: pyval.splits if_splits option.splits)

lemma parse_relation_safe:
  "parse_relation parse names v = Inr r \<Longrightarrow>
     (case r of None \<Rightarrow> True | Some t \<Rightarrow> (\<exists>e. validate_relation parse t names = Inr e))"
  by (auto simp: parse_relation_def dest!: bind_result_InrD split: pyval.splits)

lemma parse_claim_safe: "parse_claim loads parse raw = Inr c \<Longrightarrow> safe_claim parse c"
  unfolding parse_claim_def
  apply (drule bind_result_InrD, elim exE conjE)
  subgoal for v
    apply (cases v; simp only: pyval.case)
          apply simp_all
    subgoal for d
      apply (drule bind_result_InrD, elim exE conjE, drule bind_result_InrD, elim exE conjE)
      apply (cases "dict_get d ''calls''"; simp only: pyval.case)
            apply simp_all
      apply (simp split: if_splits)
      apply (drule bind_result_InrD, elim exE conjE, drule bind_result_InrD, elim exE conjE)
      apply (frule parse_module_safe, frule parse_function_safe, frule parse_calls_safe, frule parse_relation_safe)
      apply (auto simp: safe_claim_def MAX_CALLS_def split: if_splits option.splits)
      done
    done
  done

section \<open>Properties\<close>


text \<open>
  Only data reaches the sandbox.  A claim that passes the parser names a module, a function or
  method and arguments by identifiers that are not dunder names, makes between one and four calls
  under different names with at most eight arguments each, every argument a scalar or a short flat
  list, asserts something, and its relation, if any, is a comparison over the results.
\<close>

theorem parsed_claims_are_data:
  "case parse_claim loads parse raw of Inl e \<Rightarrow> True | Inr c \<Rightarrow> safe_claim parse c"
  using parse_claim_safe [of loads parse raw] by (simp split: sum.split)

end
