(* ===== verification/GitHubTools.thy ===== *)
theory GitHubTools
  imports FileTools ScopeGuard AuditContent
begin

text \<open>
  \<open>amop/tools/github.py\<close>, with the two functions of \<open>amop/sandbox/repo.py\<close> that run git on the host.
  The GitHub client (PyGithub) and the host's process runner are functions of the outside state
  \<open>'x\<close>.  What a tool's body can let escape is \<open>Inl\<close> of the exception's text: the tool pipeline
  turns it into a \<open>TOOL_ERROR\<close> that carries this text.
\<close>

section \<open>Git on the host\<close>

type_synonym 'x host_run = "string list \<Rightarrow> 'x \<Rightarrow> (string, exec_result) result \<times> 'x"

definition push_to_remote :: "'x host_run \<Rightarrow> string \<Rightarrow> string \<Rightarrow> ('x, unit) git" where
  "push_to_remote run remote_url branch = (\<lambda>x.
     case run [''git'', ''push'', remote_url, branch @ '':'' @ branch] x of
       (Inl e, y) \<Rightarrow> (Inl (ExecFailed e), y)
     | (Inr r, y) \<Rightarrow>
         if ex_exit_code r \<noteq> 0
         then (Inl (GitError (''git push failed (exit '' @ int_str (ex_exit_code r) @ ''): '' @
                 py_strip (ex_stderr r))), y)
         else (Inr (), y))"

text \<open>\<open>line.split()[0]\<close> of a stripped, non-empty line.\<close>

definition first_word :: "string \<Rightarrow> string" where
  "first_word line = takeWhile (\<lambda>c. \<not> py_space c) line"

definition fetch_remote_branch_sha :: "'x host_run \<Rightarrow> string \<Rightarrow> string \<Rightarrow> ('x, string option) git" where
  "fetch_remote_branch_sha run remote_url branch = (\<lambda>x.
     case run [''git'', ''ls-remote'', remote_url, branch] x of
       (Inl e, y) \<Rightarrow> (Inl (ExecFailed e), y)
     | (Inr r, y) \<Rightarrow>
         if ex_exit_code r \<noteq> 0
         then (Inl (GitError (''git ls-remote failed (exit '' @ int_str (ex_exit_code r) @ ''): '' @
                 py_strip (ex_stderr r))), y)
         else (let line = py_strip (ex_stdout r)
               in (Inr (if line = [] then None else Some (first_word line)), y)))"

section \<open>The token\<close>

definition mask_token :: "string \<Rightarrow> string" where
  "mask_token token =
     (if length token \<le> 8 then ''****'' else take 4 token @ ''****...'' @ drop (length token - 4) token)"

definition mask_token_in_text :: "string \<Rightarrow> string \<Rightarrow> string" where
  "mask_token_in_text text token = (if token \<noteq> [] then replace_all token (mask_token token) text else text)"

section \<open>The client\<close>

datatype github_exn = GithubException string | ClientError string

record pull =
  pl_html_url :: string
  pl_number :: int

record issue =
  is_number :: int
  is_title :: string
  is_body :: "string option"
  is_created_at :: "string option"
  is_html_url :: string
  is_pull_request :: bool

record 'x github =
  gh_get_repo :: "string \<Rightarrow> 'x \<Rightarrow> (github_exn, unit) result \<times> 'x"
  gh_get_pulls :: "string \<Rightarrow> string \<Rightarrow> string \<Rightarrow> 'x \<Rightarrow> (github_exn, pull list) result \<times> 'x"
  gh_create_pull :: "string \<Rightarrow> pydict \<Rightarrow> 'x \<Rightarrow> (github_exn, pull) result \<times> 'x"
  gh_get_issues :: "string \<Rightarrow> 'x \<Rightarrow> (github_exn, issue list) result \<times> 'x"
  gh_combined_status :: "string \<Rightarrow> int \<Rightarrow> 'x \<Rightarrow> (github_exn, string \<times> int) result \<times> 'x"

record 'x github_env =
  ge_sandbox :: "'x sandbox option"
  ge_repo :: string
  ge_token :: "string option"
  ge_max_loc :: nat
  ge_run :: "'x host_run"
  ge_client :: "'x github"

definition SANDBOX_OWNER :: "string \<Rightarrow> string" where
  "SANDBOX_OWNER repo = hd (split_on (CHR ''/'') repo)"

definition find_open_pr_for_branch ::
    "'x github_env \<Rightarrow> string \<Rightarrow> string \<Rightarrow> 'x \<Rightarrow> (github_exn, pydict option) result \<times> 'x" where
  "find_open_pr_for_branch env head base =
     on_success (gh_get_repo (ge_client env) (ge_repo env)) (\<lambda>_.
     on_success (gh_get_pulls (ge_client env) (ge_repo env) (SANDBOX_OWNER (ge_repo env) @ '':'' @ head) base)
       (\<lambda>existing x. (Inr (case existing of
            [] \<Rightarrow> None
          | pr # _ \<Rightarrow> Some [(''url'', PStr (pl_html_url pr)), (''number'', PInt (pl_number pr))]), x)))"

text \<open>A \<open>GithubException\<close> becomes a masked failure; another exception escapes.\<close>

definition github_result ::
    "string \<Rightarrow> (github_exn, pyval) result \<times> 'x \<Rightarrow> (string, tool_result) result \<times> 'x" where
  "github_result token p =
     (case p of
        (Inr out, y) \<Rightarrow> (Inr \<lparr>tr_success = True, tr_output = out, tr_error_code = None, tr_message = None\<rparr>, y)
      | (Inl (GithubException e), y) \<Rightarrow>
          (Inr (failure ''GITHUB_API_ERROR'' (Some (mask_token_in_text e token))), y)
      | (Inl (ClientError e), y) \<Rightarrow> (Inl e, y))"

definition token_missing :: tool_result where
  "token_missing = failure ''GITHUB_AUTH_MISSING'' (Some ''GITHUB_TOKEN is not set'')"

section \<open>Opening a pull request\<close>

text \<open>The two gates, over the diff of the sandbox's checkout.\<close>

definition diff_gate :: "nat \<Rightarrow> string \<Rightarrow> tool_result option" where
  "diff_gate max_loc diff_text =
     (let hits = scan_for_secrets diff_text in
      if hits \<noteq> []
      then Some (failure ''SECRET_DETECTED'' (Some (''diff blocked -- possible secret(s) found: '' @
             join_with ''; '' (map (\<lambda>h. sm_pattern_name h @ '': '' @ sm_reason h) hits))))
      else if over_cap diff_text max_loc
      then Some (failure ''DIFF_TOO_LARGE'' (Some (nat_digits (changed_line_count diff_text) @
             '' changed lines exceeds the '' @ nat_digits max_loc @ ''-line cap'')))
      else None)"

definition adopt_or_create ::
    "'x github_env \<Rightarrow> string \<Rightarrow> string \<Rightarrow> string \<Rightarrow> string \<Rightarrow> 'x \<Rightarrow> (github_exn, pyval) result \<times> 'x" where
  "adopt_or_create env title body head base =
     on_success (find_open_pr_for_branch env head base) (\<lambda>found.
       case found of
         Some f \<Rightarrow> (\<lambda>x. (Inr (PDict (f @ [(''created'', PBool False)])), x))
       | None \<Rightarrow>
           on_success (gh_get_repo (ge_client env) (ge_repo env)) (\<lambda>_.
           on_success (gh_create_pull (ge_client env) (ge_repo env)
               [(''base'', PStr base), (''head'', PStr head), (''title'', PStr title), (''body'', PStr body)])
             (\<lambda>pr x. (Inr (PDict [(''url'', PStr (pl_html_url pr)), (''number'', PInt (pl_number pr)),
                                    (''created'', PBool True)]), x))))"

definition open_pull_request ::
    "'x github_env \<Rightarrow> string \<Rightarrow> string \<Rightarrow> string \<Rightarrow> string \<Rightarrow> 'x \<Rightarrow> (string, tool_result) result \<times> 'x" where
  "open_pull_request env title body head base x =
     (case ge_sandbox env of
        None \<Rightarrow> (Inr no_sandbox, x)
      | Some sb \<Rightarrow>
          (case diff_against_baseline (sb_exec sb) base x of
             (Inl e, y) \<Rightarrow> (Inr (failure ''DIFF_ERROR'' (Some (git_exn_text e))), y)
           | (Inr diff_text, y) \<Rightarrow>
               (case diff_gate (ge_max_loc env) diff_text of
                  Some refusal \<Rightarrow> (Inr refusal, y)
                | None \<Rightarrow>
                    (case ge_token env of
                       None \<Rightarrow> (Inr token_missing, y)
                     | Some token \<Rightarrow>
                         if token = [] then (Inr token_missing, y)
                         else
                           (case push_to_remote (ge_run env)
                                (''https://x-access-token:'' @ token @ ''@github.com/'' @ ge_repo env @ ''.git'')
                                head y of
                              (Inl (GitError e), z) \<Rightarrow>
                                (Inr (failure ''GITHUB_PUSH_ERROR'' (Some (mask_token_in_text e token))), z)
                            | (Inl (ExecFailed e), z) \<Rightarrow> (Inl e, z)
                            | (Inr _, z) \<Rightarrow>
                                github_result token (adopt_or_create env title body head base z))))))"

section \<open>Reading from GitHub\<close>

definition with_token ::
    "'x github_env \<Rightarrow> (string \<Rightarrow> 'x \<Rightarrow> (string, tool_result) result \<times> 'x) \<Rightarrow> 'x
     \<Rightarrow> (string, tool_result) result \<times> 'x" where
  "with_token env k x =
     (case ge_token env of
        None \<Rightarrow> (Inr token_missing, x)
      | Some token \<Rightarrow> if token = [] then (Inr token_missing, x) else k token x)"

definition list_open_issues ::
    "'x github_env \<Rightarrow> string \<Rightarrow> 'x \<Rightarrow> (string, tool_result) result \<times> 'x" where
  "list_open_issues env repo = with_token env (\<lambda>token x. github_result token
     (on_success (gh_get_repo (ge_client env) repo) (\<lambda>_.
      on_success (gh_get_issues (ge_client env) repo) (\<lambda>issues y.
        (Inr (PList (map (\<lambda>i. PDict
            [(''number'', PInt (is_number i)), (''title'', PStr (is_title i)),
             (''body'', PStr (case is_body i of None \<Rightarrow> [] | Some b \<Rightarrow> b)),
             (''created_at'', opt_str (is_created_at i)), (''html_url'', PStr (is_html_url i))])
           (filter (\<lambda>i. \<not> is_pull_request i) issues))), y))) x))"

definition get_ci_status ::
    "'x github_env \<Rightarrow> int \<Rightarrow> 'x \<Rightarrow> (string, tool_result) result \<times> 'x" where
  "get_ci_status env pr_number = with_token env (\<lambda>token x. github_result token
     (on_success (gh_get_repo (ge_client env) (ge_repo env)) (\<lambda>_.
      on_success (gh_combined_status (ge_client env) (ge_repo env) pr_number) (\<lambda>(state, total_count) y.
        (Inr (PDict [(''state'', PStr state), (''total_count'', PInt total_count)]), y))) x))"

section \<open>Masking\<close>

text \<open>Only a push that git itself refused is masked; an exception of the runner escapes as it is.\<close>

lemma runner_exception_not_masked:
  assumes "ge_sandbox env = Some sb" "diff_against_baseline (sb_exec sb) base x = (Inr diff_text, y)"
    and "diff_gate (ge_max_loc env) diff_text = None" "ge_token env = Some token" "token \<noteq> []"
    and "ge_run env [''git'', ''push'', ''https://x-access-token:'' @ token @ ''@github.com/'' @ ge_repo env @ ''.git'',
           head @ '':'' @ head] y = (Inl e, z)"
  shows "open_pull_request env title body head base x = (Inl e, z)"
  using assms by (simp add: open_pull_request_def push_to_remote_def)

section \<open>Properties\<close>

text \<open>
  C25: Nothing leaves past the gates.  Whatever the client and the host's git do: if the sandbox's
  diff holds something that looks like a secret, changes more lines than the cap, or cannot be
  had, or there is no token, the call is refused and has done nothing after reading the diff; and
  a success means a diff without a hit, within the cap, that was pushed before GitHub was asked.
\<close>

theorem nothing_leaves_past_the_gates:
  "case ge_sandbox env of
     None \<Rightarrow> (\<exists>r. open_pull_request env title body head base x = (Inr r, x) \<and> tr_success r = False)
   | Some sb \<Rightarrow>
       (case diff_against_baseline (sb_exec sb) base x of
          (Inl e, y) \<Rightarrow> (\<exists>r. open_pull_request env title body head base x = (Inr r, y) \<and> tr_success r = False)
        | (Inr diff_text, y) \<Rightarrow>
            (if scan_for_secrets diff_text = [] \<and> changed_line_count diff_text \<le> ge_max_loc env
                \<and> ge_token env \<notin> {None, Some []}
             then (\<exists>r z. push_to_remote (ge_run env) (''https://x-access-token:'' @ the (ge_token env) @
                       ''@github.com/'' @ ge_repo env @ ''.git'') head y = (r, z)
                    \<and> (if r = Inr () then open_pull_request env title body head base x =
                         github_result (the (ge_token env)) (adopt_or_create env title body head base z)
                       else snd (open_pull_request env title body head base x) = z
                         \<and> (case fst (open_pull_request env title body head base x) of
                              Inr t \<Rightarrow> tr_success t = False | Inl e \<Rightarrow> True)))
             else (\<exists>r. open_pull_request env title body head base x = (Inr r, y) \<and> tr_success r = False)))"
proof (cases "ge_sandbox env")
  case None
  then show ?thesis by (simp add: open_pull_request_def no_sandbox_def failure_def)
next
  case sb: (Some sb)
  show ?thesis
  proof (cases "diff_against_baseline (sb_exec sb) base x")
    case d: (Pair q y)
    show ?thesis
    proof (cases q)
      case (Inl e)
      then show ?thesis using sb d by (simp add: open_pull_request_def failure_def)
    next
      case (Inr diff_text)
      obtain r z where p: "push_to_remote (ge_run env) (''https://x-access-token:'' @ the (ge_token env) @
          ''@github.com/'' @ ge_repo env @ ''.git'') head y = (r, z)" by fastforce
      show ?thesis
        unfolding sb option.case d prod.case Inr sum.case
        using sb d Inr p
        by (cases r; cases "ge_token env")
          (auto simp: open_pull_request_def diff_gate_def over_cap_def failure_def token_missing_def Let_def
            split: git_exn.split)
    qed
  qed
qed

end
