(* ===== verification/Watch.thy ===== *)
theory Watch
  imports Complex_Main CircuitBreakers
begin

text \<open>
  \<open>amop/orchestrator/watch.py\<close>: from an anomaly alert to a triaged task.  The database's answer to a
  query is the list of rows in the order it gives them; the embedding model, the memory search and
  \<open>run_fix\<close> are functions of an outside state \<open>'x\<close>.  Similarity is computed over the reals.
\<close>

section \<open>Alerts and the environment\<close>

record anomaly_alert =
  al_source :: string
  al_severity :: string
  al_summary :: string
  al_confidence :: string
  al_repo :: string
  al_issue :: int

datatype watch_exn = MoveFailed task_error | LengthsDiffer | OtherFailed string

record 'x watch_env =
  we_hash :: "string \<Rightarrow> string"
  we_interference :: interference
  we_polls :: nat
  we_now :: "world \<Rightarrow> utc_datetime"
  we_hour_ago :: "world \<Rightarrow> utc_datetime"
  we_new_id :: "world \<Rightarrow> string"
  we_rows :: "store \<Rightarrow> task_row list"
  we_round :: flround
  we_float :: "string \<Rightarrow> rat"
  we_estimate :: rat
  we_estimate_text :: string
  we_cost_cap :: rat
  we_hourly_cap :: nat
  we_streak :: nat
  we_floor :: string
  we_embed :: "string list \<Rightarrow> 'x \<Rightarrow> (string, real list list) result \<times> 'x"
  we_search_memory :: "string \<Rightarrow> string \<Rightarrow> 'x \<Rightarrow> (string, unit) result \<times> 'x"
  we_run_fix :: "task_row \<Rightarrow> string \<Rightarrow> string \<Rightarrow> world \<times> 'x \<Rightarrow> (string, task_row) result \<times> world \<times> 'x"

definition DEDUP_SIMILARITY_THRESHOLD :: real where "DEDUP_SIMILARITY_THRESHOLD = 92 / 100"

definition SEVERITY_ORDER :: "string \<rightharpoonup> nat" where
  "SEVERITY_ORDER = [''low'' \<mapsto> 0, ''medium'' \<mapsto> 1, ''high'' \<mapsto> 2, ''critical'' \<mapsto> 3]"

definition DEFAULT_SEVERITY_FLOOR :: string where "DEFAULT_SEVERITY_FLOOR = ''medium''"

section \<open>Duplicates\<close>

definition non_terminal :: "task_row \<Rightarrow> bool" where
  "non_terminal r \<longleftrightarrow> tk_state r \<notin> TERMINAL_STATES"

text \<open>\<open>None\<close>: \<open>zip(strict=True)\<close> on vectors of different lengths.\<close>

definition cosine_similarity :: "real list \<Rightarrow> real list \<Rightarrow> real option" where
  "cosine_similarity a b =
     (if length a \<noteq> length b then None
      else let dot = sum_list (map2 (*) a b);
               norm_a = sqrt (sum_list (map (\<lambda>x. x * x) a));
               norm_b = sqrt (sum_list (map (\<lambda>x. x * x) b))
           in Some (if norm_a = 0 \<or> norm_b = 0 then 0 else dot / (norm_a * norm_b)))"

definition find_existing_task_for_issue :: "task_row list \<Rightarrow> string \<Rightarrow> int \<Rightarrow> task_row option" where
  "find_existing_task_for_issue rows repo issue_number =
     find (\<lambda>r. context_text ''repo'' r = Some repo
        \<and> context_text ''github_issue_number'' r = Some (int_str issue_number) \<and> non_terminal r) rows"

fun first_similar ::
    "real list \<Rightarrow> (task_row \<times> real list) list \<Rightarrow> (watch_exn, task_row option) result" where
  "first_similar v [] = Inr None"
| "first_similar v ((task, vec) # rest) =
     (case cosine_similarity v vec of
        None \<Rightarrow> Inl LengthsDiffer
      | Some c \<Rightarrow> if c \<ge> DEDUP_SIMILARITY_THRESHOLD then Inr (Some task) else first_similar v rest)"

definition task_prompt :: "task_row \<Rightarrow> string" where
  "task_prompt r = (case tk_task_context r of None \<Rightarrow> []
     | Some d \<Rightarrow> (case map_of d ''prompt'' of Some (PStr p) \<Rightarrow> p | _ \<Rightarrow> []))"

definition find_similar_open_task ::
    "'x watch_env \<Rightarrow> task_row list \<Rightarrow> string \<Rightarrow> string \<Rightarrow> 'x \<Rightarrow> (watch_exn, task_row option) result \<times> 'x" where
  "find_similar_open_task env rows summary exclude_task_id x =
     (let open_tasks = filter (\<lambda>r. tk_task_type r = ''bug_fix'' \<and> non_terminal r \<and> tk_id r \<noteq> exclude_task_id) rows
      in if open_tasks = [] then (Inr None, x)
         else
           (case we_embed env (summary # map task_prompt open_tasks) x of
              (Inl e, y) \<Rightarrow> (Inl (OtherFailed e), y)
            | (Inr [], y) \<Rightarrow> (Inl (OtherFailed ''IndexError''), y)
            | (Inr (summary_vec # existing_vecs), y) \<Rightarrow>
                ((if length existing_vecs = length open_tasks
                  then first_similar summary_vec (zip open_tasks existing_vecs)
                  else (case first_similar summary_vec (zip open_tasks existing_vecs) of
                          Inr None \<Rightarrow> Inl LengthsDiffer | other \<Rightarrow> other)), y)))"

text \<open>Advisory: whatever the search of past incidents gives or raises, triage goes on.\<close>

definition find_prior_resolved_incident :: "'x watch_env \<Rightarrow> string \<Rightarrow> string option \<Rightarrow> 'x \<Rightarrow> 'x" where
  "find_prior_resolved_incident env summary local_path x =
     (case local_path of None \<Rightarrow> x | Some p \<Rightarrow> snd (we_search_memory env summary p x))"

section \<open>Triage\<close>

definition alert_context :: "'x watch_env \<Rightarrow> anomaly_alert \<Rightarrow> pydict" where
  "alert_context env alert =
     [(''prompt'', PStr (al_summary alert)), (''repo'', PStr (al_repo alert)),
      (''source'', PStr (al_source alert @ ''_watcher'')), (''github_issue_number'', PInt (al_issue alert)),
      (''severity'', PStr (al_severity alert)), (''confidence'', PFloat (al_confidence alert)),
      (''cost_estimate_usd'', PFloat (we_estimate_text env))]"

definition move ::
    "'x watch_env \<Rightarrow> task_row \<Rightarrow> task_state \<Rightarrow> string \<Rightarrow> string option \<Rightarrow> world
     \<Rightarrow> (watch_exn, task_row) result \<times> world" where
  "move env task to_state actor trigger w =
     (case transition (we_hash env) (we_interference env) (we_polls env) (we_now env w) task to_state trigger
             actor w of
        (Inl e, w') \<Rightarrow> (Inl (MoveFailed e), w')
      | (Inr t, w') \<Rightarrow> (Inr t, w'))"

definition below_floor :: "'x watch_env \<Rightarrow> anomaly_alert \<Rightarrow> bool" where
  "below_floor env alert \<longleftrightarrow>
     (case SEVERITY_ORDER (al_severity alert) of None \<Rightarrow> 0 | Some n \<Rightarrow> n)
       < (case SEVERITY_ORDER (we_floor env) of None \<Rightarrow> 1 | Some n \<Rightarrow> n)"

text \<open>The last stop of the flow ends with the task moved to a state of its own.\<close>

definition stop_at ::
    "'x watch_env \<Rightarrow> task_row \<Rightarrow> task_state \<Rightarrow> string option \<Rightarrow> world \<times> 'x
     \<Rightarrow> (watch_exn, task_row option) result \<times> world \<times> 'x" where
  "stop_at env task to_state trigger st =
     (case move env task to_state ''system'' trigger (fst st) of
        (Inl e, w) \<Rightarrow> (Inl e, w, snd st)
      | (Inr t, w) \<Rightarrow> (Inr (Some t), w, snd st))"

definition triage_new ::
    "'x watch_env \<Rightarrow> anomaly_alert \<Rightarrow> string option \<Rightarrow> task_row \<Rightarrow> world \<times> 'x
     \<Rightarrow> (watch_exn, task_row option) result \<times> world \<times> 'x" where
  "triage_new env alert local_path task st =
     (let (w, x) = st; rows = we_rows env (w_store w) in
      case find_similar_open_task env rows (al_summary alert) (tk_id task) x of
        (Inl e, y) \<Rightarrow> (Inl e, w, y)
      | (Inr (Some dup), y) \<Rightarrow>
          stop_at env task MERGED_INTO_EXISTING
            (Some (''dedup match against open task '' @ tk_id dup @ '' (similarity >= 0.92)'')) (w, y)
      | (Inr None, y) \<Rightarrow>
          (let z = find_prior_resolved_incident env (al_summary alert) local_path y;
               streak_check = check_failure_streak rows (al_repo alert) (Some (al_issue alert))
                                (we_streak env) (Some (tk_id task))
           in if \<not> br_allow streak_check
              then stop_at env task NEEDS_HUMAN_INPUT (br_reason streak_check) (w, z)
              else if below_floor env alert
              then stop_at env task CANCELLED
                     (Some (''severity '' @ repr_str (al_severity alert) @ '' below configured floor '' @
                            repr_str (we_floor env))) (w, z)
              else
                (case local_path of
                   None \<Rightarrow> (Inr (Some task), w, z)
                 | Some p \<Rightarrow>
                     (case we_run_fix env task (al_summary alert) p (w, z) of
                        (Inl e, st') \<Rightarrow> (Inl (OtherFailed e), st')
                      | (Inr t, st') \<Rightarrow> (Inr (Some t), st')))))"

definition triage_anomaly ::
    "'x watch_env \<Rightarrow> anomaly_alert \<Rightarrow> string option \<Rightarrow> world \<times> 'x
     \<Rightarrow> (watch_exn, task_row option) result \<times> world \<times> 'x" where
  "triage_anomaly env alert local_path st =
     (let (w, x) = st; rows = we_rows env (w_store w) in
      if \<not> br_allow (check_cost_breaker (we_round env) (we_float env) rows (we_now env w) (we_estimate env)
                        (we_cost_cap env))
      then (Inr None, st)
      else if \<not> br_allow (check_tasks_per_hour rows (we_hour_ago env w) (we_hourly_cap env))
      then (Inr None, st)
      else
        (let (task, s) = create_task (we_new_id env w) (we_now env w) ''bug_fix''
                           (Some (alert_context env alert)) (Some (al_severity alert)) (w_store w)
         in case move env task TRIAGING ''agent:watcher'' (Some ''AnomalyAlert accepted for triage'')
                   (w\<lparr>w_store := s\<rparr>) of
              (Inl e, w') \<Rightarrow> (Inl e, w', x)
            | (Inr triaged, w') \<Rightarrow> triage_new env alert local_path triaged (w', x)))"

section \<open>Lemmas\<close>

lemma move_reaches: "move env task to_state actor trigger w = (Inr t, w') \<Longrightarrow> tk_state t = to_state"
  by (auto simp: move_def elim!: transition_cases commit_cases split: prod.splits sum.splits)

lemma stop_at_state: "stop_at env task to_state trigger st = (Inr (Some t), st') \<Longrightarrow> tk_state t = to_state"
  by (auto simp: stop_at_def dest: move_reaches split: prod.splits sum.splits)

lemma stop_at_not_None: "stop_at env task to_state trigger st \<noteq> (Inr None, st')"
  by (auto simp: stop_at_def split: prod.splits sum.splits)

text \<open>Similar tasks are looked for in every repository.\<close>

lemma duplicate_in_another_repo:
  assumes "tk_task_type other = ''bug_fix''" "tk_state other = CODING" "tk_id other \<noteq> tid"
    and "context_text ''repo'' other = Some ''elsewhere''" "task_prompt other = summary"
    and "we_embed env [summary, summary] x = (Inr [[1], [1]], y)"
  shows "find_similar_open_task env [other] summary tid x = (Inr (Some other), y)"
  using assms
  by (simp add: find_similar_open_task_def non_terminal_def TERMINAL_STATES_def cosine_similarity_def
      DEDUP_SIMILARITY_THRESHOLD_def Let_def)

text \<open>The anomaly-rate breaker counts none of the tasks that come from logs.\<close>

lemma log_alerts_not_counted:
  assumes "al_source alert = ''logs''" "tk_task_context row = Some (alert_context env alert)"
  shows "\<not> watcher_row repo row"
  using assms by (simp add: watcher_row_def context_text_def alert_context_def dict_get_def)

lemma triage_new_outcomes:
  assumes "tk_state task = TRIAGING"
  shows "case triage_new env alert local_path task (w, x) of
     (Inl e, st) \<Rightarrow> True
   | (Inr None, st) \<Rightarrow> False
   | (Inr (Some t), st) \<Rightarrow>
       tk_state t \<in> {MERGED_INTO_EXISTING, NEEDS_HUMAN_INPUT, CANCELLED, TRIAGING} \<or>
       (\<exists>p y. local_path = Some p \<and> \<not> below_floor env alert
          \<and> br_allow (check_failure_streak (we_rows env (w_store w)) (al_repo alert) (Some (al_issue alert))
               (we_streak env) (Some (tk_id task)))
          \<and> we_run_fix env task (al_summary alert) p (w, y) = (Inr t, st))"
proof -
  have stop: "case stop_at env task to_state trigger st' of
     (Inl e, st) \<Rightarrow> True | (Inr None, st) \<Rightarrow> False | (Inr (Some t), st) \<Rightarrow> tk_state t = to_state"
    for to_state trigger st'
    using stop_at_state [of env task to_state trigger st'] stop_at_not_None [of env task to_state trigger st']
    by (auto split: prod.split sum.split option.split)
  obtain q y where f: "find_similar_open_task env (we_rows env (w_store w)) (al_summary alert) (tk_id task) x = (q, y)"
    by fastforce
  let ?z = "find_prior_resolved_incident env (al_summary alert) local_path y"
  let ?streak = "check_failure_streak (we_rows env (w_store w)) (al_repo alert) (Some (al_issue alert))
               (we_streak env) (Some (tk_id task))"
  consider (bad) e where "q = Inl e" | (dup) d where "q = Inr (Some d)"
    | (streak) "q = Inr None" "\<not> br_allow ?streak"
    | (low) "q = Inr None" "br_allow ?streak" "below_floor env alert"
    | (novel) "q = Inr None" "br_allow ?streak" "\<not> below_floor env alert"
    by (cases q; cases "projr q") auto
  then show ?thesis
  proof cases
    case bad
    then show ?thesis using f by (simp add: triage_new_def)
  next
    case (dup d)
    then show ?thesis using f
        stop [of MERGED_INTO_EXISTING "Some (''dedup match against open task '' @ tk_id d @ '' (similarity >= 0.92)'')" "(w, y)"]
      by (simp add: triage_new_def split: prod.splits sum.splits option.splits)
  next
    case streak
    then show ?thesis using f stop [of NEEDS_HUMAN_INPUT "br_reason ?streak" "(w, ?z)"]
      by (simp add: triage_new_def Let_def split: prod.splits sum.splits option.splits)
  next
    case low
    then show ?thesis using f stop [of CANCELLED "Some (''severity '' @ repr_str (al_severity alert) @
        '' below configured floor '' @ repr_str (we_floor env))" "(w, ?z)"]
      by (simp add: triage_new_def Let_def split: prod.splits sum.splits option.splits)
  next
    case novel
    then show ?thesis using f assms
      by (auto simp: triage_new_def Let_def split: prod.split sum.split option.split)
  qed
qed

section \<open>Properties\<close>

text \<open>
  Where triage leaves an alert.  When it returns, either no task exists that was not there and
  a breaker was closed, or the task was merged into another, parked after a streak of failures,
  cancelled below the severity floor or left in \<open>TRIAGING\<close>; or every gate was passed, a clone is
  configured, and the answer is that of the fix run, started on a task in \<open>TRIAGING\<close>.
\<close>

theorem triage_outcomes:
  "case triage_anomaly env alert local_path (w, x) of
     (Inl e, st) \<Rightarrow> True
   | (Inr None, st) \<Rightarrow> st = (w, x) \<and>
       (br_allow (check_cost_breaker (we_round env) (we_float env) (we_rows env (w_store w)) (we_now env w)
          (we_estimate env) (we_cost_cap env))
        \<and> br_allow (check_tasks_per_hour (we_rows env (w_store w)) (we_hour_ago env w) (we_hourly_cap env))) = False
   | (Inr (Some t), st) \<Rightarrow>
       tk_state t \<in> {MERGED_INTO_EXISTING, NEEDS_HUMAN_INPUT, CANCELLED, TRIAGING} \<or>
       (\<exists>task p w1 y. local_path = Some p \<and> tk_state task = TRIAGING \<and> below_floor env alert = False
          \<and> br_allow (check_failure_streak (we_rows env (w_store w1)) (al_repo alert) (Some (al_issue alert))
               (we_streak env) (Some (tk_id task)))
          \<and> we_run_fix env task (al_summary alert) p (w1, y) = (Inr t, st))"
proof -
  let ?open = "br_allow (check_cost_breaker (we_round env) (we_float env) (we_rows env (w_store w)) (we_now env w)
          (we_estimate env) (we_cost_cap env))
        \<and> br_allow (check_tasks_per_hour (we_rows env (w_store w)) (we_hour_ago env w) (we_hourly_cap env))"
  show ?thesis
  proof (cases ?open)
    case False
    then have "triage_anomaly env alert local_path (w, x) = (Inr None, (w, x))"
      unfolding triage_anomaly_def Let_def by (simp split: if_splits)
    then show ?thesis using False by simp
  next
    case True
    obtain task s where c: "create_task (we_new_id env w) (we_now env w) ''bug_fix''
        (Some (alert_context env alert)) (Some (al_severity alert)) (w_store w) = (task, s)" by fastforce
    obtain r w1 where m: "move env task TRIAGING ''agent:watcher'' (Some ''AnomalyAlert accepted for triage'')
        (w\<lparr>w_store := s\<rparr>) = (r, w1)" by fastforce
    have t: "triage_anomaly env alert local_path (w, x) =
        (case r of Inl e \<Rightarrow> (Inl e, w1, x) | Inr triaged \<Rightarrow> triage_new env alert local_path triaged (w1, x))"
      using True c m by (simp add: triage_anomaly_def Let_def split: sum.split)
    show ?thesis
    proof (cases r)
      case (Inl e)
      then show ?thesis by (simp add: t)
    next
      case (Inr triaged)
      then have T: "tk_state triaged = TRIAGING" using m move_reaches by blast
      obtain q st where q: "triage_new env alert local_path triaged (w1, x) = (q, st)" by (metis prod.exhaust)
      note out = triage_new_outcomes [OF T, where env = env and alert = alert and local_path = local_path
          and w = w1 and x = x, unfolded q prod.case]
      show ?thesis
      proof (cases q)
        case Inl
        then show ?thesis by (simp add: t Inr q)
      next
        case (Inr u)
        then obtain tk where u: "q = Inr (Some tk)" using out by (cases u) auto
        have "tk_state tk \<in> {MERGED_INTO_EXISTING, NEEDS_HUMAN_INPUT, CANCELLED, TRIAGING} \<or>
            (\<exists>p y. local_path = Some p \<and> \<not> below_floor env alert
               \<and> br_allow (check_failure_streak (we_rows env (w_store w1)) (al_repo alert) (Some (al_issue alert))
                    (we_streak env) (Some (tk_id triaged)))
               \<and> we_run_fix env triaged (al_summary alert) p (w1, y) = (Inr tk, st))"
          using out unfolding u by simp
        then show ?thesis
          unfolding t \<open>r = Inr triaged\<close> sum.case q prod.case u option.case using T by blast
      qed
    qed
  qed
qed

end
