(* ===== verification/Measure.thy ===== *)
theory Measure
  imports FileTools
begin

text \<open>
  The read-only tools at the end of \<open>amop/sandbox/tools.py\<close>: \<open>get_diff\<close>, \<open>run_benchmark\<close> and
  \<open>profile_code\<close>.  A measurement is the JSON text behind a marker on a line of the program's
  output; \<open>loads\<close> is \<open>json.loads\<close>, \<open>None\<close> standing for a \<open>JSONDecodeError\<close>.
\<close>

section \<open>The diff\<close>

definition get_diff_tool :: "'x file_env \<Rightarrow> 'x \<Rightarrow> tool_result \<times> 'x" where
  "get_diff_tool env x =
     (case fe_sandbox env of
        None \<Rightarrow> (no_sandbox, x)
      | Some sb \<Rightarrow>
          (case diff_against_baseline (sb_exec sb) GIT_BASE_BRANCH x of
             (Inl e, y) \<Rightarrow> (failure ''DIFF_ERROR'' (Some (git_exn_text e)), y)
           | (Inr diff, y) \<Rightarrow> (succeed diff, y)))"

section \<open>The scripts\<close>

definition MAX_BENCHMARK_ITERATIONS :: int where "MAX_BENCHMARK_ITERATIONS = 25"
definition BENCHMARK_TIMEOUT_SECONDS :: string where "BENCHMARK_TIMEOUT_SECONDS = ''120.0''"

definition script_lines :: "string list \<Rightarrow> string" where
  "script_lines lines = concat (map (\<lambda>l. l @ [CHR 0x0A]) lines)"

definition benchmark_script :: "string \<Rightarrow> int \<Rightarrow> string" where
  "benchmark_script cpath iterations = script_lines
     [''python - <<'' @ [CHR 0x27] @ ''AMOP_BENCH'' @ [CHR 0x27],
      ''import json, runpy, statistics, sys, time'',
      ''times = []'',
      ''for _ in range('' @ int_str iterations @ ''):'',
      ''    start = time.perf_counter()'',
      ''    runpy.run_path('' @ repr_str cpath @ '', run_name='' @ [CHR 0x27] @ ''__main__'' @ [CHR 0x27] @ '')'',
      ''    times.append((time.perf_counter() - start) * 1000.0)'',
      ''print('' @ [CHR 0x27] @ ''AMOP_BENCH_JSON'' @ [CHR 0x27] @ '' + json.dumps({'',
      ''    '' @ [CHR 0x27] @ ''median_ms'' @ [CHR 0x27] @ '': statistics.median(times),'',
      ''    '' @ [CHR 0x27] @ ''min_ms'' @ [CHR 0x27] @ '': min(times),'',
      ''    '' @ [CHR 0x27] @ ''max_ms'' @ [CHR 0x27] @ '': max(times),'',
      ''    '' @ [CHR 0x27] @ ''iterations'' @ [CHR 0x27] @ '': len(times),'',
      ''}))'',
      ''AMOP_BENCH'']"

section \<open>Reading a measurement\<close>

text \<open>The last line that starts with the marker; \<open>PNone\<close> is Python's \<open>None\<close>.\<close>

definition extract_marked_json :: "(string \<Rightarrow> pyval option) \<Rightarrow> string \<Rightarrow> string \<Rightarrow> pyval" where
  "extract_marked_json loads stdout marker =
     (case find (\<lambda>line. starts_with line marker) (rev (splitlines stdout)) of
        None \<Rightarrow> PNone
      | Some line \<Rightarrow> (case loads (drop (length marker) line) of None \<Rightarrow> PNone | Some v \<Rightarrow> v))"

text \<open>What both tools do with their command: run it and look for the marked line.\<close>

definition measure ::
    "(string \<Rightarrow> pyval option) \<Rightarrow> 'x sandbox \<Rightarrow> string \<Rightarrow> string \<Rightarrow> string \<Rightarrow> string \<Rightarrow> string
     \<Rightarrow> 'x \<Rightarrow> tool_result \<times> 'x" where
  "measure loads sb command marker what failed_code nothing x =
     (case sb_exec sb command x of
        (Inl e, y) \<Rightarrow> (failure ''RUN_ERROR'' (Some (git_exn_text e)), y)
      | (Inr r, y) \<Rightarrow>
          if ex_timed_out r
          then (failure ''TIMEOUT'' (Some (what @ '' exceeded '' @ BENCHMARK_TIMEOUT_SECONDS @ ''s'')), y)
          else
            (let payload = extract_marked_json loads (ex_stdout r) marker;
                 said = last_chars 2000 (ex_stdout r @ ex_stderr r)
             in if payload = PNone
                then (failure failed_code (Some (if said \<noteq> [] then said else nothing)), y)
                else (\<lparr>tr_success = True, tr_output = payload, tr_error_code = None, tr_message = None\<rparr>, y)))"

definition run_benchmark ::
    "'x file_env \<Rightarrow> (string \<Rightarrow> pyval option) \<Rightarrow> string \<Rightarrow> int \<Rightarrow> 'x
     \<Rightarrow> (tool_exn, tool_result) result \<times> 'x" where
  "run_benchmark env loads path iterations x =
     (case open_target env path of
        Inl e \<Rightarrow> (Inl e, x)
      | Inr (Inl refusal) \<Rightarrow> (Inr refusal, x)
      | Inr (Inr (sb, cpath)) \<Rightarrow>
          (let n = max 1 (min iterations MAX_BENCHMARK_ITERATIONS);
               (r, y) = measure loads sb (''cd /workspace && '' @ benchmark_script cpath n) ''AMOP_BENCH_JSON''
                          ''benchmark'' ''BENCHMARK_FAILED'' ''benchmark produced no measurement'' x
           in (Inr r, y)))"

definition profile_script :: "string \<Rightarrow> int \<Rightarrow> string" where
  "profile_script cpath top_n =
     (let q = (\<lambda>s. [CHR 0x27] @ s @ [CHR 0x27]) in script_lines
     [''python - <<'' @ q ''AMOP_PROF'',
      ''import cProfile, pstats, io, json, runpy'',
      ''profiler = cProfile.Profile()'',
      ''profiler.enable()'',
      ''runpy.run_path('' @ repr_str cpath @ '', run_name='' @ q ''__main__'' @ '')'',
      ''profiler.disable()'',
      ''buf = io.StringIO()'',
      ''stats = pstats.Stats(profiler, stream=buf).sort_stats('' @ q ''cumulative'' @ '')'',
      ''rows = []'',
      ''for func, (cc, nc, tt, ct, callers) in stats.stats.items():'',
      ''    filename = func[0]'',
      ''    if filename.startswith('' @ q ''<frozen'' @ '') or filename in ('' @ q ''~'' @ '', '' @ q ''<string>'' @ ''):'',
      ''        continue'',
      ''    rows.append({'' @ q ''function'' @ '': f'' @ q ''{func[0]}:{func[1]}({func[2]})'' @ '','',
      ''                 '' @ q ''calls'' @ '': nc, '' @ q ''tottime_s'' @ '': round(tt, 6),'',
      ''                 '' @ q ''cumtime_s'' @ '': round(ct, 6)})'',
      ''by_cum = sorted(rows, key=lambda r: r['' @ q ''cumtime_s'' @ ''], reverse=True)'',
      ''by_self = sorted(rows, key=lambda r: r['' @ q ''tottime_s'' @ ''], reverse=True)'',
      ''print('' @ q ''AMOP_PROF_JSON'' @ '' + json.dumps({'' @ q ''top'' @ '': by_cum[:'' @ int_str top_n @ ''],'',
      ''                                      '' @ q ''top_by_self_time'' @ '': by_self[:'' @ int_str top_n @ '']}))'',
      ''AMOP_PROF''])"

definition profile_code ::
    "'x file_env \<Rightarrow> (string \<Rightarrow> pyval option) \<Rightarrow> string \<Rightarrow> int \<Rightarrow> 'x
     \<Rightarrow> (tool_exn, tool_result) result \<times> 'x" where
  "profile_code env loads path top_n x =
     (case open_target env path of
        Inl e \<Rightarrow> (Inl e, x)
      | Inr (Inl refusal) \<Rightarrow> (Inr refusal, x)
      | Inr (Inr (sb, cpath)) \<Rightarrow>
          (let n = max 1 (min top_n 50);
               (r, y) = measure loads sb (''cd /workspace && '' @ profile_script cpath n) ''AMOP_PROF_JSON''
                          ''profile'' ''PROFILE_FAILED'' ''profile produced no output'' x
           in (Inr r, y)))"

section \<open>Lemmas\<close>

lemma find_last:
  "find P (rev xs) = Some y \<Longrightarrow> \<exists>before rest. xs = before @ y # rest \<and> P y \<and> list_all (\<lambda>z. \<not> P z) rest"
proof (induction xs rule: rev_induct)
  case (snoc x xs)
  show ?case
  proof (cases "P x")
    case True
    then show ?thesis using snoc.prems by (intro exI [of _ xs] exI [of _ "[]"]) simp
  next
    case False
    then obtain before rest where "xs = before @ y # rest" "P y" "list_all (\<lambda>z. \<not> P z) rest"
      using snoc by auto
    then show ?thesis using False by (intro exI [of _ before] exI [of _ "rest @ [x]"]) simp
  qed
qed simp

text \<open>A successful measurement is what the last marked line of the output says.\<close>

lemma measure_success:
  assumes "measure loads sb command marker what code nothing x = (r, y)" "tr_success r"
  obtains e line rest before where "sb_exec sb command x = (Inr e, y)" "ex_timed_out e = False"
    "splitlines (ex_stdout e) = before @ line # rest" "starts_with line marker"
    "list_all (\<lambda>l. \<not> starts_with l marker) rest" "loads (drop (length marker) line) = Some (tr_output r)"
proof -
  obtain e where e: "sb_exec sb command x = (Inr e, y)" "\<not> ex_timed_out e"
      "extract_marked_json loads (ex_stdout e) marker \<noteq> PNone"
      "tr_output r = extract_marked_json loads (ex_stdout e) marker"
    using assms by (auto simp: measure_def failure_def Let_def split: prod.splits sum.splits if_splits)
  then obtain line where l: "find (\<lambda>line. starts_with line marker) (rev (splitlines (ex_stdout e))) = Some line"
      "loads (drop (length marker) line) = Some (tr_output r)"
    by (auto simp: extract_marked_json_def split: option.splits)
  then show thesis using find_last [OF l(1)] that e(1,2) by (metis (no_types, lifting))
qed

text \<open>
  The marked line need not be the script's: the measured program can write one and exit before
  the script prints its own.
\<close>

lemma target_writes_measurement:
  assumes "sb_exec sb command x = (Inr \<lparr>ex_exit_code = 0, ex_stdout = forged, ex_stderr = [], ex_timed_out = False\<rparr>, y)"
    and "splitlines forged = [marker @ text]" "loads text = Some v" "v \<noteq> PNone"
  shows "measure loads sb command marker what code nothing x =
    (\<lparr>tr_success = True, tr_output = v, tr_error_code = None, tr_message = None\<rparr>, y)"
  using assms by (simp add: measure_def extract_marked_json_def Let_def)

end
