(* ===== verification/Maintenance.thy ===== *)
theory Maintenance
  imports ChainStages GitRepo
begin

text \<open>
  \<open>amop/orchestrator/deps.py\<close> and \<open>amop/orchestrator/optimize.py\<close>: one agent run in a fresh
  sandbox, a verdict that is measured and not reported, and the task's walk over the lifecycle of
  a bug fix.  The agent, the tools, the copy of the repository and the container are functions of
  an outside state \<open>'x\<close>; git is that of \<open>GitRepo\<close>.
\<close>

section \<open>Jobs\<close>

text \<open>\<open>StillWaiting\<close>: the operator's pause has outlasted the model's polls; nothing was raised.\<close>

datatype job_exn = JobError string | StillWaiting

record 'x job =
  jb_task :: task_row
  jb_world :: world
  jb_env :: 'x
  jb_stages :: "string list"

type_synonym ('x, 'a) job_step = "'x job \<Rightarrow> (job_exn, 'a) result \<times> 'x job"

record 'x maint_env =
  mn_hash :: "string \<Rightarrow> string"
  mn_interference :: interference
  mn_polls :: nat
  mn_now :: "world \<Rightarrow> utc_datetime"
  mn_materialize :: "('x, unit) outside"
  mn_create :: "('x, unit) outside"
  mn_destroy :: "('x, unit) outside"
  mn_exec :: "'x exec"
  mn_overrides :: "('x, pydict option) outside"
  mn_tool :: "pydict option \<Rightarrow> string \<Rightarrow> pydict \<Rightarrow> ('x, tool_result) outside"

definition give :: "'a \<Rightarrow> ('x, 'a) job_step" where "give a s = (Inr a, s)"

definition run_outside :: "('x, 'a) outside \<Rightarrow> ('x, 'a) job_step" where
  "run_outside f s = (case f (jb_env s) of
      (Inl e, x) \<Rightarrow> (Inl (JobError e), s\<lparr>jb_env := x\<rparr>)
    | (Inr a, x) \<Rightarrow> (Inr a, s\<lparr>jb_env := x\<rparr>))"

definition run_gitop :: "('x, 'a) git \<Rightarrow> ('x, 'a) job_step" where
  "run_gitop g = run_outside (\<lambda>x. case g x of (Inl e, y) \<Rightarrow> (Inl (git_exn_text e), y) | (Inr a, y) \<Rightarrow> (Inr a, y))"

definition say :: "string \<Rightarrow> ('x, unit) job_step" where
  "say message s = (Inr (), s\<lparr>jb_stages := jb_stages s @ [message]\<rparr>)"

text \<open>The container outlives neither a result nor an exception; its removal can raise in turn.\<close>

definition in_sandbox :: "'x maint_env \<Rightarrow> ('x, 'a) job_step \<Rightarrow> ('x, 'a) job_step" where
  "in_sandbox env body =
     on_success (run_outside (mn_materialize env)) (\<lambda>_.
     on_success (run_outside (mn_create env)) (\<lambda>_ s.
       case body s of
         (Inl StillWaiting, t) \<Rightarrow> (Inl StillWaiting, t)
       | (r, t) \<Rightarrow>
           (case mn_destroy env (jb_env t) of
              (Inl e, x) \<Rightarrow> (Inl (JobError e), t\<lparr>jb_env := x\<rparr>)
            | (Inr _, x) \<Rightarrow> (r, t\<lparr>jb_env := x\<rparr>))))"

text \<open>\<open>uuid.UUID(task_id).hex[:8]\<close> of a canonical id.\<close>

definition short_hex :: "string \<Rightarrow> string" where
  "short_hex task_id = take 8 (filter (\<lambda>c. c \<noteq> CHR ''-'') task_id)"

definition set_up :: "'x maint_env \<Rightarrow> string \<Rightarrow> ('x, pydict option) job_step" where
  "set_up env branch_prefix =
     on_success (run_gitop (init_baseline (mn_exec env))) (\<lambda>_ s.
     on_success (run_gitop (create_branch (mn_exec env) (branch_prefix @ short_hex (tk_id (jb_task s))))) (\<lambda>_.
       run_outside (mn_overrides env)) s)"

definition all_passed :: "tool_result \<Rightarrow> bool" where
  "all_passed t \<longleftrightarrow> tr_success t \<and>
     (case tr_output t of PDict d \<Rightarrow> truthy (dict_get d ''all_passed'') | _ \<Rightarrow> False)"

definition run_suite :: "'x maint_env \<Rightarrow> pydict option \<Rightarrow> string \<Rightarrow> ('x, bool) job_step" where
  "run_suite env perms message =
     on_success (say message) (\<lambda>_.
     on_success (run_outside (mn_tool env perms ''run_tests'' [])) (\<lambda>t.
     on_success (say (''TESTING: all_passed='' @ py_repr (PBool (all_passed t)))) (\<lambda>_.
       give (all_passed t))))"

definition revert :: "'x maint_env \<Rightarrow> ('x, unit) job_step" where
  "revert env = run_gitop (revert_to_baseline (mn_exec env) GIT_BASE_BRANCH)"

section \<open>Landing\<close>

definition land_path :: "bool \<Rightarrow> task_state \<Rightarrow> task_state list" where
  "land_path success state =
     (if state = CREATED then [TRIAGING, INVESTIGATING, PLANNING_FIX, CODING] else []) @
     (if success then [TESTING, REVIEWING, PR_CREATION, WAITING_FOR_APPROVAL] else [NEEDS_HUMAN_INPUT])"

text \<open>An exception ends the walk and is swallowed: a bad landing must not lose the report.\<close>

fun walk_states :: "'x maint_env \<Rightarrow> string \<Rightarrow> string \<Rightarrow> task_state list \<Rightarrow> ('x, unit) job_step" where
  "walk_states env actor trigger [] s = (Inr (), s)"
| "walk_states env actor trigger (state # rest) s =
     (case transition (mn_hash env) (mn_interference env) (mn_polls env) (mn_now env (jb_world s)) (jb_task s)
             state (Some trigger) actor (jb_world s) of
        (Inl StillPaused, w) \<Rightarrow> (Inl StillWaiting, s\<lparr>jb_world := w\<rparr>)
      | (Inl _, w) \<Rightarrow> (Inr (), s\<lparr>jb_world := w\<rparr>)
      | (Inr task, w) \<Rightarrow> walk_states env actor trigger rest (s\<lparr>jb_task := task, jb_world := w\<rparr>))"

definition land :: "'x maint_env \<Rightarrow> string \<Rightarrow> string \<Rightarrow> bool \<Rightarrow> ('x, unit) job_step" where
  "land env actor trigger success s =
     walk_states env actor trigger (land_path success (tk_state (jb_task s))) s"

section \<open>Dependency updates\<close>

datatype update_status = UpdateSuccess | NeedsManualReview

fun update_status_text :: "update_status \<Rightarrow> string" where
  "update_status_text UpdateSuccess = ''success''"
| "update_status_text NeedsManualReview = ''needs_manual_review''"

record update_report =
  ud_task_id :: string
  ud_package :: string
  ud_from_version :: string
  ud_to_version :: string
  ud_cve_ids :: "string list"
  ud_status :: update_status
  ud_tests_passed :: bool
  ud_files_changed :: "string list"
  ud_diagnostic :: "string option"

definition blank_update_report :: "string \<Rightarrow> update_report" where
  "blank_update_report task_id = \<lparr>ud_task_id = task_id, ud_package = [], ud_from_version = [], ud_to_version = [],
     ud_cve_ids = [], ud_status = NeedsManualReview, ud_tests_passed = False, ud_files_changed = [],
     ud_diagnostic = None\<rparr>"

record update_result =
  ur_task :: task_row
  ur_report :: update_report
  ur_changed_files :: "string list"
  ur_reverted :: bool
  ur_diff :: string
  ur_tool_calls :: "(string \<times> tool_call_entry) list"
  ur_stages :: "string list"

definition DEFAULT_MAX_FILES_FOR_AUTO_FIX :: nat where "DEFAULT_MAX_FILES_FOR_AUTO_FIX = 3"

definition MANIFEST_FILENAMES :: "string set" where
  "MANIFEST_FILENAMES = {''requirements.txt'', ''requirements-dev.txt'', ''pyproject.toml'', ''setup.cfg''}"

text \<open>\<open>Path(p).name\<close>: the last component.\<close>

definition path_name :: "string \<Rightarrow> string" where
  "path_name p = (case rev (filter (\<lambda>n. n \<noteq> [] \<and> n \<noteq> ''.'') (split_on CHR ''/'' p)) of [] \<Rightarrow> [] | n # _ \<Rightarrow> n)"

definition source_files_changed :: "string list \<Rightarrow> string list" where
  "source_files_changed changed = filter (\<lambda>p. path_name p \<notin> MANIFEST_FILENAMES) changed"

text \<open>The report with its fields overwritten, the landing, and the result.\<close>

definition finish_update ::
    "'x maint_env \<Rightarrow> update_report \<Rightarrow> (string \<times> tool_call_entry) list \<Rightarrow> string list \<Rightarrow> bool \<Rightarrow> bool
     \<Rightarrow> string option \<Rightarrow> string \<Rightarrow> ('x, update_result) job_step" where
  "finish_update env reported calls changed passed reverted diagnostic diff s =
     (let status = (if passed then UpdateSuccess else NeedsManualReview);
          report = reported\<lparr>ud_task_id := tk_id (jb_task s), ud_status := status, ud_tests_passed := passed,
                     ud_files_changed := changed, ud_diagnostic := diagnostic\<rparr>
      in on_success (land env ''agent:dependency_updater'' (''dependency update '' @ update_status_text status) passed)
           (\<lambda>_ t. (Inr \<lparr>ur_task = jb_task t, ur_report = report, ur_changed_files = changed, ur_reverted = reverted,
                     ur_diff = diff, ur_tool_calls = calls, ur_stages = jb_stages t\<rparr>, t)) s)"

definition judge_update ::
    "'x maint_env \<Rightarrow> nat \<Rightarrow> pydict option \<Rightarrow> update_report \<Rightarrow> (string \<times> tool_call_entry) list \<Rightarrow> string list
     \<Rightarrow> ('x, update_result) job_step" where
  "judge_update env cap perms reported calls changed =
     (let source_changed = source_files_changed changed in
      if length source_changed > cap then
        on_success (revert env) (\<lambda>_.
        on_success (say (''NEEDS_MANUAL_REVIEW: the update needed source changes across '' @
            nat_digits (length source_changed) @ '' files (cap is '' @ nat_digits cap @
            '') -- reverted, this is a migration rather than a bump'')) (\<lambda>_.
          finish_update env reported calls changed False True
            (Some (''would touch '' @ nat_digits (length source_changed) @ '' source files ('' @
               join_with '', '' source_changed @ ''), over the max_files_for_auto_fix cap of '' @ nat_digits cap)) []))
      else if changed = [] then
        on_success (say ''NEEDS_MANUAL_REVIEW: nothing was changed'') (\<lambda>_.
          finish_update env reported calls [] False False
            (case ud_diagnostic reported of
               Some d \<Rightarrow> Some (if d \<noteq> [] then d else ''the agent made no change to the manifest'')
             | None \<Rightarrow> Some ''the agent made no change to the manifest'') [])
      else
        on_success (run_suite env perms ''TESTING: running the full suite (never scoped, per 6.7)'') (\<lambda>passed.
          if passed then
            on_success (run_gitop (diff_against_baseline (mn_exec env) GIT_BASE_BRANCH)) (\<lambda>diff.
              finish_update env reported calls changed True False None diff)
          else
            on_success (revert env) (\<lambda>_.
            on_success (say ''NEEDS_MANUAL_REVIEW: tests fail after the bump -- reverted'') (\<lambda>_.
              finish_update env reported calls changed False True
                (Some ''the full test suite failed after the version bump'') []))))"

definition run_dependency_update ::
    "'x maint_env \<Rightarrow> nat \<Rightarrow> (pydict option \<Rightarrow> string \<Rightarrow> ('x, update_report agent_result) outside) \<Rightarrow> string
     \<Rightarrow> ('x, update_result) job_step" where
  "run_dependency_update env cap agent manifest =
     in_sandbox env
       (on_success (set_up env ''amop/deps-'') (\<lambda>perms.
        on_success (say (''UPDATING: checking '' @ manifest @ '' for advisories'')) (\<lambda>_.
        on_success (run_outside (agent perms
            (''The manifest to check and update is '' @ manifest @ ''. Find any vulnerable pinned dependencies, bump them to a fixed version, and make the full test suite pass.''))) (\<lambda>r.
        on_success (run_gitop (changed_files (mn_exec env) GIT_BASE_BRANCH)) (\<lambda>changed.
        on_success (say (''UPDATING: files changed '' @ repr_list changed)) (\<lambda>_ s.
          judge_update env cap perms
            (case ar_handoff r of Some h \<Rightarrow> h | None \<Rightarrow> blank_update_report (tk_id (jb_task s)))
            (map (Pair ''dependency_updater'') (ar_tool_calls r)) changed s))))))"

section \<open>Optimisation\<close>

datatype opt_status = Improved | NoImprovement

fun opt_status_text :: "opt_status \<Rightarrow> string" where
  "opt_status_text Improved = ''improved''"
| "opt_status_text NoImprovement = ''no_improvement''"

record opt_report =
  or_task_id :: string
  or_status :: opt_status
  or_baseline_ms :: rat
  or_optimized_ms :: rat
  or_improvement_pct :: rat
  or_technique :: string
  or_files_changed :: "string list"
  or_reverted :: bool
  or_diagnostic :: "string option"

definition blank_opt_report :: "string \<Rightarrow> opt_report" where
  "blank_opt_report task_id = \<lparr>or_task_id = task_id, or_status = NoImprovement, or_baseline_ms = 0,
     or_optimized_ms = 0, or_improvement_pct = 0, or_technique = [], or_files_changed = [], or_reverted = False,
     or_diagnostic = None\<rparr>"

record opt_result =
  os_task :: task_row
  os_report :: opt_report
  os_tool_calls :: "(string \<times> tool_call_entry) list"
  os_stages :: "string list"
  os_diff :: string

definition BENCHMARK_ITERATIONS :: int where "BENCHMARK_ITERATIONS = 5"
definition DEFAULT_MIN_IMPROVEMENT_PCT :: rat where "DEFAULT_MIN_IMPROVEMENT_PCT = 10"

definition improvement_pct :: "flround \<Rightarrow> rat \<Rightarrow> rat \<Rightarrow> rat" where
  "improvement_pct fl baseline_ms optimized_ms =
     (if baseline_ms \<le> 0 then 0 else fl (fl (fl (baseline_ms - optimized_ms) / baseline_ms) * 100))"

text \<open>\<open>float(v)\<close> of a finite number; \<open>parse\<close> reads a float's text.\<close>

fun py_float :: "flround \<Rightarrow> (string \<Rightarrow> rat option) \<Rightarrow> pyval \<Rightarrow> (string, rat) result" where
  "py_float fl parse (PFloat t) = (case parse t of Some x \<Rightarrow> Inr x | None \<Rightarrow> Inl ''ValueError'')"
| "py_float fl parse (PStr t) = (case parse t of Some x \<Rightarrow> Inr x | None \<Rightarrow> Inl ''ValueError'')"
| "py_float fl parse (PInt i) = Inr (fl (of_int i))"
| "py_float fl parse (PBool b) = Inr (if b then 1 else 0)"
| "py_float fl parse v = Inl ''TypeError''"

text \<open>\<open>None\<close>: no measurement.  A measurement without a median is \<open>0.0\<close>.\<close>

definition measured ::
    "flround \<Rightarrow> (string \<Rightarrow> rat option) \<Rightarrow> tool_result \<Rightarrow> (string, rat option) result" where
  "measured fl parse t =
     (case tr_output t of
        PDict d \<Rightarrow>
          if \<not> tr_success t then Inr None
          else (case map_of d ''median_ms'' of
                  None \<Rightarrow> Inr (Some 0)
                | Some v \<Rightarrow> bind_result (py_float fl parse v) (\<lambda>ms. Inr (Some ms)))
      | _ \<Rightarrow> Inr None)"

definition benchmark ::
    "'x maint_env \<Rightarrow> flround \<Rightarrow> (string \<Rightarrow> rat option) \<Rightarrow> pydict option \<Rightarrow> string \<Rightarrow> ('x, rat option) job_step" where
  "benchmark env fl parse perms entry_point =
     on_success (run_outside (mn_tool env perms ''run_benchmark''
         [(''path'', PStr entry_point), (''iterations'', PInt BENCHMARK_ITERATIONS)]))
       (\<lambda>t s. case measured fl parse t of Inl e \<Rightarrow> (Inl (JobError e), s) | Inr m \<Rightarrow> (Inr m, s))"

text \<open>The format specification \<open>+.1f\<close>.\<close>

definition signed_1f :: "rat \<Rightarrow> string" where
  "signed_1f x = (if x < 0 then fixed_point 1 x else ''+'' @ fixed_point 1 x)"

definition finish_optimization ::
    "'x maint_env \<Rightarrow> opt_report \<Rightarrow> (string \<times> tool_call_entry) list \<Rightarrow> string \<Rightarrow> ('x, opt_result) job_step" where
  "finish_optimization env report calls diff =
     on_success (land env ''agent:optimizer'' (''optimization '' @ opt_status_text (or_status report))
                   (or_status report = Improved))
       (\<lambda>_ s. (Inr \<lparr>os_task = jb_task s, os_report = report, os_tool_calls = calls, os_stages = jb_stages s,
                  os_diff = diff\<rparr>, s))"

text \<open>The fields every verdict overwrites.\<close>

definition overwrite ::
    "opt_report \<Rightarrow> string \<Rightarrow> opt_status \<Rightarrow> rat \<Rightarrow> rat \<Rightarrow> rat \<Rightarrow> string list \<Rightarrow> bool \<Rightarrow> string option \<Rightarrow> opt_report" where
  "overwrite reported task_id status baseline optimized gain changed reverted diagnostic =
     reported\<lparr>or_task_id := task_id, or_status := status, or_baseline_ms := baseline,
              or_optimized_ms := optimized, or_improvement_pct := gain, or_files_changed := changed,
              or_reverted := reverted, or_diagnostic := diagnostic\<rparr>"

definition give_up ::
    "'x maint_env \<Rightarrow> opt_report \<Rightarrow> (string \<times> tool_call_entry) list \<Rightarrow> rat \<Rightarrow> string list \<Rightarrow> string \<Rightarrow> string
     \<Rightarrow> ('x, opt_result) job_step" where
  "give_up env reported calls baseline_ms changed message diagnostic =
     on_success (revert env) (\<lambda>_.
     on_success (say message) (\<lambda>_ s.
       finish_optimization env (overwrite reported (tk_id (jb_task s)) NoImprovement (round_to 3 baseline_ms) 0 0
         changed True (Some diagnostic)) calls [] s))"

text \<open>The measurement that decides.\<close>

definition judge_gain ::
    "'x maint_env \<Rightarrow> flround \<Rightarrow> rat \<Rightarrow> opt_report \<Rightarrow> (string \<times> tool_call_entry) list \<Rightarrow> rat \<Rightarrow> rat \<Rightarrow> string list
     \<Rightarrow> ('x, opt_result) job_step" where
  "judge_gain env fl threshold reported calls baseline_ms optimized_ms changed =
     (let gain = improvement_pct fl baseline_ms optimized_ms in
      on_success (say (''MEASURED: '' @ fixed_point 1 baseline_ms @ '' ms -> '' @ fixed_point 1 optimized_ms @
          '' ms ('' @ signed_1f gain @ ''%, threshold '' @ fixed_point 0 threshold @ ''%)'')) (\<lambda>_.
        if gain < threshold then
          on_success (revert env) (\<lambda>_.
          on_success (say (''NO_IMPROVEMENT: '' @ signed_1f gain @ ''% is below the '' @ fixed_point 0 threshold @
              ''% threshold -- reverted'')) (\<lambda>_ s.
            finish_optimization env (overwrite reported (tk_id (jb_task s)) NoImprovement (round_to 3 baseline_ms)
              (round_to 3 optimized_ms) (round_to 2 gain) changed True
              (Some (''measured '' @ signed_1f gain @ ''%, below the '' @ fixed_point 0 threshold @
                 ''% minimum -- not worth a diff''))) calls [] s))
        else
          on_success (run_gitop (diff_against_baseline (mn_exec env) GIT_BASE_BRANCH)) (\<lambda>diff.
          on_success (say (''IMPROVED: '' @ fixed_point 1 gain @ ''% faster, kept'')) (\<lambda>_ s.
            finish_optimization env (overwrite reported (tk_id (jb_task s)) Improved (round_to 3 baseline_ms)
              (round_to 3 optimized_ms) (round_to 2 gain) changed False None) calls diff s))))"

definition judge_optimization ::
    "'x maint_env \<Rightarrow> flround \<Rightarrow> (string \<Rightarrow> rat option) \<Rightarrow> rat \<Rightarrow> pydict option \<Rightarrow> string \<Rightarrow> opt_report
     \<Rightarrow> (string \<times> tool_call_entry) list \<Rightarrow> rat \<Rightarrow> string list \<Rightarrow> ('x, opt_result) job_step" where
  "judge_optimization env fl parse threshold perms entry_point reported calls baseline_ms changed =
     (if changed = [] then
        on_success (say ''NO_IMPROVEMENT: the optimizer changed nothing'') (\<lambda>_ s.
          finish_optimization env (overwrite reported (tk_id (jb_task s)) NoImprovement (round_to 3 baseline_ms)
            (round_to 3 baseline_ms) 0 [] False (Some ''no change was made'')) calls [] s)
      else
        on_success (run_suite env perms ''TESTING: confirming behavior is unchanged'') (\<lambda>passed.
          if \<not> passed then
            give_up env reported calls baseline_ms changed
              ''NO_IMPROVEMENT: behavior changed (suite red) -- reverted''
              ''the test suite failed after the optimization''
          else
            on_success (benchmark env fl parse perms entry_point) (\<lambda>m.
              case m of
                None \<Rightarrow> give_up env reported calls baseline_ms changed
                          ''NO_IMPROVEMENT: post-change benchmark failed -- reverted''
                          ''post-change benchmark failed to run''
              | Some optimized_ms \<Rightarrow>
                  judge_gain env fl threshold reported calls baseline_ms optimized_ms changed)))"

text \<open>Without a baseline the run ends before the agent is started, and the task is not moved.\<close>

definition no_baseline :: "string \<Rightarrow> ('x, opt_result) job_step" where
  "no_baseline entry_point =
     on_success (say (''NO_IMPROVEMENT: could not benchmark '' @ entry_point @ '' -- nothing to compare against''))
       (\<lambda>_ s. (Inr \<lparr>os_task = jb_task s,
          os_report = (blank_opt_report (tk_id (jb_task s)))\<lparr>or_diagnostic :=
            Some (''baseline benchmark of '' @ entry_point @ '' failed'')\<rparr>,
          os_tool_calls = [], os_stages = jb_stages s, os_diff = []\<rparr>, s))"

definition run_optimization ::
    "'x maint_env \<Rightarrow> flround \<Rightarrow> (string \<Rightarrow> rat option) \<Rightarrow> rat
     \<Rightarrow> (pydict option \<Rightarrow> string \<Rightarrow> ('x, opt_report agent_result) outside) \<Rightarrow> string \<Rightarrow> ('x, opt_result) job_step" where
  "run_optimization env fl parse threshold agent entry_point =
     in_sandbox env
       (on_success (set_up env ''amop/opt-'') (\<lambda>perms.
        on_success (benchmark env fl parse perms entry_point) (\<lambda>baseline.
          case baseline of
            None \<Rightarrow> no_baseline entry_point
          | Some baseline_ms \<Rightarrow>
              on_success (say (''BASELINE: '' @ fixed_point 1 baseline_ms @ '' ms (median of '' @
                  int_str BENCHMARK_ITERATIONS @ '')'')) (\<lambda>_.
              on_success (run_outside (agent perms
                  (''The benchmark entry point is '' @ entry_point @ ''. Profile it, find the real bottleneck, and make it faster without changing behavior.''))) (\<lambda>r.
              on_success (run_gitop (changed_files (mn_exec env) GIT_BASE_BRANCH)) (\<lambda>changed.
              on_success (say (''OPTIMIZING: files changed '' @ repr_list changed)) (\<lambda>_ s.
                judge_optimization env fl parse threshold perms entry_point
                  (case ar_handoff r of Some h \<Rightarrow> h | None \<Rightarrow> blank_opt_report (tk_id (jb_task s)))
                  (map (Pair ''optimizer'') (ar_tool_calls r)) baseline_ms changed s)))))))"

section \<open>Lemmas\<close>

lemma run_outside_Inr:
  assumes "run_outside f s = (Inr a, t)"
  obtains x where "f (jb_env s) = (Inr a, x)" "t = s\<lparr>jb_env := x\<rparr>"
  using assms by (auto simp: run_outside_def split: prod.splits sum.splits)

lemma run_gitop_Inr:
  assumes "run_gitop g s = (Inr a, t)"
  obtains x where "g (jb_env s) = (Inr a, x)" "t = s\<lparr>jb_env := x\<rparr>"
  using assms unfolding run_gitop_def by (elim run_outside_Inr) (auto split: prod.splits sum.splits)

lemma say_Inr:
  assumes "say m s = (Inr a, t)"
  obtains "t = s\<lparr>jb_stages := jb_stages s @ [m]\<rparr>"
  using assms by (simp add: say_def)

lemma run_suite_Inr:
  assumes "run_suite env perms m s = (Inr passed, t)"
  obtains r x where "mn_tool env perms ''run_tests'' [] (jb_env s) = (Inr r, x)" "passed = all_passed r"
    "jb_env t = x" "jb_task t = jb_task s"
  using assms unfolding run_suite_def
  by (elim on_success_Inr run_outside_Inr say_Inr) (auto simp: give_def)

lemmas job_elims = on_success_Inr run_outside_Inr run_gitop_Inr say_Inr run_suite_Inr

text \<open>A sandboxed job's value is that of its body, run after the set-up.\<close>

lemma in_sandbox_Inr:
  assumes "in_sandbox env body s = (Inr r, t)"
  obtains s' t' where "body s' = (Inr r, t')" "jb_task s' = jb_task s"
  using assms unfolding in_sandbox_def
  by (elim on_success_Inr run_outside_Inr) (auto split: prod.splits sum.splits job_exn.splits)

lemma finish_update_Inr:
  assumes "finish_update env reported calls changed passed reverted diagnostic diff s = (Inr r, t)"
  shows "ur_changed_files r = changed \<and> ur_reverted r = reverted \<and> ur_diff r = diff
    \<and> ud_status (ur_report r) = (if passed then UpdateSuccess else NeedsManualReview)
    \<and> ud_tests_passed (ur_report r) = passed \<and> ud_files_changed (ur_report r) = changed"
  using assms unfolding finish_update_def Let_def by (auto elim!: on_success_Inr)

text \<open>
  What a dependency update promises, over the changed files git reports in \<open>x\<close>: it is kept when
  they exist, stay within the cap and the whole suite passes, and otherwise the branch is taken
  back to the baseline.
\<close>

definition update_judged ::
    "'x maint_env \<Rightarrow> nat \<Rightarrow> pydict option \<Rightarrow> update_result \<Rightarrow> 'x \<Rightarrow> bool" where
  "update_judged env cap perms r x \<longleftrightarrow>
     (let changed = ur_changed_files r; report = ur_report r in
      ud_files_changed report = changed \<and>
      (if changed = [] \<or> length (source_files_changed changed) > cap
       then ud_status report = NeedsManualReview \<and> ud_tests_passed report = False \<and> ur_diff r = []
          \<and> ur_reverted r = (changed \<noteq> [])
          \<and> (if changed = [] then True
             else \<exists>y. revert_to_baseline (mn_exec env) GIT_BASE_BRANCH x = (Inr (), y))
       else
         (\<exists>t y z. mn_tool env perms ''run_tests'' [] x = (Inr t, y)
            \<and> ud_tests_passed report = all_passed t
            \<and> ud_status report = (if all_passed t then UpdateSuccess else NeedsManualReview)
            \<and> ur_reverted r = (\<not> all_passed t)
            \<and> (if all_passed t then diff_against_baseline (mn_exec env) GIT_BASE_BRANCH y = (Inr (ur_diff r), z)
               else ur_diff r = [] \<and> revert_to_baseline (mn_exec env) GIT_BASE_BRANCH y = (Inr (), z)))))"

lemma judge_update_judged:
  assumes "judge_update env cap perms reported calls changed s = (Inr r, t)"
  shows "ur_changed_files r = changed \<and> update_judged env cap perms r (jb_env s)"
proof -
  consider (over) "length (source_files_changed changed) > cap" "changed \<noteq> []"
    | (none) "changed = []"
    | (suite) "\<not> length (source_files_changed changed) > cap" "changed \<noteq> []"
    by (auto simp: source_files_changed_def)
  then show ?thesis
  proof cases
    case over
    then show ?thesis using assms
      unfolding judge_update_def Let_def revert_def
      by (auto elim!: job_elims dest!: finish_update_Inr simp: update_judged_def Let_def)
  next
    case none
    then show ?thesis using assms
      unfolding judge_update_def Let_def
      by (auto elim!: job_elims dest!: finish_update_Inr simp: update_judged_def Let_def source_files_changed_def)
  next
    case suite
    then obtain passed s1 where p: "run_suite env perms ''TESTING: running the full suite (never scoped, per 6.7)'' s
        = (Inr passed, s1)"
      using assms unfolding judge_update_def Let_def by (auto elim!: on_success_Inr)
    obtain q x where q: "mn_tool env perms ''run_tests'' [] (jb_env s) = (Inr q, x)" "passed = all_passed q"
        "jb_env s1 = x" using run_suite_Inr [OF p] by blast
    show ?thesis
    proof (cases passed)
      case True
      then show ?thesis using assms suite p q
        unfolding judge_update_def Let_def
        by (auto elim!: on_success_Inr run_gitop_Inr dest!: finish_update_Inr simp: update_judged_def Let_def)
    next
      case False
      then show ?thesis using assms suite p q
        unfolding judge_update_def Let_def revert_def
        by (auto elim!: on_success_Inr run_gitop_Inr say_Inr dest!: finish_update_Inr simp: update_judged_def Let_def)
    qed
  qed
qed

lemma finish_optimization_Inr:
  assumes "finish_optimization env report calls diff s = (Inr r, t)"
  shows "os_report r = report \<and> os_tool_calls r = calls \<and> os_diff r = diff"
  using assms unfolding finish_optimization_def by (auto elim!: on_success_Inr)

lemma overwrite_simps [simp]:
  "or_status (overwrite rep tid st b om gain ch rv diag) = st"
  "or_baseline_ms (overwrite rep tid st b om gain ch rv diag) = b"
  "or_optimized_ms (overwrite rep tid st b om gain ch rv diag) = om"
  "or_improvement_pct (overwrite rep tid st b om gain ch rv diag) = gain"
  "or_files_changed (overwrite rep tid st b om gain ch rv diag) = ch"
  "or_reverted (overwrite rep tid st b om gain ch rv diag) = rv"
  by (simp_all add: overwrite_def)

lemma benchmark_Inr:
  assumes "benchmark env fl parse perms entry_point s = (Inr m, t)"
  obtains b x where "mn_tool env perms ''run_benchmark''
        [(''path'', PStr entry_point), (''iterations'', PInt BENCHMARK_ITERATIONS)] (jb_env s) = (Inr b, x)"
    "measured fl parse b = Inr m" "jb_env t = x"
  using assms unfolding benchmark_def
  by (elim on_success_Inr run_outside_Inr) (auto split: sum.splits)

text \<open>Discarded: nothing is claimed, and the branch was taken back to the baseline from \<open>x\<close>.\<close>

definition discarded :: "'x maint_env \<Rightarrow> opt_result \<Rightarrow> 'x \<Rightarrow> bool" where
  "discarded env r x \<longleftrightarrow> or_status (os_report r) = NoImprovement \<and> or_reverted (os_report r) \<and> os_diff r = []
     \<and> (\<exists>y. revert_to_baseline (mn_exec env) GIT_BASE_BRANCH x = (Inr (), y))"

text \<open>
  What an optimisation promises, over the changed files git reports in \<open>x\<close>: it is kept when they
  exist, the whole suite passes and a second benchmark shows the gain.
\<close>

definition optimization_judged ::
    "'x maint_env \<Rightarrow> flround \<Rightarrow> (string \<Rightarrow> rat option) \<Rightarrow> rat \<Rightarrow> pydict option \<Rightarrow> string \<Rightarrow> rat \<Rightarrow> opt_result
     \<Rightarrow> 'x \<Rightarrow> bool" where
  "optimization_judged env fl parse threshold perms entry_point baseline_ms r x \<longleftrightarrow>
     (let report = os_report r in
      or_baseline_ms report = round_to 3 baseline_ms \<and>
      (if or_files_changed report = []
       then or_status report = NoImprovement \<and> or_reverted report = False \<and> os_diff r = []
       else
         (\<exists>t y. mn_tool env perms ''run_tests'' [] x = (Inr t, y) \<and>
           (if \<not> all_passed t then discarded env r y
            else
              (\<exists>b z m. mn_tool env perms ''run_benchmark''
                   [(''path'', PStr entry_point), (''iterations'', PInt BENCHMARK_ITERATIONS)] y = (Inr b, z)
                 \<and> measured fl parse b = Inr m \<and>
                 (case m of
                    None \<Rightarrow> discarded env r z
                  | Some ms \<Rightarrow>
                      or_optimized_ms report = round_to 3 ms
                      \<and> or_improvement_pct report = round_to 2 (improvement_pct fl baseline_ms ms)
                      \<and> (if improvement_pct fl baseline_ms ms < threshold then discarded env r z
                         else or_status report = Improved \<and> or_reverted report = False
                           \<and> (\<exists>u. diff_against_baseline (mn_exec env) GIT_BASE_BRANCH z = (Inr (os_diff r), u)))))))))"

lemma give_up_Inr:
  assumes "give_up env reported calls baseline_ms changed m d s = (Inr r, t)"
  shows "discarded env r (jb_env s) \<and> or_files_changed (os_report r) = changed
    \<and> or_baseline_ms (os_report r) = round_to 3 baseline_ms"
  using assms unfolding give_up_def revert_def discarded_def
  by (auto elim!: job_elims dest!: finish_optimization_Inr)

lemma judge_gain_Inr:
  assumes "judge_gain env fl threshold reported calls baseline_ms ms changed s = (Inr r, t)"
  shows "or_files_changed (os_report r) = changed \<and> or_baseline_ms (os_report r) = round_to 3 baseline_ms
    \<and> or_optimized_ms (os_report r) = round_to 3 ms
    \<and> or_improvement_pct (os_report r) = round_to 2 (improvement_pct fl baseline_ms ms)
    \<and> (if improvement_pct fl baseline_ms ms < threshold then discarded env r (jb_env s)
       else or_status (os_report r) = Improved \<and> or_reverted (os_report r) = False
         \<and> (\<exists>u. diff_against_baseline (mn_exec env) GIT_BASE_BRANCH (jb_env s) = (Inr (os_diff r), u)))"
  using assms unfolding judge_gain_def revert_def discarded_def Let_def
  by (cases "improvement_pct fl baseline_ms ms < threshold")
    (auto elim!: job_elims dest!: finish_optimization_Inr)

lemma judge_optimization_judged:
  assumes j: "judge_optimization env fl parse threshold perms entry_point reported calls baseline_ms changed s
    = (Inr r, t)"
  shows "or_files_changed (os_report r) = changed
    \<and> optimization_judged env fl parse threshold perms entry_point baseline_ms r (jb_env s)"
proof (cases "changed = []")
  case True
  then show ?thesis using j unfolding judge_optimization_def
    by (auto elim!: on_success_Inr say_Inr dest!: finish_optimization_Inr simp: optimization_judged_def Let_def)
next
  case False
  then obtain passed s1 where p: "run_suite env perms ''TESTING: confirming behavior is unchanged'' s = (Inr passed, s1)"
      and k: "(if \<not> passed then
            give_up env reported calls baseline_ms changed
              ''NO_IMPROVEMENT: behavior changed (suite red) -- reverted''
              ''the test suite failed after the optimization''
          else
            on_success (benchmark env fl parse perms entry_point) (\<lambda>m.
              case m of
                None \<Rightarrow> give_up env reported calls baseline_ms changed
                          ''NO_IMPROVEMENT: post-change benchmark failed -- reverted''
                          ''post-change benchmark failed to run''
              | Some optimized_ms \<Rightarrow>
                  judge_gain env fl threshold reported calls baseline_ms optimized_ms changed)) s1 = (Inr r, t)"
    using j unfolding judge_optimization_def by (simp del: if_split) (erule on_success_Inr, blast)
  obtain q y where q: "mn_tool env perms ''run_tests'' [] (jb_env s) = (Inr q, y)" "passed = all_passed q"
      "jb_env s1 = y" using run_suite_Inr [OF p] by blast
  show ?thesis
  proof (cases passed)
    case no: False
    then show ?thesis using give_up_Inr [of env reported calls baseline_ms changed _ _ s1 r t] k q \<open>changed \<noteq> []\<close>
      by (auto simp: optimization_judged_def Let_def)
  next
    case True
    then obtain m s2 where m: "benchmark env fl parse perms entry_point s1 = (Inr m, s2)"
        and k2: "(case m of
                None \<Rightarrow> give_up env reported calls baseline_ms changed
                          ''NO_IMPROVEMENT: post-change benchmark failed -- reverted''
                          ''post-change benchmark failed to run''
              | Some optimized_ms \<Rightarrow>
                  judge_gain env fl threshold reported calls baseline_ms optimized_ms changed) s2 = (Inr r, t)"
      using k by (auto elim!: on_success_Inr)
    obtain b z where b: "mn_tool env perms ''run_benchmark''
          [(''path'', PStr entry_point), (''iterations'', PInt BENCHMARK_ITERATIONS)] y = (Inr b, z)"
        "measured fl parse b = Inr m" "jb_env s2 = z"
      using benchmark_Inr [OF m] unfolding q(3) by blast
    show ?thesis
    proof (cases m)
      case None
      then have "discarded env r z \<and> or_files_changed (os_report r) = changed
          \<and> or_baseline_ms (os_report r) = round_to 3 baseline_ms"
        using give_up_Inr k2 b(3) by (metis option.simps(4))
      then show ?thesis using q b None True \<open>changed \<noteq> []\<close>
        by (auto simp: optimization_judged_def Let_def)
    next
      case (Some ms)
      then have "judge_gain env fl threshold reported calls baseline_ms ms changed s2 = (Inr r, t)" using k2 by simp
      note g = judge_gain_Inr [OF this, unfolded b(3)]
      then show ?thesis using q b Some True \<open>changed \<noteq> []\<close>
        unfolding optimization_judged_def Let_def by auto
    qed
  qed
qed

text \<open>Moves that are legal one after the other.\<close>

fun legal_path :: "task_state \<Rightarrow> task_state list \<Rightarrow> bool" where
  "legal_path a [] = True"
| "legal_path a (b # bs) = (legal a b \<and> legal_path b bs)"

lemma land_path_legal: "state \<in> {CREATED, CODING} \<Longrightarrow> legal_path state (land_path success state)"
  by (cases success) (auto simp: land_path_def)

text \<open>A job nobody else interferes with: the task's copy is current and nothing is paused.\<close>

definition undisturbed :: "'x maint_env \<Rightarrow> 'x job \<Rightarrow> bool" where
  "undisturbed env s \<longleftrightarrow> mn_interference env = (\<lambda>n st. st) \<and> mn_polls env > 0 \<and> \<not> paused_now (w_store (jb_world s))
     \<and> (case st_tasks (w_store (jb_world s)) (tk_id (jb_task s)) of
          None \<Rightarrow> False | Some row \<Rightarrow> tk_version row = tk_version (jb_task s))"

lemma walk_undisturbed:
  "undisturbed env s \<Longrightarrow> legal_path (tk_state (jb_task s)) path \<Longrightarrow>
     \<exists>t. walk_states env actor trigger path s = (Inr (), t)
       \<and> tk_state (jb_task t) = last (tk_state (jb_task s) # path)"
proof (induction path arbitrary: s)
  case (Cons b path)
  let ?w = "jb_world s" and ?task = "jb_task s"
  obtain n where n: "mn_polls env = Suc n" using Cons.prems(1) by (auto simp: undisturbed_def gr0_conv_Suc)
  obtain s1 where open1: "wait_while_paused (mn_interference env) (mn_polls env) ?w = Some (?w\<lparr>w_store := s1\<rparr>)"
      "st_tasks s1 = st_tasks (w_store ?w)" "\<not> paused_now s1"
    using Cons.prems(1) wait_stays_open unfolding undisturbed_def n by blast
  obtain row where row: "st_tasks s1 (tk_id ?task) = Some row" "tk_version row = tk_version ?task"
    using Cons.prems(1) open1(2) by (auto simp: undisturbed_def split: option.splits)
  let ?w2 = "tick (mn_interference env) (?w\<lparr>w_store := s1\<rparr>)"
  have s2: "w_store ?w2 = s1" using Cons.prems(1) by (simp add: tick_def undisturbed_def)
  obtain r s3 where c: "commit_transition (mn_hash env) (mn_now env ?w) ?task b (Some trigger) actor s1 = (r, s3)"
    by fastforce
  have legal: "legal (tk_state ?task) b" using Cons.prems(2) by simp
  from c obtain task' label where t: "r = Inr task'" "tk_state task' = b" "tk_id task' = tk_id ?task"
      "s3 = s1\<lparr>st_tasks := (st_tasks s1)(tk_id ?task \<mapsto> task'),
             st_audit := append_chained (mn_hash env) (audit_entry ?task b label actor (mn_now env ?w)) (st_audit s1)\<rparr>"
    by (cases rule: commit_cases) (use legal row in auto)
  let ?s = "s\<lparr>jb_task := task', jb_world := ?w2\<lparr>w_store := s3\<rparr>\<rparr>"
  have "walk_states env actor trigger (b # path) s = walk_states env actor trigger path ?s"
    using open1(1) c t(1) s2 by (simp add: transition_def Let_def)
  moreover have "undisturbed env ?s"
    using Cons.prems(1) t open1(3) by (simp add: undisturbed_def paused_now_def)
  ultimately show ?case using Cons.IH [of ?s] Cons.prems(2) t(2) by auto
qed simp

section \<open>What a returned run went through\<close>

lemma run_dependency_update_Inr:
  assumes "run_dependency_update env cap agent manifest s = (Inr r, t)"
  obtains perms x changed reported calls s1 t1
  where "changed_files (mn_exec env) GIT_BASE_BRANCH x = (Inr changed, jb_env s1)"
    "judge_update env cap perms reported calls changed s1 = (Inr r, t1)"
  using assms unfolding run_dependency_update_def
  apply (elim in_sandbox_Inr on_success_Inr run_outside_Inr run_gitop_Inr say_Inr)
  apply simp
  apply (rule that)
   prefer 2
   apply assumption
  apply simp
  done

lemma run_optimization_Inr [consumes 1, case_names unmeasured judged]:
  fixes env :: "'x maint_env"
  assumes "run_optimization env fl parse threshold agent entry_point s = (Inr r, t)"
  obtains (unmeasured) perms x b y and s1 t1 :: "'x job"
    where "mn_tool env perms ''run_benchmark''
        [(''path'', PStr entry_point), (''iterations'', PInt BENCHMARK_ITERATIONS)] x = (Inr b, y)"
      "measured fl parse b = Inr None" "no_baseline entry_point s1 = (Inr r, t1)"
  | (judged) perms x b y baseline_ms u changed reported calls s1 t1
    where "mn_tool env perms ''run_benchmark''
        [(''path'', PStr entry_point), (''iterations'', PInt BENCHMARK_ITERATIONS)] x = (Inr b, y)"
      "measured fl parse b = Inr (Some baseline_ms)"
      "changed_files (mn_exec env) GIT_BASE_BRANCH u = (Inr changed, jb_env s1)"
      "judge_optimization env fl parse threshold perms entry_point reported calls baseline_ms changed s1 = (Inr r, t1)"
  using assms unfolding run_optimization_def
  apply (elim in_sandbox_Inr)
  apply (erule on_success_Inr)
  apply (erule on_success_Inr)
  apply (erule benchmark_Inr)
  subgoal for s0 t0 perms s1 m s2 b y
    apply (cases m)
     apply simp
    apply (simp only: option.case)
    apply (elim on_success_Inr run_outside_Inr run_gitop_Inr say_Inr)
    apply simp
    apply (rule judged, assumption, assumption)
     prefer 2
     apply assumption
    apply simp
    done
  done

section \<open>Findings\<close>

text \<open>
  A measurement that does not name its median counts as no time at all, which is a gain of 100%
  over any baseline.
\<close>

lemma missing_median_is_full_gain:
  assumes "0 < baseline_ms"
  shows "measured (\<lambda>x. x) parse \<lparr>tr_success = True, tr_output = PDict [(''iterations'', PInt 5)],
      tr_error_code = None, tr_message = None\<rparr> = Inr (Some 0)"
    and "improvement_pct (\<lambda>x. x) baseline_ms 0 = 100"
  using assms by (simp_all add: measured_def improvement_pct_def)

text \<open>Without a baseline measurement the task stays where it was: it is never landed.\<close>

lemma no_baseline_not_landed:
  "no_baseline entry_point s = (Inr r, t) \<Longrightarrow> jb_task t = jb_task s \<and> jb_world t = jb_world s"
  by (auto simp: no_baseline_def elim!: on_success_Inr say_Inr)

section \<open>Properties\<close>

text \<open>
  C28: A dependency update is kept on evidence.  Whatever the agent reports, a run that returns has
  the changed files from git; it is a success when there are some, the source files among them
  stay within the cap and the whole suite, run by the orchestrator, passes; otherwise it is left
  for manual review, has no diff, and what was changed has been reverted.
\<close>

theorem update_kept_on_evidence:
  "case run_dependency_update env cap agent manifest s of
     (Inl e, t) \<Rightarrow> True
   | (Inr r, t) \<Rightarrow> \<exists>perms x y. changed_files (mn_exec env) GIT_BASE_BRANCH x = (Inr (ur_changed_files r), y)
       \<and> update_judged env cap perms r y"
proof -
  obtain q t where run: "run_dependency_update env cap agent manifest s = (q, t)" by (metis prod.exhaust)
  show ?thesis
  proof (cases q)
    case (Inr r)
    from run [unfolded Inr] show ?thesis
      by (rule run_dependency_update_Inr) (use judge_update_judged in \<open>fastforce simp: run Inr\<close>)
  qed (simp add: run)
qed

text \<open>
  An optimisation is kept on evidence.  A run that returns began with a benchmark of the
  untouched code, and without one nothing was done.  It is an improvement when files changed, the
  whole suite passes and a second benchmark of the same entry point shows at least the threshold;
  the reported times and gain are the measured ones, and every other change has been reverted.
\<close>

theorem optimization_kept_on_evidence:
  "case run_optimization env fl parse threshold agent entry_point s of
     (Inl e, t) \<Rightarrow> True
   | (Inr r, t) \<Rightarrow> \<exists>perms x y b m. mn_tool env perms ''run_benchmark''
         [(''path'', PStr entry_point), (''iterations'', PInt BENCHMARK_ITERATIONS)] x = (Inr b, y)
       \<and> measured fl parse b = Inr m
       \<and> (case m of
            None \<Rightarrow> or_status (os_report r) = NoImprovement \<and> os_tool_calls r = [] \<and> os_diff r = []
          | Some baseline_ms \<Rightarrow>
              (\<exists>x y. changed_files (mn_exec env) GIT_BASE_BRANCH x = (Inr (or_files_changed (os_report r)), y)
                 \<and> optimization_judged env fl parse threshold perms entry_point baseline_ms r y))"
proof -
  obtain q t where run: "run_optimization env fl parse threshold agent entry_point s = (q, t)"
    by (metis prod.exhaust)
  show ?thesis
  proof (cases q)
    case (Inr r)
    from run [unfolded Inr] show ?thesis
    proof (cases rule: run_optimization_Inr)
      case (unmeasured perms x b y s1 t1)
      then have "or_status (os_report r) = NoImprovement \<and> os_tool_calls r = [] \<and> os_diff r = []"
        by (auto simp: no_baseline_def blank_opt_report_def elim!: on_success_Inr)
      then show ?thesis using unmeasured(1,2) unfolding run Inr prod.case sum.case
        by (intro exI [of _ perms] exI [of _ x] exI [of _ y] exI [of _ b] exI [of _ None] conjI) simp_all
    next
      case (judged perms x b y ms u changed reported calls s1 t1)
      then have "changed_files (mn_exec env) GIT_BASE_BRANCH u = (Inr (or_files_changed (os_report r)), jb_env s1)"
        "optimization_judged env fl parse threshold perms entry_point ms r (jb_env s1)"
        using judge_optimization_judged by fastforce+
      then show ?thesis using judged(1,2) unfolding run Inr prod.case sum.case
        by (intro exI [of _ perms] exI [of _ x] exI [of _ y] exI [of _ b] exI [of _ "Some ms"] conjI) auto
    qed
  qed (simp add: run)
qed

text \<open>
  A landing arrives.  A job that nobody disturbs, whose task is fresh or being coded, walks
  only legal moves and ends waiting for approval after a success and for a human after anything
  else; the walk swallows no exception on its way.
\<close>

theorem landing_arrives:
  assumes "undisturbed env s" "tk_state (jb_task s) \<in> {CREATED, CODING}"
  shows "\<exists>t. land env actor trigger success s = (Inr (), t)
    \<and> tk_state (jb_task t) = (if success then WAITING_FOR_APPROVAL else NEEDS_HUMAN_INPUT)"
proof -
  from walk_undisturbed [OF assms(1) land_path_legal [OF assms(2), of success]]
  obtain t where "walk_states env actor trigger (land_path success (tk_state (jb_task s))) s = (Inr (), t)"
      "tk_state (jb_task t) = last (tk_state (jb_task s) # land_path success (tk_state (jb_task s)))"
    by blast
  then show ?thesis using assms(2) by (auto simp: land_def land_path_def)
qed

definition demo_maint_env :: "unit maint_env" where
  "demo_maint_env = \<lparr>mn_hash = (\<lambda>t. t), mn_interference = (\<lambda>n s. s), mn_polls = 1, mn_now = (\<lambda>w. demo_time),
     mn_materialize = (\<lambda>x. (Inr (), x)), mn_create = (\<lambda>x. (Inr (), x)), mn_destroy = (\<lambda>x. (Inr (), x)),
     mn_exec = (\<lambda>c x. (Inl (GitError []), x)), mn_overrides = (\<lambda>x. (Inr None, x)),
     mn_tool = (\<lambda>p n a x. (Inl [], x))\<rparr>"

definition demo_job :: "unit job" where
  "demo_job = (let (task, s) = create_task ''t1'' demo_time ''optimization'' None None demo_store
     in \<lparr>jb_task = task, jb_world = \<lparr>w_store = s, w_clock = 0\<rparr>, jb_env = (), jb_stages = []\<rparr>)"

theorem landing_arrives_witness:
  "\<exists>t. land demo_maint_env ''agent:optimizer'' ''optimization improved'' True demo_job = (Inr (), t)
    \<and> tk_state (jb_task t) = WAITING_FOR_APPROVAL"
proof -
  have "undisturbed demo_maint_env demo_job"
    by (simp add: undisturbed_def demo_maint_env_def demo_job_def create_task_def demo_store_def Let_def paused_now_def)
  moreover have "tk_state (jb_task demo_job) = CREATED"
    by (simp add: demo_job_def create_task_def Let_def)
  ultimately show ?thesis
    using landing_arrives [of demo_maint_env demo_job "''agent:optimizer''" "''optimization improved''" True] by simp
qed

end
