(* ===== verification/Monitoring.thy ===== *)
theory Monitoring
  imports Watch ToolRegistry
begin

text \<open>
  \<open>amop/tools/monitoring.py\<close>, the tools over one log file, and \<open>amop/orchestrator/monitoring.py\<close>,
  the threshold rule that turns an error rate into an alert for \<open>Watch\<close>.  \<open>Inl\<close> is an exception
  leaving a tool's body.  A time is a number of microseconds; a stamp without an offset is a naive
  \<open>datetime\<close>, which Python does not compare with an aware one.
\<close>

section \<open>Lines\<close>

datatype stamp = Aware int | Naive int

record log_line =
  ll_timestamp :: stamp
  ll_level :: string
  ll_message :: string

text \<open>
  The log source as a call finds it.  \<open>lg_iso\<close> is \<open>datetime.fromisoformat\<close>, \<open>None\<close> for a
  \<open>ValueError\<close>; \<open>lg_lines\<close> iterates over the file, or the exception that opening it raises.
\<close>

record log_env =
  lg_path :: "string option"
  lg_is_file :: bool
  lg_lines :: "(string, string list) result"
  lg_iso :: "string \<Rightarrow> stamp option"
  lg_isoformat :: "stamp \<Rightarrow> string"
  lg_now :: int

definition LEVELS :: "string list" where "LEVELS = [''INFO'', ''WARNING'', ''ERROR'']"

text \<open>\<open>ts_raw.replace("Z", "+00:00")\<close>.\<close>

definition zulu :: "string \<Rightarrow> string" where
  "zulu s = concat (map (\<lambda>c. if c = CHR ''Z'' then ''+00:00'' else [c]) s)"

text \<open>
  \<open>_LOG_LINE_RE\<close>: a word, blanks, a level, blanks, the message.  A word ends where the blanks
  begin, so the match is unique.
\<close>

definition split_line :: "string \<Rightarrow> (string \<times> string \<times> string) option" where
  "split_line s =
     (let word = takeWhile (\<lambda>c. \<not> py_space c) s;
          after = dropWhile (\<lambda>c. \<not> py_space c) s;
          rest = dropWhile py_space after
      in if word = [] \<or> after = [] then None
         else (case find (\<lambda>v. starts_with rest v) LEVELS of
                 None \<Rightarrow> None
               | Some level \<Rightarrow>
                   (let tail = drop (length level) rest
                    in if tail = [] \<or> \<not> py_space (hd tail) then None
                       else Some (word, level, dropWhile py_space tail))))"

definition parse_line :: "log_env \<Rightarrow> string \<Rightarrow> log_line option" where
  "parse_line env raw =
     (case split_line (rstrip_char (CHR 0x0A) raw) of
        None \<Rightarrow> None
      | Some (ts_raw, level, message) \<Rightarrow>
          (case lg_iso env (zulu ts_raw) of
             None \<Rightarrow> None
           | Some t \<Rightarrow> Some \<lparr>ll_timestamp = t, ll_level = level, ll_message = message\<rparr>))"

definition read_all_lines :: "log_env \<Rightarrow> (string, log_line list) result" where
  "read_all_lines env = bind_result (lg_lines env) (\<lambda>raws. Inr (List.map_filter (parse_line env) raws))"

definition log_unavailable :: "string option \<Rightarrow> tool_result" where
  "log_unavailable path = failure ''LOG_SOURCE_UNAVAILABLE'' (Some ((case path of
       None \<Rightarrow> ''no log source configured -- set AMOP_LOG_SOURCE_PATH to a real log file''
     | Some p \<Rightarrow> ''configured log source '' @ repr_str p @ '' does not exist or is not readable'') @
     ''. This is NOT a statement that there are no errors.''))"

text \<open>The last microsecond of a \<open>datetime\<close> and the bound of a \<open>timedelta\<close>.\<close>

definition MAX_DATETIME :: int where "MAX_DATETIME = 3652059 * 86400000000 - 1"
definition MAX_TIMEDELTA :: int where "MAX_TIMEDELTA = 1000000000 * 86400000000"

definition cutoff :: "int \<Rightarrow> rat \<Rightarrow> (string, int) result" where
  "cutoff now window_minutes =
     (let delta = round_half_even (window_minutes * 60000000); c = now - delta
      in if \<bar>delta\<bar> \<ge> MAX_TIMEDELTA \<or> c < 0 \<or> c > MAX_DATETIME then Inl ''OverflowError'' else Inr c)"

text \<open>\<open>ln.timestamp >= cutoff\<close>, with an aware cutoff.\<close>

fun since_cutoff :: "int \<Rightarrow> log_line list \<Rightarrow> (string, log_line list) result" where
  "since_cutoff c [] = Inr []"
| "since_cutoff c (l # ls) =
     (case ll_timestamp l of
        Naive _ \<Rightarrow> Inl ''TypeError''
      | Aware t \<Rightarrow> bind_result (since_cutoff c ls) (\<lambda>kept. Inr (if t \<ge> c then l # kept else kept)))"

definition in_window :: "log_env \<Rightarrow> log_line list \<Rightarrow> rat \<Rightarrow> (string, log_line list) result" where
  "in_window env ls window_minutes = bind_result (cutoff (lg_now env) window_minutes) (\<lambda>c. since_cutoff c ls)"

section \<open>The tools\<close>

text \<open>What every tool does first: refuse without a file, then read it.\<close>

definition over_log ::
    "log_env \<Rightarrow> (log_line list \<Rightarrow> (string, 'a) result) \<Rightarrow> (string, tool_result + 'a) result" where
  "over_log env k =
     (if lg_path env = None \<or> \<not> lg_is_file env then Inr (Inl (log_unavailable (lg_path env)))
      else bind_result (bind_result (read_all_lines env) k) (\<lambda>a. Inr (Inr a)))"

definition search_logs :: "log_env \<Rightarrow> string \<Rightarrow> rat \<Rightarrow> (string, tool_result + pydict list) result" where
  "search_logs env query since_minutes =
     over_log env (\<lambda>all. bind_result (in_window env all since_minutes) (\<lambda>ls.
       Inr (map (\<lambda>l. [(''timestamp'', PStr (lg_isoformat env (ll_timestamp l))),
                      (''level'', PStr (ll_level l)), (''message'', PStr (ll_message l))])
              (filter (\<lambda>l. contains (py_lower (ll_message l)) (py_lower query)) ls))))"

definition count_level :: "string \<Rightarrow> log_line list \<Rightarrow> nat" where
  "count_level level ls = length (filter (\<lambda>l. ll_level l = level) ls)"

definition error_pct :: "flround \<Rightarrow> nat \<Rightarrow> nat \<Rightarrow> rat" where
  "error_pct fl errors seen = (if seen \<noteq> 0 then fl (fl (of_nat errors / of_nat seen) * 100) else 0)"

record error_rate =
  er_window_minutes :: rat
  er_total :: nat
  er_errors :: nat
  er_error_rate_pct :: rat

definition get_error_rate :: "log_env \<Rightarrow> flround \<Rightarrow> rat \<Rightarrow> (string, tool_result + error_rate) result" where
  "get_error_rate env fl window_minutes =
     over_log env (\<lambda>all. bind_result (in_window env all window_minutes) (\<lambda>ls.
       Inr \<lparr>er_window_minutes = window_minutes, er_total = length ls, er_errors = count_level ''ERROR'' ls,
            er_error_rate_pct = error_pct fl (count_level ''ERROR'' ls) (length ls)\<rparr>))"

record log_metrics =
  lm_window_minutes :: rat
  lm_total_lines :: nat
  lm_by_level :: "(string \<times> nat) list"
  lm_error_rate_pct :: rat
  lm_lines_per_minute :: rat

definition get_metrics :: "log_env \<Rightarrow> flround \<Rightarrow> rat \<Rightarrow> (string, tool_result + log_metrics) result" where
  "get_metrics env fl window_minutes =
     over_log env (\<lambda>all. bind_result (in_window env all window_minutes) (\<lambda>ls.
       Inr \<lparr>lm_window_minutes = window_minutes, lm_total_lines = length ls,
            lm_by_level = map (\<lambda>level. (level, count_level level ls)) LEVELS,
            lm_error_rate_pct = error_pct fl (count_level ''ERROR'' ls) (length ls),
            lm_lines_per_minute = (if window_minutes \<noteq> 0 then fl (of_nat (length ls) / window_minutes) else 0)\<rparr>))"

fun stamp_us :: "stamp \<Rightarrow> int" where
  "stamp_us (Aware t) = t"
| "stamp_us (Naive t) = t"

fun is_naive :: "stamp \<Rightarrow> bool" where
  "is_naive (Naive t) = True"
| "is_naive (Aware t) = False"

text \<open>\<open>xs[:limit]\<close>.\<close>

definition py_take :: "int \<Rightarrow> 'a list \<Rightarrow> 'a list" where
  "py_take limit xs = (if limit \<ge> 0 then take (nat limit) xs else take (length xs - nat (- limit)) xs)"

definition list_recent_errors :: "log_env \<Rightarrow> int \<Rightarrow> (string, tool_result + pydict list) result" where
  "list_recent_errors env limit =
     over_log env (\<lambda>all.
       let errors = filter (\<lambda>l. ll_level l = ''ERROR'') all in
       if list_ex (\<lambda>l. is_naive (ll_timestamp l)) errors \<and> list_ex (\<lambda>l. \<not> is_naive (ll_timestamp l)) errors
       then Inl ''TypeError''
       else Inr (map (\<lambda>l. [(''timestamp'', PStr (lg_isoformat env (ll_timestamp l))),
                             (''message'', PStr (ll_message l))])
              (py_take limit (sort_key (\<lambda>l. - stamp_us (ll_timestamp l)) errors))))"

section \<open>The threshold rule\<close>

definition DEFAULT_ERROR_RATE_THRESHOLD_PCT :: rat where "DEFAULT_ERROR_RATE_THRESHOLD_PCT = 5"
definition DEFAULT_ERROR_RATE_WINDOW_MINUTES :: nat where "DEFAULT_ERROR_RATE_WINDOW_MINUTES = 5"
definition THRESHOLD_INCIDENT_ISSUE_NUMBER :: int where "THRESHOLD_INCIDENT_ISSUE_NUMBER = -1"

definition rate_severity :: "flround \<Rightarrow> rat \<Rightarrow> rat \<Rightarrow> string" where
  "rate_severity fl rate threshold_pct =
     (if rate \<ge> fl (threshold_pct * 3) then ''critical''
      else if rate \<ge> fl (threshold_pct * 2) then ''high'' else ''medium'')"

text \<open>
  \<open>check_log_threshold\<close>, given what invoking \<open>get_error_rate\<close> returned and the task rows.  \<open>fmt_g\<close>
  is the format specification \<open>g\<close>.  Progress lines, the evidence and the fields that are the same
  for every alert of this source are left out.
\<close>

definition check_log_threshold ::
    "flround \<Rightarrow> (rat \<Rightarrow> string) \<Rightarrow> task_row list \<Rightarrow> string \<Rightarrow> rat \<Rightarrow> rat \<Rightarrow> tool_result + error_rate
     \<Rightarrow> anomaly_alert option" where
  "check_log_threshold fl fmt_g rows repo threshold_pct window_minutes outcome =
     (case outcome of
        Inl _ \<Rightarrow> None
      | Inr out \<Rightarrow>
          (let rate = er_error_rate_pct out in
           if er_total out = 0 then None
           else if rate \<le> threshold_pct then None
           else if find_existing_task_for_issue rows repo THRESHOLD_INCIDENT_ISSUE_NUMBER \<noteq> None then None
           else Some \<lparr>al_source = ''logs'', al_severity = rate_severity fl rate threshold_pct,
                  al_summary = ''Error rate '' @ fixed_point 1 rate @ ''% over the last '' @ fmt_g window_minutes @
                    ''m exceeds the configured '' @ fixed_point 1 threshold_pct @ ''% threshold ('' @
                    nat_digits (er_total out) @ '' log lines, '' @ nat_digits (er_errors out) @ '' errors)'',
                  al_confidence = ''1.0'', al_repo = repo, al_issue = THRESHOLD_INCIDENT_ISSUE_NUMBER\<rparr>))"

section \<open>Lemmas\<close>

lemma since_cutoff_filter:
  "since_cutoff c ls = Inr kept \<Longrightarrow>
     kept = filter (\<lambda>l. stamp_us (ll_timestamp l) \<ge> c) ls \<and> list_all (\<lambda>l. \<not> is_naive (ll_timestamp l)) ls"
proof (induction ls arbitrary: kept)
  case (Cons l ls)
  then show ?case by (cases "since_cutoff c ls"; cases "ll_timestamp l") auto
qed simp

text \<open>One line whose stamp has no offset makes every windowed read fail.\<close>

lemma naive_line_fails_the_read:
  "list_ex (\<lambda>l. is_naive (ll_timestamp l)) ls \<Longrightarrow> \<exists>e. since_cutoff c ls = Inl e"
proof (induction ls)
  case (Cons l ls)
  then show ?case by (cases "ll_timestamp l") auto
qed simp

lemma over_log_Inr:
  assumes "over_log env k = Inr (Inr a)"
  obtains p all where "lg_path env = Some p" "lg_is_file env" "read_all_lines env = Inr all" "k all = Inr a"
  using assms by (cases "read_all_lines env") (auto simp: over_log_def bind_result_def split: if_splits sum.splits)

lemma error_pct_range:
  assumes "fp_round fl" "fl 100 = 100" "fl 1 = 1" "errors \<le> seen"
  shows "0 \<le> error_pct fl errors seen \<and> error_pct fl errors seen \<le> 100"
proof (cases "seen = 0")
  case False
  let ?q = "of_nat errors / of_nat seen :: rat"
  have q: "0 \<le> ?q" "?q \<le> 1" using assms(4) False by simp_all
  have f: "0 \<le> fl ?q" "fl ?q \<le> 1" using fp_nonneg [OF assms(1) q(1)] fp_mono [OF assms(1) q(2)] assms(3) by simp_all
  then have "fl (fl ?q * 100) \<le> fl 100" by (intro fp_mono [OF assms(1)]) simp
  then show ?thesis using f fp_nonneg [OF assms(1), of "fl ?q * 100"] False assms(2) by (simp add: error_pct_def)
qed (simp add: error_pct_def)

text \<open>A task made from a log alert, still open, is the one the next look finds.\<close>

lemma log_task_is_found:
  assumes "row \<in> set rows" "non_terminal row" "tk_task_context row = Some (alert_context env alert)"
  shows "find_existing_task_for_issue rows (al_repo alert) (al_issue alert) \<noteq> None"
proof -
  have "context_text ''repo'' row = Some (al_repo alert)"
    "context_text ''github_issue_number'' row = Some (int_str (al_issue alert))"
    using assms(3) by (simp_all add: context_text_def alert_context_def dict_get_def)
  then show ?thesis using assms(1,2) unfolding find_existing_task_for_issue_def find_None_iff by blast
qed

lemma check_log_threshold_Some:
  assumes "check_log_threshold fl fmt_g rows repo threshold_pct window_minutes outcome = Some alert"
  obtains out where "outcome = Inr out" "er_total out > 0" "er_error_rate_pct out > threshold_pct"
    "al_severity alert = rate_severity fl (er_error_rate_pct out) threshold_pct"
    "al_repo alert = repo" "al_issue alert = THRESHOLD_INCIDENT_ISSUE_NUMBER" "al_source alert = ''logs''"
  using assms by (auto simp: check_log_threshold_def Let_def split: sum.splits if_splits)

text \<open>No alert of this source is below the default floor, so triage does not cancel it.\<close>

lemma log_alert_above_default_floor:
  assumes "check_log_threshold fl fmt_g rows repo threshold_pct window_minutes outcome = Some alert"
    and "we_floor env = DEFAULT_SEVERITY_FLOOR"
  shows "\<not> below_floor env alert"
  using assms(1) by (rule check_log_threshold_Some)
    (auto simp: below_floor_def rate_severity_def assms(2) DEFAULT_SEVERITY_FLOOR_def SEVERITY_ORDER_def)

section \<open>Properties\<close>

text \<open>
  One incident at a time.  While a task that triage made from a log alert is not in a terminal
  state, the threshold rule raises no further alert for that repository, whatever the log says;
  the incident's number is shared by all log alerts and by no GitHub issue.
\<close>

theorem one_log_incident_at_a_time:
  assumes "check_log_threshold fl fmt_g rows repo threshold_pct window_minutes outcome = Some alert"
    and "row \<in> set later" "non_terminal row" "tk_task_context row = Some (alert_context env alert)"
  shows "check_log_threshold fl' fmt_g' later repo threshold_pct' window_minutes' outcome' = None
    \<and> al_issue alert < 1"
proof -
  from assms(1) have "al_repo alert = repo" "al_issue alert = THRESHOLD_INCIDENT_ISSUE_NUMBER"
    by (auto elim: check_log_threshold_Some)
  then show ?thesis using log_task_is_found [OF assms(2-4)]
    by (auto simp: check_log_threshold_def Let_def THRESHOLD_INCIDENT_ISSUE_NUMBER_def split: sum.split)
qed

definition demo_watch_env :: "unit watch_env" where
  "demo_watch_env = \<lparr>we_hash = (\<lambda>t. t), we_interference = (\<lambda>n s. s), we_polls = 1, we_now = (\<lambda>w. demo_time),
     we_hour_ago = (\<lambda>w. demo_time), we_new_id = (\<lambda>w. ''t2''), we_rows = (\<lambda>s. []), we_round = (\<lambda>x. x),
     we_float = (\<lambda>t. 0), we_estimate = 0, we_estimate_text = ''0.5'', we_cost_cap = 10, we_hourly_cap = 20,
     we_streak = 3, we_floor = DEFAULT_SEVERITY_FLOOR, we_embed = (\<lambda>ts x. (Inl [], x)),
     we_search_memory = (\<lambda>s p x. (Inl [], x)), we_run_fix = (\<lambda>t s p st. (Inl [], st))\<rparr>"

definition demo_outcome :: "tool_result + error_rate" where
  "demo_outcome = Inr \<lparr>er_window_minutes = 5, er_total = 10, er_errors = 2, er_error_rate_pct = 20\<rparr>"

definition demo_alert :: anomaly_alert where
  "demo_alert = the (check_log_threshold (\<lambda>x. x) (\<lambda>x. ''5'') [] ''o/r'' 5 5 demo_outcome)"

definition demo_incident :: task_row where
  "demo_incident = fst (create_task ''t2'' demo_time ''bug_fix'' (Some (alert_context demo_watch_env demo_alert))
     (Some ''critical'') demo_store)"

theorem one_log_incident_at_a_time_witness:
  "check_log_threshold (\<lambda>x. x) (\<lambda>x. ''5'') [demo_incident] ''o/r'' 1 60 demo_outcome = None \<and> al_issue demo_alert < 1"
proof (rule one_log_incident_at_a_time)
  show "check_log_threshold (\<lambda>x. x) (\<lambda>x. ''5'') [] ''o/r'' 5 5 demo_outcome = Some demo_alert"
    by (simp add: demo_alert_def check_log_threshold_def demo_outcome_def find_existing_task_for_issue_def Let_def)
  show "demo_incident \<in> set [demo_incident]" by simp
  show "non_terminal demo_incident"
    by (simp add: non_terminal_def demo_incident_def create_task_def Let_def TERMINAL_STATES_def)
  show "tk_task_context demo_incident = Some (alert_context demo_watch_env demo_alert)"
    by (simp add: demo_incident_def create_task_def Let_def)
qed

end
