(* ===== verification/Metrics.thy ===== *)
theory Metrics
  imports PyNumbers StateMachine
begin

text \<open>
  \<open>amop/evaluation/metrics.py\<close>: what a benchmark run's outcomes say.  A metric without data has no
  value instead of a zero; its explanation, text for the reader, is left out, as is the rendering of
  the report.  Floats are rationals rounded by \<open>fl\<close>.
\<close>

section \<open>Outcomes\<close>

definition SUCCESS_TRANSITION :: task_state where "SUCCESS_TRANSITION = PR_CREATION"
definition FAILURE_STATES :: "task_state set" where "FAILURE_STATES = {FAILED}"
definition INTERVENTION_STATES :: "task_state set" where "INTERVENTION_STATES = {NEEDS_HUMAN_INPUT}"

record task_outcome =
  oc_task_id :: string
  oc_scenario :: string
  oc_task_type :: string
  oc_state :: task_state
  oc_tool_calls :: nat
  oc_model_calls :: nat
  oc_input_tokens :: nat
  oc_output_tokens :: nat
  oc_tests_pass :: "bool option"
  oc_error :: "string option"
  oc_duration_seconds :: "rat option"
  oc_reached_pr_creation :: bool

definition succeeded :: "task_outcome \<Rightarrow> bool" where "succeeded o1 = oc_reached_pr_creation o1"
definition failed :: "task_outcome \<Rightarrow> bool" where "failed o1 \<longleftrightarrow> oc_state o1 \<in> FAILURE_STATES"

definition needed_human :: "task_outcome \<Rightarrow> bool" where
  "needed_human o1 \<longleftrightarrow> oc_state o1 \<in> INTERVENTION_STATES \<and> \<not> oc_reached_pr_creation o1"

definition total_tokens :: "task_outcome \<Rightarrow> nat" where
  "total_tokens o1 = oc_input_tokens o1 + oc_output_tokens o1"

record metric =
  me_name :: string
  me_value :: "rat option"
  me_unit :: string
  me_detail :: string

definition unavailable_metric :: "string \<Rightarrow> metric" where
  "unavailable_metric name = \<lparr>me_name = name, me_value = None, me_unit = [], me_detail = []\<rparr>"

definition available :: "metric \<Rightarrow> bool" where "available m \<longleftrightarrow> me_value m \<noteq> None"

section \<open>Numbers in text\<close>

text \<open>The format specification \<open>,\<close>: a comma before every third digit from the right.\<close>

fun group_digits :: "nat \<Rightarrow> string \<Rightarrow> string" where
  "group_digits n [] = []"
| "group_digits n (c # cs) = (if n > 0 \<and> length (c # cs) mod 3 = 0 then CHR '','' # c # group_digits (n + 1) cs
                               else c # group_digits (n + 1) cs)"

definition thousands :: "nat \<Rightarrow> string" where "thousands n = group_digits 0 (nat_digits n)"

section \<open>The metrics\<close>

text \<open>\<open>100.0 * part / whole\<close>.\<close>

definition percent :: "flround \<Rightarrow> nat \<Rightarrow> nat \<Rightarrow> rat" where
  "percent fl part whole = fl (fl (100 * of_nat part) / of_nat whole)"

definition task_success_rate :: "flround \<Rightarrow> task_outcome list \<Rightarrow> metric" where
  "task_success_rate fl outcomes =
     (let decided = filter (\<lambda>o1. succeeded o1 \<or> failed o1) outcomes; wins = length (filter succeeded decided)
      in if decided = [] then unavailable_metric ''task success rate''
         else \<lparr>me_name = ''task success rate'', me_value = Some (percent fl wins (length decided)), me_unit = ''%'',
               me_detail = nat_digits wins @ ''/'' @ nat_digits (length decided) @ '' decided tasks''\<rparr>)"

definition fix_success_rate :: "flround \<Rightarrow> task_outcome list \<Rightarrow> metric" where
  "fix_success_rate fl outcomes =
     (let fixable = filter (\<lambda>o1. oc_tests_pass o1 \<noteq> None) outcomes;
          real_fixes = length (filter (\<lambda>o1. succeeded o1 \<and> oc_tests_pass o1 = Some True) fixable)
      in if fixable = [] then unavailable_metric ''fix success rate (proxy)''
         else \<lparr>me_name = ''fix success rate (proxy)'', me_value = Some (percent fl real_fixes (length fixable)),
               me_unit = ''%'', me_detail = nat_digits real_fixes @ ''/'' @ nat_digits (length fixable) @
                 '' verified by re-running the fixture's suite''\<rparr>)"

definition human_intervention_rate :: "flround \<Rightarrow> task_outcome list \<Rightarrow> metric" where
  "human_intervention_rate fl outcomes =
     (let stuck = length (filter needed_human outcomes)
      in if outcomes = [] then unavailable_metric ''human intervention rate''
         else \<lparr>me_name = ''human intervention rate'', me_value = Some (percent fl stuck (length outcomes)),
               me_unit = ''%'',
               me_detail = nat_digits stuck @ ''/'' @ nat_digits (length outcomes) @ '' tasks''\<rparr>)"

definition calls_per_task :: "flround \<Rightarrow> task_outcome list \<Rightarrow> rat" where
  "calls_per_task fl os = fl (of_nat (sum_list (map oc_tool_calls os)) / of_nat (length os))"

definition tool_efficiency :: "flround \<Rightarrow> task_outcome list \<Rightarrow> metric" where
  "tool_efficiency fl outcomes =
     (let won = filter succeeded outcomes; lost = filter failed outcomes
      in if won = [] \<or> lost = [] then unavailable_metric ''tool efficiency''
         else
           (let per_success = calls_per_task fl won; per_failure = calls_per_task fl lost
            in if per_success = 0 then unavailable_metric ''tool efficiency''
               else \<lparr>me_name = ''tool efficiency'', me_value = Some (fl (per_failure / per_success)), me_unit = ''x'',
                     me_detail = fixed_point 1 per_failure @ '' calls/failed vs '' @ fixed_point 1 per_success @
                       '' calls/succeeded''\<rparr>))"

definition tokens_per_task :: "flround \<Rightarrow> task_outcome list \<Rightarrow> metric" where
  "tokens_per_task fl outcomes =
     (let sum_tokens = sum_list (map total_tokens outcomes)
      in if outcomes = [] \<or> sum_tokens = 0 then unavailable_metric ''tokens per task''
         else \<lparr>me_name = ''tokens per task'', me_value = Some (fl (of_nat sum_tokens / of_nat (length outcomes))),
               me_unit = '' tokens'',
               me_detail = thousands sum_tokens @ '' tokens across '' @ nat_digits (length outcomes) @ '' tasks''\<rparr>)"

definition mean_time_to_resolution :: "flround \<Rightarrow> task_outcome list \<Rightarrow> metric" where
  "mean_time_to_resolution fl outcomes =
     (let seconds = List.map_filter oc_duration_seconds outcomes
      in if seconds = [] then unavailable_metric ''mean scenario duration (proxy for MTTR)''
         else \<lparr>me_name = ''mean scenario duration (proxy for MTTR)'',
               me_value = Some (fl (fl (fl (sum_list seconds) / of_nat (length seconds)) / 60)), me_unit = '' min'',
               me_detail = nat_digits (length seconds) @ '' scenarios, compute time only''\<rparr>)"

definition structurally_unavailable :: "metric list" where
  "structurally_unavailable = map unavailable_metric [''PR acceptance rate'', ''regression rate'', ''false positive rate'']"

record report =
  rp_model :: string
  rp_outcomes :: "task_outcome list"
  rp_metrics :: "metric list"

definition compute_all :: "flround \<Rightarrow> string \<Rightarrow> task_outcome list \<Rightarrow> report" where
  "compute_all fl model outcomes =
     \<lparr>rp_model = model, rp_outcomes = outcomes,
      rp_metrics = [task_success_rate fl outcomes, fix_success_rate fl outcomes, human_intervention_rate fl outcomes,
        tool_efficiency fl outcomes, tokens_per_task fl outcomes, mean_time_to_resolution fl outcomes]
        @ structurally_unavailable\<rparr>"

text \<open>A run's line in the report: a suite that was not re-run does not count against it.\<close>

definition passes :: "task_outcome \<Rightarrow> bool" where
  "passes o1 \<longleftrightarrow> succeeded o1 \<and> oc_tests_pass o1 \<noteq> Some False"

section \<open>Lemmas\<close>

text \<open>Small integers are doubles: rounding leaves them alone.\<close>

definition exact_integers :: "flround \<Rightarrow> bool" where
  "exact_integers fl \<longleftrightarrow> (\<forall>n \<le> 2 ^ 53. fl (of_nat n) = of_nat n)"

lemma percent_range:
  assumes "fp_round fl" "exact_integers fl" "part \<le> whole" "whole > 0" "100 * whole \<le> 2 ^ 53"
  shows "0 \<le> percent fl part whole \<and> percent fl part whole \<le> 100"
proof -
  have "100 * part \<le> 2 ^ 53" using assms(3,5) by simp
  then have e: "fl (of_nat (100 * part)) = of_nat (100 * part)"
    using assms(2) unfolding exact_integers_def by blast
  have h: "fl (of_nat 100) = of_nat 100"
    using assms(2) unfolding exact_integers_def by (rule allE [where x = 100]) simp
  have p: "percent fl part whole = fl (100 * of_nat part / of_nat whole)"
    using e by (simp add: percent_def)
  have "100 * of_nat part / of_nat whole \<le> (of_nat 100 :: rat)" using assms(3,4) by (simp add: divide_le_eq)
  then have "percent fl part whole \<le> fl (of_nat 100)" unfolding p by (rule fp_mono [OF assms(1)])
  moreover have "0 \<le> percent fl part whole" unfolding p by (rule fp_nonneg [OF assms(1)]) simp
  ultimately show ?thesis using h by simp
qed

text \<open>A rate over a list of outcomes: absent without outcomes, else a percentage.\<close>

lemma rate_value:
  assumes "fp_round fl" "exact_integers fl" "100 * length outcomes \<le> 2 ^ 53"
  shows "case me_value (task_success_rate fl outcomes) of
      None \<Rightarrow> filter (\<lambda>o1. succeeded o1 \<or> failed o1) outcomes = [] | Some v \<Rightarrow> 0 \<le> v \<and> v \<le> 100"
    and "case me_value (fix_success_rate fl outcomes) of
      None \<Rightarrow> filter (\<lambda>o1. oc_tests_pass o1 \<noteq> None) outcomes = [] | Some v \<Rightarrow> 0 \<le> v \<and> v \<le> 100"
    and "case me_value (human_intervention_rate fl outcomes) of
      None \<Rightarrow> outcomes = [] | Some v \<Rightarrow> 0 \<le> v \<and> v \<le> 100"
proof -
  have bounded: "xs \<noteq> [] \<Longrightarrow> length xs \<le> length outcomes \<Longrightarrow>
      0 \<le> percent fl (length (filter P xs)) (length xs) \<and> percent fl (length (filter P xs)) (length xs) \<le> 100"
    for P and xs :: "task_outcome list"
    using assms by (intro percent_range) (auto simp: length_filter_le)
  show "case me_value (task_success_rate fl outcomes) of
      None \<Rightarrow> filter (\<lambda>o1. succeeded o1 \<or> failed o1) outcomes = [] | Some v \<Rightarrow> 0 \<le> v \<and> v \<le> 100"
    using bounded [of "filter (\<lambda>o1. succeeded o1 \<or> failed o1) outcomes" succeeded]
    unfolding task_success_rate_def Let_def unavailable_metric_def by (simp del: filter_filter)
  show "case me_value (fix_success_rate fl outcomes) of
      None \<Rightarrow> filter (\<lambda>o1. oc_tests_pass o1 \<noteq> None) outcomes = [] | Some v \<Rightarrow> 0 \<le> v \<and> v \<le> 100"
    using bounded [of "filter (\<lambda>o1. oc_tests_pass o1 \<noteq> None) outcomes"
        "\<lambda>o1. succeeded o1 \<and> oc_tests_pass o1 = Some True"]
    unfolding fix_success_rate_def Let_def unavailable_metric_def by (simp del: filter_filter)
  show "case me_value (human_intervention_rate fl outcomes) of
      None \<Rightarrow> outcomes = [] | Some v \<Rightarrow> 0 \<le> v \<and> v \<le> 100"
    using bounded [of outcomes needed_human]
    unfolding human_intervention_rate_def Let_def unavailable_metric_def by simp
qed

text \<open>
  The printed basis of the intervention rate, \<open>tasks.state == NEEDS_HUMAN_INPUT\<close>, does not give its
  number: a task that stopped there after it reached \<open>PR_CREATION\<close> is not counted.
\<close>

lemma intervention_basis_differs:
  assumes "oc_state o1 = NEEDS_HUMAN_INPUT" "oc_reached_pr_creation o1"
  shows "\<not> needed_human o1"
  using assms by (simp add: needed_human_def)

section \<open>Properties\<close>

text \<open>
  Rates are percentages or absent.  The success, fix and intervention rates of a run lie
  between 0 and 100 whatever the rounding, and one is absent only when there is no outcome it
  speaks about; nothing is divided by zero and no zero stands for a missing measurement.
\<close>

theorem rates_are_percentages:
  assumes "fp_round fl" "exact_integers fl" "100 * length outcomes \<le> 2 ^ 53"
  shows "list_all (\<lambda>(m, seen). case me_value m of None \<Rightarrow> seen = [] | Some v \<Rightarrow> 0 \<le> v \<and> v \<le> 100)
    [(task_success_rate fl outcomes, filter (\<lambda>o1. succeeded o1 \<or> failed o1) outcomes),
     (fix_success_rate fl outcomes, filter (\<lambda>o1. oc_tests_pass o1 \<noteq> None) outcomes),
     (human_intervention_rate fl outcomes, outcomes)]"
  using rate_value [OF assms] unfolding list.pred_inject(2) prod.case by simp

definition demo_outcome1 :: task_outcome where
  "demo_outcome1 = \<lparr>oc_task_id = ''t1'', oc_scenario = ''off_by_one'', oc_task_type = ''bug_fix'',
     oc_state = NEEDS_HUMAN_INPUT, oc_tool_calls = 7, oc_model_calls = 4, oc_input_tokens = 1200,
     oc_output_tokens = 300, oc_tests_pass = Some True, oc_error = None, oc_duration_seconds = Some 90,
     oc_reached_pr_creation = True\<rparr>"

theorem rates_are_percentages_witness:
  "list_all (\<lambda>(m, seen). case me_value m of None \<Rightarrow> seen = [] | Some v \<Rightarrow> 0 \<le> v \<and> v \<le> 100)
    [(task_success_rate (\<lambda>x. x) [demo_outcome1], filter (\<lambda>o1. succeeded o1 \<or> failed o1) [demo_outcome1]),
     (fix_success_rate (\<lambda>x. x) [demo_outcome1], filter (\<lambda>o1. oc_tests_pass o1 \<noteq> None) [demo_outcome1]),
     (human_intervention_rate (\<lambda>x. x) [demo_outcome1], [demo_outcome1])]"
  by (rule rates_are_percentages) (simp_all add: fp_round_exact exact_integers_def)

end
