(* ===== verification/Reporting.thy ===== *)
theory Reporting
  imports CircuitBreakers AgentLoop
begin

text \<open>
  \<open>amop/orchestrator/reporting.py\<close>: the numbers of a reporting window, counted from the store, and
  the report whose model may add words to them and nothing else.  The rows of \<open>tasks\<close> are a list in
  the order the database gives them; the reporter agent is a function of an outside state \<open>'x\<close>.
\<close>

section \<open>The window\<close>

definition DEPENDENCY_TASK_TYPES :: "string list" where "DEPENDENCY_TASK_TYPES = [''dependency_update'']"
definition MAX_TASKS_IN_PROMPT :: nat where "MAX_TASKS_IN_PROMPT = 40"

record task_digest =
  td_task_id :: string
  td_task_type :: string
  td_state :: task_state
  td_created_at :: utc_datetime
  td_prompt :: string

record report_window =
  rw_period_start :: utc_datetime
  rw_period_end :: utc_datetime
  rw_tasks_resolved :: nat
  rw_prs_opened :: nat
  rw_prs_merged :: nat
  rw_dependencies_updated :: nat
  rw_tasks_created :: nat
  rw_tasks_failed :: nat
  rw_digests :: "task_digest list"

definition in_period :: "utc_datetime \<Rightarrow> utc_datetime \<Rightarrow> utc_datetime \<Rightarrow> bool" where
  "in_period a b t \<longleftrightarrow> dt_le a t \<and> dt_le t b"

definition moved_into :: "task_state \<Rightarrow> utc_datetime \<Rightarrow> utc_datetime \<Rightarrow> chained_row \<Rightarrow> bool" where
  "moved_into state a b r \<longleftrightarrow>
     (case cr_content r of
        Transition t \<Rightarrow> tt_to_state t = state_value state \<and> in_period a b (tt_timestamp t)
      | Action _ \<Rightarrow> False)"

definition count_transitions_into :: "store \<Rightarrow> task_state \<Rightarrow> utc_datetime \<Rightarrow> utc_datetime \<Rightarrow> nat" where
  "count_transitions_into s state a b = length (filter (moved_into state a b) (task_transitions (st_audit s)))"

definition digest_of :: "task_row \<Rightarrow> task_digest" where
  "digest_of t =
     \<lparr>td_task_id = tk_id t, td_task_type = tk_task_type t, td_state = tk_state t, td_created_at = tk_created_at t,
      td_prompt = take 300 (case tk_task_context t of None \<Rightarrow> []
        | Some d \<Rightarrow> (case map_of d ''prompt'' of None \<Rightarrow> [] | Some v \<Rightarrow> py_str v))\<rparr>"

definition collect_report_window ::
    "store \<Rightarrow> task_row list \<Rightarrow> utc_datetime \<Rightarrow> utc_datetime \<Rightarrow> report_window" where
  "collect_report_window s rows a b =
     (let created = filter (\<lambda>r. in_period a b (tk_created_at r)) rows in
      \<lparr>rw_period_start = a, rw_period_end = b,
       rw_tasks_resolved = (\<Sum>state\<in>TERMINAL_STATES. count_transitions_into s state a b),
       rw_prs_opened = count_transitions_into s WAITING_FOR_APPROVAL a b,
       rw_prs_merged = count_transitions_into s MERGED a b,
       rw_dependencies_updated = length (filter (\<lambda>r. tk_task_type r \<in> set DEPENDENCY_TASK_TYPES) created),
       rw_tasks_created = length created,
       rw_tasks_failed = count_transitions_into s FAILED a b,
       rw_digests = map digest_of (take MAX_TASKS_IN_PROMPT (newest_first created))\<rparr>)"

definition render_window_for_prompt :: "report_window \<Rightarrow> string" where
  "render_window_for_prompt w = join_with [CHR 0x0A]
     ([''Reporting window: '' @ isoformat (rw_period_start w) @ '' to '' @ isoformat (rw_period_end w),
       [],
       ''Verified counts (computed from the database -- treat as fact):'',
       ''  tasks created in window : '' @ nat_digits (rw_tasks_created w),
       ''  tasks reaching a terminal state : '' @ nat_digits (rw_tasks_resolved w),
       ''  of those, failed : '' @ nat_digits (rw_tasks_failed w),
       ''  pull requests opened : '' @ nat_digits (rw_prs_opened w),
       ''  pull requests merged : '' @ nat_digits (rw_prs_merged w),
       ''  dependency updates : '' @ nat_digits (rw_dependencies_updated w),
       []] @
      (if rw_digests w = [] then [''No tasks were created in this window.'']
       else (''Tasks in this window (up to '' @ nat_digits MAX_TASKS_IN_PROMPT @ '' shown):'') #
         concat (map (\<lambda>d. (''  - ['' @ state_value (td_state d) @ ''] '' @ td_task_type d @ '' @ '' @
                           isoformat (td_created_at d)) #
                        (if td_prompt d \<noteq> [] then [''      '' @ td_prompt d] else [])) (rw_digests w))))"

section \<open>The report\<close>

record report_summary =
  rs_period_start :: string
  rs_period_end :: string
  rs_tasks_resolved :: int
  rs_prs_opened :: int
  rs_prs_merged :: int
  rs_dependencies_updated :: int
  rs_top_issues :: "string list"

definition FILLER_ISSUES :: "string set" where
  "FILLER_ISSUES = {''n/a'', ''na'', ''none'', ''none.'', ''nothing'', ''nothing notable'', ''-'', ''--'', []}"

definition drop_filler_issues :: "string list \<Rightarrow> string list" where
  "drop_filler_issues issues = filter (\<lambda>i. py_lower (strip_char CHR ''.'' (py_strip i)) \<notin> FILLER_ISSUES) issues"

definition enforce_verified_counts :: "report_summary \<Rightarrow> report_window \<Rightarrow> report_summary" where
  "enforce_verified_counts summary w = summary
     \<lparr>rs_period_start := isoformat (rw_period_start w), rs_period_end := isoformat (rw_period_end w),
      rs_tasks_resolved := int (rw_tasks_resolved w), rs_prs_opened := int (rw_prs_opened w),
      rs_prs_merged := int (rw_prs_merged w), rs_dependencies_updated := int (rw_dependencies_updated w),
      rs_top_issues := drop_filler_issues (rs_top_issues summary)\<rparr>"

text \<open>\<open>Inl\<close>: the \<open>RuntimeError\<close> of a reporter that failed, or an exception of the run itself.\<close>

definition run_report ::
    "(string \<Rightarrow> 'x \<Rightarrow> (string, report_summary agent_result) result \<times> 'x) \<Rightarrow> store \<Rightarrow> task_row list
     \<Rightarrow> utc_datetime \<Rightarrow> utc_datetime \<Rightarrow> 'x \<Rightarrow> (string, report_summary \<times> report_window) result \<times> 'x" where
  "run_report agent s rows a b x =
     (let w = collect_report_window s rows a b in
      case agent (render_window_for_prompt w) x of
        (Inl e, y) \<Rightarrow> (Inl e, y)
      | (Inr r, y) \<Rightarrow>
          (case (ar_success r, ar_handoff r) of
             (True, Some h) \<Rightarrow> (Inr (enforce_verified_counts h w, w), y)
           | _ \<Rightarrow> (Inl (''reporter failed: '' @ (case ar_error r of
                    Some e \<Rightarrow> if e \<noteq> [] then e else ''no valid handoff'' | None \<Rightarrow> ''no valid handoff'')), y)))"

section \<open>Counting\<close>

text \<open>A row that takes its task to an end.\<close>

definition ends_task :: "utc_datetime \<Rightarrow> utc_datetime \<Rightarrow> chained_row \<Rightarrow> bool" where
  "ends_task a b r \<longleftrightarrow> (\<exists>state\<in>TERMINAL_STATES. moved_into state a b r)"

definition task_of :: "chained_row \<Rightarrow> string" where
  "task_of r = (case cr_content r of Transition t \<Rightarrow> tt_task_id t | Action _ \<Rightarrow> [])"

lemma resolved_is_length:
  "(\<Sum>state\<in>TERMINAL_STATES. count_transitions_into s state a b)
     = length (filter (ends_task a b) (task_transitions (st_audit s)))"
proof -
  have "(\<Sum>state\<in>TERMINAL_STATES. length (filter (moved_into state a b) rows)) = length (filter (ends_task a b) rows)" for rows
  proof (induction rows)
    case (Cons r rows)
    have one: "(\<Sum>state\<in>TERMINAL_STATES. if moved_into state a b r then 1 else 0) = (if ends_task a b r then 1 else (0::nat))"
    proof (cases "cr_content r")
      case (Transition t)
      then show ?thesis
        by (cases "in_period a b (tt_timestamp t)") (auto simp: ends_task_def moved_into_def TERMINAL_STATES_def)
    qed (simp add: ends_task_def moved_into_def)
    have "(\<Sum>state\<in>TERMINAL_STATES. length (filter (moved_into state a b) (r # rows)))
        = (\<Sum>state\<in>TERMINAL_STATES. (if moved_into state a b r then 1 else 0) + length (filter (moved_into state a b) rows))"
      by (intro sum.cong) auto
    then show ?case using Cons.IH one by (simp add: sum.distrib)
  qed simp
  then show ?thesis by (simp add: count_transitions_into_def)
qed

text \<open>A terminal state has no way out, so a trail enters one at most once.\<close>

lemma leads_one_end:
  "leads a es b \<Longrightarrow> length (filter (\<lambda>(f, t). \<exists>c\<in>TERMINAL_STATES. t = state_value c) es) \<le> 1"
proof (induction a es b rule: leads.induct)
  case (2 a f t es b)
  then obtain c where c: "t = state_value c" "legal a c" "leads c es b" by auto
  show ?case
  proof (cases "c \<in> TERMINAL_STATES")
    case True
    then have "es = []" using c(3) terminal_no_edge by (cases es) auto
    then show ?thesis by simp
  next
    case False
    then have "\<not> (\<exists>d\<in>TERMINAL_STATES. t = state_value d)" using c(1) by (auto dest: inj_state_value)
    then show ?thesis using 2 c by auto
  qed
qed simp

text \<open>The rows that end a task are entries of its trail.\<close>

lemma ends_in_trail:
  "length (filter (\<lambda>r. ends_task a b r \<and> task_of r = tid) rs)
     \<le> length (filter (\<lambda>(f, t). \<exists>c\<in>TERMINAL_STATES. t = state_value c) (trail tid (map cr_content rs)))"
proof (induction rs)
  case (Cons r rs)
  show ?case
  proof (cases "cr_content r")
    case (Transition t)
    then show ?thesis using Cons
      by (auto simp: trail_def ends_task_def moved_into_def task_of_def)
  next
    case (Action c)
    then show ?thesis using Cons by (simp add: trail_def ends_task_def moved_into_def)
  qed
qed (simp add: trail_def)

lemma trail_one_end:
  assumes "trail_inv H s"
  shows "length (filter (\<lambda>(f, t). \<exists>c\<in>TERMINAL_STATES. t = state_value c) (trail tid (contents (st_audit s)))) \<le> 1"
proof (cases "st_tasks s tid")
  case None
  then show ?thesis using assms by (simp add: trail_inv_def)
next
  case (Some row)
  then have "leads CREATED (trail tid (contents (st_audit s))) (tk_state row)"
    using assms by (simp add: trail_inv_def)
  then show ?thesis by (rule leads_one_end)
qed

text \<open>The rows of \<open>task_transitions\<close> that are in the chain are rows of the chain.\<close>

lemma transitions_in_chain:
  assumes "list_all (\<lambda>r. cr_row_hash r \<noteq> None) (task_transitions db)"
  shows "length (filter P (task_transitions db)) \<le> length (filter P (chained db))"
proof -
  have hashed: "filter_mset (\<lambda>r. cr_row_hash r \<noteq> None) (mset (task_transitions db)) = mset (task_transitions db)"
    using assms by (simp add: list.pred_set filter_mset_eq_conv)
  have "mset (task_transitions db) \<subseteq># mset (chained db)"
    unfolding chained_def all_rows_in_chain_order_def mset_filter mset_sort mset_append filter_union_mset hashed by simp
  then have "filter_mset P (mset (task_transitions db)) \<subseteq># filter_mset P (mset (chained db))"
    by (rule multiset_filter_mono)
  then have "size (filter_mset P (mset (task_transitions db))) \<le> size (filter_mset P (mset (chained db)))"
    by (rule size_mset_mono)
  then show ?thesis by (metis mset_filter size_mset)
qed

lemma length_by_key:
  assumes "\<And>k. length (filter (\<lambda>r. P r \<and> f r = k) rows) \<le> 1"
  shows "length (filter P rows) = card (f ` {r \<in> set rows. P r})"
proof -
  have "count (mset (map f (filter P rows))) k \<le> 1" for k
  proof -
    have "count (mset (map f (filter P rows))) k = length (filter (\<lambda>r. P r \<and> f r = k) rows)"
      by (induction rows) auto
    then show ?thesis using assms [of k] by simp
  qed
  moreover have "count (mset (map f (filter P rows))) k > 0 \<longleftrightarrow> k \<in> set (map f (filter P rows))" for k
    unfolding count_greater_zero_iff by simp
  ultimately have "count (mset (map f (filter P rows))) k = (if k \<in> set (map f (filter P rows)) then 1 else 0)" for k
    by (metis One_nat_def le_SucE le_zero_eq less_numeral_extra(3) not_gr_zero)
  then have "distinct (map f (filter P rows))" unfolding distinct_count_atmost_1 by blast
  then show ?thesis using distinct_card [of "map f (filter P rows)"] by (simp add: image_def)
qed

section \<open>Properties\<close>

text \<open>
  A resolved task is counted once.  In a store whose trail is lawful and whose transitions are
  all in the chain, the number of resolved tasks of a window is the number of distinct tasks that
  came to an end in it: no sequence of moves ends a task twice.
\<close>

theorem resolved_counts_tasks:
  assumes "trail_inv H s" "list_all (\<lambda>r. cr_row_hash r \<noteq> None) (task_transitions (st_audit s))"
  shows "rw_tasks_resolved (collect_report_window s rows a b)
    = card (task_of ` {r \<in> set (task_transitions (st_audit s)). ends_task a b r})"
proof -
  let ?TT = "task_transitions (st_audit s)"
  have "length (filter (\<lambda>r. ends_task a b r \<and> task_of r = tid) ?TT) \<le> 1" for tid
    using transitions_in_chain [OF assms(2), of "\<lambda>r. ends_task a b r \<and> task_of r = tid"]
      ends_in_trail [of a b tid "chained (st_audit s)"] trail_one_end [OF assms(1), of tid]
    unfolding contents_def by linarith
  then have "length (filter (ends_task a b) ?TT) = card (task_of ` {r \<in> set ?TT. ends_task a b r})"
    by (rule length_by_key)
  then show ?thesis by (simp add: collect_report_window_def Let_def resolved_is_length)
qed

definition demo_ended :: store where
  "demo_ended = snd (commit_transition unary_digest demo_time (the (st_tasks demo_store ''t1'')) CANCELLED None
     ''human'' demo_store)"

theorem resolved_counts_tasks_witness:
  "rw_tasks_resolved (collect_report_window demo_ended [] demo_time demo_time)
    = card (task_of ` {r \<in> set (task_transitions (st_audit demo_ended)). ends_task demo_time demo_time r})"
proof (rule resolved_counts_tasks [where H = unary_digest])
  obtain r where c: "commit_transition unary_digest demo_time (the (st_tasks demo_store ''t1'')) CANCELLED None
      ''human'' demo_store = (r, demo_ended)"
    unfolding demo_ended_def by (metis prod.collapse)
  show "trail_inv unary_digest demo_ended"
    by (rule commit_trail_inv [OF demo_store_trail [OF unary_digest_ok] _ c])
      (simp add: coherent_def demo_store_def create_task_def Let_def)
  show "list_all (\<lambda>r. cr_row_hash r \<noteq> None) (task_transitions (st_audit demo_ended))"
  proof -
    have none: "task_transitions (st_audit demo_store) = []"
      by (simp add: demo_store_def create_task_def Let_def empty_audit_def)
    show ?thesis using c
    proof (cases rule: commit_cases)
      case (moved row task' label)
      show ?thesis unfolding moved(10) by (simp add: audit_entry_def append_tables new_row_def none)
    qed (simp_all add: none)
  qed
qed

text \<open>
  The numbers are the database's.  A report that is returned carries the period and the counts
  of the window computed before the model ran, whatever the model echoed; of its own words only
  the issues that are not filler remain, in their order.
\<close>

theorem report_numbers_are_counted:
  "case run_report agent s rows a b x of
     (Inl e, y) \<Rightarrow> True
   | (Inr (summary, w), y) \<Rightarrow> w = collect_report_window s rows a b
       \<and> rs_period_start summary = isoformat a \<and> rs_period_end summary = isoformat b
       \<and> rs_tasks_resolved summary = int (rw_tasks_resolved w) \<and> rs_prs_opened summary = int (rw_prs_opened w)
       \<and> rs_prs_merged summary = int (rw_prs_merged w)
       \<and> rs_dependencies_updated summary = int (rw_dependencies_updated w)
       \<and> (\<exists>r h. agent (render_window_for_prompt w) x = (Inr r, y) \<and> ar_handoff r = Some h
            \<and> subseq (rs_top_issues summary) (rs_top_issues h))
       \<and> list_all (\<lambda>i. py_lower (strip_char CHR ''.'' (py_strip i)) \<notin> FILLER_ISSUES) (rs_top_issues summary)"
proof -
  obtain q y where q: "agent (render_window_for_prompt (collect_report_window s rows a b)) x = (q, y)"
    by (metis prod.exhaust)
  show ?thesis
  proof (cases q)
    case (Inr r)
    show ?thesis
    proof (cases "ar_handoff r")
      case (Some h)
      then show ?thesis using q Inr
        by (cases "ar_success r")
          (simp_all add: run_report_def Let_def enforce_verified_counts_def drop_filler_issues_def list.pred_set
            collect_report_window_def)
    qed (use q Inr in \<open>simp add: run_report_def Let_def split: bool.split\<close>)
  qed (use q in \<open>simp add: run_report_def Let_def\<close>)
qed

end
