(* ===== verification/Webhook.thy ===== *)
theory Webhook
  imports Watch ChainStages
begin

text \<open>
  The ways an alert and a caller come in: \<open>amop/api/webhook_auth.py\<close> and \<open>amop/api/auth.py\<close>,
  \<open>amop/api/routes/webhooks.py\<close>, and the GitHub half of a poll cycle in \<open>amop/cli/main.py\<close>.
  HMAC, JSON parsing and the watcher agent are parameters.
\<close>

section \<open>Secrets\<close>

text \<open>\<open>compare_digest\<close> of two \<open>str\<close>: a \<open>TypeError\<close> unless both are ASCII.\<close>

definition ascii :: "string \<Rightarrow> bool" where
  "ascii s = list_all (\<lambda>c. (of_char c :: nat) < 128) s"

definition compare_digest :: "string \<Rightarrow> string \<Rightarrow> (string, bool) result" where
  "compare_digest a b = (if ascii a \<and> ascii b then Inr (a = b) else Inl ''TypeError'')"

definition compute_signature :: "(string \<Rightarrow> string \<Rightarrow> string) \<Rightarrow> string \<Rightarrow> string \<Rightarrow> string" where
  "compute_signature hmac raw_body secret = ''sha256='' @ hmac secret raw_body"

definition verify_signature ::
    "(string \<Rightarrow> string \<Rightarrow> string) \<Rightarrow> string \<Rightarrow> string option \<Rightarrow> string \<Rightarrow> (string, bool) result" where
  "verify_signature hmac raw_body signature_header secret =
     (case signature_header of
        None \<Rightarrow> Inr False
      | Some h \<Rightarrow>
          if h = [] \<or> secret = [] then Inr False
          else if \<not> starts_with h ''sha256='' then Inr False
          else compare_digest (compute_signature hmac raw_body secret) h)"

datatype auth_exn = NotConfigured | Unauthorized | CompareFailed string

text \<open>\<open>require_operator_token\<close>, given \<open>AMOP_API_TOKEN\<close> and the bearer credentials.\<close>

definition configured_token :: "string option \<Rightarrow> (auth_exn, string) result" where
  "configured_token env_token =
     (case env_token of None \<Rightarrow> Inl NotConfigured | Some t \<Rightarrow> if t = [] then Inl NotConfigured else Inr t)"

definition require_operator_token :: "string option \<Rightarrow> string option \<Rightarrow> (auth_exn, unit) result" where
  "require_operator_token env_token credentials =
     bind_result (configured_token env_token) (\<lambda>expected.
       case credentials of
         None \<Rightarrow> Inl Unauthorized
       | Some c \<Rightarrow>
           (case compare_digest c expected of
              Inl e \<Rightarrow> Inl (CompareFailed e)
            | Inr same \<Rightarrow> if same then Inr () else Inl Unauthorized))"

section \<open>The webhook\<close>

record registered =
  rg_url :: "string option"
  rg_repo_path :: string
  rg_webhook_secret :: "string option"

record request =
  rq_body :: string
  rq_signature :: "string option"
  rq_delivery :: "string option"
  rq_event :: "string option"

datatype load_exn = JSONDecodeError | OtherLoadError string

datatype response =
    ApiError nat string
  | Crash string
  | Pong
  | Ignored string pyval
  | Accepted bool "string option"

record webhook_job =
  wj_repo_url :: string
  wj_repo_path :: string
  wj_number :: pyval
  wj_title :: pyval
  wj_body :: pyval

text \<open>\<open>d.get(k)\<close> on whatever \<open>d\<close> is, and \<open>v or {}\<close> with a \<open>get\<close> on it.\<close>

fun py_get :: "pyval \<Rightarrow> string \<Rightarrow> (string, pyval) result" where
  "py_get (PDict d) k = Inr (dict_get d k)"
| "py_get v k = Inl ''AttributeError''"

definition or_empty :: "pyval \<Rightarrow> pyval" where "or_empty v = (if truthy v then v else PDict [])"
definition or_blank :: "pyval \<Rightarrow> pyval" where "or_blank v = (if truthy v then v else PStr [])"

text \<open>\<open>scalar_one_or_none\<close> over the registered repositories of an URL.\<close>

definition resolve_webhook_secret ::
    "registered list \<Rightarrow> string option \<Rightarrow> pyval \<Rightarrow> (string, string option \<times> registered option) result" where
  "resolve_webhook_secret repos env_secret repo_full_name =
     bind_result
       (if \<not> truthy repo_full_name then Inr None
        else case repo_full_name of
          PStr url \<Rightarrow> (case filter (\<lambda>r. rg_url r = Some url) repos of
                        [] \<Rightarrow> Inr None | [r] \<Rightarrow> Inr (Some r) | _ \<Rightarrow> Inl ''MultipleResultsFound'')
        | _ \<Rightarrow> Inl ''DBAPIError'')
       (\<lambda>repo_row.
          let own = (case repo_row of None \<Rightarrow> None | Some r \<Rightarrow> rg_webhook_secret r)
          in Inr (if own = None \<or> own = Some [] then env_secret else own, repo_row))"

text \<open>
  What happens once the signature holds.  The result is the response, the background job and the
  deliveries that have been recorded.
\<close>

definition accept_delivery ::
    "pyval \<Rightarrow> registered option \<Rightarrow> pyval \<Rightarrow> request \<Rightarrow> string set \<Rightarrow> response \<times> webhook_job option \<times> string set" where
  "accept_delivery repo_full_name repo_row payload req processed =
     (case rq_delivery req of
        None \<Rightarrow> (ApiError 400 ''MISSING_DELIVERY_ID'', None, processed)
      | Some delivery_id \<Rightarrow>
          if delivery_id = [] then (ApiError 400 ''MISSING_DELIVERY_ID'', None, processed)
          else
            (let event = (case rq_event req of None \<Rightarrow> [] | Some e \<Rightarrow> e) in
             if event = ''ping'' then (Pong, None, processed)
             else
               (case py_get payload ''action'' of
                  Inl e \<Rightarrow> (Crash e, None, processed)
                | Inr action \<Rightarrow>
                    if event \<noteq> ''issues'' \<or> action \<noteq> PStr ''opened''
                    then (Ignored event action, None, processed)
                    else
                      (case (repo_row, repo_full_name) of
                         (Some row, PStr url) \<Rightarrow>
                           if rg_repo_path row = []
                           then (Accepted False (Some ''no local repo_path registered''), None, processed)
                           else if delivery_id \<in> processed
                           then (Accepted False (Some ''duplicate delivery''), None, processed)
                           else
                             (let done_set = insert delivery_id processed in
                              case bind_result (py_get payload ''issue'') (\<lambda>i. let issue = or_empty i in
                                     bind_result (py_get issue ''number'') (\<lambda>number.
                                     bind_result (py_get issue ''title'') (\<lambda>title.
                                     bind_result (py_get issue ''body'') (\<lambda>body.
                                       Inr \<lparr>wj_repo_url = url, wj_repo_path = rg_repo_path row, wj_number = number,
                                            wj_title = or_blank title, wj_body = or_blank body\<rparr>)))) of
                                Inl e \<Rightarrow> (Crash e, None, done_set)
                              | Inr job \<Rightarrow> (Accepted True None, Some job, done_set))
                       | _ \<Rightarrow> (Accepted False (Some ''no local repo_path registered''), None, processed)))))"

definition github_webhook ::
    "(string \<Rightarrow> (load_exn, pyval) result) \<Rightarrow> (string \<Rightarrow> string \<Rightarrow> string) \<Rightarrow> registered list \<Rightarrow> string option
     \<Rightarrow> request \<Rightarrow> string set \<Rightarrow> response \<times> webhook_job option \<times> string set" where
  "github_webhook loads hmac repos env_secret req processed =
     (case loads (rq_body req) of
        Inl JSONDecodeError \<Rightarrow> (ApiError 400 ''MALFORMED_PAYLOAD'', None, processed)
      | Inl (OtherLoadError e) \<Rightarrow> (Crash e, None, processed)
      | Inr payload \<Rightarrow>
          (case bind_result (py_get payload ''repository'') (\<lambda>r.
                bind_result (py_get (or_empty r) ''full_name'') (\<lambda>repo_full_name.
                bind_result (resolve_webhook_secret repos env_secret repo_full_name) (\<lambda>(secret, repo_row).
                bind_result (verify_signature hmac (rq_body req) (rq_signature req)
                    (case secret of None \<Rightarrow> [] | Some s \<Rightarrow> s)) (\<lambda>ok.
                  Inr (ok, repo_full_name, repo_row))))) of
             Inl e \<Rightarrow> (Crash e, None, processed)
           | Inr (ok, repo_full_name, repo_row) \<Rightarrow>
               if \<not> ok then (ApiError 401 ''INVALID_SIGNATURE'', None, processed)
               else accept_delivery repo_full_name repo_row payload req processed))"

section \<open>From issues to alerts\<close>

record candidate =
  ca_number :: int
  ca_title :: string
  ca_body :: string

fun issue_lines :: "nat \<Rightarrow> candidate list \<Rightarrow> string list" where
  "issue_lines i [] = []"
| "issue_lines i (c # cs) =
     (''Issue '' @ nat_digits i @ '' (#'' @ int_str (ca_number c) @ ''): '' @ ca_title c) #
     wrap_untrusted (let b = take 2000 (ca_body c) in if b \<noteq> [] then b else ''(no body)'') ''github_issue'' #
     [] # issue_lines (i + 1) cs"

definition build_watcher_prompt :: "candidate list \<Rightarrow> string" where
  "build_watcher_prompt candidates = join_with [CHR 0x0A]
     ((''Open issues to classify:'' @ [CHR 0x0A]) # issue_lines 1 candidates)"

text \<open>
  Each alert is stamped with the repository and the real number of the issue at its index; one
  with an index out of range is skipped.
\<close>

fun triage_alerts ::
    "'x watch_env \<Rightarrow> string \<Rightarrow> string option \<Rightarrow> candidate list \<Rightarrow> (int \<times> anomaly_alert) list \<Rightarrow> world \<times> 'x
     \<Rightarrow> (watch_exn, unit) result \<times> world \<times> 'x" where
  "triage_alerts env repo local_path candidates [] st = (Inr (), st)"
| "triage_alerts env repo local_path candidates ((idx, alert) # alerts) st =
     (if \<not> (1 \<le> idx \<and> idx \<le> int (length candidates)) then triage_alerts env repo local_path candidates alerts st
      else
        (case triage_anomaly env (alert\<lparr>al_repo := repo, al_issue := ca_number (candidates ! nat (idx - 1))\<rparr>)
                local_path st of
           (Inl e, st') \<Rightarrow> (Inl e, st')
         | (Inr _, st') \<Rightarrow> triage_alerts env repo local_path candidates alerts st'))"

definition classify ::
    "'x watch_env \<Rightarrow> nat \<Rightarrow> (string \<Rightarrow> 'x \<Rightarrow> (string, (int \<times> anomaly_alert) list agent_result) result \<times> 'x)
     \<Rightarrow> string \<Rightarrow> string option \<Rightarrow> candidate list \<Rightarrow> world \<times> 'x \<Rightarrow> (watch_exn, unit) result \<times> world \<times> 'x" where
  "classify env rate_cap watcher repo local_path candidates st =
     (let (w, x) = st; rows = we_rows env (w_store w);
          fresh = filter (\<lambda>c. find_existing_task_for_issue rows repo (ca_number c) = None) candidates
      in if fresh = [] then (Inr (), st)
         else if \<not> br_allow (check_anomaly_rate rows (we_hour_ago env w) repo rate_cap) then (Inr (), st)
         else
           (case watcher (build_watcher_prompt fresh) x of
              (Inl e, y) \<Rightarrow> (Inl (OtherFailed e), w, y)
            | (Inr r, y) \<Rightarrow>
                (case (ar_success r, ar_handoff r) of
                   (True, Some alerts) \<Rightarrow> triage_alerts env repo local_path fresh alerts (w, y)
                 | _ \<Rightarrow> (Inr (), w, y))))"

text \<open>\<open>_poll_github_issues\<close>, given what \<open>list_open_issues\<close> returned: \<open>None\<close> for a failure.\<close>

definition poll_github_issues ::
    "'x watch_env \<Rightarrow> nat \<Rightarrow> (string \<Rightarrow> 'x \<Rightarrow> (string, (int \<times> anomaly_alert) list agent_result) result \<times> 'x)
     \<Rightarrow> string \<Rightarrow> string option \<Rightarrow> candidate list option \<Rightarrow> world \<times> 'x
     \<Rightarrow> (watch_exn, unit) result \<times> world \<times> 'x" where
  "poll_github_issues env rate_cap watcher repo local_path listed st =
     (case listed of None \<Rightarrow> (Inr (), st) | Some issues \<Rightarrow> classify env rate_cap watcher repo local_path issues st)"

text \<open>\<open>_process_issue_opened\<close>: the same over one issue; an exception is logged and goes no further.\<close>

definition process_issue_opened ::
    "'x watch_env \<Rightarrow> nat \<Rightarrow> (string \<Rightarrow> 'x \<Rightarrow> (string, (int \<times> anomaly_alert) list agent_result) result \<times> 'x)
     \<Rightarrow> string \<Rightarrow> string \<Rightarrow> candidate \<Rightarrow> world \<times> 'x \<Rightarrow> world \<times> 'x" where
  "process_issue_opened env rate_cap watcher repo_url local_repo_path issue st =
     snd (classify env rate_cap watcher repo_url (Some local_repo_path) [issue] st)"

section \<open>Lemmas\<close>

lemma verify_signature_True:
  assumes "verify_signature hmac raw_body header secret = Inr True"
  shows "secret \<noteq> [] \<and> header = Some (compute_signature hmac raw_body secret)"
  using assms by (auto simp: verify_signature_def compare_digest_def split: option.splits if_splits)

lemma accept_delivery_job:
  assumes "accept_delivery name row payload req processed = (out, Some job, processed')"
  obtains d r where "rq_delivery req = Some d" "d \<noteq> []" "d \<notin> processed" "processed' = insert d processed"
    "rq_event req = Some ''issues''" "py_get payload ''action'' = Inr (PStr ''opened'')" "row = Some r"
    "wj_repo_path job = rg_repo_path r" "rg_repo_path r \<noteq> []" "name = PStr (wj_repo_url job)"
  using assms
  by (auto simp: accept_delivery_def Let_def bind_result_def
      split: option.splits if_splits sum.splits pyval.splits)

lemma resolve_webhook_secret_Inr:
  assumes "resolve_webhook_secret repos env_secret name = Inr (secret, Some r)"
  shows "r \<in> set repos \<and> (\<exists>url. name = PStr url \<and> rg_url r = Some url)
    \<and> (secret = rg_webhook_secret r \<or> secret = env_secret)"
proof -
  obtain url where url: "name = PStr url" "filter (\<lambda>r. rg_url r = Some url) repos = [r]"
    using assms unfolding resolve_webhook_secret_def bind_result_def
    by (auto simp: Let_def split: if_splits pyval.splits list.splits sum.splits)
  then have "r \<in> set (filter (\<lambda>r. rg_url r = Some url) repos)" by simp
  moreover have "secret = rg_webhook_secret r \<or> secret = env_secret"
    using assms url unfolding resolve_webhook_secret_def bind_result_def
    by (auto split: if_splits simp: Let_def)
  ultimately show ?thesis using url(1) by auto
qed

lemma github_webhook_cases:
  assumes "github_webhook loads hmac repos env_secret req processed = (out, job, processed')"
  obtains (refused) "job = None" "processed' = processed"
  | (verified) payload name secret row where "loads (rq_body req) = Inr payload"
      "resolve_webhook_secret repos env_secret name = Inr (secret, row)"
      "verify_signature hmac (rq_body req) (rq_signature req) (case secret of None \<Rightarrow> [] | Some s \<Rightarrow> s) = Inr True"
      "accept_delivery name row payload req processed = (out, job, processed')"
proof (cases "loads (rq_body req)")
  case (Inl e)
  then show thesis using assms refused by (cases e) (auto simp: github_webhook_def)
next
  case (Inr payload)
  note rest = assms [unfolded github_webhook_def Inr sum.case]
  show thesis
  proof (cases "py_get payload ''repository''")
    case r: (Inr r)
    show thesis
    proof (cases "py_get (or_empty r) ''full_name''")
      case n: (Inr name)
      show thesis
      proof (cases "resolve_webhook_secret repos env_secret name")
        case s: (Inr p)
        obtain secret row where p: "p = (secret, row)" by fastforce
        show thesis
        proof (cases "verify_signature hmac (rq_body req) (rq_signature req) (case secret of None \<Rightarrow> [] | Some s \<Rightarrow> s)")
          case v: (Inr ok)
          show thesis
          proof (cases ok)
            case True
            then have "accept_delivery name row payload req processed = (out, job, processed')"
              using rest r n s p v by simp
            then show thesis using verified [OF Inr, of name secret row] s p v True by simp
          qed (use rest r n s p v refused in auto)
        qed (use rest r n s p refused in auto)
      qed (use rest r n refused in auto)
    qed (use rest r refused in auto)
  qed (use rest refused in auto)
qed

lemma accept_delivery_processed:
  assumes "accept_delivery name row payload req processed = (out, job, processed')"
  shows "processed' = processed \<or> (\<exists>d. rq_delivery req = Some d \<and> processed' = insert d processed)"
proof (cases "rq_delivery req")
  case None
  then show ?thesis using assms by (simp add: accept_delivery_def)
next
  case (Some d)
  then show ?thesis using assms
    by (auto simp: accept_delivery_def Let_def split: option.splits if_splits sum.splits pyval.splits)
qed

lemma webhook_job:
  assumes "github_webhook loads hmac repos env_secret req processed = (out, Some j, processed')"
  shows "\<exists>secret d r payload. secret \<noteq> []
    \<and> rq_signature req = Some (compute_signature hmac (rq_body req) secret)
    \<and> r \<in> set repos \<and> (rg_webhook_secret r = Some secret \<or> env_secret = Some secret)
    \<and> rg_url r = Some (wj_repo_url j) \<and> rg_repo_path r = wj_repo_path j \<and> rg_repo_path r \<noteq> []
    \<and> loads (rq_body req) = Inr payload \<and> py_get payload ''action'' = Inr (PStr ''opened'')
    \<and> rq_event req = Some ''issues'' \<and> rq_delivery req = Some d \<and> d \<notin> processed
    \<and> processed' = insert d processed"
  using assms
proof (cases rule: github_webhook_cases)
  case (verified payload name secret row)
  obtain sec where sec: "secret = Some sec" "sec \<noteq> []"
      "rq_signature req = Some (compute_signature hmac (rq_body req) sec)"
    using verify_signature_True [OF verified(3)] by (cases secret) auto
  from verified(4) obtain d r where a: "rq_delivery req = Some d" "d \<notin> processed"
      "processed' = insert d processed" "rq_event req = Some ''issues''"
      "py_get payload ''action'' = Inr (PStr ''opened'')" "row = Some r" "wj_repo_path j = rg_repo_path r"
      "rg_repo_path r \<noteq> []" "name = PStr (wj_repo_url j)"
    by (rule accept_delivery_job)
  have r: "r \<in> set repos \<and> rg_url r = Some (wj_repo_url j) \<and> (rg_webhook_secret r = Some sec \<or> env_secret = Some sec)"
    using resolve_webhook_secret_Inr [OF verified(2) [unfolded a(6)]] a(9) sec(1) by auto
  show ?thesis
    by (rule exI [of _ sec], rule exI [of _ d], rule exI [of _ r], rule exI [of _ payload])
      (use sec(2,3) a r verified(1) in simp)
qed simp

lemma webhook_no_job:
  assumes "github_webhook loads hmac repos env_secret req processed = (out, None, processed')"
  shows "processed' = processed \<or> (\<exists>d. rq_delivery req = Some d \<and> processed' = insert d processed)"
  using assms
proof (cases rule: github_webhook_cases)
  case (verified payload name secret row)
  then show ?thesis using accept_delivery_processed by blast
qed simp

section \<open>Findings\<close>

text \<open>A signature header that is not ASCII raises where every malformed header should be refused.\<close>

lemma non_ascii_signature_raises:
  assumes "starts_with h ''sha256=''" "\<not> ascii h" "secret \<noteq> []"
  shows "verify_signature hmac raw_body (Some h) secret = Inl ''TypeError''"
  using assms by (auto simp: verify_signature_def compare_digest_def)

lemma non_ascii_token_raises:
  "\<not> ascii c \<Longrightarrow> t \<noteq> [] \<Longrightarrow> require_operator_token (Some t) (Some c) = Inl (CompareFailed ''TypeError'')"
  by (simp add: require_operator_token_def configured_token_def compare_digest_def)

text \<open>Two checkouts of one repository: no webhook for it gets past the look-up.\<close>

lemma two_checkouts_block_webhooks:
  assumes "loads (rq_body req) = Inr (PDict [(''repository'', PDict [(''full_name'', PStr url)])])" "url \<noteq> []"
    and "filter (\<lambda>r. rg_url r = Some url) repos = [r1, r2]"
  shows "github_webhook loads hmac repos env_secret req processed = (Crash ''MultipleResultsFound'', None, processed)"
  using assms by (simp add: github_webhook_def or_empty_def dict_get_def resolve_webhook_secret_def)

text \<open>A body that is JSON but no object ends in an exception before any signature is looked at.\<close>

lemma list_payload_crashes:
  "loads (rq_body req) = Inr (PList xs) \<Longrightarrow>
     github_webhook loads hmac repos env_secret req processed = (Crash ''AttributeError'', None, processed)"
  by (simp add: github_webhook_def)

section \<open>Properties\<close>


text \<open>
  The model cannot choose the target.  Whatever repository and issue number the watcher writes
  into its alerts, triage runs on the polled repository and the listed issue, so two reports that
  differ in those fields only have the same effect.
\<close>

theorem model_cannot_choose_target:
  "triage_alerts env repo local_path candidates
     (map (\<lambda>(idx, alert). (idx, alert\<lparr>al_repo := f idx alert, al_issue := g idx alert\<rparr>)) alerts) st
   = triage_alerts env repo local_path candidates alerts st"
proof (induction alerts arbitrary: st)
  case (Cons a alerts)
  obtain idx alert where a: "a = (idx, alert)" by fastforce
  show ?case by (simp add: a Cons.IH split: prod.split sum.split)
qed simp

end
