(* ===== verification/Cleanup.thy ===== *)
theory Cleanup
  imports Complex_Main TaskStore
begin

text \<open>
  \<open>amop/orchestrator/cleanup.py\<close>: which containers and scratch directories may be removed, and their
  removal.  Docker and the file system are the lists they return and a removal function over an
  outside state \<open>'x\<close>; sizes of directories, which only a listing shows, are left out.
\<close>

section \<open>Task ids\<close>

text \<open>\<open>int(s, 16)\<close>: blanks around, a sign, a prefix, single underscores between digits.\<close>

definition hex_value :: "char \<Rightarrow> nat option" where
  "hex_value c = (let n = (of_char c :: nat) in
     if 48 \<le> n \<and> n \<le> 57 then Some (n - 48)
     else if 65 \<le> n \<and> n \<le> 70 then Some (n - 55)
     else if 97 \<le> n \<and> n \<le> 102 then Some (n - 87) else None)"

fun hex_digits :: "nat \<Rightarrow> bool \<Rightarrow> string \<Rightarrow> nat option" where
  "hex_digits acc after_digit [] = (if after_digit then Some acc else None)"
| "hex_digits acc after_digit (c # cs) =
     (if c = CHR ''_'' then (if after_digit \<and> cs \<noteq> [] then hex_digits acc False cs else None)
      else (case hex_value c of None \<Rightarrow> None | Some v \<Rightarrow> hex_digits (16 * acc + v) True cs))"

definition int_base_16 :: "string \<Rightarrow> nat option" where
  "int_base_16 s =
     (let t = py_strip s;
          u = (if starts_with t ''+'' then tl t else t)
      in if starts_with u ''0x'' \<or> starts_with u ''0X''
         then (let v = drop 2 u in hex_digits 0 False (if starts_with v ''_'' then tl v else v))
         else hex_digits 0 False u)"

definition hex_char :: "nat \<Rightarrow> char" where
  "hex_char n = char_of (if n < 10 then 48 + n else 87 + n)"

fun hex_text :: "nat \<Rightarrow> nat \<Rightarrow> string" where
  "hex_text 0 n = []"
| "hex_text (Suc k) n = hex_text k (n div 16) @ [hex_char (n mod 16)]"

text \<open>\<open>str(uuid.UUID(s))\<close>; \<open>None\<close> for a \<open>ValueError\<close>.  A minus sign never reaches \<open>int\<close>.\<close>

definition uuid_of :: "string \<Rightarrow> string option" where
  "uuid_of s =
     (let bare = replace_all ''-'' [] (strip_by (\<lambda>c. c \<in> {CHR ''{'', CHR ''}''})
                   (replace_all ''uuid:'' [] (replace_all ''urn:'' [] s)))
      in if length bare \<noteq> 32 then None
         else (case int_base_16 bare of
                 None \<Rightarrow> None
               | Some n \<Rightarrow>
                   (let h = hex_text 32 n
                    in Some (take 8 h @ ''-'' @ take 4 (drop 8 h) @ ''-'' @ take 4 (drop 12 h) @ ''-'' @
                             take 4 (drop 16 h) @ ''-'' @ drop 20 h))))"

text \<open>\<open>_task_states\<close>: the states of the rows that some of the ids name.\<close>

definition query_states :: "task_row list \<Rightarrow> string list \<Rightarrow> string \<rightharpoonup> task_state" where
  "query_states rows task_ids =
     (let valid = List.map_filter uuid_of task_ids
      in map_of (map (\<lambda>r. (tk_id r, tk_state r)) (filter (\<lambda>r. tk_id r \<in> set valid) rows)))"

section \<open>Containers\<close>

text \<open>The creation time is in seconds; \<open>None\<close> where docker gives none.\<close>

record container =
  cn_label :: "string option"
  cn_id :: string
  cn_name :: string
  cn_created :: "(string, rat) result option"

record container_candidate =
  cc_task_id :: string
  cc_container_id :: string
  cc_container_name :: string
  cc_reason :: string
  cc_age_seconds :: "rat option"

definition labelled :: "container \<Rightarrow> bool" where
  "labelled c \<longleftrightarrow> cn_label c \<noteq> None \<and> cn_label c \<noteq> Some []"

definition container_reason :: "rat \<Rightarrow> task_state option \<Rightarrow> rat option \<Rightarrow> string option" where
  "container_reason max_lifetime state age =
     (case state of
        None \<Rightarrow> Some ''unknown_task''
      | Some s \<Rightarrow>
          if s \<in> TERMINAL_STATES then Some ''terminal''
          else (case age of
                  None \<Rightarrow> Some ''stale_non_terminal''
                | Some a \<Rightarrow> if a > max_lifetime then Some ''stale_non_terminal'' else None))"

text \<open>An age of \<open>None\<close> is infinite; a timestamp that does not parse ends the sweep.\<close>

fun judge_containers ::
    "rat \<Rightarrow> rat \<Rightarrow> (string \<rightharpoonup> task_state) \<Rightarrow> container list \<Rightarrow> (string, container_candidate list) result" where
  "judge_containers max_lifetime now states [] = Inr []"
| "judge_containers max_lifetime now states (c # cs) =
     (if \<not> labelled c then judge_containers max_lifetime now states cs
      else
        bind_result (case cn_created c of None \<Rightarrow> Inr None | Some t \<Rightarrow> bind_result t (\<lambda>x. Inr (Some (now - x))))
          (\<lambda>age. bind_result (judge_containers max_lifetime now states cs) (\<lambda>rest.
             Inr (case container_reason max_lifetime (states (the (cn_label c))) age of
                    None \<Rightarrow> rest
                  | Some reason \<Rightarrow> \<lparr>cc_task_id = the (cn_label c), cc_container_id = cn_id c,
                      cc_container_name = cn_name c, cc_reason = reason, cc_age_seconds = age\<rparr> # rest))))"

definition find_orphan_containers ::
    "rat \<Rightarrow> rat \<Rightarrow> task_row list \<Rightarrow> container list \<Rightarrow> (string, container_candidate list) result" where
  "find_orphan_containers max_lifetime now rows containers =
     judge_containers max_lifetime now
       (query_states rows (map (\<lambda>c. the (cn_label c)) (filter labelled containers))) containers"

datatype docker_exn = ContainerNotFound | DockerError string

fun reap_containers ::
    "(string \<Rightarrow> 'x \<Rightarrow> (docker_exn, unit) result \<times> 'x) \<Rightarrow> container_candidate list \<Rightarrow> nat \<Rightarrow> 'x
     \<Rightarrow> (string, nat) result \<times> 'x" where
  "reap_containers remove [] removed x = (Inr removed, x)"
| "reap_containers remove (c # cs) removed x =
     (case remove (cc_container_id c) x of
        (Inr _, y) \<Rightarrow> reap_containers remove cs (removed + 1) y
      | (Inl ContainerNotFound, y) \<Rightarrow> reap_containers remove cs removed y
      | (Inl (DockerError e), y) \<Rightarrow> (Inl e, y))"

section \<open>Scratch directories\<close>

text \<open>The directories directly under \<open>SCRATCH_DIR\<close>, by name; \<open>None\<close> when there is no such directory.\<close>

record scratch_candidate =
  sc_task_id :: string
  sc_reason :: string

definition scratch_reason :: "task_state option \<Rightarrow> string option" where
  "scratch_reason state =
     (case state of None \<Rightarrow> Some ''unknown_task''
      | Some s \<Rightarrow> if s \<in> TERMINAL_STATES then Some ''terminal'' else None)"

definition find_stale_scratch_dirs :: "task_row list \<Rightarrow> string list option \<Rightarrow> scratch_candidate list" where
  "find_stale_scratch_dirs rows listing =
     (case listing of
        None \<Rightarrow> []
      | Some all_dirs \<Rightarrow>
          (let uuid_named = filter (\<lambda>d. uuid_of d \<noteq> None) all_dirs; states = query_states rows uuid_named
           in List.map_filter (\<lambda>d. case scratch_reason (states d) of
                 None \<Rightarrow> None | Some reason \<Rightarrow> Some \<lparr>sc_task_id = d, sc_reason = reason\<rparr>) uuid_named))"

definition non_task_scratch_dirs :: "string list option \<Rightarrow> string list" where
  "non_task_scratch_dirs listing = (case listing of None \<Rightarrow> [] | Some dirs \<Rightarrow> filter (\<lambda>d. uuid_of d = None) dirs)"

text \<open>\<open>rmtree(ignore_errors=True)\<close> of the directories that are still there.\<close>

fun reap_scratch_dirs ::
    "(string \<Rightarrow> 'x \<Rightarrow> bool) \<Rightarrow> (string \<Rightarrow> 'x \<Rightarrow> 'x) \<Rightarrow> scratch_candidate list \<Rightarrow> nat \<Rightarrow> 'x \<Rightarrow> nat \<times> 'x" where
  "reap_scratch_dirs is_dir rmtree [] removed x = (removed, x)"
| "reap_scratch_dirs is_dir rmtree (c # cs) removed x =
     (if is_dir (sc_task_id c) x then reap_scratch_dirs is_dir rmtree cs (removed + 1) (rmtree (sc_task_id c) x)
      else reap_scratch_dirs is_dir rmtree cs removed x)"

section \<open>Lemmas\<close>

text \<open>A row is found under its own id when that id names it.\<close>

lemma query_states_own:
  assumes "row \<in> set rows" "distinct (map tk_id rows)" "uuid_of (tk_id row) = Some (tk_id row)"
    and "tk_id row \<in> set task_ids"
  shows "query_states rows task_ids (tk_id row) = Some (tk_state row)"
proof -
  let ?valid = "set (List.map_filter uuid_of task_ids)"
  have v: "tk_id row \<in> ?valid" using assms(3,4) by (force simp: List.map_filter_def)
  have "distinct (map fst (map (\<lambda>r. (tk_id r, tk_state r)) (filter (\<lambda>r. tk_id r \<in> ?valid) rows)))"
    using assms(2) by (simp add: comp_def distinct_map_filter)
  then show ?thesis unfolding query_states_def Let_def
    by (rule map_of_is_SomeI) (use assms(1) v in auto)
qed

lemma judge_containers_sound:
  "judge_containers max_lifetime now states cs = Inr found \<Longrightarrow> cand \<in> set found \<Longrightarrow>
     \<exists>c\<in>set cs. labelled c \<and> cn_label c = Some (cc_task_id cand) \<and> cc_container_id cand = cn_id c
       \<and> container_reason max_lifetime (states (cc_task_id cand)) (cc_age_seconds cand) = Some (cc_reason cand)"
proof (induction cs arbitrary: found)
  case (Cons c cs)
  show ?case
  proof (cases "labelled c")
    case False
    then show ?thesis using Cons by auto
  next
    case True
    then obtain age rest where r: "judge_containers max_lifetime now states cs = Inr rest"
        "found = (case container_reason max_lifetime (states (the (cn_label c))) age of
                    None \<Rightarrow> rest
                  | Some reason \<Rightarrow> \<lparr>cc_task_id = the (cn_label c), cc_container_id = cn_id c,
                      cc_container_name = cn_name c, cc_reason = reason, cc_age_seconds = age\<rparr> # rest)"
      using Cons.prems(1) by (auto simp: bind_result_def split: sum.splits)
    have l: "cn_label c = Some (the (cn_label c))" using True by (auto simp: labelled_def)
    show ?thesis
    proof (cases "cand \<in> set rest")
      case True
      then show ?thesis using Cons.IH [OF r(1)] by auto
    next
      case False
      then show ?thesis using r(2) Cons.prems(2) True l by (auto split: option.splits)
    qed
  qed
qed simp

section \<open>Properties\<close>

text \<open>
  C32: Live tasks are spared.  For a task that is not in a terminal state, the sweep never proposes
  its scratch directory, whatever its age, and proposes its container only when that is older than
  the longest lifetime or of unknown age.
\<close>

theorem live_tasks_are_spared:
  assumes "row \<in> set rows" "distinct (map tk_id rows)" "uuid_of (tk_id row) = Some (tk_id row)"
    and "tk_state row \<notin> TERMINAL_STATES"
  shows "list_all (\<lambda>cand. sc_task_id cand \<noteq> tk_id row) (find_stale_scratch_dirs rows listing)
    \<and> (case find_orphan_containers max_lifetime now rows containers of
         Inl e \<Rightarrow> True
       | Inr found \<Rightarrow> list_all (\<lambda>cand. cc_task_id cand \<noteq> tk_id row
           \<or> (case cc_age_seconds cand of None \<Rightarrow> True | Some a \<Rightarrow> a > max_lifetime)) found)"
proof
  have "scratch_reason (query_states rows dirs (tk_id row)) = None" if "tk_id row \<in> set dirs" for dirs
    using query_states_own [OF assms(1-3) that] assms(4) by (simp add: scratch_reason_def)
  then show "list_all (\<lambda>cand. sc_task_id cand \<noteq> tk_id row) (find_stale_scratch_dirs rows listing)"
    by (auto simp: find_stale_scratch_dirs_def list.pred_set Let_def List.map_filter_def
        split: option.splits)
  show "case find_orphan_containers max_lifetime now rows containers of
         Inl e \<Rightarrow> True
       | Inr found \<Rightarrow> list_all (\<lambda>cand. cc_task_id cand \<noteq> tk_id row
           \<or> (case cc_age_seconds cand of None \<Rightarrow> True | Some a \<Rightarrow> a > max_lifetime)) found"
  proof (cases "find_orphan_containers max_lifetime now rows containers")
    case (Inr found)
    have "case cc_age_seconds cand of None \<Rightarrow> True | Some a \<Rightarrow> a > max_lifetime"
      if c: "cand \<in> set found" "cc_task_id cand = tk_id row" for cand
    proof -
      let ?ids = "map (\<lambda>c. the (cn_label c)) (filter labelled containers)"
      obtain c where c2: "c \<in> set containers" "labelled c" "cn_label c = Some (tk_id row)"
          "container_reason max_lifetime (query_states rows ?ids (tk_id row)) (cc_age_seconds cand)
             = Some (cc_reason cand)"
        using judge_containers_sound [OF Inr [unfolded find_orphan_containers_def] c(1)] unfolding c(2) by auto
      then have "tk_id row \<in> set ?ids" by force
      from query_states_own [OF assms(1-3) this] c2(4) assms(4) show ?thesis
        by (auto simp: container_reason_def split: option.splits if_splits)
    qed
    then show ?thesis using Inr by (auto simp: list.pred_set)
  qed simp
qed

lemma hex_text_numeral:
  "hex_text (numeral k) n = hex_text (pred_numeral k) (n div 16) @ [hex_char (n mod 16)]"
  using hex_text.simps(2) [of "pred_numeral k" n] by (simp only: numeral_eq_Suc [of k])

lemma demo_uuid: "uuid_of ''12345678-9abc-4def-8123-456789abcdef'' = Some ''12345678-9abc-4def-8123-456789abcdef''"
proof -
  have u: "replace_all ''uuid:'' [] (replace_all ''urn:'' [] ''12345678-9abc-4def-8123-456789abcdef'')
      = ''12345678-9abc-4def-8123-456789abcdef''"
    by (simp add: replace_all.simps)
  have b: "replace_all ''-'' [] ''12345678-9abc-4def-8123-456789abcdef'' = ''123456789abc4def8123456789abcdef''"
    by (simp add: replace_all.simps)
  have n: "int_base_16 ''123456789abc4def8123456789abcdef'' = Some 0x123456789abc4def8123456789abcdef"
  proof -
    have "py_strip ''123456789abc4def8123456789abcdef'' = ''123456789abc4def8123456789abcdef''"
      by (simp add: strip_by_def py_space_def)
    then show ?thesis unfolding int_base_16_def by (simp add: hex_value_def)
  qed
  have h: "hex_text 32 0x123456789abc4def8123456789abcdef = ''123456789abc4def8123456789abcdef''"
    by (simp add: hex_text_numeral hex_char_def char_of_def bit_Suc_0_iff)
  show ?thesis unfolding uuid_of_def u by (simp add: strip_by_def b n h Let_def)
qed

definition demo_live :: task_row where
  "demo_live = fst (create_task ''12345678-9abc-4def-8123-456789abcdef'' demo_time ''bug_fix'' None None demo_store)"

theorem live_tasks_are_spared_witness:
  "list_all (\<lambda>cand. sc_task_id cand \<noteq> tk_id demo_live)
      (find_stale_scratch_dirs [demo_live] (Some [''12345678-9abc-4def-8123-456789abcdef'']))
    \<and> (case find_orphan_containers 600 1000 [demo_live]
             [\<lparr>cn_label = Some ''12345678-9abc-4def-8123-456789abcdef'', cn_id = ''c1'', cn_name = ''amop'',
                cn_created = Some (Inr 900)\<rparr>] of
         Inl e \<Rightarrow> True
       | Inr found \<Rightarrow> list_all (\<lambda>cand. cc_task_id cand \<noteq> tk_id demo_live
           \<or> (case cc_age_seconds cand of None \<Rightarrow> True | Some a \<Rightarrow> a > 600)) found)"
proof (rule live_tasks_are_spared)
  have i: "tk_id demo_live = ''12345678-9abc-4def-8123-456789abcdef''" "tk_state demo_live = CREATED"
    by (simp_all add: demo_live_def create_task_def Let_def)
  show "demo_live \<in> set [demo_live]" "distinct (map tk_id [demo_live])" by simp_all
  show "uuid_of (tk_id demo_live) = Some (tk_id demo_live)" unfolding i by (rule demo_uuid)
  show "tk_state demo_live \<notin> TERMINAL_STATES" by (simp add: i TERMINAL_STATES_def)
qed

end
