(* ===== verification/CodeChunks.thy ===== *)
theory CodeChunks
  imports AmopPrelude
begin

text \<open>
  \<open>amop/codebase_intel/chunker.py\<close>: a source file cut into chunks along its syntax tree.  The two
  parsers (\<open>ast.parse\<close> and tree-sitter) are parameters; what they return is a \<open>py_node\<close> or \<open>ts_node\<close>
  tree with the line numbers they give.  \<open>None\<close> is a \<open>SyntaxError\<close>.
\<close>

section \<open>Chunks\<close>

definition CHUNK_MAX_TOKENS :: nat where "CHUNK_MAX_TOKENS = 800"

definition estimate_tokens :: "string \<Rightarrow> nat" where "estimate_tokens text = length text div 4"

record chunk =
  ch_file_path :: string
  ch_symbol_name :: string
  ch_symbol_type :: string
  ch_start_line :: nat
  ch_end_line :: nat
  ch_content :: string

abbreviation join_lines :: "string list \<Rightarrow> string" where
  "join_lines \<equiv> join_with [CHR 0x0A]"

definition slice_source :: "string list \<Rightarrow> nat \<Rightarrow> nat \<Rightarrow> string" where
  "slice_source lines start_line end_line = join_lines (drop (start_line - 1) (take end_line lines))"

text \<open>The chunk of the lines \<open>a\<close> to \<open>b\<close>, first and last included.\<close>

definition span_chunk :: "string \<Rightarrow> string list \<Rightarrow> string \<Rightarrow> string \<Rightarrow> nat \<Rightarrow> nat \<Rightarrow> chunk" where
  "span_chunk file_path lines name kind a b =
     \<lparr>ch_file_path = file_path, ch_symbol_name = name, ch_symbol_type = kind,
      ch_start_line = a, ch_end_line = b, ch_content = slice_source lines a b\<rparr>"

text \<open>
  The last chunk of a file: the lines outside every covered span that are not blank.  A file
  without such lines has none.
\<close>

definition leftover_lines :: "string list \<Rightarrow> (nat \<times> nat) list \<Rightarrow> nat list" where
  "leftover_lines lines covered =
     filter (\<lambda>i. \<not> list_ex (\<lambda>(a, b). a \<le> i \<and> i \<le> b) covered \<and> py_strip (lines ! (i - 1)) \<noteq> [])
       [1..<Suc (length lines)]"

definition module_chunk :: "string \<Rightarrow> string list \<Rightarrow> (nat \<times> nat) list \<Rightarrow> chunk list" where
  "module_chunk file_path lines covered =
     (let rest = leftover_lines lines covered
      in if rest = [] then []
         else [\<lparr>ch_file_path = file_path, ch_symbol_name = file_path, ch_symbol_type = ''module'',
                ch_start_line = hd rest, ch_end_line = last rest,
                ch_content = join_lines (map (\<lambda>i. lines ! (i - 1)) rest)\<rparr>])"

section \<open>Python\<close>

record py_head =
  ph_name :: string
  ph_lineno :: nat
  ph_decorators :: "nat list"
  ph_end_lineno :: nat

datatype py_node =
    FunctionDef py_head
  | AsyncFunctionDef py_head
  | ClassDef py_head "py_node list"
  | OtherNode

definition node_start :: "py_head \<Rightarrow> nat" where
  "node_start h = (if ph_decorators h = [] then ph_lineno h else Min (set (ph_decorators h)))"

definition over_budget :: "string list \<Rightarrow> py_head \<Rightarrow> bool" where
  "over_budget lines h \<longleftrightarrow>
     estimate_tokens (slice_source lines (node_start h) (ph_end_lineno h)) > CHUNK_MAX_TOKENS"

fun method_head :: "py_node \<Rightarrow> py_head option" where
  "method_head (FunctionDef h) = Some h"
| "method_head (AsyncFunctionDef h) = Some h"
| "method_head _ = None"

definition chunk_class :: "py_head \<Rightarrow> py_node list \<Rightarrow> string \<Rightarrow> string list \<Rightarrow> chunk list" where
  "chunk_class h body file_path lines =
     (if \<not> over_budget lines h
      then [span_chunk file_path lines (ph_name h) ''class'' (node_start h) (ph_end_lineno h)]
      else map (\<lambda>m. span_chunk file_path lines (ph_name h @ ''.'' @ ph_name m) ''method''
                      (node_start m) (ph_end_lineno m))
             (List.map_filter method_head body))"

text \<open>What a top-level node adds: its chunks, and the lines it covers.\<close>

fun chunk_node :: "string \<Rightarrow> string list \<Rightarrow> py_node \<Rightarrow> chunk list \<times> (nat \<times> nat) list" where
  "chunk_node file_path lines (FunctionDef h) =
     ([span_chunk file_path lines (ph_name h) ''function'' (node_start h) (ph_end_lineno h)],
      [(node_start h, ph_end_lineno h)])"
| "chunk_node file_path lines (AsyncFunctionDef h) =
     ([span_chunk file_path lines (ph_name h) ''async_function'' (node_start h) (ph_end_lineno h)],
      [(node_start h, ph_end_lineno h)])"
| "chunk_node file_path lines (ClassDef h body) =
     (chunk_class h body file_path lines, [(node_start h, ph_end_lineno h)])"
| "chunk_node file_path lines OtherNode = ([], [])"

definition assemble :: "string \<Rightarrow> string list \<Rightarrow> (chunk list \<times> (nat \<times> nat) list) list \<Rightarrow> chunk list" where
  "assemble file_path lines parts =
     concat (map fst parts) @ module_chunk file_path lines (concat (map snd parts))"

definition chunk_python :: "(string \<Rightarrow> py_node list option) \<Rightarrow> string \<Rightarrow> string \<Rightarrow> chunk list option" where
  "chunk_python parse source file_path =
     (case parse source of
        None \<Rightarrow> None
      | Some tree \<Rightarrow>
          (let lines = splitlines source
           in Some (assemble file_path lines (map (chunk_node file_path lines) tree))))"

section \<open>JavaScript and TypeScript\<close>

text \<open>A tree-sitter node: type, first and last row (from 0), text, named fields, children.\<close>

datatype ts_node = TsNode (ts_type: string) (ts_start_row: nat) (ts_end_row: nat) (ts_text: string)
  (ts_fields: "(string \<times> ts_node) list") (ts_children: "ts_node list")

definition ts_field :: "ts_node \<Rightarrow> string \<Rightarrow> ts_node option" where
  "ts_field n f = map_of (ts_fields n) f"

definition ts_span :: "ts_node \<Rightarrow> nat \<times> nat" where
  "ts_span n = (ts_start_row n + 1, ts_end_row n + 1)"

definition ts_is_async :: "ts_node \<Rightarrow> bool" where
  "ts_is_async n = list_ex (\<lambda>c. ts_type c = ''async'') (ts_children n)"

definition TOP_LEVEL_TYPES :: "string list" where
  "TOP_LEVEL_TYPES = [''function_declaration'', ''class_declaration'', ''lexical_declaration'',
     ''abstract_class_declaration'', ''interface_declaration'', ''type_alias_declaration'',
     ''enum_declaration'']"

definition DECLARATION_SYMBOL_TYPES :: "string \<rightharpoonup> string" where
  "DECLARATION_SYMBOL_TYPES = [''interface_declaration'' \<mapsto> ''interface'',
     ''type_alias_declaration'' \<mapsto> ''type_alias'', ''enum_declaration'' \<mapsto> ''enum'']"

definition CLASS_TYPES :: "string list" where
  "CLASS_TYPES = [''class_declaration'', ''abstract_class_declaration'']"

definition ts_unwrap_export :: "ts_node \<Rightarrow> ts_node option" where
  "ts_unwrap_export n = find (\<lambda>c. ts_type c \<in> set TOP_LEVEL_TYPES) (ts_children n)"

definition ts_methods :: "ts_node \<Rightarrow> (string \<times> nat \<times> nat) list" where
  "ts_methods n =
     (case ts_field n ''body'' of
        None \<Rightarrow> []
      | Some body \<Rightarrow>
          List.map_filter (\<lambda>m. if ts_type m \<noteq> ''method_definition'' then None
              else map_option (\<lambda>name. (ts_text name, ts_span m)) (ts_field m ''name''))
            (ts_children body))"

definition chunk_ts_class :: "ts_node \<Rightarrow> string \<Rightarrow> string list \<Rightarrow> nat \<Rightarrow> nat \<Rightarrow> chunk list" where
  "chunk_ts_class n file_path lines a b =
     (let class_name = (case ts_field n ''name'' of None \<Rightarrow> ''<anonymous>'' | Some name \<Rightarrow> ts_text name)
      in if estimate_tokens (slice_source lines a b) \<le> CHUNK_MAX_TOKENS
         then [span_chunk file_path lines class_name ''class'' a b]
         else map (\<lambda>(name, m_start, m_end).
                span_chunk file_path lines (class_name @ ''.'' @ name) ''method'' m_start m_end)
              (ts_methods n))"

text \<open>A declarator whose value is a function, with the symbol type of its chunk.\<close>

definition ts_function_declarator :: "ts_node \<Rightarrow> (string \<times> string) option" where
  "ts_function_declarator d =
     (if ts_type d \<noteq> ''variable_declarator'' then None
      else case (ts_field d ''value'', ts_field d ''name'') of
             (Some v, Some name) \<Rightarrow>
               if ts_type v \<notin> {''arrow_function'', ''function''} then None
               else Some (ts_text name,
                 if ts_is_async v then ''async_function''
                 else if ts_type v = ''arrow_function'' then ''arrow_function'' else ''function'')
           | _ \<Rightarrow> None)"

definition chunk_ts_target ::
    "string \<Rightarrow> string list \<Rightarrow> nat \<Rightarrow> nat \<Rightarrow> ts_node \<Rightarrow> chunk list \<times> (nat \<times> nat) list" where
  "chunk_ts_target file_path lines a b n =
     (if ts_type n = ''function_declaration'' then
        (case ts_field n ''name'' of
           None \<Rightarrow> ([], [])
         | Some name \<Rightarrow>
             ([span_chunk file_path lines (ts_text name)
                 (if ts_is_async n then ''async_function'' else ''function'') a b], [(a, b)]))
      else if ts_type n \<in> set CLASS_TYPES then (chunk_ts_class n file_path lines a b, [(a, b)])
      else (case DECLARATION_SYMBOL_TYPES (ts_type n) of
          Some kind \<Rightarrow>
            (case ts_field n ''name'' of
               None \<Rightarrow> ([], [])
             | Some name \<Rightarrow> ([span_chunk file_path lines (ts_text name) kind a b], [(a, b)]))
        | None \<Rightarrow>
            if ts_type n = ''lexical_declaration'' then
              (let found = List.map_filter ts_function_declarator (ts_children n)
               in (map (\<lambda>(name, kind). span_chunk file_path lines name kind a b) found,
                   if found = [] then [] else [(a, b)]))
            else ([], [])))"

definition chunk_ts_node :: "string \<Rightarrow> string list \<Rightarrow> ts_node \<Rightarrow> chunk list \<times> (nat \<times> nat) list" where
  "chunk_ts_node file_path lines n =
     (let (a, b) = ts_span n
      in if ts_type n = ''export_statement'' then
           (case ts_unwrap_export n of
              None \<Rightarrow> ([], [])
            | Some target \<Rightarrow> chunk_ts_target file_path lines a b target)
         else chunk_ts_target file_path lines a b n)"

definition chunk_tree_sitter ::
    "(string \<Rightarrow> string \<Rightarrow> bool \<times> ts_node) \<Rightarrow> string \<Rightarrow> string \<Rightarrow> string \<Rightarrow> chunk list option" where
  "chunk_tree_sitter parse source file_path language =
     (let (has_error, root) = parse language source
      in if has_error then None
         else let lines = splitlines source
              in Some (assemble file_path lines (map (chunk_ts_node file_path lines) (ts_children root))))"

section \<open>Dispatch\<close>

text \<open>\<open>Path(p).suffix\<close>.\<close>

definition path_suffix :: "string \<Rightarrow> string" where
  "path_suffix p =
     (let name = last (split_on CHR ''/'' p);
          ext = rev (takeWhile (\<lambda>c. c \<noteq> CHR ''.'') (rev name))
      in if ext = [] \<or> length name < length ext + 2 then [] else CHR ''.'' # ext)"

definition TREE_SITTER_GRAMMARS :: "string \<rightharpoonup> string" where
  "TREE_SITTER_GRAMMARS = [''.js'' \<mapsto> ''javascript'', ''.ts'' \<mapsto> ''typescript'', ''.tsx'' \<mapsto> ''tsx'']"

datatype chunk_exn = ChunkSyntaxError | UnsupportedExtension string

definition chunk_source ::
    "(string \<Rightarrow> py_node list option) \<Rightarrow> (string \<Rightarrow> string \<Rightarrow> bool \<times> ts_node) \<Rightarrow> string \<Rightarrow> string
     \<Rightarrow> (chunk_exn, chunk list) result" where
  "chunk_source py_parse ts_parse source file_path =
     (let chunks = (\<lambda>r. case r of None \<Rightarrow> Inl ChunkSyntaxError | Some cs \<Rightarrow> Inr cs)
      in if path_suffix file_path = ''.py'' then chunks (chunk_python py_parse source file_path)
         else case TREE_SITTER_GRAMMARS (path_suffix file_path) of
                Some language \<Rightarrow> chunks (chunk_tree_sitter ts_parse source file_path language)
              | None \<Rightarrow> Inl (UnsupportedExtension file_path))"

section \<open>What a file's chunks show\<close>

text \<open>The text of line \<open>i\<close> is a line of the content of one of the chunks.\<close>

definition shown :: "string list \<Rightarrow> nat \<Rightarrow> chunk list \<Rightarrow> bool" where
  "shown lines i cs \<longleftrightarrow>
     (\<exists>c \<in> set cs. \<exists>ls. ch_content c = join_lines ls \<and> lines ! (i - 1) \<in> set ls)"

definition within :: "nat \<Rightarrow> nat \<times> nat \<Rightarrow> bool" where
  "within i s \<longleftrightarrow> fst s \<le> i \<and> i \<le> snd s"

lemma shown_span:
  assumes "1 \<le> i" "i \<le> length lines" "within i (a, b)"
    and "span_chunk file_path lines name kind a b \<in> set cs"
  shows "shown lines i cs"
proof -
  let ?ls = "drop (a - 1) (take b lines)"
  have le: "a - 1 \<le> length (take b lines)" "a - 1 + (i - 1 - (a - 1)) = i - 1" "i - 1 < b"
    "i - 1 - (a - 1) < length ?ls" using assms(1-3) by (auto simp: within_def)
  have "?ls ! (i - 1 - (a - 1)) = take b lines ! (a - 1 + (i - 1 - (a - 1)))"
    using le(1) by (rule nth_drop)
  then have "?ls ! (i - 1 - (a - 1)) = lines ! (i - 1)" using le(2,3) by simp
  with le(4) have "lines ! (i - 1) \<in> set ?ls" by (metis nth_mem)
  then show ?thesis
    using assms(4) unfolding shown_def by (force simp: span_chunk_def slice_source_def)
qed

lemma shown_module:
  assumes "1 \<le> i" "i \<le> length lines" "py_strip (lines ! (i - 1)) \<noteq> []"
    and "\<And>s. s \<in> set covered \<Longrightarrow> \<not> within i s"
  shows "shown lines i (module_chunk file_path lines covered)"
proof -
  let ?rest = "leftover_lines lines covered"
  have "\<not> (a \<le> i \<and> i \<le> b)" if "(a, b) \<in> set covered" for a b
    using assms(4) [OF that] by (simp add: within_def)
  then have "\<not> list_ex (\<lambda>(a, b). a \<le> i \<and> i \<le> b) covered" by (auto simp: list_ex_iff)
  moreover have "i \<in> set [1..<Suc (length lines)]" using assms(1,2) by (simp del: upt_Suc)
  ultimately have i: "i \<in> set ?rest" using assms(3) by (simp add: leftover_lines_def del: upt_Suc)
  let ?c = "\<lparr>ch_file_path = file_path, ch_symbol_name = file_path, ch_symbol_type = ''module'',
    ch_start_line = hd ?rest, ch_end_line = last ?rest,
    ch_content = join_lines (map (\<lambda>i. lines ! (i - 1)) ?rest)\<rparr>"
  have "?c \<in> set (module_chunk file_path lines covered)" using i by (auto simp: module_chunk_def Let_def)
  moreover have "ch_content ?c = join_lines (map (\<lambda>i. lines ! (i - 1)) ?rest)" by simp
  moreover have "lines ! (i - 1) \<in> set (map (\<lambda>i. lines ! (i - 1)) ?rest)" using i by auto
  ultimately show ?thesis unfolding shown_def by blast
qed

lemma shown_mono: "shown lines i cs \<Longrightarrow> set cs \<subseteq> set ds \<Longrightarrow> shown lines i ds"
  unfolding shown_def by blast

lemma shown_assemble:
  assumes "1 \<le> i" "i \<le> length lines" "py_strip (lines ! (i - 1)) \<noteq> []"
    and covers: "\<And>p s. p \<in> set parts \<Longrightarrow> s \<in> set (snd p) \<Longrightarrow> within i s \<Longrightarrow> shown lines i (fst p)"
  shows "shown lines i (assemble file_path lines parts)"
proof (cases "\<exists>p \<in> set parts. \<exists>s \<in> set (snd p). within i s")
  case True
  then obtain p s where p: "p \<in> set parts" "s \<in> set (snd p)" "within i s" by blast
  have "set (fst p) \<subseteq> set (assemble file_path lines parts)" using p(1) by (auto simp: assemble_def)
  with covers [OF p] show ?thesis by (rule shown_mono)
next
  case False
  then have "shown lines i (module_chunk file_path lines (concat (map snd parts)))"
    by (intro shown_module assms(1-3)) auto
  then show ?thesis by (rule shown_mono) (simp add: assemble_def)
qed

text \<open>Lines of a class too large for one chunk that lie in none of its methods.\<close>

definition between_methods :: "string list \<Rightarrow> py_node \<Rightarrow> nat \<Rightarrow> bool" where
  "between_methods lines n i = (case n of
     ClassDef h body \<Rightarrow> over_budget lines h \<and> within i (node_start h, ph_end_lineno h)
       \<and> \<not> list_ex (\<lambda>m. within i (node_start m, ph_end_lineno m)) (List.map_filter method_head body)
   | _ \<Rightarrow> False)"

lemma shown_node:
  assumes i: "1 \<le> i" "i \<le> length lines" and "s \<in> set (snd (chunk_node file_path lines n))" "within i s"
    and "\<not> between_methods lines n i"
  shows "shown lines i (fst (chunk_node file_path lines n))"
proof (cases n)
  case (ClassDef h body)
  show ?thesis
  proof (cases "over_budget lines h")
    case True
    then obtain m where m: "m \<in> set (List.map_filter method_head body)"
        "within i (node_start m, ph_end_lineno m)"
      using assms ClassDef by (auto simp: between_methods_def list_ex_iff)
    show ?thesis
      by (rule shown_span [OF i m(2)]) (use m(1) True ClassDef in \<open>auto simp: chunk_class_def\<close>)
  next
    case False
    then show ?thesis using assms ClassDef
      by (intro shown_span [OF i]) (auto simp: chunk_class_def)
  qed
qed (use assms in \<open>auto intro!: shown_span [OF i]\<close>)

text \<open>
  C27: No line of a Python file falls out of the index silently, except one kind: every line that is
  not blank is a line of some chunk of the file, or it lies in a top-level class that is too large
  for one chunk, outside all of that class's methods.\<close>

theorem every_line_is_indexed:
  assumes "parse source = Some tree" "chunk_python parse source file_path = Some cs"
    and "1 \<le> i" "i \<le> length (splitlines source)" "py_strip (splitlines source ! (i - 1)) \<noteq> []"
  shows "shown (splitlines source) i cs
    \<or> list_ex (\<lambda>n. between_methods (splitlines source) n i) tree"
proof (cases "list_ex (\<lambda>n. between_methods (splitlines source) n i) tree")
  case False
  then have "shown (splitlines source) i (assemble file_path (splitlines source)
      (map (chunk_node file_path (splitlines source)) tree))"
  proof (intro shown_assemble assms)
    fix p s assume p: "p \<in> set (map (chunk_node file_path (splitlines source)) tree)"
      and s: "s \<in> set (snd p)" "within i s"
    obtain n where n: "n \<in> set tree" "p = chunk_node file_path (splitlines source) n" using p by auto
    then have "\<not> between_methods (splitlines source) n i" using False by (simp add: list_ex_iff)
    then show "shown (splitlines source) i (fst p)"
      using shown_node [OF assms(3,4)] s n(2) by blast
  qed
  then show ?thesis using assms(1,2) by (simp add: chunk_python_def Let_def)
qed simp

definition demo_source :: string where
  "demo_source = ''import os'' @ [CHR 0x0A] @ ''def f(): pass''"

definition demo_parse :: "string \<Rightarrow> py_node list option" where
  "demo_parse source = Some [OtherNode,
     FunctionDef \<lparr>ph_name = ''f'', ph_lineno = 2, ph_decorators = [], ph_end_lineno = 2\<rparr>]"

lemma demo_lines: "splitlines demo_source = [''import os'', ''def f(): pass'']" by code_simp

lemma every_line_is_indexed_witness:
  "shown [''import os'', ''def f(): pass''] 1
     (the (chunk_python demo_parse demo_source ''a.py''))"
proof -
  obtain cs where cs: "chunk_python demo_parse demo_source ''a.py'' = Some cs"
    by (simp add: chunk_python_def demo_parse_def Let_def)
  have "py_strip ''import os'' \<noteq> []" by code_simp
  then have "shown [''import os'', ''def f(): pass''] 1 cs"
    using every_line_is_indexed [OF demo_parse_def cs, of 1] by (simp add: demo_lines between_methods_def)
  then show ?thesis using cs by simp
qed

text \<open>
  The exception: the line that sets a class attribute of a class of more than 3,200 characters is in no chunk.\<close>

definition big_class :: py_head where
  "big_class = \<lparr>ph_name = ''C'', ph_lineno = 1, ph_decorators = [], ph_end_lineno = 3\<rparr>"

definition big_method :: py_head where
  "big_method = \<lparr>ph_name = ''m'', ph_lineno = 3, ph_decorators = [], ph_end_lineno = 3\<rparr>"

lemma class_attributes_not_indexed:
  assumes "splitlines source = [''class C:'', ''  limit = 3'', body]" "length body \<ge> 3204"
    and "parse source = Some [ClassDef big_class [OtherNode, FunctionDef big_method]]"
  shows "chunk_python parse source ''a.py''
    = Some [span_chunk ''a.py'' (splitlines source) ''C.m'' ''method'' 3 3]"
    "slice_source (splitlines source) 3 3 = body"
proof -
  have l: "length (splitlines source) = 3" and t: "take 3 (splitlines source) = splitlines source"
    using assms(1) by simp_all
  have "length (slice_source (splitlines source) 1 3) \<ge> 3204"
    using assms(1,2) by (simp add: slice_source_def t)
  then have "800 < length (slice_source (splitlines source) 1 3) div 4" by simp
  then have big: "over_budget (splitlines source) big_class"
    by (simp add: over_budget_def estimate_tokens_def CHUNK_MAX_TOKENS_def big_class_def node_start_def)
  have "leftover_lines (splitlines source) [(1, 3)] = []"
    using l by (auto simp: leftover_lines_def filter_empty_conv)
  then have "module_chunk ''a.py'' (splitlines source) [(1, 3)] = []" by (simp add: module_chunk_def)
  then show "chunk_python parse source ''a.py''
      = Some [span_chunk ''a.py'' (splitlines source) ''C.m'' ''method'' 3 3]"
    using assms(3) big by (simp add: chunk_python_def assemble_def chunk_class_def map_filter_def Let_def)
      (simp add: big_class_def big_method_def node_start_def)
  show "slice_source (splitlines source) 3 3 = body"
    using assms(1) by (simp add: slice_source_def t)
qed

text \<open>
  Python's parser counts a form feed as no line end, \<open>splitlines\<close> does: behind one, a chunk shows the
  lines above the function it is named after.\<close>

lemma form_feed_shifts_chunks:
  "map ch_content (the (chunk_python (\<lambda>_. Some [FunctionDef \<lparr>ph_name = ''f'', ph_lineno = 2,
       ph_decorators = [], ph_end_lineno = 2\<rparr>]) (''x = 1'' @ [CHR 0x0C, CHR 0x0A] @ ''def f(): pass'') ''a.py''))
   = [[], ''x = 1'' @ [CHR 0x0A] @ ''def f(): pass'']"
  by code_simp

end
