(* ===== verification/CodeSearch.thy ===== *)
theory CodeSearch
  imports CodeChunks GitRepo ToolRegistry PyNumbers "HOL-Library.AList"
begin

text \<open>
  The code index and its search: \<open>amop/codebase_intel/indexer.py\<close>, \<open>search.py\<close> and \<open>embeddings.py\<close>.  The
  table \<open>code_chunks\<close> is the list of its rows in the order the database gives them.  The embedding
  model, pgvector's \<open>cosine_distance\<close> (\<open>None\<close> for its NaN, which Postgres sorts last), pathspec, the
  directory walk and the reading of a file are parameters; floats are rounded by \<open>fl\<close>.
\<close>

section \<open>Embedding and nearest rows\<close>

type_synonym ('v, 'x) embedder = "string list \<Rightarrow> 'x \<Rightarrow> (string, 'v list) result \<times> 'x"

definition embed_texts :: "('v, 'x) embedder \<Rightarrow> ('v, 'x) embedder" where
  "embed_texts model texts x = (if texts = [] then (Inr [], x) else model texts x)"

text \<open>\<open>(await embed_texts([text]))[0]\<close>.\<close>

definition embed_one :: "('v, 'x) embedder \<Rightarrow> string \<Rightarrow> 'x \<Rightarrow> (string, 'v) result \<times> 'x" where
  "embed_one model text x =
     (case embed_texts model [text] x of
        (Inl e, y) \<Rightarrow> (Inl e, y)
      | (Inr [], y) \<Rightarrow> (Inl ''list index out of range'', y)
      | (Inr (v # _), y) \<Rightarrow> (Inr v, y))"

text \<open>\<open>order_by(distance).limit(k)\<close>.\<close>

definition nearest :: "('a \<Rightarrow> rat option) \<Rightarrow> nat \<Rightarrow> 'a list \<Rightarrow> 'a list" where
  "nearest distance k rows =
     take k (sort_key (\<lambda>r. the (distance r)) (filter (\<lambda>r. distance r \<noteq> None) rows)
             @ filter (\<lambda>r. distance r = None) rows)"

section \<open>Indexing\<close>

record 'v code_row =
  xr_repo_path :: string
  xr_chunk :: chunk
  xr_embedding :: 'v

definition ALWAYS_SKIP_DIRS :: "string list" where
  "ALWAYS_SKIP_DIRS = [''.git'', ''__pycache__'', ''.pytest_cache'', ''node_modules'', ''.venv'']"

definition LANGUAGE_EXTENSIONS :: "(string \<times> string) list" where
  "LANGUAGE_EXTENSIONS = [(''.py'', ''python''), (''.js'', ''javascript''), (''.ts'', ''typescript''),
     (''.tsx'', ''typescript'')]"

definition MAX_CHUNK_CHARS_FOR_EMBEDDING :: nat where "MAX_CHUNK_CHARS_FOR_EMBEDDING = 8000"

text \<open>
  The tree of a source directory: \<open>rglob\<close> for an extension (paths below the directory), the matcher
  of its \<open>.gitignore\<close> if there is one, and what reading a path gives.
\<close>

record source_tree =
  sr_rglob :: "string \<Rightarrow> string list list"
  sr_ignored :: "(string \<Rightarrow> bool) option"
  sr_read :: "string list \<Rightarrow> (string, string) result"

definition relative_str :: "string list \<Rightarrow> string" where "relative_str p = join_with ''/'' p"

definition skipped :: "source_tree \<Rightarrow> string list \<Rightarrow> bool" where
  "skipped tree p \<longleftrightarrow> list_ex (\<lambda>part. part \<in> set ALWAYS_SKIP_DIRS) p
     \<or> (case sr_ignored tree of None \<Rightarrow> False | Some matches \<Rightarrow> matches (relative_str p))"

definition walk_source_files :: "source_tree \<Rightarrow> string list list" where
  "walk_source_files tree =
     sort (concat (map (\<lambda>(ext, _). filter (\<lambda>p. \<not> skipped tree p) (sr_rglob tree ext)) LANGUAGE_EXTENSIONS))"

text \<open>The dictionary of counts, in insertion order.\<close>

definition count_language :: "string \<Rightarrow> (string \<times> nat) list \<Rightarrow> (string \<times> nat) list" where
  "count_language l d = AList.update l (case map_of d l of None \<Rightarrow> 1 | Some n \<Rightarrow> n + 1) d"

definition languages_of :: "source_tree \<Rightarrow> (string \<times> nat) list" where
  "languages_of tree =
     foldl (\<lambda>d (ext, language). foldl (\<lambda>d p. if skipped tree p then d else count_language language d) d
              (sr_rglob tree ext)) [] LANGUAGE_EXTENSIONS"

text \<open>\<open>max(d, key=d.get)\<close>: the first of the largest.\<close>

fun first_largest :: "(string \<times> nat) list \<Rightarrow> string option" where
  "first_largest [] = None"
| "first_largest ((l, n) # d) = (if list_all (\<lambda>(_, m). m \<le> n) d then Some l else first_largest d)"

definition detect_stack :: "source_tree \<Rightarrow> (string \<times> nat) list \<times> string option" where
  "detect_stack tree = (let languages = languages_of tree in (languages, first_largest languages))"

definition TRUNCATION_MARKER :: string where
  "TRUNCATION_MARKER = [CHR 0x0A] @ ''# [AMOP: content truncated for embedding -- see indexer.py]''"

definition prepare_for_embedding :: "chunk \<Rightarrow> string" where
  "prepare_for_embedding c =
     (let content = ch_content c; half = MAX_CHUNK_CHARS_FOR_EMBEDDING div 2
      in if length content \<le> MAX_CHUNK_CHARS_FOR_EMBEDDING then content
         else take half content @ TRUNCATION_MARKER @ drop (length content - half) content)"

text \<open>The loop over the files: one that does not parse is skipped, any other exception ends it.\<close>

fun chunk_files ::
    "(string \<Rightarrow> py_node list option) \<Rightarrow> (string \<Rightarrow> string \<Rightarrow> bool \<times> ts_node) \<Rightarrow> source_tree
     \<Rightarrow> string list list \<Rightarrow> (string, chunk list) result" where
  "chunk_files py ts tree [] = Inr []"
| "chunk_files py ts tree (p # ps) =
     bind_result (sr_read tree p) (\<lambda>source.
       bind_result
         (case chunk_source py ts source (relative_str p) of
            Inr cs \<Rightarrow> Inr cs
          | Inl ChunkSyntaxError \<Rightarrow> Inr []
          | Inl (UnsupportedExtension f) \<Rightarrow>
              Inl (''chunk_source: unsupported file extension: '' @ repr_str f))
         (\<lambda>cs. bind_result (chunk_files py ts tree ps) (\<lambda>rest. Inr (cs @ rest))))"

text \<open>
  The rows change with the commit: an exception leaves them as they were, since the session's
  deletion is rolled back with it.
\<close>

definition index_repo ::
    "(string \<Rightarrow> py_node list option) \<Rightarrow> (string \<Rightarrow> string \<Rightarrow> bool \<times> ts_node) \<Rightarrow> ('v, 'x) embedder
     \<Rightarrow> string \<Rightarrow> source_tree \<Rightarrow> 'v code_row list \<Rightarrow> 'x \<Rightarrow> (string, nat) result \<times> 'v code_row list \<times> 'x" where
  "index_repo py ts model repo_path tree rows x =
     (let others = filter (\<lambda>r. xr_repo_path r \<noteq> repo_path) rows
      in case chunk_files py ts tree (walk_source_files tree) of
           Inl e \<Rightarrow> (Inl e, rows, x)
         | Inr all_chunks \<Rightarrow>
             if all_chunks = [] then (Inr 0, others, x)
             else case embed_texts model (map prepare_for_embedding all_chunks) x of
                (Inl e, y) \<Rightarrow> (Inl e, rows, y)
              | (Inr embeddings, y) \<Rightarrow>
                  if length embeddings \<noteq> length all_chunks
                  then (Inl ''zip() argument 2 differs in length'', rows, y)
                  else (Inr (length all_chunks),
                        others @ map2 (\<lambda>c v. \<lparr>xr_repo_path = repo_path, xr_chunk = c, xr_embedding = v\<rparr>)
                                   all_chunks embeddings, y))"

definition find_stale_code_chunk_paths ::
    "string list \<Rightarrow> (string \<Rightarrow> bool) \<Rightarrow> 'v code_row list \<Rightarrow> (string \<times> nat) list" where
  "find_stale_code_chunk_paths registered is_dir rows =
     (let paths = map xr_repo_path rows;
          counts = sort_key (\<lambda>(_, n). - int n) (map (\<lambda>p. (p, count_list paths p)) (remdups paths))
      in filter (\<lambda>(p, _). p \<notin> set registered \<and> \<not> is_dir p) counts)"

fun prune_stale_code_chunks :: "string list \<Rightarrow> 'v code_row list \<Rightarrow> nat \<times> 'v code_row list" where
  "prune_stale_code_chunks [] rows = (0, rows)"
| "prune_stale_code_chunks (p # ps) rows =
     (let (n, rows') = prune_stale_code_chunks ps (filter (\<lambda>r. xr_repo_path r \<noteq> p) rows)
      in (length (filter (\<lambda>r. xr_repo_path r = p) rows) + n, rows'))"

section \<open>Searching\<close>

definition SEMANTIC_LIMIT :: nat where "SEMANTIC_LIMIT = 10"
definition KEYWORD_LIMIT :: nat where "KEYWORD_LIMIT = 10"
definition HYBRID_RETURN :: nat where "HYBRID_RETURN = 5"
definition RRF_K :: nat where "RRF_K = 60"

type_synonym scores = "(string \<times> rat) list"

definition add_rank :: "flround \<Rightarrow> nat \<Rightarrow> scores \<Rightarrow> nat \<times> string \<Rightarrow> scores" where
  "add_rank fl k scores entry =
     (let (rank, key) = entry; old = (case map_of scores key of None \<Rightarrow> 0 | Some s \<Rightarrow> s)
      in AList.update key (fl (old + fl (1 / of_nat (k + rank + 1)))) scores)"

definition reciprocal_rank_fusion :: "flround \<Rightarrow> nat \<Rightarrow> string list list \<Rightarrow> scores" where
  "reciprocal_rank_fusion fl k ranked_lists =
     sort_key (\<lambda>(_, s). - s)
       (foldl (\<lambda>scores ranked. foldl (add_rank fl k) scores (enumerate 0 ranked)) [] ranked_lists)"

record ('v, 'x) search_env =
  se_embed :: "('v, 'x) embedder"
  se_distance :: "'v \<Rightarrow> 'v \<Rightarrow> rat option"
  se_exec :: "string \<Rightarrow> 'x \<Rightarrow> (string, exec_result) result \<times> 'x"
  se_round :: flround

definition semantic_search ::
    "('v, 'x) search_env \<Rightarrow> string \<Rightarrow> string \<Rightarrow> 'v code_row list \<Rightarrow> 'x
     \<Rightarrow> (string, chunk list) result \<times> 'x" where
  "semantic_search env query repo_path rows x =
     (case embed_one (se_embed env) query x of
        (Inl e, y) \<Rightarrow> (Inl e, y)
      | (Inr q, y) \<Rightarrow>
          (Inr (map xr_chunk (nearest (\<lambda>r. se_distance env (xr_embedding r) q) SEMANTIC_LIMIT
             (filter (\<lambda>r. xr_repo_path r = repo_path) rows))), y))"

text \<open>\<open>s.split(d, n)\<close>.\<close>

fun split_upto :: "char \<Rightarrow> nat \<Rightarrow> string \<Rightarrow> string list" where
  "split_upto d 0 s = [s]"
| "split_upto d (Suc n) s =
     (case dropWhile (\<lambda>c. c \<noteq> d) s of
        [] \<Rightarrow> [s]
      | _ # rest \<Rightarrow> takeWhile (\<lambda>c. c \<noteq> d) s # split_upto d n rest)"

text \<open>\<open>str.isdigit\<close> also accepts the three superscripts below code point 256, \<open>int\<close> does not.\<close>

definition ascii_digit :: "char \<Rightarrow> bool" where
  "ascii_digit c = (let n = (of_char c :: nat) in 48 \<le> n \<and> n \<le> 57)"

definition py_isdigit :: "string \<Rightarrow> bool" where
  "py_isdigit s \<longleftrightarrow> s \<noteq> [] \<and>
     list_all (\<lambda>c. ascii_digit c \<or> (of_char c :: nat) \<in> {178, 179, 185}) s"

definition digits_value :: "string \<Rightarrow> nat" where
  "digits_value s = foldl (\<lambda>n c. 10 * n + (of_char c - 48)) 0 s"

text \<open>What a search raises: a \<open>ValueError\<close>, for the mode or from \<open>int\<close>, or anything else.\<close>

datatype search_exn = UnknownMode string | BadNumber string | SearchFailed string

text \<open>The hits of a \<open>grep -rn\<close> output, each once, at most \<open>limit\<close> of them.\<close>

fun collect_hits :: "nat \<Rightarrow> (string \<times> nat) list \<Rightarrow> string list \<Rightarrow> (search_exn, (string \<times> nat) list) result" where
  "collect_hits limit hits [] = Inr hits"
| "collect_hits limit hits (line # lines) =
     (case split_upto CHR '':'' 2 line of
        raw_path # raw_line # _ \<Rightarrow>
          if \<not> py_isdigit raw_line then collect_hits limit hits lines
          else if \<not> list_all ascii_digit raw_line
          then Inl (BadNumber (''invalid literal for int() with base 10: '' @ repr_str raw_line))
          else
            (let key = (removeprefix ''./'' (removeprefix ''/workspace/'' raw_path), digits_value raw_line)
             in if key \<in> set hits then collect_hits limit hits lines
                else if length hits + 1 \<ge> limit then Inr (hits @ [key])
                else collect_hits limit (hits @ [key]) lines)
      | _ \<Rightarrow> collect_hits limit hits lines)"

definition chunk_at :: "string \<Rightarrow> 'v code_row list \<Rightarrow> string \<times> nat \<Rightarrow> chunk option" where
  "chunk_at repo_path rows hit =
     map_option xr_chunk (find (\<lambda>r. xr_repo_path r = repo_path \<and> ch_file_path (xr_chunk r) = fst hit
        \<and> ch_start_line (xr_chunk r) \<le> snd hit \<and> snd hit \<le> ch_end_line (xr_chunk r)) rows)"

definition grep_command :: "string \<Rightarrow> string" where
  "grep_command query = ''grep -rn -i -F '' @ shell_quote query @ '' /workspace --include='' @ shell_quote ''*.py''"

definition keyword_search ::
    "('v, 'x) search_env \<Rightarrow> string \<Rightarrow> string \<Rightarrow> 'v code_row list \<Rightarrow> 'x
     \<Rightarrow> (search_exn, chunk list) result \<times> 'x" where
  "keyword_search env query repo_path rows x =
     (if py_strip query = [] then (Inr [], x)
      else case se_exec env (grep_command query) x of
          (Inl e, y) \<Rightarrow> (Inl (SearchFailed e), y)
        | (Inr r, y) \<Rightarrow>
            if ex_exit_code r \<notin> {0, 1} then (Inr [], y)
            else (bind_result (collect_hits KEYWORD_LIMIT [] (splitlines (ex_stdout r)))
                    (\<lambda>hits. Inr (List.map_filter (chunk_at repo_path rows) hits)), y))"

definition chunk_key :: "chunk \<Rightarrow> string" where
  "chunk_key c = ch_file_path c @ '':'' @ ch_symbol_name c @ '':'' @ nat_digits (ch_start_line c)"

text \<open>The fused ranking as chunks: of two chunks with one key the later one stands.\<close>

definition fuse :: "flround \<Rightarrow> chunk list \<Rightarrow> chunk list \<Rightarrow> chunk list" where
  "fuse fl semantic keyword =
     (let by_key = map_of (rev (map (\<lambda>c. (chunk_key c, c)) (semantic @ keyword)))
      in map (\<lambda>(key, _). the (by_key key))
           (reciprocal_rank_fusion fl RRF_K [map chunk_key semantic, map chunk_key keyword]))"

definition search_code_impl ::
    "('v, 'x) search_env \<Rightarrow> string \<Rightarrow> string \<Rightarrow> 'v code_row list \<Rightarrow> string \<Rightarrow> 'x
     \<Rightarrow> (search_exn, chunk list) result \<times> 'x" where
  "search_code_impl env query repo_path rows mode x =
     (if mode \<notin> {''semantic'', ''keyword'', ''hybrid''} then (Inl (UnknownMode mode), x)
      else
        (case (if mode = ''keyword'' then (Inr [], x) else semantic_search env query repo_path rows x) of
           (Inl e, y) \<Rightarrow> (Inl (SearchFailed e), y)
         | (Inr semantic, y) \<Rightarrow>
             (case (if mode = ''semantic'' then (Inr [], y) else keyword_search env query repo_path rows y) of
                (Inl e, z) \<Rightarrow> (Inl e, z)
              | (Inr keyword, z) \<Rightarrow>
                  (Inr (take HYBRID_RETURN
                     (if mode = ''semantic'' then semantic else if mode = ''keyword'' then keyword
                      else fuse (se_round env) semantic keyword)), z))))"

definition to_dict :: "chunk \<Rightarrow> pyval" where
  "to_dict c = PDict
     [(''file_path'', PStr (ch_file_path c)), (''symbol_name'', PStr (ch_symbol_name c)),
      (''symbol_type'', PStr (ch_symbol_type c)), (''start_line'', PInt (int (ch_start_line c))),
      (''end_line'', PInt (int (ch_end_line c))), (''content'', PStr (ch_content c)),
      (''score'', PFloat ''1.0'')]"

text \<open>The tool, over what it reads of its context: the index key, the table and whether there is a sandbox.\<close>

definition search_code ::
    "('v, 'x) search_env \<Rightarrow> string option \<Rightarrow> 'v code_row list option \<Rightarrow> bool \<Rightarrow> string \<Rightarrow> string \<Rightarrow> 'x
     \<Rightarrow> tool_result \<times> 'x" where
  "search_code env repo_path db has_sandbox query mode x =
     (case (repo_path, db) of
        (Some repo, Some rows) \<Rightarrow>
          if \<not> has_sandbox \<and> mode \<in> {''keyword'', ''hybrid''}
          then (failure ''SANDBOX_UNAVAILABLE'' (Some ''no sandbox session for this task''), x)
          else (case search_code_impl env query repo rows mode x of
              (Inl (UnknownMode m), y) \<Rightarrow>
                (failure ''INVALID_ARGS'' (Some (''unknown search mode '' @ repr_str m @
                   '' -- must be exactly one of: '' @ repr_str ''semantic'' @ '', '' @ repr_str ''keyword'' @
                   '', '' @ repr_str ''hybrid'' @ '' (or omit mode entirely for the '' @
                   repr_str ''hybrid'' @ '' default)'')), y)
            | (Inl (BadNumber e), y) \<Rightarrow> (failure ''INVALID_ARGS'' (Some e), y)
            | (Inl (SearchFailed e), y) \<Rightarrow> (failure ''SEARCH_ERROR'' (Some e), y)
            | (Inr cs, y) \<Rightarrow>
                (\<lparr>tr_success = True, tr_output = PList (map to_dict cs), tr_error_code = None,
                  tr_message = None\<rparr>, y))
      | _ \<Rightarrow> (failure ''INDEX_UNAVAILABLE'' (Some ''no repo index available for this task''), x))"

section \<open>What the nearest rows are\<close>

text \<open>No farther away; a row without a distance is farther than any with one.\<close>

definition no_farther :: "('a \<Rightarrow> rat option) \<Rightarrow> 'a \<Rightarrow> 'a \<Rightarrow> bool" where
  "no_farther d a b = (case d b of None \<Rightarrow> True | Some y \<Rightarrow> (case d a of None \<Rightarrow> False | Some x \<Rightarrow> x \<le> y))"

definition by_distance :: "('a \<Rightarrow> rat option) \<Rightarrow> 'a list \<Rightarrow> 'a list" where
  "by_distance d rows = sort_key (\<lambda>r. the (d r)) (filter (\<lambda>r. d r \<noteq> None) rows) @ filter (\<lambda>r. d r = None) rows"

lemma nearest_take: "nearest d k rows = take k (by_distance d rows)"
  by (simp add: nearest_def by_distance_def)

lemma set_by_distance [simp]: "set (by_distance d rows) = set rows"
  by (auto simp: by_distance_def)

lemma length_by_distance [simp]: "length (by_distance d rows) = length rows"
  using sum_length_filter_compl [of "\<lambda>r. d r = None" rows] by (simp add: by_distance_def)

lemma sorted_by_distance: "sorted_wrt (no_farther d) (by_distance d rows)"
proof -
  have "sorted_wrt (\<lambda>a b. the (d a) \<le> the (d b)) (sort_key (\<lambda>r. the (d r)) (filter (\<lambda>r. d r \<noteq> None) rows))"
    using sorted_sort_key [of "\<lambda>r. the (d r)"] by (simp add: sorted_map)
  then have "sorted_wrt (no_farther d) (sort_key (\<lambda>r. the (d r)) (filter (\<lambda>r. d r \<noteq> None) rows))"
    by (rule sorted_wrt_mono_rel [rotated]) (auto simp: no_farther_def split: option.split)
  moreover have "sorted_wrt (no_farther d) (filter (\<lambda>r. d r = None) rows)"
    by (induction rows) (auto simp: no_farther_def)
  ultimately show ?thesis by (simp add: by_distance_def sorted_wrt_append no_farther_def)
qed

lemma nearest_facts:
  "set (nearest d k rows) \<subseteq> set rows" "length (nearest d k rows) \<le> k"
  "sorted_wrt (no_farther d) (nearest d k rows)"
  using set_take_subset [of k "by_distance d rows"] sorted_by_distance [of d rows]
  by (auto simp: nearest_take sorted_wrt_take)

text \<open>A row that is left out is left out for \<open>k\<close> rows that are no farther away.\<close>

lemma nearest_complete:
  assumes "r \<in> set rows" "r \<notin> set (nearest d k rows)"
  shows "length (nearest d k rows) = k" "m \<in> set (nearest d k rows) \<Longrightarrow> no_farther d m r"
proof -
  let ?l = "by_distance d rows"
  have r: "r \<in> set (drop k ?l)"
    using assms set_append [of "take k ?l" "drop k ?l"] by (auto simp: nearest_take)
  then have "k < length ?l" by (metis drop_eq_Nil empty_iff list.set(1) not_le)
  then show "length (nearest d k rows) = k" by (simp add: nearest_take)
  have "sorted_wrt (no_farther d) (take k ?l @ drop k ?l)" using sorted_by_distance [of d rows] by simp
  then show "no_farther d m r" if "m \<in> set (nearest d k rows)"
    using that r by (simp only: sorted_wrt_append nearest_take)
qed

section \<open>Stack and index\<close>

lemma first_largest_props:
  "first_largest d = Some l \<Longrightarrow> \<exists>n. (l, n) \<in> set d \<and> (\<forall>(k, m) \<in> set d. m \<le> n)"
  "first_largest d = None \<longleftrightarrow> d = []"
proof (induction d rule: first_largest.induct)
  case (2 l' n d)
  { case 1
    show ?case
    proof (cases "list_all (\<lambda>(_, m). m \<le> n) d")
      case True
      then show ?thesis using 1 by (fastforce simp: list_all_iff)
    next
      case False
      then obtain k m where km: "(k, m) \<in> set d" "n < m" by (auto simp: list_all_iff not_le)
      from 2(1) [OF False] 1 False obtain q where q: "(l, q) \<in> set d" "\<forall>(k, m) \<in> set d. m \<le> q" by auto
      with km have "n \<le> q" by fastforce
      with q show ?thesis by auto
    qed
  next
    case 2
    show ?case
    proof (cases "list_all (\<lambda>(_, m). m \<le> n) d")
      case False
      then have "d \<noteq> []" by auto
      then show ?thesis using "2.IH"(2) [OF False] False by simp
    qed simp
  }
qed simp_all

text \<open>The files of a language that are looked at.\<close>

definition files_of :: "source_tree \<Rightarrow> string \<Rightarrow> string list list" where
  "files_of tree language = concat (map (\<lambda>(ext, l).
     if l = language then filter (\<lambda>p. \<not> skipped tree p) (sr_rglob tree ext) else []) LANGUAGE_EXTENSIONS)"

definition counted :: "(string \<times> nat) list \<Rightarrow> string \<Rightarrow> nat" where
  "counted d l = (case map_of d l of None \<Rightarrow> 0 | Some n \<Rightarrow> n)"

definition proper_counts :: "(string \<times> nat) list \<Rightarrow> bool" where
  "proper_counts d \<longleftrightarrow> distinct (map fst d) \<and> (\<forall>(l, n) \<in> set d. 0 < n)"

lemma count_language_counted:
  "counted (count_language l d) k = counted d k + (if k = l then 1 else 0)"
  by (auto simp: counted_def count_language_def update_conv' split: option.split)

lemma count_language_proper: "proper_counts d \<Longrightarrow> proper_counts (count_language l d)"
  unfolding proper_counts_def count_language_def
proof (intro conjI)
  assume d: "distinct (map fst d) \<and> (\<forall>(l, n) \<in> set d. 0 < n)"
  let ?u = "AList.update l (case map_of d l of None \<Rightarrow> 1 | Some n \<Rightarrow> n + 1) d"
  show u: "distinct (map fst ?u)" using d by (simp add: distinct_update)
  show "\<forall>(k, n) \<in> set ?u. 0 < n"
  proof (clarify)
    fix k n assume "(k, n) \<in> set ?u"
    then have "map_of ?u k = Some n" using u by simp
    then show "0 < n" using d
      by (auto simp: update_conv' split: if_splits option.splits dest: map_of_SomeD)
  qed
qed

lemma count_extension:
  fixes tree l
  defines "f \<equiv> \<lambda>d p. if skipped tree p then d else count_language l d"
  shows "counted (foldl f d ps) k = counted d k + (if k = l then length (filter (\<lambda>p. \<not> skipped tree p) ps) else 0)"
    "proper_counts d \<Longrightarrow> proper_counts (foldl f d ps)"
  by (induction ps arbitrary: d) (auto simp: f_def count_language_counted count_language_proper)

lemma languages_of_counted:
  "counted (languages_of tree) l = length (files_of tree l)" "proper_counts (languages_of tree)"
proof -
  let ?step = "\<lambda>d (ext, language). foldl (\<lambda>d p. if skipped tree p then d else count_language language d) d
              (sr_rglob tree ext)"
  have "counted (foldl ?step d exts) l = counted d l + length (concat (map (\<lambda>(ext, l').
     if l' = l then filter (\<lambda>p. \<not> skipped tree p) (sr_rglob tree ext) else []) exts))" for d exts
    by (induction exts arbitrary: d) (auto simp: count_extension(1))
  from this [of "[]" LANGUAGE_EXTENSIONS] show "counted (languages_of tree) l = length (files_of tree l)"
    by (simp add: languages_of_def files_of_def counted_def)
  have "proper_counts d \<Longrightarrow> proper_counts (foldl ?step d exts)" for d exts
    by (induction exts arbitrary: d) (auto simp: count_extension(2))
  moreover have "proper_counts []" by (simp add: proper_counts_def)
  ultimately show "proper_counts (languages_of tree)" unfolding languages_of_def by blast
qed

text \<open>
  The stack a sandbox image is chosen by is the language with the most files that are neither ignored
  nor in a skipped directory; there is none exactly when there are no such files.\<close>

lemma stack_is_the_commonest:
  "snd (detect_stack tree) = Some l \<Longrightarrow> 0 < length (files_of tree l)
     \<and> length (files_of tree k) \<le> length (files_of tree l)"
  "snd (detect_stack tree) = None \<longleftrightarrow> (\<forall>k. files_of tree k = [])"
proof -
  let ?d = "languages_of tree"
  have c: "counted ?d k = length (files_of tree k)" for k by (rule languages_of_counted)
  have proper: "distinct (map fst ?d)" "\<And>l n. (l, n) \<in> set ?d \<Longrightarrow> 0 < n"
    using languages_of_counted(2) [of tree] by (auto simp: proper_counts_def)
  have val: "counted ?d l = n" if "(l, n) \<in> set ?d" for l n
    using that proper(1) by (simp add: counted_def)
  { assume "snd (detect_stack tree) = Some l"
    then have "first_largest ?d = Some l" by (simp add: detect_stack_def Let_def)
    from first_largest_props(1) [OF this] obtain n
      where n: "(l, n) \<in> set ?d" "\<forall>(k, m) \<in> set ?d. m \<le> n" by blast
    have "counted ?d k \<le> n"
      using n(2) by (auto simp: counted_def split: option.split dest: map_of_SomeD)
    then show "0 < length (files_of tree l) \<and> length (files_of tree k) \<le> length (files_of tree l)"
      using val [OF n(1)] proper(2) [OF n(1)] by (simp add: c) }
  show "snd (detect_stack tree) = None \<longleftrightarrow> (\<forall>k. files_of tree k = [])"
  proof
    assume "snd (detect_stack tree) = None"
    then have "?d = []" by (simp add: detect_stack_def Let_def first_largest_props(2))
    then have "counted ?d k = 0" for k by (simp add: counted_def)
    then show "\<forall>k. files_of tree k = []" by (simp add: c)
  next
    assume none: "\<forall>k. files_of tree k = []"
    have "?d = []"
    proof (cases ?d)
      case (Cons p d)
      obtain l n where "p = (l, n)" by fastforce
      then have "(l, n) \<in> set ?d" using Cons by simp
      then show ?thesis using val proper(2) c [of l] none by fastforce
    qed
    then show "snd (detect_stack tree) = None" by (simp add: detect_stack_def)
  qed
qed

text \<open>
  Indexing a repository replaces its own rows and no others: after an error the table is as it was, after
  a success the repository's rows are the chunks just cut, however often it has been indexed before.\<close>

definition rows_of :: "string \<Rightarrow> 'v code_row list \<Rightarrow> 'v code_row list" where
  "rows_of repo_path rows = filter (\<lambda>r. xr_repo_path r = repo_path) rows"

lemma map2_rows:
  fixes repo :: string and cs :: "chunk list" and vs :: "'v list"
  defines "f \<equiv> \<lambda>c v. \<lparr>xr_repo_path = repo, xr_chunk = c, xr_embedding = v\<rparr>"
  shows "length vs = length cs \<Longrightarrow> map xr_chunk (map2 f cs vs) = cs"
    "r \<in> set (map2 f cs vs) \<Longrightarrow> xr_repo_path r = repo"
proof -
  show "map xr_chunk (map2 f cs vs) = cs" if "length vs = length cs"
    using that by (simp add: f_def comp_def case_prod_beta)
  show "xr_repo_path r = repo" if "r \<in> set (map2 f cs vs)" using that by (auto simp: f_def)
qed

theorem index_replaces_own_rows:
  "(case index_repo py ts model repo tree rows x of
      (Inl e, rows', y) \<Rightarrow> rows' = rows
    | (Inr n, rows', y) \<Rightarrow>
        chunk_files py ts tree (walk_source_files tree) = Inr (map xr_chunk (rows_of repo rows'))
        \<and> n = length (rows_of repo rows')
        \<and> filter (\<lambda>r. xr_repo_path r \<noteq> repo) rows' = filter (\<lambda>r. xr_repo_path r \<noteq> repo) rows)"
proof (cases "chunk_files py ts tree (walk_source_files tree)")
  case (Inr cs)
  let ?others = "filter (\<lambda>r. xr_repo_path r \<noteq> repo) rows"
  have o: "rows_of repo ?others = []" "filter (\<lambda>r. xr_repo_path r \<noteq> repo) ?others = ?others"
    by (simp_all add: rows_of_def)
  show ?thesis
  proof (cases "cs = []")
    case True
    then show ?thesis using Inr o by (simp add: index_repo_def Let_def)
  next
    case False
    obtain r y where e: "embed_texts model (map prepare_for_embedding cs) x = (r, y)" by fastforce
    show ?thesis
    proof (cases r)
      case Inl: (Inl _)
      then show ?thesis using Inr e False by (simp add: index_repo_def Let_def)
    next
      case r: (Inr vs)
      show ?thesis
      proof (cases "length vs = length cs")
        case True
        let ?new = "map2 (\<lambda>c v. \<lparr>xr_repo_path = repo, xr_chunk = c, xr_embedding = v\<rparr>) cs vs"
        have n: "map xr_chunk ?new = cs" "rows_of repo ?new = ?new" "filter (\<lambda>r. xr_repo_path r \<noteq> repo) ?new = []"
          using map2_rows(1) [OF True] map2_rows(2) [of _ repo cs vs]
          by (auto simp only: rows_of_def filter_id_conv filter_empty_conv)
        have "index_repo py ts model repo tree rows x = (Inr (length cs), ?others @ ?new, y)"
          using Inr e False r True by (simp add: index_repo_def Let_def)
        moreover have "rows_of repo (?others @ ?new) = ?new" using o(1) n(2) by (simp add: rows_of_def)
        moreover have "length ?new = length cs" using True by simp
        ultimately show ?thesis using Inr n(1,3) o(2) by (simp only: prod.case sum.case filter_append append_Nil2)
      qed (use Inr e False r in \<open>simp add: index_repo_def Let_def\<close>)
    qed
  qed
qed (simp add: index_repo_def Let_def)

text \<open>
  What is embedded stays within the budget only without the marker in its middle; the code's comment says the
  total stays the same.\<close>

lemma prepared_length:
  "length (prepare_for_embedding c) \<le> MAX_CHUNK_CHARS_FOR_EMBEDDING + length TRUNCATION_MARKER"
  by (simp add: prepare_for_embedding_def MAX_CHUNK_CHARS_FOR_EMBEDDING_def Let_def)

lemma prepared_exceeds_budget:
  "length (ch_content c) > MAX_CHUNK_CHARS_FOR_EMBEDDING \<Longrightarrow> length (prepare_for_embedding c) = 8060"
  by (simp add: prepare_for_embedding_def MAX_CHUNK_CHARS_FOR_EMBEDDING_def TRUNCATION_MARKER_def Let_def)

lemma pruned: "prune_stale_code_chunks ps rows
    = (length (filter (\<lambda>r. xr_repo_path r \<in> set ps) rows), filter (\<lambda>r. xr_repo_path r \<notin> set ps) rows)"
proof (induction ps arbitrary: rows)
  case (Cons p ps)
  have "length (filter (\<lambda>r. xr_repo_path r \<in> set (p # ps)) rows)
      = length (filter (\<lambda>r. xr_repo_path r = p) rows)
        + length (filter (\<lambda>r. xr_repo_path r \<in> set ps) (filter (\<lambda>r. xr_repo_path r \<noteq> p) rows))"
    by (induction rows) auto
  then show ?case using Cons by (simp add: conj_commute)
qed simp

text \<open>
  Pruning what the dry run lists deletes no row of a registered repository and none of a directory that exists.\<close>

lemma pruning_spares_live_paths:
  "r \<in> set rows \<Longrightarrow> xr_repo_path r \<in> set registered \<or> is_dir (xr_repo_path r) \<Longrightarrow>
   r \<in> set (snd (prune_stale_code_chunks (map fst (find_stale_code_chunk_paths registered is_dir rows)) rows))"
  by (auto simp: pruned find_stale_code_chunk_paths_def Let_def)

section \<open>Fusing ranks\<close>

definition score_of :: "scores \<Rightarrow> string \<Rightarrow> rat" where
  "score_of d key = (case map_of d key of None \<Rightarrow> 0 | Some s \<Rightarrow> s)"

text \<open>What one ranked list contributes to a key: every place it stands at counts.\<close>

definition rank_score :: "nat \<Rightarrow> string \<Rightarrow> (nat \<times> string) list \<Rightarrow> rat" where
  "rank_score k key es = (\<Sum>(rank, x) \<leftarrow> es. if x = key then 1 / of_nat (k + rank + 1) else 0)"

lemma add_rank_props:
  "distinct (map fst d) \<Longrightarrow> distinct (map fst (add_rank fl k d e))"
  "fst ` set (add_rank fl k d e) = insert (snd e) (fst ` set d)"
  "score_of (add_rank (\<lambda>x. x) k d e) key
     = score_of d key + (if snd e = key then 1 / of_nat (k + fst e + 1) else 0)"
proof -
  obtain rank x where e: "e = (rank, x)" by fastforce
  show "distinct (map fst d) \<Longrightarrow> distinct (map fst (add_rank fl k d e))"
    by (simp add: e add_rank_def distinct_update)
  show "fst ` set (add_rank fl k d e) = insert (snd e) (fst ` set d)"
    by (simp add: e add_rank_def dom_update)
  show "score_of (add_rank (\<lambda>x. x) k d e) key
     = score_of d key + (if snd e = key then 1 / of_nat (k + fst e + 1) else 0)"
    by (simp add: e add_rank_def update_conv' score_of_def split: option.split)
qed

lemma foldl_add_rank:
  "distinct (map fst d) \<Longrightarrow> distinct (map fst (foldl (add_rank fl k) d es))"
  "fst ` set (foldl (add_rank fl k) d es) = fst ` set d \<union> snd ` set es"
  "score_of (foldl (add_rank (\<lambda>x. x) k) d es) key = score_of d key + rank_score k key es"
  by (induction es arbitrary: d) (auto simp: add_rank_props rank_score_def split: prod.split)

lemma snd_enumerate: "snd ` set (enumerate n xs) = set xs"
  by (metis list.set_map map_snd_enumerate)

abbreviation all_ranks :: "flround \<Rightarrow> nat \<Rightarrow> scores \<Rightarrow> string list list \<Rightarrow> scores" where
  "all_ranks fl k \<equiv> foldl (\<lambda>scores ranked. foldl (add_rank fl k) scores (enumerate 0 ranked))"

lemma foldl_rankings:
  "distinct (map fst d) \<Longrightarrow> distinct (map fst (all_ranks fl k d rankings))"
  "fst ` set (all_ranks fl k d rankings) = fst ` set d \<union> \<Union> (set ` set rankings)"
  "score_of (all_ranks (\<lambda>x. x) k d rankings) key
     = score_of d key + (\<Sum>ranked \<leftarrow> rankings. rank_score k key (enumerate 0 ranked))"
proof (induction rankings arbitrary: d)
  case (Cons r rankings)
  { case 1 then show ?case by (simp add: Cons.IH(1) foldl_add_rank(1)) }
  { case 2 show ?case by (simp only: foldl.simps Cons.IH(2)) (simp add: foldl_add_rank(2) snd_enumerate Un_assoc) }
  { case 3 show ?case by (simp add: Cons.IH(3) foldl_add_rank(3)) }
qed simp_all

text \<open>
  The fused ranking is exactly the sum of reciprocal ranks, in exact arithmetic: each key of any of
  the rankings once, with the sum over all its places, the greater sum first.\<close>

theorem fusion_is_the_sum_of_ranks:
  "set (reciprocal_rank_fusion (\<lambda>x. x) k rankings)
     = (\<lambda>key. (key, \<Sum>ranked \<leftarrow> rankings. rank_score k key (enumerate 0 ranked))) ` \<Union> (set ` set rankings)"
  "distinct (map fst (reciprocal_rank_fusion fl k rankings))"
  "fst ` set (reciprocal_rank_fusion fl k rankings) = \<Union> (set ` set rankings)"
  "sorted_wrt (\<lambda>a b. snd b \<le> snd a) (reciprocal_rank_fusion fl k rankings)"
proof -
  let ?f = "\<lambda>fl. all_ranks fl k [] rankings"
  have keys: "fst ` set (?f fl) = \<Union> (set ` set rankings)" for fl by (simp add: foldl_rankings(2))
  have dist: "distinct (map fst (?f fl))" for fl by (rule foldl_rankings(1)) simp
  have sc: "score_of (?f (\<lambda>x. x)) key = (\<Sum>ranked \<leftarrow> rankings. rank_score k key (enumerate 0 ranked))" for key
    using foldl_rankings(3) [of k "[]" rankings key] by (simp add: score_of_def)
  have "set (?f (\<lambda>x. x)) = (\<lambda>key. (key, score_of (?f (\<lambda>x. x)) key)) ` (fst ` set (?f (\<lambda>x. x)))"
    using dist [of "\<lambda>x. x"] by (force simp: score_of_def image_iff)
  then show "set (reciprocal_rank_fusion (\<lambda>x. x) k rankings)
     = (\<lambda>key. (key, \<Sum>ranked \<leftarrow> rankings. rank_score k key (enumerate 0 ranked))) ` \<Union> (set ` set rankings)"
    by (simp add: reciprocal_rank_fusion_def keys sc)
  show "distinct (map fst (reciprocal_rank_fusion fl k rankings))"
    using dist [of fl] by (simp add: reciprocal_rank_fusion_def distinct_map)
  show "fst ` set (reciprocal_rank_fusion fl k rankings) = \<Union> (set ` set rankings)"
    by (simp add: reciprocal_rank_fusion_def keys)
  have "sorted_wrt (\<lambda>a b. - snd a \<le> - snd b) (reciprocal_rank_fusion fl k rankings)"
    using sorted_sort_key [of "\<lambda>(_, s). - s :: rat" "?f fl"]
    by (simp add: reciprocal_rank_fusion_def sorted_map case_prod_beta)
  then show "sorted_wrt (\<lambda>a b. snd b \<le> snd a) (reciprocal_rank_fusion fl k rankings)" by simp
qed

text \<open>
  A keyword list names a chunk once per matching line, so a chunk with two matches outranks one that is
  first in the semantic list.\<close>

lemma repeated_hits_outrank:
  "map fst (reciprocal_rank_fusion (\<lambda>x. x) RRF_K [[''a''], [''b'', ''b'']]) = [''b'', ''a'']"
  by (simp add: reciprocal_rank_fusion_def add_rank_def RRF_K_def)

section \<open>What a search returns\<close>

lemma fuse_keys:
  "set (fuse fl sem kw) \<subseteq> set sem \<union> set kw"
  "distinct (map chunk_key (fuse fl sem kw))"
proof -
  let ?r = "reciprocal_rank_fusion fl RRF_K [map chunk_key sem, map chunk_key kw]"
  let ?m = "map_of (rev (map (\<lambda>c. (chunk_key c, c)) (sem @ kw)))"
  have dom: "\<exists>c. ?m key = Some c" if "key \<in> fst ` set ?r" for key
  proof -
    have "key \<in> chunk_key ` set (sem @ kw)" using that by (auto simp: fusion_is_the_sum_of_ranks(3))
    then show ?thesis by (force simp: map_of_eq_None_iff simp flip: not_None_eq)
  qed
  have hit: "chunk_key c = key \<and> c \<in> set sem \<union> set kw" if "?m key = Some c" for key c
    using map_of_SomeD [OF that] by auto
  have eq: "fuse fl sem kw = map (\<lambda>e. the (?m (fst e))) ?r"
    by (simp add: fuse_def Let_def case_prod_beta)
  have val: "chunk_key (the (?m (fst e))) = fst e \<and> the (?m (fst e)) \<in> set sem \<union> set kw"
    if e: "e \<in> set ?r" for e
  proof -
    obtain c where "?m (fst e) = Some c" using dom [OF imageI [OF e]] by blast
    with hit [OF this] show ?thesis by simp
  qed
  show "set (fuse fl sem kw) \<subseteq> set sem \<union> set kw"
    unfolding eq set_map by (rule image_subsetI) (use val in blast)
  have "map chunk_key (fuse fl sem kw) = map fst ?r"
    unfolding eq map_map comp_def by (rule map_cong [OF refl]) (use val in blast)
  then show "distinct (map chunk_key (fuse fl sem kw))"
    by (simp only: fusion_is_the_sum_of_ranks(2))
qed

lemma semantic_search_rows:
  "semantic_search env query repo rows x = (Inr cs, y) \<Longrightarrow> set cs \<subseteq> xr_chunk ` set (rows_of repo rows)"
  unfolding semantic_search_def
  by (auto simp flip: rows_of_def split: prod.splits sum.splits
      intro!: imageI dest!: subsetD [OF nearest_facts(1)])

lemma chunk_at_row: "chunk_at repo rows hit = Some c \<Longrightarrow> c \<in> xr_chunk ` set (rows_of repo rows)"
  unfolding chunk_at_def rows_of_def by (auto simp: find_Some_iff)

lemma hits_to_rows: "set (List.map_filter (chunk_at repo rows) hits) \<subseteq> xr_chunk ` set (rows_of repo rows)"
  unfolding map_filter_def using chunk_at_row [of repo rows] by fastforce

lemma keyword_search_rows:
  "keyword_search env query repo rows x = (Inr cs, y) \<Longrightarrow> set cs \<subseteq> xr_chunk ` set (rows_of repo rows)"
  unfolding keyword_search_def bind_result_def using hits_to_rows [of repo rows]
  by (auto split: if_splits prod.splits sum.splits)

text \<open>
  C26: A search shows an agent nothing but the index of its own repository: at most five chunks, each a
  row the indexing of this repository has written, and in the default mode none of them twice.\<close>

theorem search_shows_own_index:
  assumes "search_code env (Some repo) (Some rows) has_sandbox query mode x = (r, y)" "tr_success r"
  obtains cs where "tr_output r = PList (map to_dict cs)" "length cs \<le> 5"
    "set cs \<subseteq> xr_chunk ` set (rows_of repo rows)" "mode = ''hybrid'' \<Longrightarrow> distinct (map chunk_key cs)"
proof -
  obtain q z where i: "search_code_impl env query repo rows mode x = (q, z)" by fastforce
  have "\<exists>cs. q = Inr cs \<and> tr_output r = PList (map to_dict cs)"
    using assms i by (auto simp: search_code_def failure_def split: sum.splits search_exn.splits if_splits)
  then obtain cs where cs: "q = Inr cs" "tr_output r = PList (map to_dict cs)" by blast
  obtain sem y1 where sem: "(if mode = ''keyword'' then (Inr [], x) else semantic_search env query repo rows x) = (Inr sem, y1)"
    and kw: "\<exists>kw y2. (if mode = ''semantic'' then (Inr [], y1) else keyword_search env query repo rows y1) = (Inr kw, y2)
      \<and> cs = take HYBRID_RETURN (if mode = ''semantic'' then sem else if mode = ''keyword'' then kw
                                   else fuse (se_round env) sem kw)"
    using i cs(1) unfolding search_code_impl_def by (simp split: if_split_asm prod.split_asm sum.split_asm)
  obtain kw y2 where kw: "(if mode = ''semantic'' then (Inr [], y1) else keyword_search env query repo rows y1) = (Inr kw, y2)"
    "cs = take HYBRID_RETURN (if mode = ''semantic'' then sem else if mode = ''keyword'' then kw
                                else fuse (se_round env) sem kw)" using kw by blast
  let ?all = "if mode = ''semantic'' then sem else if mode = ''keyword'' then kw else fuse (se_round env) sem kw"
  have s: "set sem \<subseteq> xr_chunk ` set (rows_of repo rows)"
    using sem semantic_search_rows [of env query repo rows x sem y1] by (auto split: if_splits)
  have k: "set kw \<subseteq> xr_chunk ` set (rows_of repo rows)"
    using kw(1) keyword_search_rows [of env query repo rows y1 kw y2] by (auto split: if_splits)
  have "set ?all \<subseteq> xr_chunk ` set (rows_of repo rows)"
    using s k fuse_keys(1) [of "se_round env" sem kw] by auto
  then have "set cs \<subseteq> xr_chunk ` set (rows_of repo rows)"
    using kw(2) set_take_subset [of HYBRID_RETURN ?all] by blast
  moreover have "length cs \<le> 5" using kw(2) by (simp add: HYBRID_RETURN_def)
  moreover have "distinct (map chunk_key cs)" if "mode = ''hybrid''"
    using kw(2) that fuse_keys(2) [of "se_round env" sem kw] by (simp flip: take_map)
  ultimately show ?thesis using that cs(2) by blast
qed

definition demo_search_env :: "(nat, unit) search_env" where
  "demo_search_env = \<lparr>se_embed = (\<lambda>ts x. (Inr (map length ts), x)), se_distance = (\<lambda>a b. Some 0),
     se_exec = (\<lambda>c x. (Inr \<lparr>ex_exit_code = 1, ex_stdout = [], ex_stderr = [], ex_timed_out = False\<rparr>, x)),
     se_round = (\<lambda>x. x)\<rparr>"

definition demo_row :: "nat code_row" where
  "demo_row = \<lparr>xr_repo_path = ''/r'', xr_chunk = span_chunk ''a.py'' [''x = 1''] ''a.py'' ''module'' 1 1,
     xr_embedding = 0\<rparr>"

lemma search_shows_own_index_witness:
  "\<exists>cs. tr_output (fst (search_code demo_search_env (Some ''/r'') (Some [demo_row]) True ''x'' ''hybrid'' ())) = PList (map to_dict cs)
     \<and> length cs \<le> 5"
proof -
  let ?r = "search_code demo_search_env (Some ''/r'') (Some [demo_row]) True ''x'' ''hybrid'' ()"
  have ok: "tr_success (fst ?r)" by code_simp
  obtain r where ry: "?r = (r, ())" by (cases ?r) simp
  show ?thesis
    by (rule search_shows_own_index [OF ry]) (use ok in \<open>auto simp: ry\<close>)
qed

end
