(* ===== verification/SandboxManager.thy ===== *)
theory SandboxManager
  imports GitRepo PyNumbers "HOL-Library.AList" "HOL-Library.Char_ord"
begin

text \<open>
  \<open>amop/sandbox/manager.py\<close>: one container per task, its file and command plumbing and the table of
  live sandboxes.  The Docker client, \<open>tarfile\<close>, the thread that waits for a command, the clock and the
  host's directories are functions of an outside state \<open>'y\<close>; what comes out of a container is taken decoded.
\<close>

section \<open>Docker\<close>

text \<open>\<open>ImageNotFound\<close> is a \<open>NotFound\<close>.\<close>

datatype docker_exn = DockerNotFound | ImageNotFound | DockerError string

fun docker_text :: "docker_exn \<Rightarrow> string" where
  "docker_text DockerNotFound = ''not found''"
| "docker_text ImageNotFound = ''image not found''"
| "docker_text (DockerError e) = e"

record run_options =
  ro_image :: string
  ro_command :: "string list"
  ro_user :: string
  ro_working_dir :: string
  ro_volumes :: "(string \<times> string \<times> string) list"
  ro_network_mode :: string
  ro_nano_cpus :: int
  ro_mem_limit :: string
  ro_pids_limit :: int
  ro_cap_drop :: "string list"
  ro_init :: bool
  ro_labels :: "(string \<times> string) list"

record tar_entry =
  te_name :: string
  te_text :: string
  te_uid :: nat
  te_gid :: nat
  te_mode :: nat

type_synonym ('y, 'a) docker_call = "'y \<Rightarrow> (docker_exn, 'a) result \<times> 'y"

record 'y docker =
  dk_image_get :: "string \<Rightarrow> ('y, unit) docker_call"
  dk_image_build :: "string \<Rightarrow> string \<Rightarrow> ('y, unit) docker_call"
  dk_run :: "run_options \<Rightarrow> ('y, string) docker_call"
  dk_remove :: "string \<Rightarrow> ('y, unit) docker_call"
  dk_put_archive :: "string \<Rightarrow> string \<Rightarrow> tar_entry \<Rightarrow> ('y, unit) docker_call"
  dk_get_archive :: "string \<Rightarrow> string \<Rightarrow> ('y, (string \<times> string option) list) docker_call"
  dk_exec_create :: "string \<Rightarrow> string list \<Rightarrow> string \<Rightarrow> ('y, string) docker_call"
  dk_exec_start :: "string \<Rightarrow> ('y, string \<times> string) docker_call"
  dk_exec_exit_code :: "string \<Rightarrow> ('y, int option) docker_call"
  dk_thread_start :: "string \<Rightarrow> 'y \<Rightarrow> 'y"
  dk_thread_join :: "string \<Rightarrow> rat option \<Rightarrow> 'y \<Rightarrow> bool \<times> 'y"
  dk_thread_output :: "string \<Rightarrow> 'y \<Rightarrow> string \<times> string"
  dk_make_scratch_dir :: "string \<Rightarrow> ('y, unit) docker_call"
  dk_rmtree :: "string \<Rightarrow> 'y \<Rightarrow> 'y"
  dk_monotonic :: "'y \<Rightarrow> rat"
  dk_uuid_hex :: "'y \<Rightarrow> string \<times> 'y"

record sandbox_config =
  sc_image :: string
  sc_node_image :: string
  sc_nano_cpus :: int
  sc_memory_mb :: int
  sc_pids_limit :: int
  sc_max_lifetime :: rat

record sandbox_handle =
  sb_container :: string
  sb_task_id :: string
  sb_created_at :: rat
  sb_host_scratch_dir :: "string option"

definition CONTAINER_UID :: nat where "CONTAINER_UID = 1000"
definition TASK_LABEL :: string where "TASK_LABEL = ''amop.task_id''"
definition KILL_GRACE_SECONDS :: rat where "KILL_GRACE_SECONDS = 5"

definition STACK_IMAGES :: "sandbox_config \<Rightarrow> string \<rightharpoonup> string \<times> string" where
  "STACK_IMAGES cfg = [''python'' \<mapsto> (sc_image cfg, ''Dockerfile''),
     ''javascript'' \<mapsto> (sc_node_image cfg, ''Dockerfile.node''),
     ''typescript'' \<mapsto> (sc_node_image cfg, ''Dockerfile.node'')]"

definition then_call :: "('y, 'a) docker_call \<Rightarrow> ('a \<Rightarrow> ('y, 'b) docker_call) \<Rightarrow> ('y, 'b) docker_call" where
  "then_call m k y = (case m y of (Inl e, z) \<Rightarrow> (Inl e, z) | (Inr a, z) \<Rightarrow> k a z)"

section \<open>Inside a container\<close>

definition is_expired :: "'y docker \<Rightarrow> sandbox_config \<Rightarrow> sandbox_handle \<Rightarrow> 'y \<Rightarrow> bool" where
  "is_expired dk cfg sb y \<longleftrightarrow> dk_monotonic dk y - sb_created_at sb > sc_max_lifetime cfg"

definition raw_exec :: "'y docker \<Rightarrow> string \<Rightarrow> string list \<Rightarrow> ('y, exec_result) docker_call" where
  "raw_exec dk container argv =
     then_call (dk_exec_create dk container argv (nat_digits CONTAINER_UID)) (\<lambda>exec_id.
     then_call (dk_exec_start dk exec_id) (\<lambda>(out, err).
     then_call (dk_exec_exit_code dk exec_id) (\<lambda>code y.
       (Inr \<lparr>ex_exit_code = (case code of None \<Rightarrow> -1 | Some c \<Rightarrow> c), ex_stdout = out, ex_stderr = err,
             ex_timed_out = False\<rparr>, y))))"

text \<open>\<open>str(Path(p).parent)\<close> and \<open>Path(p).name\<close> of an absolute path.\<close>

definition path_parts :: "string \<Rightarrow> string list" where
  "path_parts p = filter (\<lambda>n. n \<noteq> [] \<and> n \<noteq> ''.'') (split_on CHR ''/'' p)"

definition parent_and_name :: "string \<Rightarrow> string \<times> string" where
  "parent_and_name p =
     (let parts = path_parts p
      in if parts = [] then (''/'', []) else (''/'' @ join_with ''/'' (butlast parts), last parts))"

definition container_write :: "'y docker \<Rightarrow> string \<Rightarrow> string \<Rightarrow> string \<Rightarrow> nat \<Rightarrow> ('y, unit) docker_call" where
  "container_write dk container container_path content mode =
     (let (parent, name) = parent_and_name container_path
      in then_call (raw_exec dk container [''mkdir'', ''-p'', parent]) (\<lambda>_.
           dk_put_archive dk container parent
             \<lparr>te_name = name, te_text = content, te_uid = CONTAINER_UID, te_gid = CONTAINER_UID, te_mode = mode\<rparr>))"

text \<open>\<open>None\<close> is a \<open>FileNotFoundError\<close>; \<open>getmember\<close> raises a \<open>KeyError\<close> for a name that is not there.\<close>

definition container_read :: "'y docker \<Rightarrow> string \<Rightarrow> string \<Rightarrow> ('y, string option) docker_call" where
  "container_read dk container container_path y =
     (case dk_get_archive dk container (''/'' @ join_with ''/'' (path_parts container_path)) y of
        (Inl (DockerError e), z) \<Rightarrow> (Inl (DockerError e), z)
      | (Inl _, z) \<Rightarrow> (Inr None, z)
      | (Inr members, z) \<Rightarrow>
          (case map_of members (snd (parent_and_name container_path)) of
             None \<Rightarrow> (Inl (DockerError ''filename not found''), z)
           | Some text \<Rightarrow> (Inr text, z)))"

text \<open>\<open>wc -c\<close>: the number in front of its output.\<close>

definition stat_size :: "'y docker \<Rightarrow> string \<Rightarrow> string \<Rightarrow> ('y, nat option) docker_call" where
  "stat_size dk container container_path =
     then_call (raw_exec dk container [''wc'', ''-c'', container_path]) (\<lambda>r y.
       if ex_exit_code r \<noteq> 0 then (Inr None, y)
       else let token = takeWhile (\<lambda>c. \<not> py_space c) (dropWhile py_space (ex_stdout r))
            in if token = [] then (Inl (DockerError ''list index out of range''), y)
               else if \<not> list_all (\<lambda>c. CHR ''0'' \<le> c \<and> c \<le> CHR ''9'') token
               then (Inl (DockerError ''invalid literal for int() with base 10''), y)
               else (Inr (Some (foldl (\<lambda>n c. 10 * n + (of_char c - 48)) 0 token)), y))"

text \<open>
  A command: its script records the process group before anything else; past the timeout the whole
  group gets a TERM and, if it is still there after the grace, a KILL.
\<close>

definition exec_script :: "string \<Rightarrow> string \<Rightarrow> string" where
  "exec_script pid_path command =
     ''#!/bin/sh'' @ [CHR 0x0A] @ ''echo $$ > '' @ pid_path @ [CHR 0x0A] @ command @ [CHR 0x0A]"

definition read_pgid :: "'y docker \<Rightarrow> string \<Rightarrow> string \<Rightarrow> ('y, string option) docker_call" where
  "read_pgid dk container pid_path =
     then_call (raw_exec dk container [''cat'', pid_path]) (\<lambda>r y.
       let text = py_strip (ex_stdout r)
       in (Inr (if text \<noteq> [] \<and> list_all (\<lambda>c. CHR ''0'' \<le> c \<and> c \<le> CHR ''9'') text then Some text else None), y))"

definition kill_group :: "'y docker \<Rightarrow> string \<Rightarrow> string \<Rightarrow> string \<Rightarrow> ('y, unit) docker_call" where
  "kill_group dk container exec_id pid_path =
     then_call (read_pgid dk container pid_path) (\<lambda>pgid. case pgid of
        None \<Rightarrow> (\<lambda>y. (Inr (), y))
      | Some g \<Rightarrow>
          then_call (raw_exec dk container [''kill'', ''-TERM'', ''-'' @ g]) (\<lambda>_ y.
            let (alive, z) = dk_thread_join dk exec_id (Some KILL_GRACE_SECONDS) y
            in if alive
               then then_call (raw_exec dk container [''kill'', ''-KILL'', ''-'' @ g])
                      (\<lambda>_ u. (Inr (), snd (dk_thread_join dk exec_id (Some 2) u))) z
               else (Inr (), z)))"

definition exec_run :: "'y docker \<Rightarrow> string \<Rightarrow> string \<Rightarrow> rat option \<Rightarrow> ('y, exec_result) docker_call" where
  "exec_run dk container command timeout y0 =
     (let (hex, y1) = dk_uuid_hex dk y0;
          script_path = ''/tmp/amop-exec-'' @ hex @ ''.sh'';
          pid_path = ''/tmp/amop-exec-'' @ hex @ ''.pid''
      in then_call (container_write dk container script_path (exec_script pid_path command) 0x1ED) (\<lambda>_.
         then_call (dk_exec_create dk container [''setsid'', ''-w'', ''sh'', script_path] (nat_digits CONTAINER_UID))
           (\<lambda>exec_id y.
              let (timed_out, y2) = dk_thread_join dk exec_id timeout (dk_thread_start dk exec_id y)
              in then_call (if timed_out then kill_group dk container exec_id pid_path else (\<lambda>z. (Inr (), z))) (\<lambda>_.
                 then_call (dk_exec_exit_code dk exec_id) (\<lambda>code u.
                   let (out, err) = dk_thread_output dk exec_id u
                   in then_call (raw_exec dk container [''rm'', ''-f'', script_path, pid_path]) (\<lambda>_ z.
                     (Inr \<lparr>ex_exit_code = (case code of None \<Rightarrow> -1 | Some c \<Rightarrow> c), ex_stdout = out,
                           ex_stderr = err, ex_timed_out = timed_out\<rparr>, z)) u)) y2)) y1)"

section \<open>The manager\<close>

type_synonym sandboxes = "(string \<times> sandbox_handle) list"

definition ensure_image :: "'y docker \<Rightarrow> sandbox_config \<Rightarrow> string \<Rightarrow> ('y, string) docker_call" where
  "ensure_image dk cfg stack y =
     (let (tag, dockerfile) = (case STACK_IMAGES cfg stack of
             Some i \<Rightarrow> i | None \<Rightarrow> (sc_image cfg, ''Dockerfile''))
      in case dk_image_get dk tag y of
           (Inl ImageNotFound, z) \<Rightarrow> then_call (dk_image_build dk dockerfile tag) (\<lambda>_ u. (Inr tag, u)) z
         | (Inl e, z) \<Rightarrow> (Inl e, z)
         | (Inr _, z) \<Rightarrow> (Inr tag, z))"

definition isolated_options :: "sandbox_config \<Rightarrow> string \<Rightarrow> string \<Rightarrow> string \<Rightarrow> run_options" where
  "isolated_options cfg image_tag task_id host_scratch_dir =
     \<lparr>ro_image = image_tag, ro_command = [''tail'', ''-f'', ''/dev/null''], ro_user = nat_digits CONTAINER_UID,
      ro_working_dir = ''/workspace'', ro_volumes = [(host_scratch_dir, ''/workspace'', ''rw'')],
      ro_network_mode = ''none'', ro_nano_cpus = sc_nano_cpus cfg,
      ro_mem_limit = int_str (sc_memory_mb cfg) @ ''m'', ro_pids_limit = sc_pids_limit cfg,
      ro_cap_drop = [''ALL''], ro_init = True, ro_labels = [(TASK_LABEL, task_id)]\<rparr>"

definition create ::
    "'y docker \<Rightarrow> sandbox_config \<Rightarrow> string \<Rightarrow> string \<Rightarrow> string \<Rightarrow> sandboxes \<Rightarrow> 'y
     \<Rightarrow> (docker_exn, sandbox_handle) result \<times> sandboxes \<times> 'y" where
  "create dk cfg task_id host_scratch_dir stack table y =
     (case then_call (ensure_image dk cfg stack) (\<lambda>image_tag.
             then_call (dk_make_scratch_dir dk host_scratch_dir) (\<lambda>_.
               dk_run dk (isolated_options cfg image_tag task_id host_scratch_dir))) y of
        (Inl e, z) \<Rightarrow> (Inl e, table, z)
      | (Inr container, z) \<Rightarrow>
          (let sb = \<lparr>sb_container = container, sb_task_id = task_id, sb_created_at = dk_monotonic dk z,
                     sb_host_scratch_dir = Some host_scratch_dir\<rparr>
           in (Inr sb, AList.update task_id sb table, z)))"

definition destroy ::
    "'y docker \<Rightarrow> string \<Rightarrow> bool \<Rightarrow> sandboxes \<Rightarrow> 'y \<Rightarrow> (docker_exn, unit) result \<times> sandboxes \<times> 'y" where
  "destroy dk task_id remove_scratch_dir table y =
     (case map_of table task_id of
        None \<Rightarrow> (Inr (), table, y)
      | Some sb \<Rightarrow>
          (let rest = AList.delete task_id table
           in case dk_remove dk (sb_container sb) y of
                (Inl (DockerError e), z) \<Rightarrow> (Inl (DockerError e), rest, z)
              | (_, z) \<Rightarrow>
                  (Inr (), rest, case sb_host_scratch_dir sb of
                     None \<Rightarrow> z | Some d \<Rightarrow> if remove_scratch_dir then dk_rmtree dk d z else z)))"

definition get_sandbox ::
    "'y docker \<Rightarrow> sandbox_config \<Rightarrow> string \<Rightarrow> sandboxes \<Rightarrow> 'y
     \<Rightarrow> (docker_exn, sandbox_handle option) result \<times> sandboxes \<times> 'y" where
  "get_sandbox dk cfg task_id table y =
     (case map_of table task_id of
        None \<Rightarrow> (Inr None, table, y)
      | Some sb \<Rightarrow>
          if is_expired dk cfg sb y
          then (case destroy dk task_id False table y of
                  (Inl e, t, z) \<Rightarrow> (Inl e, t, z) | (Inr _, t, z) \<Rightarrow> (Inr None, t, z))
          else (Inr (Some sb), table, y))"

text \<open>\<open>destroy_all\<close>: over the keys the table had at the start; an exception ends the loop.\<close>

fun destroy_each ::
    "'y docker \<Rightarrow> string list \<Rightarrow> sandboxes \<Rightarrow> 'y \<Rightarrow> (docker_exn, unit) result \<times> sandboxes \<times> 'y" where
  "destroy_each dk [] table y = (Inr (), table, y)"
| "destroy_each dk (k # ks) table y =
     (case destroy dk k False table y of
        (Inl e, t, z) \<Rightarrow> (Inl e, t, z) | (Inr _, t, z) \<Rightarrow> destroy_each dk ks t z)"

definition destroy_all ::
    "'y docker \<Rightarrow> sandboxes \<Rightarrow> 'y \<Rightarrow> (docker_exn, unit) result \<times> sandboxes \<times> 'y" where
  "destroy_all dk table y = destroy_each dk (map fst table) table y"

section \<open>What holds of the manager\<close>

text \<open>
  C16: Every container the manager starts for a task is cut off: no network, no capabilities, the
  unprivileged user, one mount (the task's own scratch directory) and the label the clean-up goes by.
  What Docker would do with any other options cannot make a difference.\<close>

theorem containers_are_isolated:
  assumes "\<And>opts. ro_network_mode opts = ''none'' \<Longrightarrow> ro_cap_drop opts = [''ALL''] \<Longrightarrow> ro_user opts = ''1000'' \<Longrightarrow>
      ro_volumes opts = [(dir, ''/workspace'', ''rw'')] \<Longrightarrow> ro_labels opts = [(''amop.task_id'', task_id)] \<Longrightarrow>
      run1 opts = run2 opts"
  shows "create (dk\<lparr>dk_run := run1\<rparr>) cfg task_id dir stack table y
    = create (dk\<lparr>dk_run := run2\<rparr>) cfg task_id dir stack table y"
proof -
  have e: "ensure_image (dk\<lparr>dk_run := r\<rparr>) cfg stack = ensure_image dk cfg stack" for r
    by (rule ext) (auto simp: ensure_image_def split: prod.split sum.split docker_exn.split)
  have u: "nat_digits 1000 = ''1000''" by code_simp
  have "run1 (isolated_options cfg tag task_id dir) = run2 (isolated_options cfg tag task_id dir)" for tag
    by (rule assms) (simp_all add: isolated_options_def TASK_LABEL_def CONTAINER_UID_def u)
  then show ?thesis by (simp add: create_def e then_call_def split: prod.split sum.split)
qed

definition demo_docker :: "unit docker" where
  "demo_docker = \<lparr>dk_image_get = (\<lambda>t y. (Inr (), y)), dk_image_build = (\<lambda>f t y. (Inr (), y)),
     dk_run = (\<lambda>opts y. (Inr ''c1'', y)), dk_remove = (\<lambda>c y. (Inr (), y)), dk_put_archive = (\<lambda>c p e y. (Inr (), y)),
     dk_get_archive = (\<lambda>c p y. (Inl DockerNotFound, y)), dk_exec_create = (\<lambda>c a u y. (Inr ''e1'', y)),
     dk_exec_start = (\<lambda>e y. (Inr ([], []), y)), dk_exec_exit_code = (\<lambda>e y. (Inr (Some 0), y)),
     dk_thread_start = (\<lambda>e y. y), dk_thread_join = (\<lambda>e t y. (False, y)), dk_thread_output = (\<lambda>e y. ([], [])),
     dk_make_scratch_dir = (\<lambda>d y. (Inr (), y)), dk_rmtree = (\<lambda>d y. y), dk_monotonic = (\<lambda>y. 0),
     dk_uuid_hex = (\<lambda>y. (''0'', y))\<rparr>"

definition demo_sandbox_config :: sandbox_config where
  "demo_sandbox_config = \<lparr>sc_image = ''amop'', sc_node_image = ''amop-node'', sc_nano_cpus = 1, sc_memory_mb = 512,
     sc_pids_limit = 64, sc_max_lifetime = 3600\<rparr>"

theorem containers_are_isolated_witness:
  "create (demo_docker\<lparr>dk_run := (\<lambda>opts y. (Inr ''c1'', y))\<rparr>) demo_sandbox_config ''t1'' ''/s/t1'' ''python'' [] ()
   = create (demo_docker\<lparr>dk_run := (\<lambda>opts y. (if ro_network_mode opts = ''bridge'' then Inl (DockerError ''exfiltrated'')
                                      else Inr ''c1'', y))\<rparr>) demo_sandbox_config ''t1'' ''/s/t1'' ''python'' [] ()"
  by (rule containers_are_isolated) simp

lemma keys_delete: "fst ` set (AList.delete k al) = fst ` set al - {k}"
  by (metis AList.delete_keys list.set_map set_removeAll)

lemma table_after_destroy:
  assumes "destroy dk task_id b table y = (r, t, z)" shows "t = AList.delete task_id table"
proof (cases "map_of table task_id")
  case None
  then have "task_id \<notin> fst ` set table" by (simp add: map_of_eq_None_iff)
  then show ?thesis using assms None by (simp add: destroy_def)
next
  case (Some sb)
  then show ?thesis using assms
    by (simp add: destroy_def Let_def split: prod.split_asm sum.split_asm docker_exn.split_asm)
qed

lemma destroyed_is_forgotten:
  "destroy dk task_id b table y = (r, t, z) \<Longrightarrow> fst ` set t = fst ` set table - {task_id}"
  using table_after_destroy keys_delete by metis

lemma destroy_all_forgets:
  "destroy_each dk ks table y = (Inr (), t, z) \<Longrightarrow> fst ` set t = fst ` set table - set ks"
proof (induction ks arbitrary: table y)
  case (Cons k ks)
  obtain r t1 z1 where d: "destroy dk k False table y = (r, t1, z1)" by (metis prod.exhaust)
  then have "destroy_each dk ks t1 z1 = (Inr (), t, z)" using Cons.prems by (auto split: sum.splits)
  from Cons.IH [OF this] destroyed_is_forgotten [OF d] show ?case by auto
qed simp

corollary destroy_all_leaves_none:
  assumes "destroy_all dk table y = (Inr (), t, z)" shows "t = []"
proof -
  have "fst ` set t = {}" using destroy_all_forgets [OF assms [unfolded destroy_all_def]] by simp
  then show ?thesis by simp
qed

end
