(* ===== verification/FixRun.thy ===== *)
theory FixRun
  imports Reconcile ChainTrail Memory SandboxManager
begin

text \<open>
  The set-up around a fix run in \<open>amop/orchestrator/chain.py\<close>: \<open>run_fix\<close> and \<open>resume_fix\<close> with their
  task slot, sandbox, index and memory, and \<open>run_fix_and_persist\<close>, which the API runs in the background.
  They are actions of the chain's kind over a \<open>site\<close>: the tables a run reads and writes besides the
  task's, the slot counters, and the outside state \<open>'y\<close> of Docker, the host and the agents.  The chain's git functions are those
  of \<open>GitRepo\<close> over \<open>exec_run\<close> of the sandbox just created; its memory is \<open>Memory\<close>'s.
\<close>

section \<open>Site and environment\<close>

record repository_row =
  rp_permission_overrides :: "pydict option"
  rp_detected_stack :: "pydict option"

record ('v, 'y) site =
  si_items :: "'v memory_item list"
  si_chunks :: "'v code_row list"
  si_repositories :: "string \<rightharpoonup> repository_row"
  si_slots :: slots
  si_outside :: 'y

text \<open>What the run puts into the agents' tool context.\<close>

record fix_context =
  fc_scratch_dir :: rpath
  fc_mode :: string
  fc_container :: string
  fc_repo_path :: string
  fc_permission_overrides :: "pydict option"
  fc_task_id :: string
  fc_stack :: string

record ('v, 'y) fix_env =
  fx_base :: "('v, 'y) site chain_env"
  fx_agents :: "fix_context \<Rightarrow> ('v, 'y) site chain_env"
  fx_recon :: "('v, 'y) site recon_env"
  fx_limits :: limits
  fx_scratch_root :: string
  fx_docker :: "'y docker"
  fx_sandbox :: sandbox_config
  fx_materialize :: "string \<Rightarrow> string \<Rightarrow> ('y, unit) outside"
  fx_tree :: "string \<Rightarrow> 'y \<Rightarrow> source_tree"
  fx_py_parse :: "string \<Rightarrow> py_node list option"
  fx_ts_parse :: "string \<Rightarrow> string \<Rightarrow> bool \<times> ts_node"
  fx_memory :: "('v, 'y) memory_env"
  fx_stale_text :: string
  fx_stage_text :: "stage \<Rightarrow> string"

definition on_outside :: "('y \<Rightarrow> (string, 'a) result \<times> 'y) \<Rightarrow> (('v, 'y) site, 'a) outside" where
  "on_outside f x = (case f (si_outside x) of (r, y) \<Rightarrow> (r, x\<lparr>si_outside := y\<rparr>))"

definition on_docker :: "('y, 'a) docker_call \<Rightarrow> (('v, 'y) site, 'a) outside" where
  "on_docker f = on_outside (\<lambda>y. case f y of (r, z) \<Rightarrow> (map_sum docker_text id r, z))"

definition on_git :: "('y, 'a) git \<Rightarrow> (('v, 'y) site, 'a) outside" where
  "on_git g = on_outside (\<lambda>y. case g y of (r, z) \<Rightarrow> (map_sum git_exn_text id r, z))"

definition lift_path :: "(path_error, 'a) result \<Rightarrow> ('x, 'a) action" where
  "lift_path r = (case r of Inl e \<Rightarrow> raise (OtherFailure (path_error_text e)) | Inr a \<Rightarrow> return a)"

text \<open>\<open>_git\<close> waits a minute for a command.\<close>

definition sandbox_exec :: "('v, 'y) fix_env \<Rightarrow> string \<Rightarrow> 'y exec" where
  "sandbox_exec env container command y =
     (case exec_run (fx_docker env) container command (Some 60) y of
        (Inl e, z) \<Rightarrow> (Inl (ExecFailed (docker_text e)), z)
      | (Inr r, z) \<Rightarrow> (Inr r, z))"

text \<open>
  The chain's environment for one run: what all runs share from \<open>fx_base\<close>, the agents and tools for
  this context, git in this container, the memory of this repository.
\<close>

definition chain_env_for :: "('v, 'y) fix_env \<Rightarrow> fix_context \<Rightarrow> ('v, 'y) site chain_env" where
  "chain_env_for env ctx =
     (let base = fx_base env; exec = sandbox_exec env (fc_container ctx)
      in (fx_agents env ctx)
        \<lparr>ce_hash := ce_hash base, ce_interference := ce_interference base, ce_polls := ce_polls base,
         ce_now := ce_now base, ce_scratch_dir := fc_scratch_dir ctx,
         ce_repo_path := Some (fc_repo_path ctx), ce_short_id := Some (take 12 (fc_container ctx)),
         ce_search_memory := (\<lambda>d x. case memory_for_prompt (fx_memory env) (fc_repo_path ctx) d (si_items x) (si_outside x) of
             (r, y) \<Rightarrow> (r, x\<lparr>si_outside := y\<rparr>)),
         ce_current_branch := on_git (current_branch exec), ce_current_sha := on_git (current_sha exec),
         ce_commit_all := (\<lambda>m. on_git (commit_all exec m)),
         ce_changed_files := on_git (changed_files exec GIT_BASE_BRANCH),
         ce_diff := on_git (diff_against_baseline exec GIT_BASE_BRANCH),
         ce_stash_if_dirty := on_git (stash_if_dirty exec), ce_pop_stash := on_git (pop_stash exec),
         ce_checkout := (\<lambda>b. on_git (checkout exec b)),
         ce_squash := (\<lambda>m. on_git (squash_wip_commits exec m))\<rparr>)"

section \<open>Memory of the run\<close>

definition MEMORY_WRITE_STATES :: "task_state set" where
  "MEMORY_WRITE_STATES = insert WAITING_FOR_APPROVAL TERMINAL_STATES"

definition record_incident_memory ::
    "('v, 'y) fix_env \<Rightarrow> string \<Rightarrow> chain_result \<Rightarrow> (('v, 'y) site, unit) action" where
  "record_incident_memory env repo_path result =
     (if res_final_state result \<notin> MEMORY_WRITE_STATES then return ()
      else (\<lambda>s. case write_incident_memory (fx_memory env) repo_path (cs_task s) result
                       (si_items (cs_env s)) (si_outside (cs_env s)) of
              (_, items, y) \<Rightarrow> (Inr (), s\<lparr>cs_env := (cs_env s)\<lparr>si_items := items, si_outside := y\<rparr>\<rparr>)))"

section \<open>Index and stack\<close>

definition stack_info_json :: "(string \<times> nat) list \<times> string option \<Rightarrow> pydict" where
  "stack_info_json info =
     [(''languages'', PDict (map (\<lambda>(l, n). (l, PInt (int n))) (fst info))), (''primary'', opt_str (snd info))]"

definition persist_detected_stack ::
    "string \<Rightarrow> pydict \<Rightarrow> (string \<rightharpoonup> repository_row) \<Rightarrow> string \<rightharpoonup> repository_row" where
  "persist_detected_stack normalized info repos =
     (case repos normalized of
        None \<Rightarrow> repos | Some row \<Rightarrow> repos(normalized \<mapsto> row\<lparr>rp_detected_stack := Some info\<rparr>))"

text \<open>The stack is written when the index commits: both are one transaction of the session.\<close>

definition index_step ::
    "('v, 'y) fix_env \<Rightarrow> string \<Rightarrow> string \<Rightarrow> string \<Rightarrow> pydict \<Rightarrow> (('v, 'y) site, unit) action" where
  "index_step env repo_path normalized scratch_path info =
     outside (\<lambda>x. case index_repo (fx_py_parse env) (fx_ts_parse env) (me_embed (fx_memory env)) repo_path
                        (fx_tree env scratch_path (si_outside x)) (si_chunks x) (si_outside x) of
          (Inl e, rows, y) \<Rightarrow> (Inl e, x\<lparr>si_outside := y\<rparr>)
        | (Inr n, rows, y) \<Rightarrow>
            (Inr (), x\<lparr>si_chunks := rows, si_outside := y,
                       si_repositories := persist_detected_stack normalized info (si_repositories x)\<rparr>))"

section \<open>The run\<close>

text \<open>One slot around a body; the counters are the site's.\<close>

definition limit_text :: "limit_error \<Rightarrow> string" where
  "limit_text e = (case e of ConcurrencyLimitExceeded scope limit repo \<Rightarrow>
     ''concurrency limit reached ('' @ scope @ '')'')"

definition slot_gate ::
    "('v, 'y) fix_env \<Rightarrow> string option \<Rightarrow> (('v, 'y) site, 'a) action \<Rightarrow> (('v, 'y) site, 'a) action" where
  "slot_gate env repo_path m s =
     (let put = (\<lambda>sl t. t\<lparr>cs_env := (cs_env t)\<lparr>si_slots := sl\<rparr>\<rparr>);
          base = fx_base env
      in case gated_by_task_slot (fs_links (ce_host base)) (link_budget (ce_host base)) (ce_cwd base)
                (fx_limits env) repo_path
                (\<lambda>sl. let (r, t) = m (put sl s) in (Inr (r, t) :: (unit, _) result, si_slots (cs_env t)))
                (si_slots (cs_env s)) of
           (Refused e, sl) \<Rightarrow> (Inl (OtherFailure (limit_text e)), s)
         | (BadRepoPath e, sl) \<Rightarrow> (Inl (OtherFailure (path_error_text e)), s)
         | (gated.Ended (Inl _), sl) \<Rightarrow> (Inl (OtherFailure []), s)
         | (gated.Ended (Inr (r, t)), sl) \<Rightarrow> (r, put sl t))"

text \<open>A sandbox around a body: destroyed, with its scratch directory, however the body ends.\<close>

definition with_sandbox ::
    "('v, 'y) fix_env \<Rightarrow> string \<Rightarrow> string \<Rightarrow> string \<Rightarrow> (string \<Rightarrow> (('v, 'y) site, 'a) action)
     \<Rightarrow> (('v, 'y) site, 'a) action" where
  "with_sandbox env task_id scratch_path stack body s =
     (let put = (\<lambda>y t. t\<lparr>cs_env := (cs_env t)\<lparr>si_outside := y\<rparr>\<rparr>)
      in case create (fx_docker env) (fx_sandbox env) task_id scratch_path stack [] (si_outside (cs_env s)) of
           (Inl e, table, y) \<Rightarrow> (Inl (OtherFailure (docker_text e)), put y s)
         | (Inr sb, table, y) \<Rightarrow>
             (let (r, t) = body (sb_container sb) (put y s)
              in case destroy (fx_docker env) task_id True table (si_outside (cs_env t)) of
                   (Inl e, _, z) \<Rightarrow> (Inl (OtherFailure (docker_text e)), put z t)
                 | (Inr _, _, z) \<Rightarrow> (r, put z t)))"

definition fix_branch :: "string \<Rightarrow> string" where
  "fix_branch task_id = ''amop/fix-'' @ take 8 (filter (\<lambda>c. c \<noteq> CHR ''-'') task_id)"

definition drive ::
    "('v, 'y) fix_env \<Rightarrow> fix_context \<Rightarrow> string \<Rightarrow> root_cause_report option \<Rightarrow> (('v, 'y) site, chain_result) action" where
  "drive env ctx description resume_report s =
     (case run_chain (chain_env_for env ctx) (me_repr (fx_memory env)) description resume_report
             (cs_task s) (cs_world s) (cs_env s) of
        (Inl e, t) \<Rightarrow> (Inl e, t)
      | (Inr _, t) \<Rightarrow> (Inr (cs_result t), t))"

text \<open>
  What \<open>run_fix\<close> and \<open>resume_fix\<close> have in common, from the scratch directory on; \<open>fresh\<close> says whether the
  repository is copied and the branch is made anew.  Connecting to Docker and building the agents are
  taken not to fail.
\<close>

definition work ::
    "('v, 'y) fix_env \<Rightarrow> string \<Rightarrow> string \<Rightarrow> bool \<Rightarrow> string \<Rightarrow> root_cause_report option
     \<Rightarrow> (('v, 'y) site, chain_result) action" where
  "work env repo_path mode fresh description resume_report =
     (let base = fx_base env;
          resolve = (\<lambda>p. resolve_from (fs_links (ce_host base)) (link_budget (ce_host base)) (ce_cwd base) p)
      in bind (get_state (\<lambda>s. tk_id (cs_task s))) (\<lambda>task_id.
         bind (lift_path (resolve (fx_scratch_root env @ ''/'' @ task_id))) (\<lambda>scratch.
         bind (lift_path (resolve repo_path)) (\<lambda>repo.
         andthen (if fresh then outside (on_outside (fx_materialize env repo_path (path_str scratch))) else return ())
         (bind (get_state (\<lambda>s. detect_stack (fx_tree env (path_str scratch) (si_outside (cs_env s))))) (\<lambda>stack_info.
          bind (lift_path (normalize_repo (fs_links (ce_host base)) (link_budget (ce_host base)) (ce_cwd base)
                  (path_str repo))) (\<lambda>normalized.
          let stack = (case snd stack_info of None \<Rightarrow> ''python'' | Some l \<Rightarrow> l)
          in with_sandbox env task_id (path_str scratch) stack (\<lambda>container.
             andthen (if fresh
                then bind (outside (on_git (init_baseline (sandbox_exec env container))))
                       (\<lambda>_. outside (on_git (create_branch (sandbox_exec env container) (fix_branch task_id))))
                else return ())
             (andthen (index_step env (path_str repo) normalized (path_str scratch) (stack_info_json stack_info))
             (bind (\<lambda>s. lift_path (load_permission_overrides (fs_links (ce_host base)) (link_budget (ce_host base))
                       (ce_cwd base) (Some (\<lambda>p. map_option rp_permission_overrides (si_repositories (cs_env s) p)))
                       (Some (path_str repo))) s) (\<lambda>overrides.
              bind (drive env \<lparr>fc_scratch_dir = scratch, fc_mode = mode, fc_container = container,
                       fc_repo_path = path_str repo, fc_permission_overrides = overrides, fc_task_id = task_id,
                       fc_stack = stack\<rparr> description resume_report) (\<lambda>result.
              andthen (record_incident_memory env (path_str repo) result) (return result)))))))))))))"

definition run_fix ::
    "('v, 'y) fix_env \<Rightarrow> string \<Rightarrow> string \<Rightarrow> string \<Rightarrow> (('v, 'y) site, chain_result) action" where
  "run_fix env description repo_path mode =
     slot_gate env (Some repo_path) (work env repo_path mode True description None)"

text \<open>A task that reconciliation parks is returned as it found it; nothing is run.\<close>

datatype resume_outcome = NotResumed reconcile_result | Resumed chain_result

definition recon_env_of :: "('v, 'y) fix_env \<Rightarrow> ('v, 'y) site recon_env" where
  "recon_env_of env = (fx_recon env)\<lparr>re_chain := fx_base env\<rparr>"

definition resume_fix :: "('v, 'y) fix_env \<Rightarrow> string \<Rightarrow> (('v, 'y) site, resume_outcome) action" where
  "resume_fix env mode = slot_gate env None
     (bind (reconcile (recon_env_of env)) (\<lambda>found.
      if \<not> rr_resumable found then return (NotResumed found)
      else bind (get_state (\<lambda>s. case tk_task_context (cs_task s) of None \<Rightarrow> [] | Some d \<Rightarrow> d)) (\<lambda>context.
        if \<not> truthy (dict_get context ''repo'')
        then raise (OtherFailure ''reconcile() returned resumable=True with no repo'')
        else bind (work env (py_str (dict_get context ''repo'')) mode (rr_needs_fresh_checkout found)
                     (case map_of context ''prompt'' of None \<Rightarrow> [] | Some v \<Rightarrow> py_str v) (rr_report found))
               (\<lambda>result. return (Resumed result)))))"

section \<open>In the background\<close>

definition tool_call_json :: "string \<times> tool_call_entry \<Rightarrow> pyval" where
  "tool_call_json p = (case p of (agent, c) \<Rightarrow> PDict
     [(''agent'', PStr agent), (''name'', tc_name c), (''args'', tc_args c), (''success'', PBool (tc_success c)),
      (''error_code'', opt_str (tc_error_code c)), (''message'', opt_str (tc_message c))])"

definition persist_chain_result ::
    "('v, 'y) fix_env \<Rightarrow> chain_result \<Rightarrow> (('v, 'y) site, unit) action" where
  "persist_chain_result env result = save_context (fx_base env)
     [(''final_state'', PStr (state_value (res_final_state result))), (''error'', opt_str (res_error result)),
      (''stages'', PList (map (PStr \<circ> fx_stage_text env) (res_stages result))),
      (''tool_calls'', PList (map tool_call_json (res_tool_calls result))), (''diff'', PStr (res_diff result))]"

fun chain_exn_text :: "string \<Rightarrow> chain_exn \<Rightarrow> string" where
  "chain_exn_text stale (ChainFailure t) = t"
| "chain_exn_text stale (OtherFailure t) = t"
| "chain_exn_text stale StaleTask = stale"
| "chain_exn_text stale (MoveFailed StillPaused) = []"
| "chain_exn_text stale (MoveFailed (IllegalMove (IllegalTransitionError a b))) =
     ''Illegal transition: '' @ state_value a @ '' -> '' @ state_value b @
     '' is not a valid state transition for the bug_fix task machine.''"
| "chain_exn_text stale (MoveFailed (ConcurrentUpdateError tid t)) =
     ''concurrent update on task '' @ tid @ '': another writer modified it '' @
     ''while this caller was attempting '' @ state_value t"

text \<open>
  The exception's own record: the task is read again and, unless it is at an end, moved where the
  table lets a failure go, with the error in its context; the pending context is written with the move, as one write.  An
  exception of this half is logged.
\<close>

definition record_background_failure ::
    "('v, 'y) fix_env \<Rightarrow> string \<Rightarrow> chain_exn \<Rightarrow> world \<Rightarrow> bool \<times> world" where
  "record_background_failure env task_id exc w =
     (let base = fx_base env; w1 = tick (ce_interference base) w; text = chain_exn_text (fx_stale_text env) exc
      in case get_task (w_store w1) task_id of
           None \<Rightarrow> (True, w1)
         | Some task \<Rightarrow>
             if tk_state task \<in> TERMINAL_STATES then (True, w1)
             else
               (let old = (case tk_task_context task of None \<Rightarrow> [] | Some d \<Rightarrow> d);
                    task' = task\<lparr>tk_task_context := Some (dict_put ''background_execution_error'' (PStr text) old)\<rparr>
                in case transition (ce_hash base) (ce_interference base) (ce_polls base) (ce_now base w1) task'
                          (failure_state (tk_state task)) (Some (''background execution failed: '' @ text))
                          ''system:background_task'' w1 of
                     (r, w2) \<Rightarrow> (r \<noteq> Inl StillPaused, w2)))"

text \<open>\<open>False\<close>: it still waits for the operator's pause to end after the polls looked at.\<close>

definition run_fix_and_persist ::
    "('v, 'y) fix_env \<Rightarrow> string \<Rightarrow> string \<Rightarrow> string \<Rightarrow> string \<Rightarrow> world \<Rightarrow> ('v, 'y) site \<Rightarrow> bool \<times> world \<times> ('v, 'y) site" where
  "run_fix_and_persist env task_id description repo_path mode w x =
     (let base = fx_base env; w1 = tick (ce_interference base) w
      in case get_task (w_store w1) task_id of
           None \<Rightarrow> (True, w1, x)
         | Some task \<Rightarrow>
             (case bind (run_fix env description repo_path mode) (persist_chain_result env)
                     \<lparr>cs_task = task, cs_world = w1, cs_env = x, cs_result = fresh_result base task, cs_locks = None\<rparr> of
                (Inr _, s) \<Rightarrow> (True, cs_world s, cs_env s)
              | (Inl (MoveFailed StillPaused), s) \<Rightarrow> (False, cs_world s, cs_env s)
              | (Inl exc, s) \<Rightarrow>
                  (let (b, w2) = record_background_failure env task_id exc (cs_world s) in (b, w2, cs_env s))))"

end
