(* ===== verification/FixProps.thy ===== *)
theory FixProps
  imports FixRun
begin

text \<open>
  What holds of a whole run, set-up included.  \<open>contract I ok m\<close> says that \<open>m\<close> keeps \<open>I\<close>, returning or
  raising, and that what it raises is \<open>ok\<close>.  The locale \<open>steady\<close> takes this of the two actions that touch
  the task and gives it for \<open>run_chain\<close>; \<open>steady_site\<close> takes it to \<open>run_fix\<close>, \<open>resume_fix\<close> and the
  background run.  It is interpreted twice: for the audit trail under any lawful interference, and for
  a run nobody interferes with.
\<close>

section \<open>Contracts of actions\<close>

definition contract :: "('x chain_state \<Rightarrow> bool) \<Rightarrow> (chain_exn \<Rightarrow> bool) \<Rightarrow> ('x, 'a) action \<Rightarrow> bool" where
  "contract I ok m \<longleftrightarrow> holds I m (\<lambda>_. I) (\<lambda>e s. ok e \<and> I s)"

definition tame :: "('x, 'a) action \<Rightarrow> bool" where
  "tame m \<longleftrightarrow> (\<forall>s e. fst (m s) = Inl e \<longrightarrow> e \<in> range ChainFailure \<union> range OtherFailure)"

named_theorems contract_rules
named_theorems tame_rules

lemma contractI:
  "(\<And>s r s'. I s \<Longrightarrow> m s = (r, s') \<Longrightarrow> I s' \<and> (\<forall>e. r = Inl e \<longrightarrow> ok e)) \<Longrightarrow> contract I ok m"
  unfolding contract_def holds_def by (auto split: prod.split sum.split)

lemma contractD:
  assumes "contract I ok m" "I s" "m s = (r, s')" shows "I s'" "r = Inl e \<Longrightarrow> ok e"
  using assms unfolding contract_def holds_def by (fastforce split: sum.splits, fastforce)

lemma contract_bind [contract_rules]:
  "contract I ok m \<Longrightarrow> (\<And>a. contract I ok (k a)) \<Longrightarrow> contract I ok (bind m k)"
  unfolding contract_def by (rule holds_bind)

lemma contract_andthen [contract_rules]:
  "contract I ok m \<Longrightarrow> contract I ok k \<Longrightarrow> contract I ok (andthen m k)"
  unfolding andthen_def by (rule contract_bind)

lemma contract_control [contract_rules]:
  "contract I ok m \<Longrightarrow> contract I ok n \<Longrightarrow> contract I ok (if b then m else n)"
  "contract I ok m \<Longrightarrow> (\<And>a. contract I ok (f a)) \<Longrightarrow> contract I ok (case x of None \<Rightarrow> m | Some a \<Rightarrow> f a)"
  "(\<And>a b. contract I ok (h a b)) \<Longrightarrow> contract I ok (case p of (a, b) \<Rightarrow> h a b)"
  by (simp_all split: option.split prod.split)

lemma contract_finally [contract_rules]:
  assumes "contract I ok m" "contract I ok c" shows "contract I ok (finally_do m c)"
proof (rule contractI)
  fix s r s' assume s: "I s" and b: "finally_do m c s = (r, s')"
  obtain q s1 where m: "m s = (q, s1)" by (metis prod.exhaust)
  obtain p s2 where c: "c s1 = (p, s2)" by (metis prod.exhaust)
  note mD = contractD [OF assms(1) s m] and cD = contractD [OF assms(2) contractD(1) [OF assms(1) s m] c]
  show "I s' \<and> (\<forall>e. r = Inl e \<longrightarrow> ok e)" using b m c mD cD by (cases p) (auto simp: finally_do_def)
qed

lemma contract_catch:
  assumes "contract I ok m" "\<And>exc. contract I ok (record_chain_failure env exc)"
  shows "contract I ok (catch_chain_failure env m)"
proof (rule contractI)
  fix s r s' assume s: "I s" and b: "catch_chain_failure env m s = (r, s')"
  obtain q s1 where m: "m s = (q, s1)" by (metis prod.exhaust)
  note mD = contractD [OF assms(1) s m] and cD = contractD [OF assms(2) contractD(1) [OF assms(1) s m]]
  show "I s' \<and> (\<forall>e. r = Inl e \<longrightarrow> ok e)" using b m mD cD
    by (auto simp: catch_chain_failure_def split: sum.splits chain_exn.splits)
qed

section \<open>Actions that raise only failures\<close>

lemma tameI: "(\<And>s e s'. m s = (Inl e, s') \<Longrightarrow> e \<in> range ChainFailure \<union> range OtherFailure) \<Longrightarrow> tame m"
  unfolding tame_def by (metis prod.collapse)

lemma tameD: "tame m \<Longrightarrow> m s = (Inl e, s') \<Longrightarrow> e \<in> range ChainFailure \<union> range OtherFailure"
  unfolding tame_def by (metis fst_conv)

lemma tame_raise [tame_rules]: "tame (raise (ChainFailure t))" "tame (raise (OtherFailure t))"
  by (simp_all add: tame_def raise_def)

lemma tame_plain [tame_rules]:
  "tame (return a)" "tame (get_state f)" "tame (set_result g)" "tame (stage m)" "tame (outside h)"
  "tame (record_tool_calls n r)" "tame release_repo_locks" "tame (\<lambda>s. (Inr (), w s))"
  by (auto simp: tame_def return_def get_state_def set_result_def stage_def outside_def record_tool_calls_def
      release_repo_locks_def split: prod.splits sum.splits)

lemma tame_bind [tame_rules]: "tame m \<Longrightarrow> (\<And>a. tame (k a)) \<Longrightarrow> tame (bind m k)"
  by (rule tameI, unfold bind_def, simp split: prod.splits sum.splits) (blast dest: tameD)+

lemma tame_andthen [tame_rules]: "tame m \<Longrightarrow> tame k \<Longrightarrow> tame (andthen m k)"
  unfolding andthen_def by (rule tame_bind)

lemma tame_control [tame_rules]:
  "tame m \<Longrightarrow> tame n \<Longrightarrow> tame (if b then m else n)"
  "tame m \<Longrightarrow> (\<And>a. tame (f a)) \<Longrightarrow> tame (case x of None \<Rightarrow> m | Some a \<Rightarrow> f a)"
  "(\<And>a b. tame (h a b)) \<Longrightarrow> tame (case p of (a, b) \<Rightarrow> h a b)"
  by (simp_all split: option.split prod.split)

lemma tame_finally [tame_rules]:
  assumes "tame m" "tame c" shows "tame (finally_do m c)"
proof (rule tameI)
  fix s e s' assume f: "finally_do m c s = (Inl e, s')"
  obtain q s1 where m: "m s = (q, s1)" by (metis prod.exhaust)
  obtain p s2 where c: "c s1 = (p, s2)" by (metis prod.exhaust)
  show "e \<in> range ChainFailure \<union> range OtherFailure"
  proof (cases p)
    case Inl
    then show ?thesis using f m c tameD [OF assms(2)] by (simp add: finally_do_def)
  next
    case Inr
    then show ?thesis using f m c tameD [OF assms(1)] by (simp add: finally_do_def)
  qed
qed

lemma tame_small [tame_rules]:
  "tame (retrieve_relevant_memory env d)" "tame (check_citations env report)"
  "tame (\<lambda>s. case f (cs_env s) of (_, x) \<Rightarrow> (Inr (), s\<lparr>cs_env := x\<rparr>))"
  by (rule tameI; simp add: retrieve_relevant_memory_def check_citations_def
      split: prod.splits sum.splits if_splits; blast)+

lemma tame_run_handoff_agent [tame_rules]: "tame (run_handoff_agent n a p)"
  unfolding run_handoff_agent_def by (intro tame_rules)

lemma tame_run_coder [tame_rules]: "tame (run_coder env report feedback tid)"
  unfolding run_coder_def Let_def by (intro tame_rules)

lemma tame_rerun_each [tame_rules]: "tame (rerun_each env ts results)"
proof (induction ts arbitrary: results)
  case Nil
  show ?case by (simp add: tame_plain)
next
  case (Cons t ts)
  then show ?case by (cases t) (simp only: rerun_each.simps, intro tame_rules)
qed

lemma tame_run_tester [tame_rules]: "tame (run_tester env tid description)"
  unfolding run_tester_def Let_def run_tests_ground_truth_def rerun_failing_tests_against_base_def
  by (intro tame_rules)

lemma tame_run_reviewer [tame_rules]: "tame (run_reviewer env report tests description tid)"
  unfolding run_reviewer_def by (intro tame_rules)

lemma tame_pr_parts [tame_rules]:
  "tame (get_diff env)" "tame (create_pull_request env report c d tid)"
  unfolding get_diff_def create_pull_request_def Let_def by (intro tame_rules)+

lemma tame_acquire [tame_rules]: "tame (acquire_repo_locks env report)"
  unfolding acquire_repo_locks_def Let_def by (auto intro!: tame_rules split: sum.split)

section \<open>From the task's two actions to a run\<close>

locale steady = run_invariant I env for I :: "'x chain_state \<Rightarrow> bool" and env :: "'x chain_env" +
  fixes ok :: "chain_exn \<Rightarrow> bool"
  assumes move_ok: "I s \<Longrightarrow> go env t actor trigger s = (Inl e, s') \<Longrightarrow> ok e"
    and failure_ok: "ok (ChainFailure msg)" "ok (OtherFailure msg)" "ok StaleTask"
begin

lemma calm_contract: "preserves vitals m \<Longrightarrow> tame m \<Longrightarrow> contract I ok m"
proof (rule contractI)
  assume m: "preserves vitals m" "tame m"
  fix s r s' assume s: "I s" and r: "m s = (r, s')"
  have "I s'" using after_other [OF s preservesD [OF m(1) r]] .
  moreover have "r = Inl e \<Longrightarrow> ok e" for e using tameD [OF m(2)] r failure_ok by blast
  ultimately show "I s' \<and> (\<forall>e. r = Inl e \<longrightarrow> ok e)" by blast
qed

lemma move_contract [contract_rules]: "contract I ok (go env t actor trigger)"
  by (rule contractI) (metis after_go move_ok)

lemma save_contract [contract_rules]: "contract I ok (save_context env d)"
proof (rule contractI)
  fix s r s' assume "I s" and s: "save_context env d s = (r, s')"
  then have "I s'" by (rule after_save)
  moreover have "r = Inl e \<Longrightarrow> e = StaleTask" for e
    using s by (auto simp: save_context_def Let_def split: if_splits option.splits)
  ultimately show "I s' \<and> (\<forall>e. r = Inl e \<longrightarrow> ok e)" using failure_ok by blast
qed

lemma contract_small [contract_rules]:
  "contract I ok (return a)" "contract I ok (get_state f)" "contract I ok (stage m)"
  "contract I ok (outside h)" "contract I ok (record_tool_calls n r)"
  by (rule calm_contract; intro preserves_rules tame_rules)+

lemma contract_set_result [contract_rules]:
  "(\<And>r. res_final_state (g r) = res_final_state r) \<Longrightarrow> contract I ok (set_result g)"
  by (rule calm_contract; intro preserves_rules tame_rules)

lemma contract_agents [contract_rules]:
  "contract I ok (retrieve_relevant_memory env d)" "contract I ok (check_citations env report)"
  "contract I ok (\<lambda>s. case f (cs_env s) of (_, x) \<Rightarrow> (Inr (), s\<lparr>cs_env := x\<rparr>))"
  "contract I ok release_repo_locks" "contract I ok (run_handoff_agent n a p)"
  "contract I ok (run_coder env report feedback tid)" "contract I ok (run_tester env tid description)"
  "contract I ok (run_reviewer env report tests description tid)" "contract I ok (get_diff env)"
  "contract I ok (create_pull_request env report c diff tid)" "contract I ok (acquire_repo_locks env report)"
  by (rule calm_contract; intro preserves_rules tame_rules)+

lemma squash_contract [contract_rules]: "contract I ok (squash_history env report c)"
  unfolding squash_history_def Let_def
  by (intro contract_rules; simp)

lemma piece_contracts [contract_rules]:
  "contract I ok (apply_size_cap_if_over env c diff)"
  "contract I ok (testing_stage env description)" "contract I ok (discard_no_op env ls)"
  "contract I ok (retry_failing_tests env ls tests)" "contract I ok (review_stage env report c tests description)"
  "contract I ok (after_review env ls c v)" "contract I ok (resume_from_report env report)"
  "contract I ok (record_chain_failure env exc)" "contract I ok (pr_stage env report c)"
  "contract I ok (park_investigation env report missing uncited)"
  unfolding apply_size_cap_if_over_def testing_stage_def discard_no_op_def retry_failing_tests_def
    review_stage_def after_review_def resume_from_report_def record_chain_failure_def pr_stage_def
    park_investigation_def Let_def
  by (intro contract_rules; simp)+

lemma coding_contract [contract_rules]: "contract I ok (coding_stage env report ls)"
  unfolding coding_stage_def
  by (intro contract_rules; simp)

lemma investigate_contract [contract_rules]: "contract I ok (investigate env fr description)"
  unfolding investigate_def Let_def
  by (intro contract_rules; simp)

lemma attempt_contract [contract_rules]: "contract I ok (attempt env report description ls)"
  unfolding attempt_def Let_def
  by (intro contract_rules; simp)

lemma loop_contract [contract_rules]: "contract I ok (chain_loop env report description ls)"
proof -
  have "e' = env \<Longrightarrow> I s \<Longrightarrow> chain_loop e' report description ls s = (r, s') \<Longrightarrow>
      I s' \<and> (\<forall>e. r = Inl e \<longrightarrow> ok e)" for e' s r s'
  proof (induction e' report description ls s arbitrary: r s' rule: chain_loop.induct)
    case (1 e' report description ls s)
    obtain q s1 where a: "attempt env report description ls s = (q, s1)" by (metis prod.exhaust)
    note aD = contractD [OF attempt_contract 1(3) a]
    show ?case using 1 a aD by (subst (asm) (2) chain_loop.simps) (auto split: sum.splits attempt_end.splits)
  qed
  then show ?thesis by (intro contractI) blast
qed

lemma body_contract [contract_rules]: "contract I ok (chain_body env fr description resume)"
  unfolding chain_body_def fix_report_def
  by (intro contract_rules; simp)

lemma run_contract:
  assumes "I (chain_start env task w x)" "run_chain env fr description resume task w x = (r, s')"
  shows "I s'" "r = Inl e \<Longrightarrow> ok e"
proof -
  have "contract I ok (finally_do (catch_chain_failure env (chain_body env fr description resume)) release_repo_locks)"
    by (intro contract_rules contract_catch)
  from contractD [OF this assms(1)] assms(2) show "I s'" "r = Inl e \<Longrightarrow> ok e"
    by (simp_all add: run_chain_def chain_start_def)
qed

end

section \<open>From a run to its set-up\<close>

lemma chain_env_same [simp]:
  "go (chain_env_for env ctx) = go (fx_base env)" "save_context (chain_env_for env ctx) = save_context (fx_base env)"
  by (intro ext, simp add: chain_env_for_def go_def save_context_def Let_def)+

locale steady_site = steady I "fx_base env" ok
  for I :: "('v, 'y) site chain_state \<Rightarrow> bool" and env :: "('v, 'y) fix_env" and ok :: "chain_exn \<Rightarrow> bool" +
  assumes row_only: "I s \<Longrightarrow> cs_task s' = cs_task s \<Longrightarrow> cs_world s' = cs_world s \<Longrightarrow> I s'"

sublocale steady_site \<subseteq> agents: steady I "chain_env_for env ctx" ok for ctx
  by unfold_locales (auto intro: after_go after_save after_other move_ok failure_ok)

context steady_site begin

lemma contract_lift_path [contract_rules]: "contract I ok (lift_path p)" "contract I ok (\<lambda>s. lift_path (f s) s)"
  by (rule contractI, auto simp: lift_path_def raise_def return_def failure_ok split: sum.splits)+

lemma contract_slot [contract_rules]:
  assumes "contract I ok m" shows "contract I ok (slot_gate env p m)"
proof (rule contractI)
  fix s r s' assume s: "I s" and g: "slot_gate env p m s = (r, s')"
  let ?put = "\<lambda>sl t. t\<lparr>cs_env := (cs_env t)\<lparr>si_slots := sl\<rparr>\<rparr>"
  have "I (?put sl s)" for sl by (rule row_only [OF s]) simp_all
  note mD = contractD [OF assms this]
  have put: "I t \<Longrightarrow> I (?put sl t)" for sl t by (rule row_only) simp_all
  show "I s' \<and> (\<forall>e. r = Inl e \<longrightarrow> ok e)"
    using g s mD put
    by (auto simp: slot_gate_def gated_by_task_slot_def task_slot_def Let_def failure_ok
        split: prod.splits sum.splits)
qed

lemma contract_sandbox [contract_rules]:
  assumes "\<And>c. contract I ok (body c)" shows "contract I ok (with_sandbox env tid d stack body)"
proof (rule contractI)
  fix s r s' assume s: "I s" and g: "with_sandbox env tid d stack body s = (r, s')"
  let ?put = "\<lambda>y t. t\<lparr>cs_env := (cs_env t)\<lparr>si_outside := y\<rparr>\<rparr>"
  have put: "I t \<Longrightarrow> I (?put y t)" for y t by (rule row_only) simp_all
  note mD = contractD [OF assms put [OF s]]
  show "I s' \<and> (\<forall>e. r = Inl e \<longrightarrow> ok e)"
    using g s mD put
    by (auto simp: with_sandbox_def Let_def failure_ok split: prod.splits sum.splits)
qed

lemma contract_memory [contract_rules]: "contract I ok (record_incident_memory env p result)"
  by (rule contractI)
    (auto simp: record_incident_memory_def return_def split: if_splits prod.splits elim!: row_only)

lemma contract_index [contract_rules]: "contract I ok (index_step env p n d info)"
  unfolding index_step_def by (intro contract_rules)

lemma contract_drive [contract_rules]: "contract I ok (drive env ctx description resume)"
proof (rule contractI)
  fix s r s' assume s: "I s" and d: "drive env ctx description resume s = (r, s')"
  obtain q t where c: "run_chain (chain_env_for env ctx) (me_repr (fx_memory env)) description resume
      (cs_task s) (cs_world s) (cs_env s) = (q, t)" by (metis prod.exhaust)
  have "I (chain_start (chain_env_for env ctx) (cs_task s) (cs_world s) (cs_env s))"
    by (rule row_only [OF s]) (simp_all add: chain_start_def)
  note run = agents.run_contract [OF this c]
  show "I s' \<and> (\<forall>e. r = Inl e \<longrightarrow> ok e)" using d c run by (auto simp: drive_def split: sum.splits)
qed

lemma contract_work [contract_rules]: "contract I ok (work env p mode new description resume)"
  unfolding work_def Let_def by (intro contract_rules)

lemma contract_run_fix [contract_rules]: "contract I ok (run_fix env description p mode)"
  unfolding run_fix_def by (intro contract_rules)

lemma contract_persist [contract_rules]: "contract I ok (persist_chain_result env result)"
  unfolding persist_chain_result_def by (intro contract_rules)

lemma base_env [simp]: "re_chain (recon_env_of env) = fx_base env"
  by (simp add: recon_env_of_def)

lemma contract_raise [contract_rules]: "contract I ok (raise (OtherFailure msg))"
  by (rule contractI) (auto simp: raise_def failure_ok)

lemma contract_attempt_outside [contract_rules]: "contract I ok (attempt_outside f)"
  by (rule calm_contract, rule vitals_same, simp_all add: attempt_outside_def tame_def split: prod.split sum.split)

lemma contract_recon_parts [contract_rules]:
  "contract I ok (to_human_input (recon_env_of env) reason)" "contract I ok (adopt_head (recon_env_of env) b h)"
  "contract I ok (git_action g)"
  unfolding to_human_input_def adopt_head_def git_action_def base_env by (intro contract_rules)+

lemma contract_load_report [contract_rules]: "contract I ok (load_report (recon_env_of env) d)"
  unfolding load_report_def Let_def
  by (cases "re_validate (recon_env_of env) (dict_get d ''root_cause_report'')";
      simp only: sum.case; intro contract_rules)

lemma contract_reconcile [contract_rules]: "contract I ok (reconcile (recon_env_of env))"
  unfolding reconcile_def inspect_scratch_def compare_head_def check_orphaned_pr_def Let_def
  by (intro contract_rules)

lemma contract_resume [contract_rules]: "contract I ok (resume_fix env mode)"
  unfolding resume_fix_def Let_def by (intro contract_rules)

end

section \<open>A run beside other writers\<close>

definition fix_on_record :: "('v, 'y) fix_env \<Rightarrow> store \<Rightarrow> string \<Rightarrow> ('v, 'y) site chain_state \<Rightarrow> bool" where
  "fix_on_record env s0 tid s \<longleftrightarrow>
     (lawful (ce_hash (fx_base env)) (ce_interference (fx_base env)) \<longrightarrow> on_record (fx_base env) s0 tid s)"

interpretation audited: steady_site "fix_on_record env s0 tid" env "\<lambda>_. True"
  for env :: "('v, 'y) fix_env" and s0 tid
proof unfold_locales
  fix s s' :: "('v, 'y) site chain_state" and t actor trigger r d q
  assume i: "fix_on_record env s0 tid s"
  show "fix_on_record env s0 tid s'" if "go (fx_base env) t actor trigger s = (r, s')"
    using trails.after_go [OF i [unfolded fix_on_record_def] that] unfolding fix_on_record_def .
  show "fix_on_record env s0 tid s'" if "save_context (fx_base env) d s = (q, s')"
    using trails.after_save [OF i [unfolded fix_on_record_def] that] unfolding fix_on_record_def .
  show "fix_on_record env s0 tid s'" if "vitals s' = vitals s"
    using trails.after_other [OF i [unfolded fix_on_record_def] that] unfolding fix_on_record_def .
  show "fix_on_record env s0 tid s'" if "cs_task s' = cs_task s" "cs_world s' = cs_world s"
    using i that by (simp add: fix_on_record_def on_record_def)
qed simp_all

section \<open>A run nobody interferes with\<close>

text \<open>The row in the store is the run's own copy, the operator has not paused anything.\<close>

definition alone :: "'x chain_env \<Rightarrow> string \<Rightarrow> 'x chain_state \<Rightarrow> bool" where
  "alone env tid s \<longleftrightarrow> ce_interference env = (\<lambda>n st. st) \<and> ce_polls env > 0 \<and> \<not> paused_now (w_store (cs_world s))
     \<and> tk_id (cs_task s) = tid \<and> st_tasks (w_store (cs_world s)) tid = Some (cs_task s)"

lemma stays_open:
  assumes "\<not> paused_now (w_store w)" "n > 0"
  shows "\<exists>s. wait_while_paused env n w = Some (w\<lparr>w_store := s\<rparr>)
     \<and> st_tasks s = st_tasks (w_store w) \<and> \<not> paused_now s"
  using wait_stays_open [OF assms(1), of env "n - 1"] assms(2) by simp

text \<open>Alone, a transition does what the table says.\<close>

lemma transition_alone:
  assumes "\<not> paused_now (w_store w)" "n > 0" "st_tasks (w_store w) (tk_id task) = Some row" "tk_version row = tk_version task"
  shows "\<exists>r w'. transition H (\<lambda>n st. st) n now task t trigger actor w = (r, w') \<and> \<not> paused_now (w_store w')
    \<and> (if legal (tk_state task) t
       then \<exists>task'. r = Inr task' \<and> tk_id task' = tk_id task \<and> tk_state task' = t \<and> st_tasks (w_store w') (tk_id task) = Some task'
       else r = Inl (IllegalMove (IllegalTransitionError (tk_state task) t))
         \<and> st_tasks (w_store w') = st_tasks (w_store w))"
proof -
  obtain s where w: "wait_while_paused (\<lambda>n st. st) n w = Some (w\<lparr>w_store := s\<rparr>)"
      "st_tasks s = st_tasks (w_store w)" "\<not> paused_now s"
    using stays_open [OF assms(1,2)] by blast
  obtain r s' where c: "commit_transition H now task t trigger actor s = (r, s')" by (metis prod.exhaust)
  have "transition H (\<lambda>n st. st) n now task t trigger actor w =
      (r, (tick (\<lambda>n st. st) (w\<lparr>w_store := s\<rparr>))\<lparr>w_store := s'\<rparr>)"
    using w(1) c by (simp add: transition_def Let_def tick_def)
  moreover from c have "\<not> paused_now s' \<and> (if legal (tk_state task) t
       then \<exists>task'. r = Inr task' \<and> tk_id task' = tk_id task \<and> tk_state task' = t \<and> st_tasks s' (tk_id task) = Some task'
       else r = Inl (IllegalMove (IllegalTransitionError (tk_state task) t)) \<and> st_tasks s' = st_tasks (w_store w))"
    by (cases rule: commit_cases) (use w assms(3,4) in \<open>auto simp: paused_now_def\<close>)
  ultimately show ?thesis by auto
qed

lemma go_alone:
  assumes "alone env tid s" "go env t actor trigger s = (r, s')"
  shows "alone env tid s'" "r \<noteq> Inl (MoveFailed StillPaused)"
proof -
  let ?task = "cs_task s"
  note a = assms(1) [unfolded alone_def]
  have row: "st_tasks (w_store (cs_world s)) (tk_id ?task) = Some ?task" using a by blast
  have open1: "\<not> paused_now (w_store (cs_world s))" "ce_polls env > 0" using a by blast+
  obtain q w where q: "transition (ce_hash env) (\<lambda>n st. st) (ce_polls env) (ce_now env (cs_world s)) ?task t trigger actor
        (cs_world s) = (q, w)" "\<not> paused_now (w_store w)"
    and out: "if legal (tk_state ?task) t
       then \<exists>task'. q = Inr task' \<and> tk_id task' = tk_id ?task \<and> tk_state task' = t \<and> st_tasks (w_store w) (tk_id ?task) = Some task'
       else q = Inl (IllegalMove (IllegalTransitionError (tk_state ?task) t))
         \<and> st_tasks (w_store w) = st_tasks (w_store (cs_world s))"
    using transition_alone [OF open1 row refl] by blast
  have "q \<noteq> Inl StillPaused \<and> (\<forall>i u. q \<noteq> Inl (ConcurrentUpdateError i u))"
    using out by (auto split: if_splits)
  then have loop: "transition_with_retry (ce_hash env) (\<lambda>n st. st) (ce_polls env) (ce_now env (cs_world s)) ?task t trigger actor
      MAX_OCC_RETRIES (cs_world s) = (q, w)"
    using q(1) by (simp add: transition_with_retry_def MAX_OCC_RETRIES_def eval_nat_numeral
        split: sum.split task_error.split)
  have env: "ce_interference env = (\<lambda>n st. st)" using a by blast
  show "r \<noteq> Inl (MoveFailed StillPaused)"
    using assms(2) out loop env by (auto simp: go_def split: if_splits)
  show "alone env tid s'"
    using assms(2) out loop env q(2) a by (auto simp: go_def alone_def split: if_splits)
qed

lemma save_alone:
  assumes "alone env tid s" "save_context env d s = (r, s')" shows "alone env tid s'"
  using assms by (auto simp: save_context_def alone_def tick_def paused_now_def Let_def split: if_splits)

interpretation alone: steady_site "alone (fx_base env) tid" env "\<lambda>e. e \<noteq> MoveFailed StillPaused"
  for env :: "('v, 'y) fix_env" and tid
proof unfold_locales
  fix s s' :: "('v, 'y) site chain_state" and t actor trigger r d q e
  assume i: "alone (fx_base env) tid s"
  show "alone (fx_base env) tid s'" if "go (fx_base env) t actor trigger s = (r, s')"
    using go_alone(1) [OF i that] .
  show "e \<noteq> MoveFailed StillPaused" if "go (fx_base env) t actor trigger s = (Inl e, s')"
    using go_alone(2) [OF i that] by simp
  show "alone (fx_base env) tid s'" if "save_context (fx_base env) d s = (q, s')"
    using save_alone [OF i that] .
  show "alone (fx_base env) tid s'" if "vitals s' = vitals s"
    using i that by (simp add: alone_def vitals_def)
  show "alone (fx_base env) tid s'" if "cs_task s' = cs_task s" "cs_world s' = cs_world s"
    using i that by (simp add: alone_def)
qed simp_all

section \<open>Where a whole run ends\<close>

lemma run_chain_parks:
  assumes "run_chain env fr d resume task w x = (Inr u, s)"
  shows "whereabouts s = (tk_state (cs_task s), tk_state (cs_task s)) \<and> tk_state (cs_task s) \<in> run_ends"
proof -
  obtain s1 where c: "catch_chain_failure env (chain_body env fr d resume) (chain_start env task w x) = (Inr u, s1)"
      "s = s1\<lparr>cs_locks := None\<rparr>"
    using assms by (auto simp: run_chain_outcome Let_def split: prod.splits)
  have "synced (chain_start env task w x)"
    by (simp add: synced_def whereabouts_def chain_start_def fresh_result_def)
  then have "synced s1" by (rule keepsD [OF ends.body_caught _ c(1)])
  moreover have "parked s1" using holdsD(1) [OF catch_parks [OF chain_body_parks] TrueI c(1)] .
  ultimately show ?thesis using c(2) by (simp add: synced_def whereabouts_def)
qed

text \<open>A run that returns hands back the state its task is in, one of the ends.\<close>

abbreviation (input) reported :: "chain_result \<Rightarrow> ('v, 'y) site chain_state \<Rightarrow> bool" where
  "reported result s \<equiv> res_final_state result = tk_state (cs_task s) \<and> tk_state (cs_task s) \<in> run_ends"

lemma drive_reports: "holds P (drive env ctx d resume) reported anything"
  unfolding holds_def
  by (auto simp: drive_def whereabouts_def dest: run_chain_parks split: prod.split sum.split)

lemma memory_calm: "record_incident_memory env p result s = (r, s') \<Longrightarrow> r = Inr () \<and> cs_task s' = cs_task s"
  by (auto simp: record_incident_memory_def return_def split: if_splits prod.splits)

lemma sandbox_holds:
  assumes "\<And>c. holds (\<lambda>_. True) (body c) Q anything" "\<And>a s x. Q a s \<Longrightarrow> Q a (s\<lparr>cs_env := x\<rparr>)"
  shows "holds (\<lambda>_. True) (with_sandbox env tid d stack body) Q anything"
  unfolding holds_def
proof (intro allI impI)
  fix s
  have b: "body c t = (Inr a, u) \<Longrightarrow> Q a (u\<lparr>cs_env := x\<rparr>)" for c t a u x
    by (rule assms(2)) (rule holdsD(1) [OF assms(1) TrueI])
  show "case with_sandbox env tid d stack body s of (Inl e, s') \<Rightarrow> True | (Inr a, s') \<Rightarrow> Q a s'"
    by (auto simp: with_sandbox_def Let_def intro: b split: prod.split sum.split)
qed

lemma slot_holds:
  assumes "holds (\<lambda>_. True) m Q anything" "\<And>a s x. Q a s \<Longrightarrow> Q a (s\<lparr>cs_env := x\<rparr>)"
  shows "holds (\<lambda>_. True) (slot_gate env p m) Q anything"
  unfolding holds_def
proof (intro allI impI)
  fix s
  have b: "m t = (Inr a, u) \<Longrightarrow> Q a (u\<lparr>cs_env := x\<rparr>)" for t a u x
    by (rule assms(2)) (rule holdsD(1) [OF assms(1) TrueI])
  show "case slot_gate env p m s of (Inl e, s') \<Rightarrow> True | (Inr a, s') \<Rightarrow> Q a s'"
    by (auto simp: slot_gate_def gated_by_task_slot_def task_slot_def Let_def intro: b
        split: prod.splits sum.splits)
qed

lemma work_reports: "holds (\<lambda>_. True) (work env p mode new d resume) reported anything"
  unfolding work_def Let_def
  apply (rule holds_bind_top, rule holds_bind_top, rule holds_bind_top, rule holds_andthen_top, rule holds_bind_top,
      rule holds_bind_top)
  apply (rule sandbox_holds)
   apply (rule holds_andthen_top, rule holds_andthen_top, rule holds_bind_top, rule holds_bind [OF drive_reports])
   apply (auto simp: holds_def andthen_def bind_def return_def dest: memory_calm split: prod.split sum.split)
  done

lemma run_fix_reports: "holds (\<lambda>_. True) (run_fix env d p mode) reported anything"
  unfolding run_fix_def by (rule slot_holds [OF work_reports]) simp

section \<open>The background run\<close>

lemma failure_recorded:
  assumes "lawful (ce_hash (fx_base env)) (ce_interference (fx_base env))" "trail_inv (ce_hash (fx_base env)) (w_store w)"
    and "record_background_failure env tid exc w = (b, w')"
  shows "accounted (ce_hash (fx_base env)) (w_store w) (w_store w')"
proof -
  let ?base = "fx_base env" and ?w1 = "tick (ce_interference (fx_base env)) w"
  have t: "accounted (ce_hash ?base) (w_store w) (w_store ?w1)" using accounted_tick [OF assms(1,2)] .
  then have inv: "trail_inv (ce_hash ?base) (w_store ?w1)" by (simp add: accounted_def)
  show ?thesis
  proof (cases "get_task (w_store ?w1) tid")
    case None
    then show ?thesis using assms(3) t by (simp add: record_background_failure_def Let_def)
  next
    case (Some task)
    then have tr: "tracks (w_store ?w1) task" using tracks_row [OF inv] by (simp add: get_task_def)
    then have tr': "tracks (w_store ?w1) (task\<lparr>tk_task_context := c\<rparr>)" for c by (simp add: tracks_def)
    show ?thesis
    proof (cases "tk_state task \<in> TERMINAL_STATES")
      case True
      then show ?thesis using assms(3) Some t by (simp add: record_background_failure_def Let_def)
    next
      case False
      then obtain c r w2 where x: "transition (ce_hash ?base) (ce_interference ?base) (ce_polls ?base) (ce_now ?base ?w1)
          (task\<lparr>tk_task_context := c\<rparr>) (failure_state (tk_state task))
          (Some (''background execution failed: '' @ chain_exn_text (fx_stale_text env) exc))
          ''system:background_task'' ?w1 = (r, w2)" "w' = w2"
        using assms(3) Some unfolding record_background_failure_def Let_def by (simp split: prod.splits)
      from accounted_transition [OF assms(1) inv tr' x(1)] show ?thesis
        using accounted_trans [OF t] x(2) by blast
    qed
  qed
qed

definition background_start :: "('v, 'y) fix_env \<Rightarrow> task_row \<Rightarrow> world \<Rightarrow> ('v, 'y) site \<Rightarrow> ('v, 'y) site chain_state" where
  "background_start env task w x =
     \<lparr>cs_task = task, cs_world = w, cs_env = x, cs_result = fresh_result (fx_base env) task, cs_locks = None\<rparr>"

lemma background_outcome:
  assumes "get_task (w_store (tick (ce_interference (fx_base env)) w)) tid = Some task"
    and "bind (run_fix env d p mode) (persist_chain_result env)
           (background_start env task (tick (ce_interference (fx_base env)) w) x) = (r, s)"
  shows "run_fix_and_persist env tid d p mode w x =
     (case r of
        Inr _ \<Rightarrow> (True, cs_world s, cs_env s)
      | Inl exc \<Rightarrow>
          if exc = MoveFailed StillPaused then (False, cs_world s, cs_env s)
          else (let (b, w2) = record_background_failure env tid exc (cs_world s) in (b, w2, cs_env s)))"
  using assms unfolding run_fix_and_persist_def background_start_def Let_def
  by (simp split: sum.split chain_exn.split task_error.split)

lemma background_accounted:
  assumes "lawful (ce_hash (fx_base env)) (ce_interference (fx_base env))" "trail_inv (ce_hash (fx_base env)) (w_store w)"
    and "run_fix_and_persist env tid d p mode w x = (b, w', x')"
  shows "accounted (ce_hash (fx_base env)) (w_store w) (w_store w')"
proof -
  let ?base = "fx_base env" and ?w1 = "tick (ce_interference (fx_base env)) w"
  have t: "accounted (ce_hash ?base) (w_store w) (w_store ?w1)" using accounted_tick [OF assms(1,2)] .
  then have inv: "trail_inv (ce_hash ?base) (w_store ?w1)" by (simp add: accounted_def)
  show ?thesis
  proof (cases "get_task (w_store ?w1) tid")
    case None
    then show ?thesis using assms(3) t by (simp add: run_fix_and_persist_def Let_def)
  next
    case (Some task)
    have "on_record ?base (w_store ?w1) (tk_id task) (background_start env task ?w1 x)"
      using tracks_row [OF inv] Some inv by (simp add: on_record_def background_start_def get_task_def accounted_def)
    then have i0: "fix_on_record env (w_store ?w1) (tk_id task) (background_start env task ?w1 x)"
      by (simp add: fix_on_record_def)
    have c: "contract (fix_on_record env (w_store ?w1) (tk_id task)) (\<lambda>_. True)
        (bind (run_fix env d p mode) (persist_chain_result env))"
      by (intro contract_bind audited.contract_run_fix audited.contract_persist)
    obtain r s where r: "bind (run_fix env d p mode) (persist_chain_result env) (background_start env task ?w1 x) = (r, s)"
      by (metis prod.exhaust)
    have "accounted (ce_hash ?base) (w_store ?w1) (w_store (cs_world s))"
      using contractD(1) [OF c i0 r] assms(1) by (simp add: fix_on_record_def on_record_def)
    then have s: "accounted (ce_hash ?base) (w_store w) (w_store (cs_world s))" by (rule accounted_trans [OF t])
    then have inv2: "trail_inv (ce_hash ?base) (w_store (cs_world s))" by (simp add: accounted_def)
    have "w' = cs_world s \<or> (\<exists>exc b. record_background_failure env tid exc (cs_world s) = (b, w'))"
      using assms(3) background_outcome [OF Some r] by (auto split: sum.splits if_splits prod.splits)
    then show ?thesis using s failure_recorded [OF assms(1) inv2] accounted_trans [OF s] by blast
  qed
qed

text \<open>
  C14: The background run refines the task's lifecycle.  If the other writers keep the audit trail and never
  lose or silently change a row, then whatever the checkout, Docker, git, the index, the memory and the
  agents do, and also when the set-up or the clean-up fails and the failure is written down, the store
  still accounts for every task: no task is lost, none goes back to an older version, and the recorded
  moves of each lead from \<open>CREATED\<close> to its state.\<close>

theorem background_run_refines_lifecycle:
  assumes "lawful (ce_hash (fx_base env)) (ce_interference (fx_base env))"
    and "trail_inv (ce_hash (fx_base env)) (w_store w)"
  shows "let (_, w', _) = run_fix_and_persist env task_id description repo_path mode w x in
     trail_inv (ce_hash (fx_base env)) (w_store w')
     \<and> (\<forall>tid row. st_tasks (w_store w) tid = Some row \<longrightarrow>
          (\<exists>row'. st_tasks (w_store w') tid = Some row' \<and> tk_version row \<le> tk_version row'
             \<and> leads CREATED (trail tid (contents (st_audit (w_store w')))) (tk_state row')))"
proof -
  obtain b w' x' where r: "run_fix_and_persist env task_id description repo_path mode w x = (b, w', x')"
    by (metis prod.exhaust)
  have a: "trail_inv (ce_hash (fx_base env)) (w_store w')" "grows (w_store w) (w_store w')"
    using background_accounted [OF assms r] by (simp_all add: accounted_def)
  have "\<exists>row'. st_tasks (w_store w') tid = Some row' \<and> tk_version row \<le> tk_version row'
      \<and> leads CREATED (trail tid (contents (st_audit (w_store w')))) (tk_state row')"
    if row: "st_tasks (w_store w) tid = Some row" for tid row
  proof -
    obtain row' where "st_tasks (w_store w') tid = Some row'" "tk_version row \<le> tk_version row'"
      using a(2) row unfolding grows_def by fastforce
    then show ?thesis using a(1) by (auto simp: trail_inv_def)
  qed
  then show ?thesis using r a(1) by simp
qed

section \<open>The background run alone\<close>

lemma failure_recorded_alone:
  assumes "ce_interference (fx_base env) = (\<lambda>n st. st)" "ce_polls (fx_base env) > 0" "\<not> paused_now (w_store w)"
    and row: "st_tasks (w_store w) tid = Some task" and i: "tk_id task = tid"
  shows "\<exists>w' row. record_background_failure env tid exc w = (True, w')
    \<and> st_tasks (w_store w') tid = Some row \<and> tk_state row \<in> run_ends \<union> TERMINAL_STATES"
proof -
  have w: "w_store (tick (\<lambda>n st. st) w) = w_store w" by (simp add: tick_def)
  show ?thesis
  proof (cases "tk_state task \<in> TERMINAL_STATES")
    case True
    then show ?thesis using assms w by (auto simp: record_background_failure_def get_task_def Let_def)
  next
    case False
    define task' where "task' = task\<lparr>tk_task_context := Some (dict_put ''background_execution_error''
      (PStr (chain_exn_text (fx_stale_text env) exc)) (case tk_task_context task of None \<Rightarrow> [] | Some d \<Rightarrow> d))\<rparr>"
    have t: "tk_id task' = tid" "tk_state task' = tk_state task" "tk_version task = tk_version task'"
      using i by (simp_all add: task'_def)
    let ?w = "tick (\<lambda>n st. st) w"
    have p: "\<not> paused_now (w_store ?w)" "st_tasks (w_store ?w) (tk_id task') = Some task"
      using assms(3) row t(1) w by simp_all
    have legal: "legal (tk_state task') (failure_state (tk_state task))" using failure_state_legal [OF False] t by simp
    from transition_alone [OF p(1) assms(2) p(2) t(3), of "ce_hash (fx_base env)" "ce_now (fx_base env) ?w"
        "failure_state (tk_state task)" "Some (''background execution failed: '' @ chain_exn_text (fx_stale_text env) exc)"
        "''system:background_task''"]
    obtain r w2 new where tr: "transition (ce_hash (fx_base env)) (\<lambda>n st. st) (ce_polls (fx_base env)) (ce_now (fx_base env) ?w) task'
        (failure_state (tk_state task)) (Some (''background execution failed: '' @ chain_exn_text (fx_stale_text env) exc))
        ''system:background_task'' ?w = (r, w2)" "r = Inr new" "tk_state new = failure_state (tk_state task)"
        "st_tasks (w_store w2) tid = Some new"
      unfolding if_P [OF legal] t(1) by blast
    have "record_background_failure env tid exc w = (True, w2)"
      using assms(1) row w False tr(1,2)
      by (simp add: record_background_failure_def get_task_def Let_def task'_def [symmetric])
    then show ?thesis using tr(3,4) failure_state_ends by auto
  qed
qed

lemma run_settles:
  assumes "ce_interference (fx_base env) = (\<lambda>n st. st)" "ce_polls (fx_base env) > 0" "\<not> paused_now (w_store w)"
    and "st_tasks (w_store w) task_id = Some task" "tk_id task = task_id"
  shows "\<exists>w' y row. run_fix_and_persist env task_id description repo_path mode w x = (True, w', y)
    \<and> st_tasks (w_store w') task_id = Some row \<and> tk_state row \<in> run_ends \<union> TERMINAL_STATES"
proof -
  let ?w1 = "tick (ce_interference (fx_base env)) w"
  have w1: "w_store ?w1 = w_store w" using assms(1) by (simp add: tick_def)
  have g: "get_task (w_store ?w1) task_id = Some task" using assms(4) w1 by (simp add: get_task_def)
  let ?s0 = "background_start env task ?w1 x" and ?m = "bind (run_fix env description repo_path mode) (persist_chain_result env)"
  have i0: "alone (fx_base env) task_id ?s0" using assms w1 by (simp add: alone_def background_start_def)
  have c: "contract (alone (fx_base env) task_id) (\<lambda>e. e \<noteq> MoveFailed StillPaused) ?m"
    by (intro contract_bind alone.contract_run_fix alone.contract_persist)
  obtain r s where r: "?m ?s0 = (r, s)" by (metis prod.exhaust)
  note s = contractD(1) [OF c i0 r, unfolded alone_def]
  have "\<exists>w' row. run_fix_and_persist env task_id description repo_path mode w x = (True, w', cs_env s)
    \<and> st_tasks (w_store w') task_id = Some row \<and> tk_state row \<in> run_ends \<union> TERMINAL_STATES"
  proof (cases r)
    case (Inl e)
    obtain w' row where f: "record_background_failure env task_id e (cs_world s) = (True, w')"
        "st_tasks (w_store w') task_id = Some row" "tk_state row \<in> run_ends \<union> TERMINAL_STATES"
      using failure_recorded_alone [OF assms(1,2), of "cs_world s" task_id "cs_task s" e] s by blast
    then show ?thesis
      using background_outcome [OF g r] Inl contractD(2) [OF c i0 r Inl] by simp
  next
    case (Inr u)
    obtain result s1 where m: "run_fix env description repo_path mode ?s0 = (Inr result, s1)"
        "persist_chain_result env result s1 = (Inr u, s)"
      using bind_returned [OF r [unfolded Inr]] by blast
    have "tk_state (cs_task s) = tk_state (cs_task s1)"
      using preservesD [OF calm_save_context m(2) [unfolded persist_chain_result_def]] by (simp add: whereabouts_def)
    then have "tk_state (cs_task s) \<in> run_ends" using holdsD(1) [OF run_fix_reports TrueI m(1)] by simp
    then show ?thesis using background_outcome [OF g r] Inr s by simp
  qed
  then show ?thesis by blast
qed


section \<open>Resuming\<close>

definition stopped_for_human :: "reconcile_result \<Rightarrow> ('v, 'y) site chain_state \<Rightarrow> bool" where
  "stopped_for_human found s \<longleftrightarrow> tk_state (cs_task s) = NEEDS_HUMAN_INPUT \<and> rr_reason found \<in> recon_reasons"

abbreviation (input) resume_end :: "resume_outcome \<Rightarrow> ('v, 'y) site chain_state \<Rightarrow> bool" where
  "resume_end out s \<equiv> (case out of
     NotResumed found \<Rightarrow> stopped_for_human found s
   | Resumed result \<Rightarrow> res_final_state result = tk_state (cs_task s) \<and> tk_state (cs_task s) \<in> run_ends)"

lemma reconcile_ends:
  fixes env :: "('v, 'y) site recon_env"
  shows "holds (\<lambda>_. True) (reconcile env) (\<lambda>found s. \<not> rr_resumable found \<longrightarrow> stopped_for_human found s) anything"
  unfolding holds_def
proof (intro allI impI)
  fix s :: "('v, 'y) site chain_state"
  have "case reconcile env s of (Inl e, s') \<Rightarrow> raised_at (whereabouts s) e s'
      | (Inr found, s') \<Rightarrow> settled (whereabouts s) found s'"
    using reconcile_settles [of "whereabouts s" env] by (simp add: holds_def)
  then show "case reconcile env s of (Inl e, s') \<Rightarrow> True
      | (Inr found, s') \<Rightarrow> \<not> rr_resumable found \<longrightarrow> stopped_for_human found s'"
    by (auto simp: settled_def stopped_for_human_def whereabouts_def split: prod.splits sum.splits)
qed

lemma resumed_work_ends:
  "holds (\<lambda>_. True) (bind (work env p mode new d resume) (\<lambda>result. return (Resumed result))) resume_end anything"
  by (rule holds_bind [OF work_reports], rule holds_return) simp


section \<open>Slots and late failures\<close>

text \<open>
  A resumption's slot is that of the repository \<open>None\<close>: while one runs, every other is refused, and the
  limit of the repository it works on does not apply to it.\<close>

lemma resume_slot_is_shared:
  assumes "normalize_repo (fs_links (ce_host (fx_base env))) (link_budget (ce_host (fx_base env))) (ce_cwd (fx_base env)) ''None'' = Inr none"
    and "active_global (si_slots (cs_env s)) < MAX_CONCURRENT_TASKS_GLOBAL (fx_limits env)"
    and "get_count (active_per_repo (si_slots (cs_env s))) none 0 \<ge> MAX_CONCURRENT_TASKS_PER_REPO (fx_limits env)"
  shows "resume_fix env mode s = (Inl (OtherFailure ''concurrency limit reached (per-repo)''), s)"
  using assms by (simp add: resume_fix_def slot_gate_def gated_by_task_slot_def task_slot_def acquire_slot_def limit_text_def)

text \<open>An exception after the pull request is open, when the result is saved, cancels the waiting task.\<close>

lemma late_failure_cancels: "failure_state WAITING_FOR_APPROVAL = CANCELLED"
  by code_simp

section \<open>Concrete runs\<close>

definition demo_fix_env :: "(nat, unit) fix_env" where
  "demo_fix_env = \<lparr>fx_base = demo_chain_env, fx_agents = (\<lambda>ctx. demo_chain_env),
     fx_recon = \<lparr>re_chain = demo_chain_env, re_exec = (\<lambda>c x. (Inl (ExecFailed ''down''), x)), re_scratch_exists = (\<lambda>t x. False),
        re_create = (\<lambda>t x. (Inr (), x)), re_destroy = (\<lambda>t x. (Inr (), x)), re_validate = (\<lambda>v. Inl ''down''),
        re_token = False, re_find_pr = (\<lambda>b x. (Inr None, x)), re_record_pr = (\<lambda>d x. (Inr (), x))\<rparr>,
     fx_limits = default_limits, fx_scratch_root = ''/s'', fx_docker = demo_docker, fx_sandbox = demo_sandbox_config,
     fx_materialize = (\<lambda>p d y. (Inl ''no such repository'', y)),
     fx_tree = (\<lambda>d y. \<lparr>sr_rglob = (\<lambda>p. []), sr_ignored = None, sr_read = (\<lambda>p. Inl [])\<rparr>),
     fx_py_parse = (\<lambda>t. None), fx_ts_parse = (\<lambda>l t. (True, TsNode [] 0 0 [] [] [])), fx_memory = demo_memory_env,
     fx_stale_text = ''stale'', fx_stage_text = (\<lambda>m. [])\<rparr>"

definition demo_site :: "(nat, unit) site" where
  "demo_site = \<lparr>si_items = [], si_chunks = [], si_repositories = Map.empty, si_slots = no_slots, si_outside = ()\<rparr>"

abbreviation (input) demo_background :: "bool \<times> world \<times> (nat, unit) site" where
  "demo_background \<equiv> run_fix_and_persist demo_fix_env ''t1'' ''crash'' ''/repo'' ''operator''
     \<lparr>w_store = demo_store, w_clock = 0\<rparr> demo_site"

theorem background_run_refines_lifecycle_witness:
  "\<exists>row'. st_tasks (w_store (fst (snd demo_background))) ''t1'' = Some row'
     \<and> leads CREATED (trail ''t1'' (contents (st_audit (w_store (fst (snd demo_background)))))) (tk_state row')"
proof -
  have "lawful (ce_hash (fx_base demo_fix_env)) (ce_interference (fx_base demo_fix_env))"
    by (simp add: lawful_def demo_chain_env_def demo_fix_env_def)
  moreover have "trail_inv (ce_hash (fx_base demo_fix_env)) (w_store \<lparr>w_store = demo_store, w_clock = 0\<rparr>)"
    using demo_store_trail [OF unary_digest_ok] by (simp add: demo_chain_env_def demo_fix_env_def)
  moreover obtain row where "st_tasks (w_store \<lparr>w_store = demo_store, w_clock = 0\<rparr>) ''t1'' = Some row"
    by (simp add: demo_store_def create_task_def Let_def)
  ultimately show ?thesis
    using background_run_refines_lifecycle [of demo_fix_env "\<lparr>w_store = demo_store, w_clock = 0\<rparr>" "''t1''" "''crash''"
        "''/repo''" "''operator''" demo_site]
    by (fastforce split: prod.splits)
qed


end
