(* ===== verification/OperatorApi.thy ===== *)
theory OperatorApi
  imports FixProps Webhook Reporting
begin

text \<open>
  The operator's interface over HTTP: the routes of \<open>amop/api/routes/\<close> (but the webhook, which has its
  own theory) with \<open>amop/api/errors.py\<close>, \<open>schemas.py\<close> and the exception handlers of \<open>amop/api/app.py\<close>.
  FastAPI's routing and its validation of bodies are taken as done: a request is a value of \<open>api_request\<close>.
  An id is a string; tables that a query orders by their creation are kept newest first.
\<close>

section \<open>State and messages\<close>

record repo_entry =
  ry_id :: string
  ry_repo_path :: string
  ry_display_name :: "string option"
  ry_url :: "string option"
  ry_default_branch :: string
  ry_detected_stack :: "pydict option"
  ry_index_status :: string
  ry_permission_overrides :: "pydict option"
  ry_created_at :: utc_datetime

record pull_row =
  pl_task_id :: "string option"
  pl_repo_path :: string
  pl_url :: string
  pl_number :: "int option"
  pl_status :: string

text \<open>What \<open>BackgroundTasks\<close> runs after the response: \<open>run_fix_and_persist\<close> on these.\<close>

record fix_job =
  fj_task_id :: string
  fj_description :: string
  fj_repo_path :: string

record ('v, 'y) api_state =
  as_world :: world
  as_task_ids :: "string list"
  as_repos :: "repo_entry list"
  as_pulls :: "pull_row list"
  as_items :: "'v memory_item list"
  as_jobs :: "fix_job list"
  as_outside :: 'y

record 'y api_env =
  ap_hash :: "string \<Rightarrow> string"
  ap_interference :: interference
  ap_polls :: nat
  ap_now :: "world \<Rightarrow> utc_datetime"
  ap_new_id :: "world \<Rightarrow> string"
  ap_token :: "string option"
  ap_host :: host
  ap_cwd :: rpath
  ap_reporter :: "string \<Rightarrow> 'y \<Rightarrow> (string, report_summary agent_result) result \<times> 'y"

record task_create =
  bc_task_type :: string
  bc_description :: "string option"
  bc_repo_id :: "string option"
  bc_repo :: "string option"

record repository_create =
  rb_repo_path :: string
  rb_display_name :: "string option"
  rb_url :: "string option"
  rb_default_branch :: "string option"
  rb_permission_overrides :: "pydict option"

datatype api_request =
    CreateTask task_create
  | GetTask string
  | ListTasks "string option" "string option" int
  | CancelTask string
  | ApproveTask string
  | RejectTask string
  | TaskActions string
  | TaskDiff string
  | ListRepositories
  | RegisterRepository repository_create
  | UpdatePermissions string "pydict option"
  | ListPullRequests "string option"
  | ListMemory "string option" "string option"
  | DisputeMemory string bool
  | PauseState
  | PauseAll "string option"
  | ResumeAll "string option"
  | GenerateReport "utc_datetime option" "utc_datetime option"

datatype 'v api_body =
    TaskOut task_row
  | TasksOut "task_row list"
  | TransitionsOut "chained_row list"
  | DiffOut string string bool
  | RepositoryOut repo_entry
  | RepositoriesOut "repo_entry list"
  | PullRequestsOut "pull_row list"
  | MemoryOut "'v memory_item"
  | MemoriesOut "'v memory_item list"
  | PauseOut pause_row
  | ReportOut report_summary

text \<open>An answer: a body with its status, the error envelope, or none yet, while the engine is paused.\<close>

datatype 'v api_response =
    Answer nat "'v api_body"
  | ApiError nat string string
  | Held

definition internal_error :: "'v api_response" where
  "internal_error = ApiError 500 ''INTERNAL_ERROR'' ''an unexpected error occurred''"

text \<open>The requests whose route asks for the operator's token.\<close>

fun mutating_request :: "api_request \<Rightarrow> bool" where
  "mutating_request (CreateTask _) = True"
| "mutating_request (CancelTask _) = True"
| "mutating_request (ApproveTask _) = True"
| "mutating_request (RejectTask _) = True"
| "mutating_request (RegisterRepository _) = True"
| "mutating_request (UpdatePermissions _ _) = True"
| "mutating_request (DisputeMemory _ _) = True"
| "mutating_request (PauseAll _) = True"
| "mutating_request (ResumeAll _) = True"
| "mutating_request (GenerateReport _ _) = True"
| "mutating_request _ = False"

type_synonym ('v, 'y) route = "('v, 'y) api_state \<Rightarrow> 'v api_response \<times> ('v, 'y) api_state"

definition api_store :: "('v, 'y) api_state \<Rightarrow> store" where
  "api_store s = w_store (as_world s)"

definition put_store :: "store \<Rightarrow> ('v, 'y) api_state \<Rightarrow> ('v, 'y) api_state" where
  "put_store st s = s\<lparr>as_world := (as_world s)\<lparr>w_store := st\<rparr>\<rparr>"

section \<open>Tasks\<close>

definition get_or_404 :: "string \<Rightarrow> (task_row \<Rightarrow> ('v, 'y) route) \<Rightarrow> ('v, 'y) route" where
  "get_or_404 task_id k s =
     (case get_task (api_store s) task_id of
        None \<Rightarrow> (ApiError 404 ''TASK_NOT_FOUND'' (''no task with id '' @ task_id), s)
      | Some task \<Rightarrow> k task s)"

text \<open>Not retried: a stale view of the task is the operator's to renew.\<close>

definition transition_or_409 ::
    "'y api_env \<Rightarrow> task_row \<Rightarrow> task_state \<Rightarrow> string \<Rightarrow> string \<Rightarrow> ('v, 'y) route" where
  "transition_or_409 env task to_state actor trigger s =
     (case transition (ap_hash env) (ap_interference env) (ap_polls env) (ap_now env (as_world s)) task to_state
             (Some trigger) actor (as_world s) of
        (Inr new, w) \<Rightarrow> (Answer 200 (TaskOut new), s\<lparr>as_world := w\<rparr>)
      | (Inl StillPaused, w) \<Rightarrow> (Held, s\<lparr>as_world := w\<rparr>)
      | (Inl (IllegalMove e), w) \<Rightarrow>
          (ApiError 409 ''ILLEGAL_TRANSITION'' (chain_exn_text [] (chain_exn.MoveFailed (IllegalMove e))), s\<lparr>as_world := w\<rparr>)
      | (Inl (ConcurrentUpdateError i t), w) \<Rightarrow>
          (ApiError 409 ''CONCURRENT_UPDATE'' (chain_exn_text [] (chain_exn.MoveFailed (ConcurrentUpdateError i t))),
           s\<lparr>as_world := w\<rparr>))"

definition find_repo :: "string \<Rightarrow> repo_entry list \<Rightarrow> repo_entry option" where
  "find_repo repo_id repos = find (\<lambda>r. ry_id r = repo_id) repos"

definition repository_not_found :: "string \<Rightarrow> 'v api_response" where
  "repository_not_found repo_id = ApiError 404 ''REPOSITORY_NOT_FOUND'' (''no repository with id '' @ repo_id)"

definition create_row ::
    "'y api_env \<Rightarrow> task_create \<Rightarrow> string option \<Rightarrow> ('v, 'y) route" where
  "create_row env body repo_path s =
     (let context = [(''repo'', opt_str repo_path), (''prompt'', opt_str (bc_description body))];
          (task, st) = create_task (ap_new_id env (as_world s)) (ap_now env (as_world s)) (bc_task_type body)
                         (Some context) None (api_store s);
          s1 = (put_store st s)\<lparr>as_task_ids := tk_id task # as_task_ids s\<rparr>
      in (Answer 201 (TaskOut task),
          case (repo_path, bc_description body) of
            (Some p, Some d) \<Rightarrow>
              if bc_task_type body = ''bug_fix'' \<and> p \<noteq> [] \<and> d \<noteq> []
              then s1\<lparr>as_jobs := as_jobs s @ [\<lparr>fj_task_id = tk_id task, fj_description = d, fj_repo_path = p\<rparr>]\<rparr>
              else s1
          | _ \<Rightarrow> s1))"

definition create_task_endpoint :: "'y api_env \<Rightarrow> task_create \<Rightarrow> ('v, 'y) route" where
  "create_task_endpoint env body s =
     (case bc_repo_id body of
        None \<Rightarrow> create_row env body (bc_repo body) s
      | Some repo_id \<Rightarrow>
          (case find_repo repo_id (as_repos s) of
             None \<Rightarrow> (repository_not_found repo_id, s)
           | Some row \<Rightarrow> create_row env body (Some (ry_repo_path row)) s))"

text \<open>The rows, newest first; \<open>task_context\<close>'s repository is a string or null.\<close>

definition all_tasks :: "('v, 'y) api_state \<Rightarrow> task_row list" where
  "all_tasks s = List.map_filter (get_task (api_store s)) (as_task_ids s)"

definition context_of :: "task_row \<Rightarrow> pydict" where
  "context_of task = (case tk_task_context task of None \<Rightarrow> [] | Some d \<Rightarrow> d)"

text \<open>A limit above 200 is refused by the validation, one below zero by Postgres.\<close>

definition list_tasks_endpoint :: "string option \<Rightarrow> string option \<Rightarrow> int \<Rightarrow> ('v, 'y) route" where
  "list_tasks_endpoint state repo_id limit s =
     (if limit > 200 then (ApiError 422 ''VALIDATION_ERROR'' ''request validation failed'', s)
      else
        let of_state = (case state of None \<Rightarrow> all_tasks s
              | Some v \<Rightarrow> filter (\<lambda>t. state_value (tk_state t) = v) (all_tasks s));
            answer = (\<lambda>rows. if limit < 0 then internal_error else Answer 200 (TasksOut (take (nat limit) rows)))
        in (case repo_id of
              None \<Rightarrow> answer of_state
            | Some i \<Rightarrow>
                (case find_repo i (as_repos s) of
                   None \<Rightarrow> Answer 200 (TasksOut [])
                 | Some row \<Rightarrow> answer (filter (\<lambda>t. dict_get (context_of t) ''repo'' = PStr (ry_repo_path row)) of_state)),
            s))"

definition cancel_task_endpoint :: "'y api_env \<Rightarrow> string \<Rightarrow> ('v, 'y) route" where
  "cancel_task_endpoint env task_id = get_or_404 task_id (\<lambda>task.
     transition_or_409 env task CANCELLED ''human:api'' ''cancelled via API'')"

definition approve_task_endpoint :: "'y api_env \<Rightarrow> string \<Rightarrow> ('v, 'y) route" where
  "approve_task_endpoint env task_id = get_or_404 task_id (\<lambda>task.
     transition_or_409 env task MERGED ''human:api'' ''approved via API'')"

definition reject_task_endpoint :: "'y api_env \<Rightarrow> string \<Rightarrow> ('v, 'y) route" where
  "reject_task_endpoint env task_id = get_or_404 task_id (\<lambda>task.
     transition_or_409 env task CANCELLED ''human:api'' ''rejected via API'')"

definition task_actions_endpoint :: "string \<Rightarrow> ('v, 'y) route" where
  "task_actions_endpoint task_id = get_or_404 task_id (\<lambda>_ s.
     (Answer 200 (TransitionsOut (get_transitions (api_store s) task_id)), s))"

text \<open>A diff that is neither falsy nor a string fails the validation of the answer.\<close>

definition task_diff_endpoint :: "string \<Rightarrow> ('v, 'y) route" where
  "task_diff_endpoint task_id = get_or_404 task_id (\<lambda>task s.
     let v = dict_get (context_of task) ''diff''
     in (if \<not> truthy v then Answer 200 (DiffOut (tk_id task) [] False)
         else case v of PStr d \<Rightarrow> Answer 200 (DiffOut (tk_id task) d True) | _ \<Rightarrow> internal_error, s))"

section \<open>Repositories, pull requests and memory\<close>

definition register_repository :: "'y api_env \<Rightarrow> repository_create \<Rightarrow> ('v, 'y) route" where
  "register_repository env body s =
     (case normalize_repo (fs_links (ap_host env)) (link_budget (ap_host env)) (ap_cwd env) (rb_repo_path body) of
        Inl e \<Rightarrow> (internal_error, s)
      | Inr path \<Rightarrow>
          if list_ex (\<lambda>r. ry_repo_path r = path) (as_repos s)
          then (ApiError 409 ''REPOSITORY_EXISTS'' (repr_str (rb_repo_path body) @ '' is already registered''), s)
          else (let row = \<lparr>ry_id = ap_new_id env (as_world s), ry_repo_path = path,
                      ry_display_name = rb_display_name body, ry_url = rb_url body,
                      ry_default_branch = (case rb_default_branch body of
                          Some b \<Rightarrow> if b \<noteq> [] then b else ''main'' | None \<Rightarrow> ''main''),
                      ry_detected_stack = None, ry_index_status = ''unindexed'',
                      ry_permission_overrides = rb_permission_overrides body,
                      ry_created_at = ap_now env (as_world s)\<rparr>
                in (Answer 201 (RepositoryOut row), s\<lparr>as_repos := row # as_repos s\<rparr>)))"

definition update_permissions :: "string \<Rightarrow> pydict option \<Rightarrow> ('v, 'y) route" where
  "update_permissions repo_id policy s =
     (case find_repo repo_id (as_repos s) of
        None \<Rightarrow> (repository_not_found repo_id, s)
      | Some row \<Rightarrow>
          (let row' = row\<lparr>ry_permission_overrides := policy\<rparr>
           in (Answer 200 (RepositoryOut row'),
               s\<lparr>as_repos := map (\<lambda>r. if ry_id r = repo_id then row' else r) (as_repos s)\<rparr>)))"

definition list_pull_requests :: "string option \<Rightarrow> ('v, 'y) route" where
  "list_pull_requests status s =
     (Answer 200 (PullRequestsOut (filter (\<lambda>p. status = None \<or> status = Some (pl_status p)) (as_pulls s))), s)"

definition list_memory :: "string option \<Rightarrow> string option \<Rightarrow> ('v, 'y) route" where
  "list_memory repo_id kind s =
     (let rows = (\<lambda>p. filter (\<lambda>i. p i \<and> (kind = None \<or> kind = Some (mi_memory_type i))) (rev (as_items s)))
      in (Answer 200 (MemoriesOut (case repo_id of
            None \<Rightarrow> rows (\<lambda>_. True)
          | Some k \<Rightarrow> (case find_repo k (as_repos s) of
                None \<Rightarrow> [] | Some row \<Rightarrow> rows (\<lambda>i. mi_repo_path i = ry_repo_path row)))), s))"

definition dispute_memory :: "string \<Rightarrow> bool \<Rightarrow> ('v, 'y) route" where
  "dispute_memory memory_id disputed s =
     (let (found, items) = mark_disputed memory_id disputed (as_items s)
      in case (found, find (\<lambda>i. mi_id i = memory_id) items) of
           (True, Some row) \<Rightarrow> (Answer 200 (MemoryOut row), s\<lparr>as_items := items\<rparr>)
         | _ \<Rightarrow> (ApiError 404 ''MEMORY_NOT_FOUND'' (''no memory item with id '' @ memory_id), s\<lparr>as_items := items\<rparr>))"

section \<open>The whole engine\<close>

definition pause_state_endpoint :: "('v, 'y) route" where
  "pause_state_endpoint s =
     (let (row, st) = get_or_create_row (api_store s) in (Answer 200 (PauseOut row), put_store st s))"

definition pause_endpoint :: "'y api_env \<Rightarrow> bool \<Rightarrow> string option \<Rightarrow> ('v, 'y) route" where
  "pause_endpoint env paused by_whom s =
     (let who = (case by_whom of Some b \<Rightarrow> if b \<noteq> [] then b else ''api'' | None \<Rightarrow> ''api'');
          (row, st) = set_paused paused who (ap_now env (as_world s)) (api_store s)
      in (Answer 200 (PauseOut row), put_store st s))"

definition leap_year :: "nat \<Rightarrow> bool" where
  "leap_year y \<longleftrightarrow> (4 dvd y \<and> \<not> 100 dvd y) \<or> 400 dvd y"

definition month_days :: "nat \<Rightarrow> nat \<Rightarrow> nat" where
  "month_days y m = (if m = 2 then (if leap_year y then 29 else 28) else if m \<in> {4, 6, 9, 11} then 30 else 31)"

definition day_before :: "utc_datetime \<Rightarrow> utc_datetime" where
  "day_before d =
     (if dt_day d > 1 then d\<lparr>dt_day := dt_day d - 1\<rparr>
      else if dt_month d > 1
      then d\<lparr>dt_month := dt_month d - 1, dt_day := month_days (dt_year d) (dt_month d - 1)\<rparr>
      else d\<lparr>dt_year := dt_year d - 1, dt_month := 12, dt_day := 31\<rparr>)"

definition DEFAULT_WINDOW_DAYS :: nat where "DEFAULT_WINDOW_DAYS = 7"

text \<open>A report starts in year 1 at the earliest: \<open>datetime\<close> raises before it.\<close>

definition generate_report :: "'y api_env \<Rightarrow> utc_datetime option \<Rightarrow> utc_datetime option \<Rightarrow> ('v, 'y) route" where
  "generate_report env since until s =
     (let finish = (case until of Some u \<Rightarrow> u | None \<Rightarrow> ap_now env (as_world s));
          start = (case since of Some a \<Rightarrow> a | None \<Rightarrow> (day_before ^^ DEFAULT_WINDOW_DAYS) finish)
      in if since = None \<and> dt_year start = 0 then (internal_error, s)
         else case run_report (ap_reporter env) (api_store s) (all_tasks s) start finish (as_outside s) of
                (Inl e, y) \<Rightarrow> (internal_error, s\<lparr>as_outside := y\<rparr>)
              | (Inr (summary, _), y) \<Rightarrow> (Answer 200 (ReportOut summary), s\<lparr>as_outside := y\<rparr>))"

section \<open>Dispatch\<close>

fun route_request :: "'y api_env \<Rightarrow> api_request \<Rightarrow> ('v, 'y) route" where
  "route_request env (CreateTask body) = create_task_endpoint env body"
| "route_request env (GetTask i) = get_or_404 i (\<lambda>task s. (Answer 200 (TaskOut task), s))"
| "route_request env (ListTasks state repo_id limit) = list_tasks_endpoint state repo_id limit"
| "route_request env (CancelTask i) = cancel_task_endpoint env i"
| "route_request env (ApproveTask i) = approve_task_endpoint env i"
| "route_request env (RejectTask i) = reject_task_endpoint env i"
| "route_request env (TaskActions i) = task_actions_endpoint i"
| "route_request env (TaskDiff i) = task_diff_endpoint i"
| "route_request env ListRepositories = (\<lambda>s. (Answer 200 (RepositoriesOut (as_repos s)), s))"
| "route_request env (RegisterRepository body) = register_repository env body"
| "route_request env (UpdatePermissions i d) = update_permissions i d"
| "route_request env (ListPullRequests status) = list_pull_requests status"
| "route_request env (ListMemory repo_id kind) = list_memory repo_id kind"
| "route_request env (DisputeMemory i b) = dispute_memory i b"
| "route_request env PauseState = pause_state_endpoint"
| "route_request env (PauseAll b) = pause_endpoint env True b"
| "route_request env (ResumeAll b) = pause_endpoint env False b"
| "route_request env (GenerateReport since until) = generate_report env since until"

text \<open>The dependency on the token comes first; only a missing or wrong token has an envelope of its own.\<close>

definition handle_request :: "'y api_env \<Rightarrow> string option \<Rightarrow> api_request \<Rightarrow> ('v, 'y) route" where
  "handle_request env credentials request s =
     (if \<not> mutating_request request then route_request env request s
      else case require_operator_token (ap_token env) credentials of
          Inr _ \<Rightarrow> route_request env request s
        | Inl Unauthorized \<Rightarrow> (ApiError 401 ''UNAUTHORIZED'' ''missing or invalid API token'', s)
        | Inl _ \<Rightarrow> (internal_error, s))"


section \<open>Who may change what\<close>

lemma operator_token_matches:
  "require_operator_token t c = Inr () \<Longrightarrow> \<exists>k. k \<noteq> [] \<and> t = Some k \<and> c = Some k"
  by (auto simp: require_operator_token_def configured_token_def compare_digest_def
      split: option.splits sum.splits if_splits)

lemma get_or_404_reads:
  assumes "\<And>t. k t s = (fst (k t s), s)" shows "snd (get_or_404 i k s) = s"
  using assms by (auto simp: get_or_404_def split: option.split) (metis snd_conv)

lemma plain_reads:
  "\<not> mutating_request r \<Longrightarrow> snd (route_request env r s) =
     (if r = PauseState then put_store (snd (get_or_create_row (api_store s))) s else s)"
  by (cases r)
    (simp_all add: get_or_404_reads list_tasks_endpoint_def task_actions_endpoint_def task_diff_endpoint_def
      list_pull_requests_def list_memory_def pause_state_endpoint_def Let_def split: prod.split)


section \<open>The operator's decisions\<close>

text \<open>The move a request asks for.\<close>

fun decided :: "api_request \<Rightarrow> (string \<times> task_state) option" where
  "decided (ApproveTask i) = Some (i, MERGED)"
| "decided (RejectTask i) = Some (i, CANCELLED)"
| "decided (CancelTask i) = Some (i, CANCELLED)"
| "decided _ = None"

lemma decided_route:
  assumes "decided r = Some (i, t)"
  obtains trigger where "route_request env r s = get_or_404 i (\<lambda>task. transition_or_409 env task t ''human:api'' trigger) s"
    "mutating_request r"
  using assms by (cases r)
    (auto simp: approve_task_endpoint_def reject_task_endpoint_def cancel_task_endpoint_def)

lemma handled_with_token:
  assumes "mutating_request r" "handle_request env c r s = (answer, s')" "\<forall>a b d. answer \<noteq> ApiError a b d"
  shows "route_request env r s = (answer, s')"
  using assms by (auto simp: handle_request_def internal_error_def split: sum.splits auth_exn.splits)

text \<open>
  C12: A decision is applied to the task the operator saw.  When an approval, a rejection or a cancellation
  is answered with a task, then the row the request read was in a state the table lets go to the decided
  one, at the moment of the write the stored row still had the version that was read, whatever the
  others did while the engine was paused, and the write changes this one row and records the decision as
  the human's in the audit chain.  An approval thus merges only what was seen waiting for approval, or
  with its pull request being opened.\<close>

theorem decision_hits_what_was_seen:
  assumes "decided r = Some (i, t)" "handle_request env credentials r s = (Answer status (TaskOut new), s')"
  shows "\<exists>task row w now trigger. get_task (api_store s) i = Some task
      \<and> legal (tk_state task) t \<and> (t = MERGED \<longrightarrow> tk_state task \<in> {PR_CREATION, WAITING_FOR_APPROVAL})
      \<and> wait_while_paused (ap_interference env) (ap_polls env) (as_world s) = Some w
      \<and> (let before = w_store (tick (ap_interference env) w) in
          st_tasks before (tk_id task) = Some row \<and> tk_version row = tk_version task
          \<and> tk_state new = t \<and> tk_version new = tk_version task + 1
          \<and> api_store s' = before\<lparr>st_tasks := (st_tasks before)(tk_id task \<mapsto> new),
               st_audit := append_chained (ap_hash env) (audit_entry task t trigger ''human:api'' now) (st_audit before)\<rparr>)"
proof -
  obtain trigger where route: "route_request env r s = get_or_404 i (\<lambda>task. transition_or_409 env task t ''human:api'' trigger) s"
    "mutating_request r" using decided_route [OF assms(1), of env s] .
  have "get_or_404 i (\<lambda>task. transition_or_409 env task t ''human:api'' trigger) s = (Answer status (TaskOut new), s')"
    using handled_with_token [OF route(2) assms(2)] route(1) by simp
  then obtain task where task: "get_task (api_store s) i = Some task"
    and "transition_or_409 env task t ''human:api'' trigger s = (Answer status (TaskOut new), s')"
    by (auto simp: get_or_404_def split: option.splits)
  then obtain w' where tr: "transition (ap_hash env) (ap_interference env) (ap_polls env) (ap_now env (as_world s))
      task t (Some trigger) ''human:api'' (as_world s) = (Inr new, w')" and s': "s' = s\<lparr>as_world := w'\<rparr>"
    by (auto simp: transition_or_409_def split: prod.splits sum.splits task_error.splits)
  from tr show ?thesis
  proof (cases rule: transition_cases)
    case (acted w st)
    from acted(2) show ?thesis
    proof (cases rule: commit_cases)
      case (moved row task' label)
      have "t = MERGED \<longrightarrow> tk_state task \<in> {PR_CREATION, WAITING_FOR_APPROVAL}"
        using moved(1) by (auto simp: legal_iff legal_edges_def)
      then show ?thesis using task acted moved s' by (auto simp: api_store_def Let_def)
    qed simp_all
  qed simp
qed

lemma decision_outcome:
  assumes "decided r = Some (i, t)" "ap_token env = Some k" "k \<noteq> []" "ascii k"
    and "ap_interference env = (\<lambda>n st. st)" "ap_polls env > 0" "\<not> paused_now (api_store s)"
    and "st_tasks (api_store s) i = Some task" "tk_id task = i"
  shows "case handle_request env (Some k) r s of (answer, s') \<Rightarrow>
    if legal (tk_state task) t
    then \<exists>new. answer = Answer 200 (TaskOut new) \<and> st_tasks (api_store s') i = Some new \<and> tk_state new = t
    else (\<exists>message. answer = ApiError 409 ''ILLEGAL_TRANSITION'' message)
      \<and> st_tasks (api_store s') = st_tasks (api_store s)"
proof -
  obtain trigger where route: "route_request env r s = get_or_404 i (\<lambda>task. transition_or_409 env task t ''human:api'' trigger) s"
    "mutating_request r" using decided_route [OF assms(1), of env s] .
  have "handle_request env (Some k) r s = route_request env r s"
    using assms(2-4) route(2) by (simp add: handle_request_def require_operator_token_def configured_token_def compare_digest_def)
  also have "\<dots> = transition_or_409 env task t ''human:api'' trigger s"
    using assms(8) by (simp add: route(1) get_or_404_def get_task_def)
  finally have h: "handle_request env (Some k) r s = transition_or_409 env task t ''human:api'' trigger s" .
  obtain q w where tr: "transition (ap_hash env) (\<lambda>n st. st) (ap_polls env) (ap_now env (as_world s)) task t (Some trigger)
      ''human:api'' (as_world s) = (q, w)"
    and out: "if legal (tk_state task) t
       then \<exists>task'. q = Inr task' \<and> tk_id task' = tk_id task \<and> tk_state task' = t \<and> st_tasks (w_store w) (tk_id task) = Some task'
       else q = Inl (IllegalMove (IllegalTransitionError (tk_state task) t))
         \<and> st_tasks (w_store w) = st_tasks (w_store (as_world s))"
    using transition_alone [of "as_world s" "ap_polls env" task task "ap_hash env" "ap_now env (as_world s)" t
        "Some trigger" "''human:api''"] assms(6-9) unfolding api_store_def by metis
  show ?thesis unfolding h transition_or_409_def assms(5) tr
    using out assms(9) by (auto simp: api_store_def split: if_splits)
qed

text \<open>
  A decision is obeyed or refused, and refused without a trace.  When nobody else writes and the engine
  is not paused, a decision with the operator's token on a task of the store is answered with 200, and the
  stored row is then in the decided state, exactly when the table has the move; otherwise the answer is the
  error 409 and every row is as it was.\<close>

theorem decision_alone:
  assumes "decided r = Some (i, t)" "ap_token env = Some k" "k \<noteq> []" "ascii k"
    and "ap_interference env = (\<lambda>n st. st)" "ap_polls env > 0" "\<not> paused_now (api_store s)"
    and "st_tasks (api_store s) i = Some task" "tk_id task = i"
  shows "case handle_request env (Some k) r s of (answer, s') \<Rightarrow>
    if legal (tk_state task) t
    then \<exists>new. answer = Answer 200 (TaskOut new) \<and> st_tasks (api_store s') i = Some new \<and> tk_state new = t
    else (\<exists>message. answer = ApiError 409 ''ILLEGAL_TRANSITION'' message)
      \<and> st_tasks (api_store s') = st_tasks (api_store s)"
  using decision_outcome [OF assms] .

text \<open>
  The table also has a move from \<open>PR_CREATION\<close>, for the autonomous mode: an approval that arrives while the
  pull request is being opened is obeyed, though \<open>approve_task_endpoint\<close> is documented as the move from
  \<open>WAITING_FOR_APPROVAL\<close>; the chain then finds its task merged.\<close>

lemma approval_before_pull_request:
  assumes "ap_token env = Some k" "k \<noteq> []" "ascii k"
    and "ap_interference env = (\<lambda>n st. st)" "ap_polls env > 0" "\<not> paused_now (api_store s)"
    and "st_tasks (api_store s) i = Some task" "tk_id task = i" "tk_state task = PR_CREATION"
  shows "\<exists>new. fst (handle_request env (Some k) (ApproveTask i) s) = Answer 200 (TaskOut new) \<and> tk_state new = MERGED"
  using decision_outcome [of "ApproveTask i" i MERGED env k s task] assms
  by (auto simp: legal_iff legal_edges_def split: prod.splits)

text \<open>The limit of a listing has no lower bound.\<close>

lemma negative_limit_is_an_error: "k < 0 \<Longrightarrow> handle_request env c (ListTasks None None k) s = (internal_error, s)"
  by (simp add: handle_request_def list_tasks_endpoint_def Let_def)

section \<open>From a reported bug to a settled task\<close>

text \<open>The repository a new task is about.\<close>

definition chosen_repo :: "task_create \<Rightarrow> ('v, 'y) api_state \<Rightarrow> string option" where
  "chosen_repo body s = (case bc_repo_id body of None \<Rightarrow> bc_repo body
     | Some i \<Rightarrow> (case find_repo i (as_repos s) of None \<Rightarrow> None | Some row \<Rightarrow> Some (ry_repo_path row)))"


section \<open>Concrete requests\<close>

definition demo_api_env :: "unit api_env" where
  "demo_api_env = \<lparr>ap_hash = unary_digest, ap_interference = (\<lambda>n st. st), ap_polls = 1, ap_now = (\<lambda>w. demo_time),
     ap_new_id = (\<lambda>w. ''t2''), ap_token = Some ''key'', ap_host = ce_host (demo_chain_env :: unit chain_env), ap_cwd = ce_cwd (demo_chain_env :: unit chain_env),
     ap_reporter = (\<lambda>p y. (Inl ''down'', y))\<rparr>"

definition demo_api :: "(nat, unit) api_state" where
  "demo_api = \<lparr>as_world = \<lparr>w_store = demo_store, w_clock = 0\<rparr>, as_task_ids = [''t1''], as_repos = [], as_pulls = [],
     as_items = [], as_jobs = [], as_outside = ()\<rparr>"

definition demo_bug :: task_create where
  "demo_bug = \<lparr>bc_task_type = ''bug_fix'', bc_description = Some ''crash'', bc_repo_id = None, bc_repo = Some ''/repo''\<rparr>"

lemma demo_api_facts:
  "ap_token demo_api_env = Some ''key''" "ascii ''key''" "ap_interference demo_api_env = (\<lambda>n st. st)"
  "ap_polls demo_api_env > 0" "\<not> paused_now (api_store demo_api)"
  "\<exists>task. st_tasks (api_store demo_api) ''t1'' = Some task \<and> tk_id task = ''t1'' \<and> tk_state task = CREATED"
  by (simp_all add: demo_api_env_def demo_api_def ascii_def api_store_def demo_store_def create_task_def paused_now_def Let_def)


theorem decision_alone_witness:
  "\<exists>new. fst (handle_request demo_api_env (Some ''key'') (CancelTask ''t1'') demo_api) = Answer 200 (TaskOut new)
     \<and> tk_state new = CANCELLED"
proof -
  obtain task where t: "st_tasks (api_store demo_api) ''t1'' = Some task" "tk_id task = ''t1''" "tk_state task = CREATED"
    using demo_api_facts(6) by blast
  show ?thesis
    using decision_alone [of "CancelTask ''t1''" "''t1''" CANCELLED demo_api_env "''key''" demo_api task] t demo_api_facts(1-5)
    by (auto simp: legal_iff legal_edges_def split: prod.splits)
qed

theorem decision_hits_what_was_seen_witness:
  "\<exists>new task. fst (handle_request demo_api_env (Some ''key'') (CancelTask ''t1'') demo_api) = Answer 200 (TaskOut new)
     \<and> get_task (api_store demo_api) ''t1'' = Some task \<and> tk_version new = tk_version task + 1"
proof -
  obtain task where t: "st_tasks (api_store demo_api) ''t1'' = Some task" "tk_id task = ''t1''" "tk_state task = CREATED"
    using demo_api_facts(6) by blast
  obtain new s' where h: "handle_request demo_api_env (Some ''key'') (CancelTask ''t1'') demo_api = (Answer 200 (TaskOut new), s')"
    using decision_outcome [of "CancelTask ''t1''" "''t1''" CANCELLED demo_api_env "''key''" demo_api task] t demo_api_facts(1-5)
    by (auto simp: legal_iff legal_edges_def split: prod.splits)
  from decision_hits_what_was_seen [OF _ h, of "''t1''" CANCELLED] show ?thesis
    unfolding h fst_conv by (auto simp: Let_def)
qed


end
