(* ===== verification/WebDashboard.thy ===== *)
theory WebDashboard
  imports OperatorApi
begin

text \<open>
  The web dashboard: \<open>amop/interfaces/web/auth.py\<close> and \<open>routes.py\<close>.  The cookie's signature is the library
  itsdangerous, given by \<open>wb_dumps\<close> and \<open>wb_loads\<close>; a page is what its template is handed.  As for the API,
  routing and the validation of forms are taken as done.
\<close>

section \<open>Sessions\<close>

text \<open>What \<open>URLSafeTimedSerializer.loads\<close> does with a cookie.\<close>

datatype signed = Loaded | BadSignature | SignatureExpired | LoadRaised string

record 'y web_env =
  wb_api :: "'y api_env"
  wb_loads :: "string \<Rightarrow> string \<Rightarrow> world \<Rightarrow> nat \<Rightarrow> signed"
  wb_dumps :: "string \<Rightarrow> world \<Rightarrow> string"
  wb_by_path :: "repo_entry list \<Rightarrow> repo_entry list"

definition SESSION_MAX_AGE_SECONDS :: nat where "SESSION_MAX_AGE_SECONDS = 24 * 60 * 60"

datatype web_exn = WebAuthRequired | WebRaised string

definition web_token :: "'y web_env \<Rightarrow> (web_exn, string) result" where
  "web_token env = (case configured_token (ap_token (wb_api env)) of
     Inl e \<Rightarrow> Inl (WebRaised ''RuntimeError'') | Inr k \<Rightarrow> Inr k)"

definition token_is_valid :: "'y web_env \<Rightarrow> string \<Rightarrow> (web_exn, bool) result" where
  "token_is_valid env submitted = bind_result (web_token env) (\<lambda>k.
     case compare_digest submitted k of Inl e \<Rightarrow> Inl (WebRaised e) | Inr same \<Rightarrow> Inr same)"

definition make_session_cookie_value :: "'y web_env \<Rightarrow> world \<Rightarrow> (web_exn, string) result" where
  "make_session_cookie_value env w = bind_result (web_token env) (\<lambda>k. Inr (wb_dumps env k w))"

definition require_web_session :: "'y web_env \<Rightarrow> string option \<Rightarrow> world \<Rightarrow> (web_exn, unit) result" where
  "require_web_session env cookie w =
     (if cookie = None \<or> cookie = Some [] then Inl WebAuthRequired
      else bind_result (web_token env) (\<lambda>k.
        case wb_loads env k (the cookie) w SESSION_MAX_AGE_SECONDS of
          Loaded \<Rightarrow> Inr ()
        | BadSignature \<Rightarrow> Inl WebAuthRequired
        | SignatureExpired \<Rightarrow> Inl WebAuthRequired
        | LoadRaised e \<Rightarrow> Inl (WebRaised e)))"

section \<open>Pages\<close>

record state_group =
  sg_state :: string
  sg_count :: nat
  sg_tasks :: "task_row list"
  sg_overflow :: nat

record task_page =
  tp_task :: task_row
  tp_prompt :: pyval
  tp_repo :: pyval
  tp_diff :: string
  tp_diff_lines :: "(string \<times> string) list"
  tp_transitions :: "chained_row list"
  tp_stages :: pyval
  tp_root_cause_report :: pyval
  tp_error :: pyval
  tp_pull_request :: "pull_row option"
  tp_is_live :: bool

datatype web_request =
    LoginForm "string option"
  | LoginSubmit string
  | Logout
  | WebTasks
  | WebPause
  | WebResume
  | TaskDetail string
  | SubmitForm
  | SubmitBug string string

datatype cookie_change = KeepCookie | SetCookie string nat | DeleteCookie

datatype web_response =
    Redirect string cookie_change
  | LoginPage "string option"
  | TasksPage "state_group list" pause_row
  | DetailPage task_page
  | NotFoundPage string
  | SubmitPage "repo_entry list"
  | ServerError

definition TASKS_PER_GROUP_CAP :: nat where "TASKS_PER_GROUP_CAP = 25"

definition task_group :: "task_row list \<Rightarrow> task_state \<Rightarrow> state_group list" where
  "task_group tasks state =
     (let state_tasks = filter (\<lambda>t. state_value (tk_state t) = state_value state) tasks
      in if state_tasks = [] then []
         else [\<lparr>sg_state = state_value state, sg_count = length state_tasks,
                sg_tasks = take TASKS_PER_GROUP_CAP state_tasks,
                sg_overflow = length state_tasks - TASKS_PER_GROUP_CAP\<rparr>])"

definition task_groups :: "task_row list \<Rightarrow> state_group list" where
  "task_groups tasks = concat (map (task_group tasks) task_states)"

definition STATE_COLOR :: "(string \<times> string) list" where
  "STATE_COLOR =
     [(''WAITING_FOR_APPROVAL'', ''amber''), (''FAILED'', ''red''), (''CANCELLED'', ''gray''),
      (''MERGED_INTO_EXISTING'', ''gray''), (''NEEDS_HUMAN_INPUT'', ''amber''), (''MERGED'', ''green''),
      (''RESOLVED'', ''green'')]"

definition state_color :: "string \<Rightarrow> string" where
  "state_color state = (case map_of STATE_COLOR state of Some c \<Rightarrow> c | None \<Rightarrow> ''blue'')"

text \<open>\<open>_relative_time\<close>, of the seconds since the date; \<open>dash\<close> is the code's dash for no date.\<close>

definition relative_time :: "string \<Rightarrow> int option \<Rightarrow> string" where
  "relative_time dash elapsed =
     (case elapsed of None \<Rightarrow> dash
      | Some seconds \<Rightarrow>
          let minutes = seconds div 60; hours = minutes div 60; days = hours div 24; months = days div 30
          in if seconds < 5 then ''just now''
             else if seconds < 60 then int_str seconds @ ''s ago''
             else if minutes < 60 then int_str minutes @ ''m ago''
             else if hours < 24 then int_str hours @ ''h ago''
             else if days < 30 then int_str days @ ''d ago''
             else if months < 12 then int_str months @ ''mo ago''
             else int_str (days div 365) @ ''y ago'')"

definition diff_line :: "string \<Rightarrow> string \<times> string" where
  "diff_line raw =
     (if starts_with raw ''+++'' \<or> starts_with raw ''---'' then ''meta''
      else if starts_with raw ''@@'' then ''hunk''
      else if starts_with raw ''+'' then ''add''
      else if starts_with raw ''-'' then ''del''
      else ''ctx'', raw)"

definition diff_lines :: "string \<Rightarrow> (string \<times> string) list" where
  "diff_lines diff = map diff_line (splitlines diff)"

section \<open>Routes\<close>

type_synonym ('v, 'y) web_route = "('v, 'y) api_state \<Rightarrow> web_response \<times> ('v, 'y) api_state"

definition login_submit :: "'y web_env \<Rightarrow> string \<Rightarrow> ('v, 'y) web_route" where
  "login_submit env token s =
     (case token_is_valid env token of
        Inl e \<Rightarrow> ServerError
      | Inr ok \<Rightarrow>
          if \<not> ok then Redirect ''/web/login?error=1'' KeepCookie
          else (case make_session_cookie_value env (as_world s) of
                  Inl e \<Rightarrow> ServerError
                | Inr v \<Rightarrow> Redirect ''/web/tasks'' (SetCookie v SESSION_MAX_AGE_SECONDS)), s)"

definition task_list :: "('v, 'y) web_route" where
  "task_list s =
     (let groups = task_groups (take 500 (all_tasks s)); (row, st) = get_or_create_row (api_store s)
      in (TasksPage groups row, put_store st s))"

definition web_switch :: "'y web_env \<Rightarrow> bool \<Rightarrow> ('v, 'y) web_route" where
  "web_switch env paused s =
     (Redirect ''/web/tasks'' KeepCookie,
      put_store (snd (set_paused paused ''web'' (ap_now (wb_api env) (as_world s)) (api_store s))) s)"

text \<open>A second recorded pull request of the task raises in \<open>scalar_one_or_none\<close>.\<close>

definition task_detail :: "string \<Rightarrow> ('v, 'y) web_route" where
  "task_detail task_id s =
     (case get_task (api_store s) task_id of
        None \<Rightarrow> NotFoundPage task_id
      | Some task \<Rightarrow>
          (let ctx = context_of task;
               or_else = (\<lambda>key d. let v = dict_get ctx key in if truthy v then v else d);
               page = (\<lambda>diff. case filter (\<lambda>p. pl_task_id p = Some task_id) (as_pulls s) of
                   _ # _ # _ \<Rightarrow> ServerError
                 | prs \<Rightarrow> DetailPage \<lparr>tp_task = task, tp_prompt = dict_get ctx ''prompt'', tp_repo = dict_get ctx ''repo'',
                     tp_diff = diff, tp_diff_lines = diff_lines diff,
                     tp_transitions = get_transitions (api_store s) task_id,
                     tp_stages = or_else ''stages'' (PList []),
                     tp_root_cause_report = dict_get ctx ''root_cause_report'',
                     tp_error = or_else ''error'' (dict_get ctx ''background_execution_error''),
                     tp_pull_request = (case prs of [] \<Rightarrow> None | p # _ \<Rightarrow> Some p),
                     tp_is_live = (tk_state task \<notin> TERMINAL_STATES)\<rparr>)
           in case or_else ''diff'' (PStr []) of PStr diff \<Rightarrow> page diff | _ \<Rightarrow> ServerError), s)"

text \<open>\<open>submit_bug\<close> calls the route of the API; the redirection carries its background run.\<close>

definition submit_bug :: "'y web_env \<Rightarrow> string \<Rightarrow> string \<Rightarrow> ('v, 'y) web_route" where
  "submit_bug env repo description s =
     (case create_task_endpoint (wb_api env)
             \<lparr>bc_task_type = ''bug_fix'', bc_description = Some description, bc_repo_id = None, bc_repo = Some repo\<rparr> s of
        (Answer _ (TaskOut task), s') \<Rightarrow> (Redirect (''/web/tasks/'' @ tk_id task) KeepCookie, s')
      | (_, s') \<Rightarrow> (ServerError, s'))"

text \<open>The routes open to a browser without a session.\<close>

fun open_route :: "web_request \<Rightarrow> bool" where
  "open_route (LoginForm _) = True"
| "open_route (LoginSubmit _) = True"
| "open_route Logout = True"
| "open_route _ = False"

fun web_route :: "'y web_env \<Rightarrow> web_request \<Rightarrow> ('v, 'y) web_route" where
  "web_route env (LoginForm err) = (\<lambda>s. (LoginPage err, s))"
| "web_route env (LoginSubmit token) = login_submit env token"
| "web_route env Logout = (\<lambda>s. (Redirect ''/web/login'' DeleteCookie, s))"
| "web_route env WebTasks = task_list"
| "web_route env WebPause = web_switch env True"
| "web_route env WebResume = web_switch env False"
| "web_route env (TaskDetail i) = task_detail i"
| "web_route env SubmitForm = (\<lambda>s. (SubmitPage (wb_by_path env (as_repos s)), s))"
| "web_route env (SubmitBug repo d) = submit_bug env repo d"

definition handle_web :: "'y web_env \<Rightarrow> string option \<Rightarrow> web_request \<Rightarrow> ('v, 'y) web_route" where
  "handle_web env cookie request s =
     (if open_route request then web_route env request s
      else case require_web_session env cookie (as_world s) of
          Inr _ \<Rightarrow> web_route env request s
        | Inl WebAuthRequired \<Rightarrow> (Redirect ''/web/login'' KeepCookie, s)
        | Inl (WebRaised _) \<Rightarrow> (ServerError, s))"

section \<open>Who sees and changes what\<close>

text \<open>
  The dashboard is closed to a browser without a session.  A request whose cookie the signature check
  does not accept changes nothing and is shown no task, no repository and no state of the engine; and
  the only way to a cookie is to submit the operator's token itself.\<close>

theorem dashboard_needs_a_session:
  assumes "require_web_session env cookie (as_world s) \<noteq> Inr ()" "handle_web env cookie r s = (answer, s')"
  shows "s' = s \<and> (case answer of
      LoginPage _ \<Rightarrow> True | ServerError \<Rightarrow> True
    | Redirect _ (SetCookie v age) \<Rightarrow> \<exists>k. k \<noteq> [] \<and> ap_token (wb_api env) = Some k \<and> r = LoginSubmit k \<and> v = wb_dumps env k (as_world s)
    | Redirect _ _ \<Rightarrow> True
    | _ \<Rightarrow> False)"
proof (cases "open_route r")
  case True
  then show ?thesis using assms(2)
    by (cases r) (auto simp: handle_web_def login_submit_def token_is_valid_def make_session_cookie_value_def web_token_def
        configured_token_def compare_digest_def bind_result_def split: sum.splits option.splits if_splits)
next
  case False
  then show ?thesis using assms by (auto simp: handle_web_def split: sum.splits web_exn.splits)
qed

text \<open>The request to the API that does what a request to the dashboard does.\<close>

fun api_counterpart :: "web_request \<Rightarrow> api_request" where
  "api_counterpart WebTasks = PauseState"
| "api_counterpart WebPause = PauseAll (Some ''web'')"
| "api_counterpart WebResume = ResumeAll (Some ''web'')"
| "api_counterpart (SubmitBug repo d) = CreateTask
     \<lparr>bc_task_type = ''bug_fix'', bc_description = Some d, bc_repo_id = None, bc_repo = Some repo\<rparr>"
| "api_counterpart _ = ListRepositories"

lemma web_effects:
  "snd (login_submit env token s) = s" "snd (task_detail i s) = s"
  "snd (task_list s) = snd (pause_state_endpoint s)"
  "snd (web_switch env b s) = snd (pause_endpoint (wb_api env) b (Some ''web'') s)"
  "snd (submit_bug env repo d s) = snd (create_task_endpoint (wb_api env)
     \<lparr>bc_task_type = ''bug_fix'', bc_description = Some d, bc_repo_id = None, bc_repo = Some repo\<rparr> s)"
  by (simp_all add: login_submit_def task_detail_def task_list_def pause_state_endpoint_def web_switch_def
      pause_endpoint_def submit_bug_def Let_def split: prod.split api_response.split api_body.split)

text \<open>
  C29: The dashboard has no privileged path.  Whatever a request to the dashboard does to the state, tasks,
  queue and pause switch, a request to the API that carries the operator's token does the same: a bug
  submitted is the task and the background run the API makes of it, and the pause switch is the API's.\<close>

theorem dashboard_acts_as_the_api:
  assumes "ap_token (wb_api env) = Some k" "k \<noteq> []" "ascii k"
  shows "snd (handle_web env cookie r s) =
    (if open_route r \<or> require_web_session env cookie (as_world s) = Inr ()
     then snd (handle_request (wb_api env) (Some k) (api_counterpart r) s) else s)"
proof -
  have token: "handle_request (wb_api env) (Some k) r' s = route_request (wb_api env) r' s" for r'
    using assms by (simp add: handle_request_def require_operator_token_def configured_token_def compare_digest_def)
  have "snd (web_route env r s) = snd (handle_request (wb_api env) (Some k) (api_counterpart r) s)"
    unfolding token by (cases r) (simp_all add: web_effects)
  then show ?thesis by (auto simp: handle_web_def split: sum.split web_exn.split)
qed

section \<open>What the pages show\<close>

lemma sum_concat: "sum_list (concat xss) = sum_list (map sum_list (xss :: nat list list))"
  by (induction xss) simp_all

lemma group_counts:
  "sum_list (map sg_count (task_group ts s)) = length (filter (\<lambda>t. tk_state t = s) ts)"
  by (auto simp: task_group_def Let_def inj_state_value filter_empty_conv intro: arg_cong [where f = length] filter_cong
      dest: inj_state_value)

lemma groups_count_every_task: "sum_list (map sg_count (task_groups ts)) = length ts"
proof -
  have "sum_list (map sg_count (task_groups ts)) = (\<Sum>s\<leftarrow>task_states. length (filter (\<lambda>t. tk_state t = s) ts))"
    by (simp add: task_groups_def map_concat sum_concat comp_def group_counts)
  also have "\<dots> = length ts"
  proof (induction ts)
    case (Cons t ts)
    have "(\<Sum>s\<leftarrow>task_states. length (filter (\<lambda>t. tk_state t = s) (t # ts)))
        = (\<Sum>s\<leftarrow>task_states. (if tk_state t = s then 1 else 0)) + (\<Sum>s\<leftarrow>task_states. length (filter (\<lambda>t. tk_state t = s) ts))"
      unfolding sum_list_addf [symmetric] by (intro arg_cong [where f = sum_list] map_cong) auto
    also have "(\<Sum>s\<leftarrow>task_states. (if tk_state t = s then 1 else 0)) = (1::nat)"
      by (cases "tk_state t") (simp_all add: task_states_def)
    finally show ?case using Cons.IH by simp
  qed (simp add: task_states_def)
  finally show ?thesis .
qed

lemma group_shows_or_counts:
  "g \<in> set (task_groups ts) \<Longrightarrow> length (sg_tasks g) + sg_overflow g = sg_count g \<and> length (sg_tasks g) \<le> 25
     \<and> set (sg_tasks g) \<subseteq> set ts"
  by (auto simp: task_groups_def task_group_def TASKS_PER_GROUP_CAP_def Let_def split: if_splits dest!: in_set_takeD)

text \<open>Between 360 and 364 days a date is \<open>0y ago\<close>: twelve months of thirty days are not yet a year.\<close>

lemma almost_a_year_is_zero_years:
  assumes "360 \<le> d" "d < 365" shows "relative_time dash (Some (d * 24 * 60 * 60)) = ''0y ago''"
proof -
  have "d div 365 = 0" "12 \<le> d div 30" "\<not> d < 30" "d div 30 < 13" using assms by linarith+
  moreover have "int_str 0 = ''0''" by code_simp
  ultimately show ?thesis using assms by (simp add: relative_time_def Let_def)
qed

text \<open>A removed line that itself begins with two dashes, a comment in SQL or Lua, is shown as a header of the diff.\<close>

lemma removed_comment_shown_as_header: "diff_line (''-'' @ ''--'' @ rest) = (''meta'', ''---'' @ rest)"
  by (simp add: diff_line_def)

text \<open>When two pull requests are recorded for a task, its page is an error.\<close>

lemma two_pull_requests_break_the_page:
  assumes "get_task (api_store s) i = Some task" "filter (\<lambda>p. pl_task_id p = Some i) (as_pulls s) = p # q # ps"
    "dict_get (context_of task) ''diff'' = PStr d"
  shows "task_detail i s = (ServerError, s)"
  using assms by (simp add: task_detail_def Let_def)

lemma non_ascii_login_raises:
  "ap_token (wb_api env) = Some k \<Longrightarrow> k \<noteq> [] \<Longrightarrow> \<not> ascii t \<Longrightarrow> login_submit env t s = (ServerError, s)"
  by (simp add: login_submit_def token_is_valid_def web_token_def configured_token_def compare_digest_def)

section \<open>Concrete requests\<close>

definition demo_web_env :: "unit web_env" where
  "demo_web_env = \<lparr>wb_api = demo_api_env, wb_loads = (\<lambda>k c w n. if c = ''signed'' then Loaded else BadSignature),
     wb_dumps = (\<lambda>k w. ''signed''), wb_by_path = (\<lambda>rs. rs)\<rparr>"

lemma demo_sessions:
  "require_web_session demo_web_env (Some ''forged'') w = Inl WebAuthRequired"
  "require_web_session demo_web_env (Some ''signed'') w = Inr ()"
  by (simp_all add: require_web_session_def web_token_def configured_token_def demo_web_env_def demo_api_facts(1))

theorem dashboard_needs_a_session_witness:
  "snd (handle_web demo_web_env (Some ''forged'') WebPause demo_api) = demo_api"
proof -
  obtain answer s' where h: "handle_web demo_web_env (Some ''forged'') WebPause demo_api = (answer, s')"
    by (metis prod.exhaust)
  show ?thesis using dashboard_needs_a_session [OF _ h] h by (simp add: demo_sessions)
qed

theorem dashboard_acts_as_the_api_witness:
  "snd (handle_web demo_web_env (Some ''signed'') WebPause demo_api)
     = snd (handle_request (wb_api demo_web_env) (Some ''key'') (PauseAll (Some ''web'')) demo_api)"
proof -
  have "ap_token (wb_api demo_web_env) = Some ''key''" by (simp add: demo_web_env_def demo_api_facts(1))
  from dashboard_acts_as_the_api [OF this _ demo_api_facts(2), of "Some ''signed''" WebPause demo_api]
  show ?thesis by (simp add: demo_sessions)
qed

end
