(* ===== verification/TelegramBot.thy ===== *)
theory TelegramBot
  imports OperatorApi
begin

text \<open>
  The Telegram bot, \<open>amop/interfaces/telegram_bot/bot.py\<close>: a client of the API with an allowlist of its own.
  Its calls end in \<open>handle_request\<close>; \<open>bt_reach\<close> says what the network does to a call, and \<open>bt_target\<close> what
  httpx and the API's router make of a path built from a task id somebody typed.  The characters of its
  messages above code point 255 are \<open>bt_glyph\<close> of a name.
\<close>

section \<open>State\<close>

text \<open>A call is delivered, never sent, sent with its answer lost, or answered by an error outside the routes.\<close>

datatype reach = Delivered | Unsent | AnswerLost | FailedWith nat

record 'y bot_env =
  bt_server :: "'y api_env"
  bt_reach :: "world \<Rightarrow> reach"
  bt_target :: "string \<Rightarrow> string \<Rightarrow> nat + api_request"
  bt_api_token :: string
  bt_bot_token :: string
  bt_allowed_ids :: string
  bt_glyph :: "string \<Rightarrow> string"
  bt_ids_in_order :: "string list \<Rightarrow> string list"
  bt_users_in_order :: "int list \<Rightarrow> int list"
  bt_delivers :: "int \<Rightarrow> string \<Rightarrow> bool"

text \<open>An edited command has no \<open>update.message\<close>.\<close>

record tg_update =
  up_user :: "(int \<times> string option) option"
  up_message :: bool
  up_args :: "string list"

datatype sent = Replied string | RepliedMarkdown string | Notified int string

record ('v, 'y) bot_state =
  bo_api :: "('v, 'y) api_state"
  bo_sent :: "sent list"
  bo_seen :: "string \<Rightarrow> string list"
  bo_primed :: bool

type_synonym ('v, 'y, 'a) bot_action = "('v, 'y) bot_state \<Rightarrow> (string, 'a) result \<times> ('v, 'y) bot_state"

section \<open>Reading what people write\<close>

definition DEPENDENCY_KEYWORDS :: "string list" where
  "DEPENDENCY_KEYWORDS = [''update'', ''dependency'', ''dependencies'', ''cve'', ''vulnerable'', ''vulnerability'',
     ''advisory'', ''outdated'', ''upgrade'', ''bump'']"

definition OPTIMIZATION_KEYWORDS :: "string list" where
  "OPTIMIZATION_KEYWORDS = [''slow'', ''optimize'', ''optimise'', ''optimization'', ''performance'', ''latency'',
     ''faster'', ''speed up'', ''bottleneck'']"

text \<open>\<open>text.split()\<close>: the pieces between runs of whitespace.\<close>

definition split_space :: "string \<Rightarrow> string list" where
  "split_space s = filter (\<lambda>w. w \<noteq> []) (split_on CHR 0x20 (map (\<lambda>c. if py_space c then CHR 0x20 else c) s))"

definition classify_intent :: "string \<Rightarrow> string option" where
  "classify_intent text =
     (let lowered = py_lower text;
          is_dependency = list_ex (contains lowered) DEPENDENCY_KEYWORDS;
          is_optimization = list_ex (contains lowered) OPTIMIZATION_KEYWORDS
      in if is_dependency \<and> is_optimization then None
         else if length (split_space text) < 3 \<and> \<not> (is_dependency \<or> is_optimization) then None
         else if is_dependency then Some ''dependency_update''
         else if is_optimization then Some ''optimization''
         else Some ''bug_fix'')"

text \<open>\<open>int(x)\<close> of a string.\<close>

definition digit_of :: "char \<Rightarrow> int option" where
  "digit_of c = (let n = (of_char c :: nat) in if 48 \<le> n \<and> n \<le> 57 then Some (int n - 48) else None)"

definition py_int :: "string \<Rightarrow> int option" where
  "py_int x =
     (let t = py_strip x;
          (sign, d) = (case t of c # cs \<Rightarrow>
              if c = CHR ''-'' then (-1, cs) else if c = CHR ''+'' then (1, cs) else (1, t) | [] \<Rightarrow> (1, t));
          parts = split_on CHR ''_'' d
      in if [] \<in> set parts \<or> list_ex (\<lambda>c. digit_of c = None) (concat parts) then None
         else Some (sign * foldl (\<lambda>n c. 10 * n + the (digit_of c)) 0 (concat parts)))"

definition allowed_user_ids :: "'y bot_env \<Rightarrow> (string, int list) result" where
  "allowed_user_ids env =
     (let ids = map py_int (filter (\<lambda>x. py_strip x \<noteq> []) (split_on CHR '','' (bt_allowed_ids env)))
      in if None \<in> set ids then Inl ''ValueError'' else Inr (remdups (map the ids)))"

section \<open>Talking to the API and to the user\<close>

definition status_code :: "'v api_response \<Rightarrow> nat" where
  "status_code r = (case r of Answer n _ \<Rightarrow> n | ApiError n _ _ \<Rightarrow> n | Held \<Rightarrow> 0)"

text \<open>A request the engine holds while it is paused runs into the client's timeout.\<close>

definition call_api ::
    "'y bot_env \<Rightarrow> string option \<Rightarrow> nat + api_request \<Rightarrow> ('v, 'y, 'v api_response) bot_action" where
  "call_api env credentials target s =
     (let (answer, api) = (case target of
            Inl code \<Rightarrow> (ApiError code ''HTTP_ERROR'' [], bo_api s)
          | Inr request \<Rightarrow> handle_request (bt_server env) credentials request (bo_api s))
      in case bt_reach env (as_world (bo_api s)) of
           Unsent \<Rightarrow> (Inl ''ConnectError'', s)
         | FailedWith code \<Rightarrow> (Inr (ApiError code ''INTERNAL_ERROR'' []), s)
         | AnswerLost \<Rightarrow> (Inl ''ReadError'', s\<lparr>bo_api := api\<rparr>)
         | Delivered \<Rightarrow> (if answer = Held then Inl ''ReadTimeout'' else Inr answer, s\<lparr>bo_api := api\<rparr>))"

definition api_get :: "'y bot_env \<Rightarrow> api_request \<Rightarrow> ('v, 'y, 'v api_response) bot_action" where
  "api_get env request = call_api env None (Inr request)"

definition api_post :: "'y bot_env \<Rightarrow> nat + api_request \<Rightarrow> ('v, 'y, 'v api_response) bot_action" where
  "api_post env target = call_api env (Some (bt_api_token env)) target"

definition say :: "sent \<Rightarrow> tg_update \<Rightarrow> ('v, 'y, unit) bot_action" where
  "say m upd s =
     (if up_message upd then (Inr (), s\<lparr>bo_sent := bo_sent s @ [m]\<rparr>) else (Inl ''AttributeError'', s))"

abbreviation reply_text :: "string \<Rightarrow> tg_update \<Rightarrow> ('v, 'y, unit) bot_action" where
  "reply_text t \<equiv> say (Replied t)"

definition is_allowed :: "'y bot_env \<Rightarrow> tg_update \<Rightarrow> (string, bool) result" where
  "is_allowed env upd =
     (case up_user upd of None \<Rightarrow> Inr False
      | Some (uid, _) \<Rightarrow> bind_result (allowed_user_ids env) (\<lambda>ids. Inr (uid \<in> set ids)))"

definition reject_unauthorized :: "tg_update \<Rightarrow> ('v, 'y, unit) bot_action" where
  "reject_unauthorized upd s =
     (if up_message upd then reply_text ''Not authorized to use this bot.'' upd s else (Inr (), s))"

definition when_allowed :: "'y bot_env \<Rightarrow> tg_update \<Rightarrow> ('v, 'y, unit) bot_action \<Rightarrow> ('v, 'y, unit) bot_action" where
  "when_allowed env upd body s =
     (case is_allowed env upd of
        Inl e \<Rightarrow> (Inl e, s)
      | Inr ok \<Rightarrow> if ok then body s else reject_unauthorized upd s)"

section \<open>The status message\<close>

definition DONE_STATE_NAMES :: "string list" where
  "DONE_STATE_NAMES = [''MERGED'', ''RESOLVED'', ''CANCELLED'', ''MERGED_INTO_EXISTING'', ''NEEDS_HUMAN_INPUT'']"

text \<open>Every state has an emoji.\<close>

definition state_emoji :: "'y bot_env \<Rightarrow> string \<Rightarrow> string" where
  "state_emoji env state = bt_glyph env (if state_of_value state = None then ''bullet'' else state)"

definition STATUS_GROUP_CAP :: nat where "STATUS_GROUP_CAP = 10"
definition DESCRIPTION_MAX_LEN :: nat where "DESCRIPTION_MAX_LEN = 80"

definition MARKDOWN_V2_SPECIAL :: string where
  "MARKDOWN_V2_SPECIAL = ''_*[]()~`>#+-=|{}.!'' @ [CHR 0x5C]"

definition escape_markdown_v2 :: "string \<Rightarrow> string" where
  "escape_markdown_v2 text = concat (map (\<lambda>c. if c \<in> set MARKDOWN_V2_SPECIAL then [CHR 0x5C, c] else [c]) text)"

definition task_description :: "'y bot_env \<Rightarrow> task_row \<Rightarrow> (string, string option) result" where
  "task_description env task =
     (let desc = dict_get (context_of task) ''prompt''
      in if \<not> truthy desc then Inr None
         else case desc of
             PStr t \<Rightarrow>
               (let d = join_with '' '' (split_space t)
                in Inr (Some (if length d > DESCRIPTION_MAX_LEN
                        then rev (dropWhile py_space (rev (take DESCRIPTION_MAX_LEN d))) @ bt_glyph env ''ellipsis'' else d)))
           | _ \<Rightarrow> Inl ''AttributeError'')"

fun all_results :: "('e, 'a) result list \<Rightarrow> ('e, 'a list) result" where
  "all_results [] = Inr []"
| "all_results (r # rs) = bind_result r (\<lambda>a. bind_result (all_results rs) (\<lambda>as. Inr (a # as)))"

definition status_lines :: "'y bot_env \<Rightarrow> bool \<Rightarrow> bool \<Rightarrow> task_row \<Rightarrow> (string, string list) result" where
  "status_lines env show_description show_state t =
     (let state = state_value (tk_state t);
          header = state_emoji env state @ '' `'' @ take 8 (tk_id t) @ ''` '' @ escape_markdown_v2 (tk_task_type t)
            @ (if show_state then '' '' @ bt_glyph env ''dash'' @ '' '' @ escape_markdown_v2 state else [])
      in if \<not> show_description then Inr [header]
         else bind_result (task_description env t) (\<lambda>d. Inr [header, case d of
             None \<Rightarrow> ''     _no description_''
           | Some desc \<Rightarrow> if desc = [] then ''     _no description_'' else ''     '' @ escape_markdown_v2 desc]))"

definition format_status_group ::
    "'y bot_env \<Rightarrow> string \<Rightarrow> string \<Rightarrow> bool \<Rightarrow> bool \<Rightarrow> task_row list \<Rightarrow> (string, string list) result" where
  "format_status_group env emoji title show_description show_state tasks =
     (if tasks = [] then Inr []
      else bind_result (all_results (map (status_lines env show_description show_state) (take STATUS_GROUP_CAP tasks)))
        (\<lambda>shown. Inr [join_with [CHR 0x0A]
          ([bt_glyph env emoji @ '' *'' @ title @ ''* '' @ [CHR 0x5C] @ ''('' @ nat_digits (length tasks) @ [CHR 0x5C] @ '')'']
           @ concat shown
           @ (let remaining = length tasks - length (take STATUS_GROUP_CAP tasks)
              in if remaining > 0 then [escape_markdown_v2 (''...and '' @ nat_digits remaining @ '' more'')] else []))]))"

text \<open>The four groups of \<open>/status\<close>.\<close>

definition waiting_tasks :: "task_row list \<Rightarrow> task_row list" where
  "waiting_tasks = filter (\<lambda>t. state_value (tk_state t) = ''WAITING_FOR_APPROVAL'')"

definition failed_tasks :: "task_row list \<Rightarrow> task_row list" where
  "failed_tasks = filter (\<lambda>t. state_value (tk_state t) = ''FAILED'')"

definition done_tasks :: "task_row list \<Rightarrow> task_row list" where
  "done_tasks = filter (\<lambda>t. state_value (tk_state t) \<in> set DONE_STATE_NAMES)"

definition in_progress_tasks :: "task_row list \<Rightarrow> task_row list" where
  "in_progress_tasks = filter (\<lambda>t. state_value (tk_state t) \<notin> set DONE_STATE_NAMES
     \<and> state_value (tk_state t) \<notin> {''WAITING_FOR_APPROVAL'', ''FAILED''})"

definition status_text :: "'y bot_env \<Rightarrow> task_row list \<Rightarrow> (string, string) result" where
  "status_text env tasks =
     bind_result (all_results
        [format_status_group env ''hourglass'' ''Waiting for your approval'' True False (waiting_tasks tasks),
         format_status_group env ''cross'' ''Failed'' False False (failed_tasks tasks),
         format_status_group env ''arrows'' ''In progress'' False True (in_progress_tasks tasks),
         format_status_group env ''check'' ''Done'' False True (done_tasks tasks)])
       (\<lambda>blocks. Inr (join_with [CHR 0x0A, CHR 0x0A] (concat blocks)))"

definition status_command :: "'y bot_env \<Rightarrow> tg_update \<Rightarrow> ('v, 'y, unit) bot_action" where
  "status_command env upd = when_allowed env upd
     (on_success (api_get env (ListTasks None None 100)) (\<lambda>r.
        case r of
          Answer _ (TasksOut tasks) \<Rightarrow>
            if tasks = [] then reply_text ''No tasks yet.'' upd
            else (case status_text env tasks of
                    Inl e \<Rightarrow> (\<lambda>s. (Inl e, s))
                  | Inr t \<Rightarrow> say (RepliedMarkdown t) upd)
        | _ \<Rightarrow> reply_text (''Could not fetch tasks ('' @ nat_digits (status_code r) @ '').'') upd))"

section \<open>The commands that ask for something\<close>

definition ask_command :: "'y bot_env \<Rightarrow> tg_update \<Rightarrow> ('v, 'y, unit) bot_action" where
  "ask_command env upd = when_allowed env upd
     (let message = join_with '' '' (up_args upd)
      in if py_strip message = [] then reply_text ''Usage: /ask <message>'' upd
         else case classify_intent message of
             None \<Rightarrow> reply_text (''Not sure what kind of task this is -- a bug to fix, a ''
               @ ''dependency to update, or something to speed up? Try ''
               @ ''rephrasing with a bit more detail.'') upd
           | Some task_type \<Rightarrow>
               on_success (api_post env (Inr (CreateTask \<lparr>bc_task_type = task_type, bc_description = Some message,
                    bc_repo_id = None, bc_repo = None\<rparr>))) (\<lambda>r.
                 case r of
                   Answer _ (TaskOut task) \<Rightarrow>
                     reply_text (''Created a '' @ task_type @ '' task ('' @ take 8 (tk_id task) @ ''). It still needs ''
                       @ ''to be run (this creates the task record; execution is a ''
                       @ ''separate step today).'') upd
                 | _ \<Rightarrow> reply_text (''Could not create the task ('' @ nat_digits (status_code r) @ '').'') upd))"

definition report_text :: "report_summary \<Rightarrow> string" where
  "report_text r = join_with [CHR 0x0A]
     ([''Report: '' @ rs_period_start r @ '' .. '' @ rs_period_end r,
       ''  resolved: '' @ int_str (rs_tasks_resolved r) @ ''  PRs opened: '' @ int_str (rs_prs_opened r)
         @ ''  merged: '' @ int_str (rs_prs_merged r) @ ''  deps updated: '' @ int_str (rs_dependencies_updated r),
       [], ''Top issues:'']
      @ (if rs_top_issues r = [] then [''  (none)''] else map (\<lambda>i. ''  - '' @ i) (rs_top_issues r)))"

definition report_command :: "'y bot_env \<Rightarrow> tg_update \<Rightarrow> ('v, 'y, unit) bot_action" where
  "report_command env upd = when_allowed env upd
     (on_success (reply_text ''Generating report...'' upd) (\<lambda>_.
      on_success (api_post env (Inr (GenerateReport None None))) (\<lambda>r.
        case r of
          Answer _ (ReportOut report) \<Rightarrow> reply_text (report_text report) upd
        | _ \<Rightarrow> reply_text (''Could not generate the report ('' @ nat_digits (status_code r) @ '').'') upd)))"

definition approve_or_reject :: "'y bot_env \<Rightarrow> string \<Rightarrow> tg_update \<Rightarrow> ('v, 'y, unit) bot_action" where
  "approve_or_reject env action upd = when_allowed env upd
     (case up_args upd of
        [] \<Rightarrow> reply_text (''Usage: /'' @ action @ '' <task_id>'') upd
      | task_id # _ \<Rightarrow>
          on_success (api_post env (bt_target env task_id action)) (\<lambda>r.
            if status_code r = 200
            then (case r of
                    Answer _ (TaskOut task) \<Rightarrow>
                      reply_text (''Task '' @ take 8 task_id @ '' -> '' @ state_value (tk_state task) @ ''.'') upd
                  | _ \<Rightarrow> (\<lambda>s. (Inl ''KeyError'', s)))
            else if status_code r = 404 then reply_text (''No task with id '' @ task_id @ ''.'') upd
            else if status_code r = 409
            then reply_text (''Can'' @ [CHR 0x27] @ ''t '' @ action @ '' task '' @ take 8 task_id @ '' from its current state.'') upd
            else reply_text (''Request failed ('' @ nat_digits (status_code r) @ '').'') upd))"

definition approve_command :: "'y bot_env \<Rightarrow> tg_update \<Rightarrow> ('v, 'y, unit) bot_action" where
  "approve_command env = approve_or_reject env ''approve''"

definition reject_command :: "'y bot_env \<Rightarrow> tg_update \<Rightarrow> ('v, 'y, unit) bot_action" where
  "reject_command env = approve_or_reject env ''reject''"

definition pause_or_resume :: "'y bot_env \<Rightarrow> bool \<Rightarrow> tg_update \<Rightarrow> ('v, 'y, unit) bot_action" where
  "pause_or_resume env pause upd = when_allowed env upd
     (let by_whom = (case up_user upd of
            None \<Rightarrow> ''telegram''
          | Some (uid, username) \<Rightarrow> ''telegram:'' @ (case username of
              Some u \<Rightarrow> if u \<noteq> [] then u else int_str uid | None \<Rightarrow> int_str uid))
      in on_success (api_post env (Inr (if pause then PauseAll (Some by_whom) else ResumeAll (Some by_whom)))) (\<lambda>r.
           case r of
             Answer _ (PauseOut state) \<Rightarrow>
               if pause
               then reply_text (bt_glyph env ''pause'' @ '' PAUSED by ''
                      @ (case pz_paused_by state of Some b \<Rightarrow> b | None \<Rightarrow> ''None'')
                      @ ''. In-flight work finishes ''
                      @ ''its current step; no new task-state transitions start until ''
                      @ ''/resume.'') upd
               else reply_text (bt_glyph env ''play'' @ '' RESUMED. Any held transitions proceed now.'') upd
           | _ \<Rightarrow> reply_text (''Could not '' @ (if pause then ''pause'' else ''resume'') @ '' (''
                   @ nat_digits (status_code r) @ '').'') upd))"

definition pause_command :: "'y bot_env \<Rightarrow> tg_update \<Rightarrow> ('v, 'y, unit) bot_action" where
  "pause_command env = pause_or_resume env True"

definition resume_command :: "'y bot_env \<Rightarrow> tg_update \<Rightarrow> ('v, 'y, unit) bot_action" where
  "resume_command env = pause_or_resume env False"

section \<open>Notifications\<close>

definition NOTIFY_STATES :: "string list" where
  "NOTIFY_STATES = [''WAITING_FOR_APPROVAL'', ''FAILED'']"

definition notice :: "'y bot_env \<Rightarrow> string \<Rightarrow> string \<Rightarrow> string" where
  "notice env state i =
     (if state = ''WAITING_FOR_APPROVAL''
      then bt_glyph env ''bell'' @ '' Task `'' @ take 8 i @ ''` is waiting for your approval.''
      else bt_glyph env ''cross'' @ '' Task `'' @ take 8 i @ ''` failed.'')"

text \<open>The messages about new tasks that arrive; a failed one is logged.\<close>

definition notices :: "'y bot_env \<Rightarrow> string \<Rightarrow> string list \<Rightarrow> int list \<Rightarrow> sent list" where
  "notices env state ids users =
     concat (map (\<lambda>i. map (\<lambda>u. Notified u (notice env state i))
       (filter (\<lambda>u. bt_delivers env u (notice env state i)) (bt_users_in_order env users))) ids)"

definition announce :: "'y bot_env \<Rightarrow> string \<Rightarrow> string list \<Rightarrow> ('v, 'y, unit) bot_action" where
  "announce env state ids s =
     (if ids = [] then (Inr (), s)
      else case allowed_user_ids env of
          Inl e \<Rightarrow> (Inl e, s)
        | Inr users \<Rightarrow> (Inr (), s\<lparr>bo_sent := bo_sent s @ notices env state ids users\<rparr>))"

definition poll_state :: "'y bot_env \<Rightarrow> string \<Rightarrow> ('v, 'y, unit) bot_action" where
  "poll_state env state = on_success (api_get env (ListTasks (Some state) None 50)) (\<lambda>r.
     case r of
       Answer _ (TasksOut tasks) \<Rightarrow> (\<lambda>s.
         let current_ids = remdups (map tk_id tasks)
         in on_success
              (if bo_primed s
               then announce env state (bt_ids_in_order env (filter (\<lambda>i. i \<notin> set (bo_seen s state)) current_ids))
               else (\<lambda>s. (Inr (), s)))
              (\<lambda>_ s. (Inr (), s\<lparr>bo_seen := (bo_seen s)(state := current_ids)\<rparr>)) s)
     | _ \<Rightarrow> (\<lambda>s. (Inr (), s)))"

fun poll_states :: "'y bot_env \<Rightarrow> string list \<Rightarrow> ('v, 'y, unit) bot_action" where
  "poll_states env [] s = (Inr (), s)"
| "poll_states env (state # states) s = on_success (poll_state env state) (\<lambda>_. poll_states env states) s"

definition notify_job :: "'y bot_env \<Rightarrow> ('v, 'y, unit) bot_action" where
  "notify_job env = on_success (poll_states env NOTIFY_STATES) (\<lambda>_ s. (Inr (), s\<lparr>bo_primed := True\<rparr>))"

section \<open>Wiring\<close>

datatype bot_command = Status | Ask | Report | Approve | Reject | Pause | Resume

definition build_application :: "'y bot_env \<Rightarrow> (string, (string \<times> bot_command) list) result" where
  "build_application env =
     (if bt_bot_token env = [] then Inl ''TELEGRAM_BOT_TOKEN is not set''
      else if bt_api_token env = [] then Inl ''AMOP_API_TOKEN is not set''
      else Inr [(''status'', Status), (''ask'', Ask), (''report'', Report), (''approve'', Approve),
        (''reject'', Reject), (''pause'', Pause), (''resume'', Resume)])"

fun run_command :: "'y bot_env \<Rightarrow> bot_command \<Rightarrow> tg_update \<Rightarrow> ('v, 'y, unit) bot_action" where
  "run_command env Status = status_command env"
| "run_command env Ask = ask_command env"
| "run_command env Report = report_command env"
| "run_command env Approve = approve_command env"
| "run_command env Reject = reject_command env"
| "run_command env Pause = pause_command env"
| "run_command env Resume = resume_command env"

section \<open>A client, and only for those on the list\<close>

text \<open>
  \<open>quiet m\<close>: \<open>m\<close> leaves the API's state alone.  \<open>one_call env m\<close>: what \<open>m\<close> does to it is what one request
  with the bot's token does.\<close>

definition quiet :: "('v, 'y, 'a) bot_action \<Rightarrow> bool" where
  "quiet m \<longleftrightarrow> (\<forall>s. bo_api (snd (m s)) = bo_api s)"

definition one_call :: "'y bot_env \<Rightarrow> ('v, 'y, 'a) bot_action \<Rightarrow> bool" where
  "one_call env m \<longleftrightarrow> (\<forall>s. bo_api (snd (m s)) = bo_api s
     \<or> (\<exists>r. bo_api (snd (m s)) = snd (handle_request (bt_server env) (Some (bt_api_token env)) r (bo_api s))))"

named_theorems bot_rules

lemma quiet_plain [bot_rules]:
  "quiet (say m upd)" "quiet (\<lambda>s. (r, s))" "quiet (reject_unauthorized upd)" "quiet (announce env state ids)"
  "quiet (\<lambda>s. (Inr (), s\<lparr>bo_seen := f s\<rparr>))" "quiet (\<lambda>s. (Inr (), s\<lparr>bo_primed := b\<rparr>))"
  by (simp_all add: quiet_def say_def reject_unauthorized_def announce_def split: sum.split)

lemma quiet_on_success [bot_rules]:
  assumes "quiet m" "\<And>a. quiet (k a)" shows "quiet (on_success m k)"
proof -
  have "bo_api (snd (on_success m k s)) = bo_api s" for s
  proof (cases "m s")
    case (Pair q t)
    then have "bo_api t = bo_api s" using assms(1) unfolding quiet_def by (metis snd_conv)
    then show ?thesis using Pair assms(2) by (cases q) (simp_all add: on_success_def quiet_def)
  qed
  then show ?thesis by (simp add: quiet_def)
qed

lemma quiet_if [bot_rules]: "quiet m \<Longrightarrow> quiet n \<Longrightarrow> quiet (if b then m else n)"
  by simp

lemma quiet_get [bot_rules]: "quiet (api_get env (ListTasks st rp k))"
  by (simp add: quiet_def api_get_def call_api_def handle_request_def list_tasks_endpoint_def Let_def split: reach.split)

lemma call_once: "one_call env (api_post env target)"
  unfolding one_call_def api_post_def call_api_def
  by (auto split: sum.split reach.split prod.split) (metis snd_conv)+

lemma one_call_quiet: "quiet m \<Longrightarrow> one_call env m"
  by (simp add: quiet_def one_call_def)

lemma one_call_then:
  assumes "one_call env m" "\<And>a. quiet (k a)" shows "one_call env (on_success m k)"
proof -
  have "bo_api (snd (on_success m k s)) = bo_api (snd (m s))" for s
    using assms(2) by (cases "m s"; cases "fst (m s)") (auto simp: on_success_def quiet_def)
  then show ?thesis using assms(1) by (simp add: one_call_def)
qed

lemma then_one_call:
  assumes "quiet m" "\<And>a. one_call env (k a)" shows "one_call env (on_success m k)"
  unfolding one_call_def
proof
  fix s
  show "bo_api (snd (on_success m k s)) = bo_api s \<or> (\<exists>r. bo_api (snd (on_success m k s))
      = snd (handle_request (bt_server env) (Some (bt_api_token env)) r (bo_api s)))"
  proof (cases "m s")
    case (Pair q t)
    then have "bo_api t = bo_api s" using assms(1) unfolding quiet_def by (metis snd_conv)
    then show ?thesis using Pair assms(2) [unfolded one_call_def, rule_format, of _ t]
      by (cases q) (simp_all add: on_success_def)
  qed
qed

text \<open>A command checks its sender first and then makes at most one call.\<close>

definition guarded :: "'y bot_env \<Rightarrow> tg_update \<Rightarrow> ('v, 'y, unit) bot_action \<Rightarrow> bool" where
  "guarded env upd m \<longleftrightarrow> (\<exists>body. m = when_allowed env upd body \<and> one_call env body)"

lemma guardedI: "one_call env body \<Longrightarrow> guarded env upd (when_allowed env upd body)"
  unfolding guarded_def by blast

lemma one_call_post: "(\<And>r. quiet (k r)) \<Longrightarrow> one_call env (on_success (api_post env t) k)"
  by (rule one_call_then [OF call_once])

lemma one_call_say: "one_call env (say m upd)"
  by (rule one_call_quiet [OF quiet_plain(1)])

lemma guarded_status: "guarded env upd (status_command env upd)"
  unfolding status_command_def
  by (rule guardedI, rule one_call_quiet)
    (auto intro!: bot_rules split: sum.split api_response.split api_body.split)

lemma guarded_ask: "guarded env upd (ask_command env upd)"
  unfolding ask_command_def Let_def
  by (rule guardedI)
    (auto intro!: one_call_post one_call_say bot_rules split: option.split api_response.split api_body.split)

lemma guarded_report: "guarded env upd (report_command env upd)"
  unfolding report_command_def
  by (rule guardedI, rule then_one_call [OF quiet_plain(1)])
    (auto intro!: one_call_post bot_rules split: api_response.split api_body.split)

lemma guarded_decision: "guarded env upd (approve_or_reject env action upd)"
  unfolding approve_or_reject_def
  by (rule guardedI)
    (auto intro!: one_call_post one_call_say bot_rules split: list.split api_response.split api_body.split)

lemma guarded_switch: "guarded env upd (pause_or_resume env b upd)"
  unfolding pause_or_resume_def Let_def
  by (rule guardedI) (rule one_call_post, auto intro!: bot_rules split: api_response.split api_body.split)

lemmas guarded_commands = guarded_status guarded_ask guarded_report guarded_decision guarded_switch

lemma command_guarded: "guarded env upd (run_command env c upd)"
  by (cases c) (simp_all add: guarded_commands approve_command_def reject_command_def pause_command_def resume_command_def)

text \<open>
  C30: The bot is a client of the API, and only for the users on its list.  A command of a user who is not on
  the allowlist, of none, or under a list that does not parse leaves tasks, audit chain and pause
  switch as they were and is answered by the refusal or not at all; and whatever an allowed user's
  command changes is what one request to the API with the bot's token changes, also when the network
  fails or the answer is lost.\<close>

theorem bot_obeys_its_allowlist:
  assumes "run_command env c upd s = (r, s')"
  shows "if \<exists>ids uid name. allowed_user_ids env = Inr ids \<and> up_user upd = Some (uid, name) \<and> uid \<in> set ids
    then bo_api s' = bo_api s
      \<or> (\<exists>request. bo_api s' = snd (handle_request (bt_server env) (Some (bt_api_token env)) request (bo_api s)))
    else bo_api s' = bo_api s \<and> bo_sent s' \<in> {bo_sent s, bo_sent s @ [Replied ''Not authorized to use this bot.'']}"
proof -
  obtain body :: "('a, 'b, unit) bot_action" where body: "run_command env c upd = when_allowed env upd body" "one_call env body"
    using command_guarded unfolding guarded_def by blast
  then have run: "when_allowed env upd body s = (r, s')" using assms by simp
  show ?thesis
  proof (cases "is_allowed env upd = Inr True")
    case True
    then have "s' = snd (body s)" using run by (simp add: when_allowed_def)
    moreover have "\<exists>ids uid name. allowed_user_ids env = Inr ids \<and> up_user upd = Some (uid, name) \<and> uid \<in> set ids"
      using True by (cases "allowed_user_ids env") (auto simp: is_allowed_def split: option.splits)
    ultimately show ?thesis using body(2) by (simp add: one_call_def)
  next
    case False
    then have "\<not> (\<exists>ids uid name. allowed_user_ids env = Inr ids \<and> up_user upd = Some (uid, name) \<and> uid \<in> set ids)"
      by (auto simp: is_allowed_def)
    moreover have "bo_api s' = bo_api s \<and> bo_sent s' \<in> {bo_sent s, bo_sent s @ [Replied ''Not authorized to use this bot.'']}"
      using False run by (auto simp: when_allowed_def reject_unauthorized_def say_def split: sum.splits if_splits)
    ultimately show ?thesis by simp
  qed
qed

section \<open>The polling\<close>

text \<open>The tasks a poll for a state is given: the fifty newest of them.\<close>

definition window :: "string \<Rightarrow> ('v, 'y) bot_state \<Rightarrow> string list" where
  "window state s = remdups (map tk_id (take 50 (filter (\<lambda>t. state_value (tk_state t) = state) (all_tasks (bo_api s)))))"

definition unseen :: "string \<Rightarrow> ('v, 'y) bot_state \<Rightarrow> string list" where
  "unseen state s = filter (\<lambda>i. i \<notin> set (bo_seen s state)) (window state s)"

lemma get_delivered:
  assumes "bt_reach env (as_world (bo_api s)) = Delivered"
  shows "api_get env (ListTasks (Some state) None 50) s =
    (Inr (Answer 200 (TasksOut (take 50 (filter (\<lambda>t. state_value (tk_state t) = state) (all_tasks (bo_api s)))))), s)"
  using assms by (simp add: api_get_def call_api_def handle_request_def list_tasks_endpoint_def)

lemma poll_delivered:
  assumes "bt_reach env (as_world (bo_api s)) = Delivered" "bo_primed s" "allowed_user_ids env = Inr users"
  shows "poll_state env state s = (Inr (), s\<lparr>bo_sent := bo_sent s @ notices env state (bt_ids_in_order env (unseen state s)) users,
    bo_seen := (bo_seen s)(state := window state s)\<rparr>)"
  unfolding poll_state_def on_success_def [of "api_get env (ListTasks (Some state) None 50)"] get_delivered [OF assms(1)]
  using assms(2,3) by (simp add: on_success_def announce_def unseen_def window_def notices_def Let_def)

lemma notify_delivered:
  assumes "\<forall>w. bt_reach env w = Delivered" "bo_primed s" "allowed_user_ids env = Inr users"
  shows "notify_job env s = (Inr (), s\<lparr>
    bo_sent := bo_sent s @ concat (map (\<lambda>st. notices env st (bt_ids_in_order env (unseen st s)) users) NOTIFY_STATES),
    bo_seen := \<lambda>st. if st \<in> set NOTIFY_STATES then window st s else bo_seen s st, bo_primed := True\<rparr>)"
proof -
  let ?a = "''WAITING_FOR_APPROVAL''" and ?b = "''FAILED''"
  let ?s1 = "s\<lparr>bo_sent := bo_sent s @ notices env ?a (bt_ids_in_order env (unseen ?a s)) users,
      bo_seen := (bo_seen s)(?a := window ?a s)\<rparr>"
  have one: "poll_state env ?a s = (Inr (), ?s1)" using assms by (simp add: poll_delivered)
  have same: "window ?b ?s1 = window ?b s" "unseen ?b ?s1 = unseen ?b s" by (simp_all add: window_def unseen_def)
  have two: "poll_state env ?b ?s1 = (Inr (), ?s1\<lparr>bo_sent := bo_sent ?s1 @ notices env ?b (bt_ids_in_order env (unseen ?b s)) users,
      bo_seen := (bo_seen ?s1)(?b := window ?b s)\<rparr>)"
    using assms by (subst poll_delivered) (simp_all only: same, simp_all)
  have seen: "((bo_seen s)(?a := window ?a s))(?b := window ?b s)
      = (\<lambda>st. if st \<in> set NOTIFY_STATES then window st s else bo_seen s st)"
    by (auto simp: NOTIFY_STATES_def)
  show ?thesis unfolding notify_job_def NOTIFY_STATES_def poll_states.simps
    unfolding on_success_def one two prod.case sum.case poll_states.simps
    using seen by (simp add: NOTIFY_STATES_def)
qed

lemma mset_messages: "mset (concat (map (\<lambda>i. map (f i) us) ids)) = (\<Sum>i\<in>#mset ids. image_mset (f i) (mset us))"
  by (induction ids) simp_all

lemma mset_notices:
  assumes "\<And>us. mset (bt_users_in_order env us) = mset us" "\<And>u t. bt_delivers env u t"
    "mset ids = mset ids'"
  shows "mset (notices env state ids users) = mset (concat (map (\<lambda>i. map (\<lambda>u. Notified u (notice env state i)) users) ids'))"
  unfolding notices_def using assms by (simp add: mset_messages)

text \<open>
  What waits for a human is announced once.  A poll of the bot, once it is primed and when nothing is lost
  on the way, sends every allowed user one message for each of the fifty newest tasks of each of the two
  states that the poll before had not seen there, and no other message; it changes nothing in the API's
  state, and a poll that finds the same tasks again sends nothing.\<close>

theorem news_are_announced_once:
  assumes "\<forall>w. bt_reach env w = Delivered" "bo_primed s" "allowed_user_ids env = Inr users"
    and "\<And>ids. mset (bt_ids_in_order env ids) = mset ids" "\<And>us. mset (bt_users_in_order env us) = mset us"
    and "\<And>u t. bt_delivers env u t"
  shows "case notify_job env s of (r, s') \<Rightarrow> r = Inr () \<and> bo_api s' = bo_api s
    \<and> (\<exists>news. bo_sent s' = bo_sent s @ news
        \<and> mset news = mset (concat (map (\<lambda>st. concat (map (\<lambda>i. map (\<lambda>u. Notified u (notice env st i)) users) (unseen st s)))
             [''WAITING_FOR_APPROVAL'', ''FAILED''])))
    \<and> bo_sent (snd (notify_job env s')) = bo_sent s'"
proof -
  define s' where "s' = snd (notify_job env s)"
  note one = notify_delivered [OF assms(1-3)]
  have s': "s' = s\<lparr>bo_sent := bo_sent s @ concat (map (\<lambda>st. notices env st (bt_ids_in_order env (unseen st s)) users) NOTIFY_STATES),
      bo_seen := \<lambda>st. if st \<in> set NOTIFY_STATES then window st s else bo_seen s st, bo_primed := True\<rparr>"
    unfolding s'_def one by simp
  have empty: "bt_ids_in_order env [] = []" using assms(4) [of "[]"] by simp
  have "unseen st s' = []" if "st \<in> set NOTIFY_STATES" for st
    using that by (simp add: s' unseen_def window_def filter_empty_conv)
  then have "concat (map (\<lambda>st. notices env st (bt_ids_in_order env (unseen st s')) users) NOTIFY_STATES) = []"
    using empty by (simp add: notices_def)
  then have again: "bo_sent (snd (notify_job env s')) = bo_sent s'"
    using notify_delivered [OF assms(1) _ assms(3), of s'] by (simp add: s')
  have "mset (concat (map (\<lambda>st. notices env st (bt_ids_in_order env (unseen st s)) users) NOTIFY_STATES))
      = mset (concat (map (\<lambda>st. concat (map (\<lambda>i. map (\<lambda>u. Notified u (notice env st i)) users) (unseen st s))) NOTIFY_STATES))"
    by (simp add: mset_concat comp_def mset_notices [OF assms(5,6) assms(4)])
  then show ?thesis using again one s' by (simp add: NOTIFY_STATES_def)
qed

text \<open>
  The comment has the first poll never announce what was there before.  A first poll that the API answers
  with an error is counted all the same: the one after it announces every old task.\<close>

lemma failed_first_poll_primes:
  assumes "\<forall>w. bt_reach env w = FailedWith 500" "\<not> bo_primed s" "\<And>st. bo_seen s st = []"
  shows "\<exists>s'. notify_job env s = (Inr (), s') \<and> bo_primed s' \<and> bo_api s' = bo_api s \<and> unseen ''FAILED'' s' = window ''FAILED'' s"
proof -
  have poll: "poll_state env st s = (Inr (), s)" for st
    using assms(1) by (simp add: poll_state_def on_success_def api_get_def call_api_def split: prod.split)
  have "notify_job env s = (Inr (), s\<lparr>bo_primed := True\<rparr>)"
    by (simp add: notify_job_def NOTIFY_STATES_def on_success_def poll)
  then show ?thesis using assms(3) by (simp add: unseen_def window_def)
qed

text \<open>A task that fails behind fifty newer failed tasks is not in the window of any poll: nobody is told.\<close>

lemma old_failure_is_not_announced:
  assumes "filter (\<lambda>t. state_value (tk_state t) = ''FAILED'') (all_tasks (bo_api s)) = newer @ t # older"
    "length newer = 50" "tk_id t \<notin> tk_id ` set newer"
  shows "tk_id t \<notin> set (unseen ''FAILED'' s)"
  using assms by (auto simp: unseen_def window_def)

text \<open>While the engine is paused an approval is held: the bot's call times out and the user is told nothing.\<close>

lemma held_approval_has_no_answer:
  assumes "is_allowed env upd = Inr True" "up_args upd = i # rest" "bt_target env i ''approve'' = Inr (ApproveTask i)"
    and "bt_reach env (as_world (bo_api s)) = Delivered"
    and "handle_request (bt_server env) (Some (bt_api_token env)) (ApproveTask i) (bo_api s) = (Held, api)"
  shows "fst (approve_command env upd s) = Inl ''ReadTimeout'' \<and> bo_sent (snd (approve_command env upd s)) = bo_sent s"
  using assms by (simp add: approve_command_def approve_or_reject_def when_allowed_def on_success_def api_post_def
      call_api_def)

text \<open>An edited command is obeyed, and the answer raises.\<close>

lemma edited_command_is_obeyed:
  assumes "is_allowed env upd = Inr True" "up_args upd = i # rest" "\<not> up_message upd"
    and "bt_target env i ''approve'' = Inr (ApproveTask i)" "bt_reach env (as_world (bo_api s)) = Delivered"
    and "handle_request (bt_server env) (Some (bt_api_token env)) (ApproveTask i) (bo_api s) = (Answer 200 (TaskOut new), api)"
  shows "approve_command env upd s = (Inl ''AttributeError'', s\<lparr>bo_api := api\<rparr>)"
  using assms by (simp add: approve_command_def approve_or_reject_def when_allowed_def on_success_def api_post_def
      call_api_def say_def status_code_def)

section \<open>Messages\<close>

text \<open>Every task is in one group of \<open>/status\<close>.\<close>

lemma status_groups_partition:
  "mset tasks = mset (waiting_tasks tasks) + mset (failed_tasks tasks) + mset (in_progress_tasks tasks) + mset (done_tasks tasks)"
proof (induction tasks)
  case (Cons t ts)
  then show ?case
    by (cases "tk_state t") (simp_all add: waiting_tasks_def failed_tasks_def in_progress_tasks_def done_tasks_def DONE_STATE_NAMES_def)
qed (simp add: waiting_tasks_def failed_tasks_def in_progress_tasks_def done_tasks_def)

text \<open>What a user reads of an escaped text is the text, and no special character of it stands alone.\<close>

fun read_markdown :: "string \<Rightarrow> string option" where
  "read_markdown [] = Some []"
| "read_markdown (c # cs) =
     (if c = CHR 0x5C then (case cs of [] \<Rightarrow> None
        | d # ds \<Rightarrow> if d \<in> set MARKDOWN_V2_SPECIAL then map_option ((#) d) (read_markdown ds) else None)
      else if c \<in> set MARKDOWN_V2_SPECIAL then None else map_option ((#) c) (read_markdown cs))"

lemma escaped_reads_back: "read_markdown (escape_markdown_v2 t) = Some t"
proof (induction t)
  case (Cons c cs)
  have "CHR 0x5C \<in> set MARKDOWN_V2_SPECIAL" by (simp add: MARKDOWN_V2_SPECIAL_def)
  then show ?case using Cons.IH by (auto simp: escape_markdown_v2_def)
qed (simp add: escape_markdown_v2_def)

section \<open>Concrete updates\<close>

definition demo_bot_env :: "unit bot_env" where
  "demo_bot_env = \<lparr>bt_server = demo_api_env, bt_reach = (\<lambda>w. Delivered),
     bt_target = (\<lambda>i action. if action = ''approve'' then Inr (ApproveTask i) else Inr (RejectTask i)),
     bt_api_token = ''key'', bt_bot_token = ''bot'', bt_allowed_ids = ''7'', bt_glyph = (\<lambda>n. n),
     bt_ids_in_order = (\<lambda>ids. ids), bt_users_in_order = (\<lambda>us. us), bt_delivers = (\<lambda>u t. True)\<rparr>"

definition demo_bot :: "(nat, unit) bot_state" where
  "demo_bot = \<lparr>bo_api = demo_api, bo_sent = [], bo_seen = (\<lambda>st. []), bo_primed = True\<rparr>"

lemma demo_allowlist: "allowed_user_ids demo_bot_env = Inr [7]"
  by code_simp

theorem bot_obeys_its_allowlist_witness:
  "bo_api (snd (run_command demo_bot_env Pause \<lparr>up_user = Some (8, None), up_message = True, up_args = []\<rparr> demo_bot)) = demo_api"
proof -
  obtain r s' where c: "run_command demo_bot_env Pause \<lparr>up_user = Some (8, None), up_message = True, up_args = []\<rparr> demo_bot = (r, s')"
    by (metis prod.exhaust)
  show ?thesis using bot_obeys_its_allowlist [OF c] c by (simp add: demo_allowlist demo_bot_def)
qed

theorem news_are_announced_once_witness:
  "fst (notify_job demo_bot_env demo_bot) = Inr ()
     \<and> bo_sent (snd (notify_job demo_bot_env (snd (notify_job demo_bot_env demo_bot)))) = bo_sent (snd (notify_job demo_bot_env demo_bot))"
  using news_are_announced_once [of demo_bot_env demo_bot "[7]"] demo_allowlist
  by (simp add: demo_bot_env_def demo_bot_def split: prod.splits)

end
