(* ===== verification/Spec2Isabelle.thy ===== *)
theory Spec2Isabelle
  imports AmopPrelude StateMachine Blacklist ScopeGuard ToolRegistry TaskStore
    CircuitBreakers CostLedger ModelRouter AgentLoop Concurrency ChainRouting ChainEnds ChainTrail FileGates Reconcile Counterexample
    GitHubTools Watch Measure Maintenance Monitoring Metrics Reporting Webhook Cleanup
    CodeChunks CodeSearch Memory SandboxManager FixRun FixProps
    OperatorApi WebDashboard TelegramBot
begin

text \<open>
  Verification development for AMOP, an engine that turns alerts about a software repository into
  reviewed pull requests.  Paths below are under \<open>src/amop/\<close>.

  \<^bold>\<open>The program.\<close>  An alert (a GitHub webhook, a poll of issues, a log threshold) becomes a task row
  with a state.  A task is driven by a run (\<open>orchestrator/chain.py\<close> for a bug fix,
  \<open>orchestrator/deps.py\<close> and \<open>orchestrator/optimize.py\<close> for the other kinds) which calls agents, and
  an agent is a loop of model calls and tool calls.  Every tool call passes the registry, which asks the
  safety engine first and audits afterwards; every state change is one guarded transition on the task
  row with a row of the hash chain.  Work happens on a copy of the repository in a container, and a
  change leaves it only through the pull-request tool.  A crash is repaired by \<open>orchestrator/reconcile.py\<close>,
  left-over containers and directories by \<open>orchestrator/cleanup.py\<close>.

  \<^bold>\<open>How it is modelled.\<close>  Code without effects is a function.  Code with effects passes its state: a
  \<open>world\<close> is the store and the outside state of the tools, a \<open>chain_state\<close> adds the task row the run
  holds and its result.  An exception is \<open>Inl\<close>, a result \<open>Inr\<close>.  Other writers of the database are the
  interference function of an environment record, applied wherever the code awaits.  Code outside the
  repository (models, git in the container, Docker, PyGithub, JSON and Python parsers, the hash, HMAC) is a
  field of such a record or an argument; the theorems hold for every value of it unless they name what they need.

  \<^bold>\<open>Theories.\<close>

  Shared ground.
  \<^item> \<open>AmopPrelude\<close>: results, Python's string operations, theorem collections (\<open>amop_defs\<close>, \<open>py_str_simps\<close>).
  \<^item> \<open>PyValues\<close>, \<open>PyNumbers\<close>, \<open>PyPath\<close>, \<open>PyRegex\<close>: JSON values, rounded floats, \<open>Path.resolve\<close>, \<open>re\<close>.

  Safety (\<open>safety/\<close>, \<open>tools/registry.py\<close>, \<open>audit/\<close>).
  \<^item> \<open>Blacklist\<close>, \<open>SecretScan\<close>, \<open>ScopeGuard\<close>, \<open>Permissions\<close>: the single gates, one function per check.
  \<^item> \<open>SafetyEngine\<close>: \<open>evaluate\<close> of \<open>engine.py\<close> with \<open>protected_paths.py\<close>; an allowed path lies in the scratch
    directory, a protected one is never written.
  \<^item> \<open>ToolRegistry\<close>: \<open>invoke_tool\<close> from allowlist to audit row; a body runs only when the gate allowed it and sees arguments of the declared types.
  \<^item> \<open>AuditContent\<close>, \<open>AuditChain\<close>: the canonical text of a row and that it loses nothing; appending, verifying and
    backfilling the chain; a change of history is found or is a collision of the hash.
  \<^item> \<open>CircuitBreakers\<close>: the rates after which no task is started.

  Tasks (\<open>orchestrator/\<close>).
  \<^item> \<open>StateMachine\<close>: the states and the table; paths of the step relation \<open>legal\<close>, the \<open>history\<close> of a task.
  \<^item> \<open>TaskStore\<close>: \<open>task.py\<close> and \<open>pause.py\<close> over a \<open>store\<close>; the version column, the trail in the audit chain.
  \<^item> \<open>Concurrency\<close>: slots and file locks; the lock table as a step relation, without deadlock because keys are taken in order.

  Agents and models (\<open>agents/\<close>, \<open>models/\<close>).
  \<^item> \<open>Handoffs\<close>: the payloads and their validators.  \<open>AgentLoop\<close>: \<open>base.py\<close>.  \<open>ModelRouter\<close>: \<open>router.py\<close> and
    its fallback.  \<open>CostLedger\<close>: \<open>cost.py\<close>, the estimate before a call and the ledger after it.

  The fix run (\<open>orchestrator/chain.py\<close>).
  \<^item> \<open>ChainRouting\<close>: decisions without effects.  \<open>ChainStages\<close>: state, effects and helpers.  \<open>ChainRun\<close>: \<open>run_chain\<close>.
  \<^item> \<open>ChainProps\<close>: pull requests need a review, turns of the coder are bounded.  \<open>ChainInvariants\<close>, \<open>ChainEnds\<close>,
    \<open>ChainTrail\<close>: what every run keeps, where it ends, and that it refines the lifecycle of \<open>StateMachine\<close>.
  \<^item> \<open>Counterexample\<close>: \<open>counterexample.py\<close>, a reviewer's claim as data, its execution and its verdict.
  \<^item> \<open>Reconcile\<close>: \<open>reconcile.py\<close>, what becomes of a run that a crash cut off.
  \<^item> \<open>FixRun\<close>: \<open>run_fix\<close>, \<open>resume_fix\<close> and \<open>run_fix_and_persist\<close>, the slot, the sandbox, the index and the memory around
    \<open>run_chain\<close>.  \<open>FixProps\<close>: the background run refines the lifecycle, and alone it always settles its task.

  Knowledge (\<open>codebase_intel/\<close>, \<open>memory/\<close>).
  \<^item> \<open>CodeChunks\<close>: \<open>chunker.py\<close> over the trees the parsers return; which lines are in a chunk.  \<open>CodeSearch\<close>: \<open>indexer.py\<close>,
    \<open>search.py\<close> and \<open>embeddings.py\<close> over the rows of \<open>code_chunks\<close>; what a search may show, what the fusion computes.
  \<^item> \<open>Memory\<close>: \<open>store.py\<close> over the rows of \<open>memory_items\<close>; what a search finds, and that a disputed item is hidden and kept.

  The sandbox (\<open>sandbox/\<close>) and services (\<open>tools/\<close>).
  \<^item> \<open>PatchDiff\<close>, \<open>FileTools\<close>, \<open>FileGates\<close>: the inspection of a diff, the file and test tools of \<open>tools.py\<close>, and that
    an edit rests on lines the coder has been shown.  \<open>Measure\<close>: its benchmark and profile tools.
  \<^item> \<open>GitRepo\<close>: \<open>repo.py\<close> as the command lines it runs.  \<open>GitHubTools\<close>: \<open>github.py\<close>, the way out.
  \<^item> \<open>SandboxManager\<close>: \<open>manager.py\<close> over the calls of the Docker client; how a container is isolated, what is left of it.

  Alerts, upkeep and numbers.
  \<^item> \<open>Webhook\<close> (\<open>api/\<close>, and the poll cycle of \<open>cli/main.py\<close>), \<open>Monitoring\<close> (both \<open>monitoring.py\<close>), \<open>Watch\<close> (\<open>watch.py\<close>):
    from outside to a triaged task.
  \<^item> \<open>Maintenance\<close>: \<open>deps.py\<close> and \<open>optimize.py\<close>.  \<open>Cleanup\<close>: \<open>cleanup.py\<close>.
  \<^item> \<open>Reporting\<close>: \<open>reporting.py\<close>.  \<open>Metrics\<close>: \<open>evaluation/metrics.py\<close>.

  The operator's interfaces (\<open>api/\<close>, \<open>interfaces/\<close>).
  \<^item> \<open>OperatorApi\<close>: the routes of \<open>api/routes/\<close> over one state; who may change what, what a decision is applied to,
    and that a reported bug is taken up by \<open>run_fix_and_persist\<close> and settled.
  \<^item> \<open>WebDashboard\<close> (\<open>interfaces/web/\<close>) and \<open>TelegramBot\<close> (\<open>interfaces/telegram_bot/bot.py\<close>): both end in the API's routes; the
    dashboard does what the API does, the bot is a client for those on its list and announces each new task once.

  \<^bold>\<open>Interfaces.\<close>  \<open>state_mover\<close> (a mover that follows the table keeps a history) is interpreted on the
  store's \<open>transition\<close>; \<open>append_log\<close> on the hash chain; \<open>rate_breaker\<close> on the hourly and the anomaly breaker;
  \<open>ordered_locks\<close> on the file locks; \<open>accumulator\<close> on the spend counters; \<open>run_invariant\<close>
  (what \<open>go\<close> and \<open>save_context\<close> keep, \<open>run_chain\<close> keeps) in \<open>ChainEnds\<close> and in \<open>ChainTrail\<close>; its extensions \<open>steady\<close>
  (and what they raise) and \<open>steady_site\<close> (and the set-up around the run) in \<open>FixProps\<close>, for the audit trail and for a run
  nobody interferes with.

  \<^bold>\<open>Loops and bounds.\<close>  The coding loop is a recursion on the measure \<open>retries_left\<close> of its three counters, so
  it ends by itself; so do the reader of diffs, \<open>ast.walk\<close> and \<open>re.sub\<close>, each on a length or size.  The agent loop runs over its
  iteration limit, a retried transition over \<open>MAX_OCC_RETRIES\<close>.  A wait for the operator to lift a pause may last for ever: it takes a number of
  polls (\<open>ce_polls\<close>, \<open>mn_polls\<close>, \<open>we_polls\<close>) and a wait that outlasts them is a value of its own; \<open>TaskStore\<close>
  proves that a pause lifted at poll \<open>k\<close> needs \<open>k + 1\<close>.  \<open>resolve\<close> follows at most the link budget, beyond
  which the code raises.  Floats are rationals with the rounding \<open>fl\<close> of \<open>PyNumbers\<close>; times are integers.

  \<^bold>\<open>Findings.\<close>  Lemmas on concrete inputs record where the code departs from its comments, for example
  \<open>blacklist_gaps\<close>, \<open>double_plus_line_not_scanned\<close>, \<open>backfill_breaks_mixed_chain\<close>, \<open>duplicate_in_another_repo\<close>, \<open>target_writes_measurement\<close>,
  \<open>two_checkouts_block_webhooks\<close>, \<open>class_attributes_not_indexed\<close>, \<open>resume_slot_is_shared\<close>, \<open>late_failure_cancels\<close>, \<open>approval_before_pull_request\<close>,
  \<open>failed_first_poll_primes\<close>, \<open>edited_command_is_obeyed\<close>, \<open>two_pull_requests_break_the_page\<close>.

  \<^bold>\<open>Not modelled.\<close>  The model providers (\<open>models/claude.py\<close>, \<open>openai.py\<close>, \<open>ollama.py\<close>: HTTP clients); the prompts of the agents;
  the advisory query and the unsandboxed file tools;
  evaluation runs; the routing and validation of FastAPI, the templates of the dashboard, and the commands of \<open>cli/main.py\<close> that parse
  options, call what is modelled and print.  Of modelled files: the
  Jest report and the capture of conflicts in \<open>sandbox/tools.py\<close>, the copy of the repository, the timer of
  cost reconciliation, and the rendering of reports as text.
\<close>

end
